(* ===== verification/Prelude.thy ===== *)
theory Prelude
  imports Complex_Main "HOL-Library.Word" "HOL-Library.Sublist" "HOL-Library.Multiset"
begin

unbundle bit_operations_syntax

text \<open>
  Shared ground of the development: Rust's 32-bit integers, the slice and
  vector operations of the standard library the sources call, and the generic
  lemmas on lists and words the components use.

  The release profile of \<^verbatim>\<open>Cargo.toml\<close> leaves overflow checks off, so \<open>i32\<close>
  arithmetic wraps: an \<open>i32\<close> value is an \<open>int\<close> in \<open>-2^31 ..< 2^31\<close> and every
  sum, difference and product is reduced by \<open>i32\<close>. As reduction is a ring
  homomorphism, one \<open>i32\<close> around a polynomial equals wrapping every step.
  Tag masks are \<open>u32\<close> words.
\<close>

named_theorems mon_simps \<open>facts on the monitor operations\<close>
named_theorems frame_simps \<open>fields an operation leaves alone\<close>

section \<open>32-bit integers\<close>

type_synonym u32 = "32 word"

definition i32 :: "int \<Rightarrow> int" where
  "i32 x = (x + 2147483648) mod 4294967296 - 2147483648"

definition in_i32 :: "int \<Rightarrow> bool" where
  "in_i32 x \<longleftrightarrow> - 2147483648 \<le> x \<and> x < 2147483648"

lemma in_i32_i32 [simp, intro]: "in_i32 (i32 x)"
proof -
  have "0 \<le> (x + 2147483648) mod 4294967296" "(x + 2147483648) mod 4294967296 < 4294967296"
    by simp_all
  then show ?thesis unfolding in_i32_def i32_def by linarith
qed

lemma i32_bounds: "- 2147483648 \<le> i32 x" "i32 x < 2147483648"
  using in_i32_i32 [of x] unfolding in_i32_def by simp_all

lemma i32_id: "- 2147483648 \<le> x \<Longrightarrow> x < 2147483648 \<Longrightarrow> i32 x = x"
  by (simp add: i32_def)

lemma i32_id' [simp]: "in_i32 x \<Longrightarrow> i32 x = x"
  by (simp add: i32_id in_i32_def)

lemma i32_cong: "x mod 4294967296 = y mod 4294967296 \<Longrightarrow> i32 x = i32 y"
  using mod_add_cong [OF _ refl, of x 4294967296 y 2147483648] unfolding i32_def by simp

lemma i32_mod: "i32 x mod 4294967296 = x mod 4294967296"
  unfolding i32_def by (simp add: mod_diff_left_eq)

lemma i32_add_left [simp]: "i32 (i32 x + y) = i32 (x + y)"
  by (rule i32_cong) (metis i32_mod mod_add_left_eq)

lemma i32_add_right [simp]: "i32 (x + i32 y) = i32 (x + y)"
  by (rule i32_cong) (metis i32_mod mod_add_right_eq)

lemma i32_diff_right [simp]: "i32 (x - i32 y) = i32 (x - y)"
  by (rule i32_cong) (metis i32_mod mod_diff_right_eq)

text \<open>\<open>u32 as i32\<close> and \<open>usize as i32\<close> keep the low 32 bits.\<close>

definition u32_as_i32 :: "u32 \<Rightarrow> int" where
  "u32_as_i32 w = i32 (uint w)"

definition usize_as_i32 :: "nat \<Rightarrow> int" where
  "usize_as_i32 n = i32 (int n)"

lemma usize_as_i32_id: "n < 2147483648 \<Longrightarrow> usize_as_i32 n = int n"
  by (simp add: usize_as_i32_def i32_id)

text \<open>Rust divides towards zero.\<close>

definition tdiv :: "int \<Rightarrow> int \<Rightarrow> int" where
  "tdiv a b = sgn a * sgn b * (\<bar>a\<bar> div \<bar>b\<bar>)"

lemma tdiv_pos: "0 \<le> a \<Longrightarrow> 0 < b \<Longrightarrow> tdiv a b = a div b"
  by (cases "a = 0") (simp_all add: tdiv_def)

lemma tdiv_one [simp]: "tdiv a 1 = a"
  by (simp add: tdiv_def sgn_mult_abs)

section \<open>Bits of a u32\<close>

definition is_power_of_two :: "u32 \<Rightarrow> bool" where
  "is_power_of_two w \<longleftrightarrow> length (filter (bit w) [0..<32]) = 1"

definition trailing_zeros :: "u32 \<Rightarrow> nat" where
  "trailing_zeros w = length (takeWhile (\<lambda>i. \<not> bit w i) [0..<32])"

definition leading_zeros :: "u32 \<Rightarrow> nat" where
  "leading_zeros w = length (takeWhile (\<lambda>i. \<not> bit w i) (rev [0..<32]))"

text \<open>\<open>1u32 << n\<close>: the shift amount is taken modulo 32.\<close>

definition shl1 :: "nat \<Rightarrow> u32" where
  "shl1 n = push_bit (n mod 32) 1"

lemma bit_shl1: "bit (shl1 n) i \<longleftrightarrow> i = n mod 32"
proof -
  have "n mod 32 < 32" by simp
  then show ?thesis
    unfolding shl1_def by (auto simp: bit_push_bit_iff bit_1_iff simp del: push_bit_of_1)
qed

lemma u32_nonzero_bit: "(w :: u32) \<noteq> 0 \<longleftrightarrow> (\<exists>i < 32. bit w i)"
proof
  assume "w \<noteq> 0"
  then show "\<exists>i < 32. bit w i"
    using bit_word_eqI [of w 0] by auto
next
  assume "\<exists>i < 32. bit w i"
  then show "w \<noteq> 0" by auto
qed

lemma u32_and_nonzero: "(v AND w :: u32) \<noteq> 0 \<longleftrightarrow> (\<exists>i < 32. bit v i \<and> bit w i)"
  by (simp add: u32_nonzero_bit bit_and_iff)

lemma and_nonzeroD: "(v AND w :: u32) \<noteq> 0 \<Longrightarrow> v \<noteq> 0 \<and> w \<noteq> 0"
  by auto

lemma leading_zeros_lt: "w \<noteq> 0 \<Longrightarrow> leading_zeros w < 32"
proof -
  assume "w \<noteq> 0"
  then obtain i where "i < 32" "bit w i" by (auto simp: u32_nonzero_bit)
  then have "\<exists>x \<in> set (rev [0..<32]). bit w x" by auto
  then have "takeWhile (\<lambda>i. \<not> bit w i) (rev [0..<32]) \<noteq> rev [0..<32]"
    by (auto simp: takeWhile_eq_all_conv)
  then have "length (takeWhile (\<lambda>i. \<not> bit w i) (rev [0..<32])) \<noteq> length (rev [0..<32])"
    by (metis takeWhile_eq_take take_all order_refl)
  then show ?thesis
    using length_takeWhile_le [of "\<lambda>i. \<not> bit w i" "rev [0..<32]"]
    unfolding leading_zeros_def by simp
qed

lemma trailing_zeros_spec:
  assumes "w \<noteq> 0"
  shows "trailing_zeros w < 32" "bit w (trailing_zeros w)"
    "\<And>i. i < trailing_zeros w \<Longrightarrow> \<not> bit w i"
proof -
  let ?tw = "takeWhile (\<lambda>i. \<not> bit w i) [0..<32]"
  from assms obtain i where "i < 32" "bit w i" by (auto simp: u32_nonzero_bit)
  then have "?tw \<noteq> [0..<32]" by (auto simp: takeWhile_eq_all_conv)
  then have "length ?tw \<noteq> length [0..<32]"
    by (metis takeWhile_eq_take take_all order_refl)
  then have lt: "length ?tw < length [0..<32]"
    using length_takeWhile_le [of "\<lambda>i. \<not> bit w i" "[0..<32]"] by simp
  then show "trailing_zeros w < 32" by (simp add: trailing_zeros_def)
  from nth_length_takeWhile [OF lt] lt show "bit w (trailing_zeros w)"
    by (simp add: trailing_zeros_def)
  show "\<not> bit w i" if "i < trailing_zeros w" for i
  proof -
    from that lt have "?tw ! i = i" by (simp add: trailing_zeros_def takeWhile_nth)
    moreover have "?tw ! i \<in> set ?tw" using that by (simp add: trailing_zeros_def)
    ultimately show ?thesis by (metis (mono_tags, lifting) set_takeWhileD)
  qed
qed

lemma leading_zeros_spec:
  assumes "w \<noteq> 0"
  shows "bit w (31 - leading_zeros w)" "\<And>i. bit w i \<Longrightarrow> i \<le> 31 - leading_zeros w"
proof -
  let ?tw = "takeWhile (\<lambda>i. \<not> bit w i) (rev [0..<32])"
  have lt: "length ?tw < length (rev [0..<32])"
    using leading_zeros_lt [OF assms] by (simp add: leading_zeros_def)
  from nth_length_takeWhile [OF lt] lt show "bit w (31 - leading_zeros w)"
    by (simp add: leading_zeros_def rev_nth)
  fix i assume b: "bit w i"
  then have "i < 32" using bit_imp_le_length [of w i] by simp
  show "i \<le> 31 - leading_zeros w"
  proof (rule ccontr)
    assume "\<not> i \<le> 31 - leading_zeros w"
    with \<open>i < 32\<close> have "31 - i < length ?tw" by (simp add: leading_zeros_def)
    moreover from this lt have "?tw ! (31 - i) = i"
      using \<open>i < 32\<close> by (simp add: takeWhile_nth rev_nth)
    ultimately have "i \<in> set ?tw" by (metis nth_mem)
    with b show False by (metis (mono_tags, lifting) set_takeWhileD)
  qed
qed

lemma is_power_of_two_nonzero: "is_power_of_two w \<Longrightarrow> w \<noteq> 0"
  by (auto simp: is_power_of_two_def)

lemma filter_eq_upt: "filter (\<lambda>i. i = k) [0..<n] = (if k < n then [k] else [])"
  by (induction n) auto

text \<open>A power of two is its one bit.\<close>

lemma is_power_of_two_iff: "is_power_of_two w \<longleftrightarrow> (\<exists>k < 32. w = shl1 k)"
proof
  assume p: "is_power_of_two w"
  then obtain k where k: "filter (bit w) [0..<32] = [k]"
    by (auto simp: is_power_of_two_def length_Suc_conv)
  have bw: "bit w i \<longleftrightarrow> i = k" for i
  proof -
    have "i \<in> set (filter (bit w) [0..<32]) \<longleftrightarrow> bit w i"
      using bit_imp_le_length [of w i] by auto
    then show ?thesis by (simp add: k)
  qed
  then have "k < 32" using bit_imp_le_length [of w k] by simp
  moreover from this have "w = shl1 k" by (intro bit_word_eqI) (simp add: bw bit_shl1)
  ultimately show "\<exists>k < 32. w = shl1 k" by blast
next
  assume "\<exists>k < 32. w = shl1 k"
  then obtain k where k: "k < 32" "w = shl1 k" by blast
  then have "filter (bit w) [0..<32] = filter (\<lambda>i. i = k) [0..<32]"
    by (auto simp: bit_shl1 intro!: filter_cong)
  also have "\<dots> = [k]" using k(1) by (simp add: filter_eq_upt)
  finally show "is_power_of_two w" by (simp add: is_power_of_two_def)
qed

section \<open>Slices and vectors\<close>

text \<open>\<open>iter().position(p)\<close> and \<open>iter().find(p)\<close>; the library's \<open>List.find\<close> is the latter.\<close>

fun position :: "('a \<Rightarrow> bool) \<Rightarrow> 'a list \<Rightarrow> nat option" where
  "position p [] = None"
| "position p (x # xs) = (if p x then Some 0 else map_option Suc (position p xs))"

definition get_at :: "'a list \<Rightarrow> nat \<Rightarrow> 'a option" where
  "get_at xs i = (if i < length xs then Some (xs ! i) else None)"

text \<open>\<open>xs[..=pos].rotate_right(1)\<close>: the element at \<open>pos\<close> moves to the front.\<close>

definition rotate_prefix :: "nat \<Rightarrow> 'a list \<Rightarrow> 'a list" where
  "rotate_prefix pos xs = xs ! pos # take pos xs @ drop (Suc pos) xs"

definition update_at :: "nat \<Rightarrow> ('a \<Rightarrow> 'a) \<Rightarrow> 'a list \<Rightarrow> 'a list" where
  "update_at i f xs = (if i < length xs then xs[i := f (xs ! i)] else xs)"

text \<open>\<open>Vec::remove(i)\<close> for an index in range.\<close>

definition remove_at :: "nat \<Rightarrow> 'a list \<Rightarrow> 'a list" where
  "remove_at i xs = take i xs @ drop (Suc i) xs"

lemma position_Some: "position p xs = Some i \<Longrightarrow> i < length xs \<and> p (xs ! i)"
  by (induction xs arbitrary: i) (auto split: if_splits)

lemma position_least: "position p xs = Some i \<Longrightarrow> j < i \<Longrightarrow> \<not> p (xs ! j)"
proof (induction xs arbitrary: i j)
  case (Cons x xs)
  then show ?case by (cases j) (auto split: if_splits)
qed simp

lemma position_None: "position p xs = None \<longleftrightarrow> (\<forall>x \<in> set xs. \<not> p x)"
  by (induction xs) auto

lemma find_SomeD: "List.find p xs = Some x \<Longrightarrow> x \<in> set xs \<and> p x"
  by (auto simp: find_Some_iff)

lemma get_at_Some [simp]: "get_at xs i = Some x \<longleftrightarrow> i < length xs \<and> xs ! i = x"
  by (auto simp: get_at_def)

lemma get_at_None [simp]: "get_at xs i = None \<longleftrightarrow> length xs \<le> i"
  by (auto simp: get_at_def)

lemma length_update_at [simp]: "length (update_at i f xs) = length xs"
  by (simp add: update_at_def)

lemma nth_update_at: "j < length xs \<Longrightarrow> update_at i f xs ! j = (if i = j then f (xs ! j) else xs ! j)"
  by (auto simp: update_at_def)

lemma set_rotate_prefix: "pos < length xs \<Longrightarrow> set (rotate_prefix pos xs) = set xs"
  unfolding rotate_prefix_def
  by (metis Un_insert_right append_take_drop_id Cons_nth_drop_Suc list.simps(15) set_append)

lemma mset_rotate_prefix: "pos < length xs \<Longrightarrow> mset (rotate_prefix pos xs) = mset xs"
proof -
  assume "pos < length xs"
  then have "mset (take pos xs @ xs ! pos # drop (Suc pos) xs) = mset xs"
    by (metis id_take_nth_drop)
  then show ?thesis by (simp add: rotate_prefix_def)
qed

lemma distinct_rotate_prefix: "pos < length xs \<Longrightarrow> distinct (rotate_prefix pos xs) = distinct xs"
  by (metis mset_rotate_prefix mset_eq_imp_distinct_iff)

lemma length_rotate_prefix: "pos < length xs \<Longrightarrow> length (rotate_prefix pos xs) = length xs"
  by (simp add: rotate_prefix_def)

lemma rotate_prefix_nth0: "rotate_prefix pos xs ! 0 = xs ! pos"
  by (simp add: rotate_prefix_def)

lemma length_remove_at: "i < length xs \<Longrightarrow> length (remove_at i xs) = length xs - 1"
  by (simp add: remove_at_def)

lemma nth_remove_at:
  "i < length xs \<Longrightarrow> j < length xs - 1 \<Longrightarrow>
   remove_at i xs ! j = (if j < i then xs ! j else xs ! Suc j)"
  by (auto simp: remove_at_def nth_append min_def)

lemma set_remove_at: "set (remove_at i xs) \<subseteq> set xs"
  by (auto simp: remove_at_def dest: in_set_takeD in_set_dropD)

end
