(* ===== verification/Geometry.thy ===== *)
theory Geometry
  imports Prelude
begin

text \<open>
  Logical rectangles (\<^verbatim>\<open>smithay/src/utils/geometry.rs\<close>) with \<open>i32\<close>
  coordinates, and the containment test the compositor uses to find the monitor
  or the overview cell under the pointer. The sums in the test saturate.
\<close>

type_synonym point = "int \<times> int"

record rect =
  loc_x :: int
  loc_y :: int
  size_w :: int
  size_h :: int

definition mk_rect :: "int \<Rightarrow> int \<Rightarrow> int \<Rightarrow> int \<Rightarrow> rect" where
  "mk_rect x y w h = \<lparr>loc_x = x, loc_y = y, size_w = w, size_h = h\<rparr>"

definition rect_loc :: "rect \<Rightarrow> point" where
  "rect_loc r = (loc_x r, loc_y r)"

definition rect_size :: "rect \<Rightarrow> int \<times> int" where
  "rect_size r = (size_w r, size_h r)"

definition rect_default :: rect where
  "rect_default = mk_rect 0 0 0 0"

definition sat_add :: "int \<Rightarrow> int \<Rightarrow> int" where
  "sat_add a b = max (- 2147483648) (min 2147483647 (a + b))"

definition contains :: "rect \<Rightarrow> point \<Rightarrow> bool" where
  "contains r p \<longleftrightarrow>
     fst p \<ge> loc_x r \<and> fst p < sat_add (loc_x r) (size_w r) \<and>
     snd p \<ge> loc_y r \<and> snd p < sat_add (loc_y r) (size_h r)"

lemma mk_rect_sel [simp]:
  "loc_x (mk_rect x y w h) = x" "loc_y (mk_rect x y w h) = y"
  "size_w (mk_rect x y w h) = w" "size_h (mk_rect x y w h) = h"
  by (simp_all add: mk_rect_def)

lemma mk_rect_eq [simp]:
  "mk_rect x y w h = mk_rect x' y' w' h' \<longleftrightarrow> x = x' \<and> y = y' \<and> w = w' \<and> h = h'"
  by (simp add: mk_rect_def)

text \<open>A rectangle whose corners are \<open>i32\<close> values.\<close>

definition wf_rect :: "rect \<Rightarrow> bool" where
  "wf_rect r \<longleftrightarrow> in_i32 (loc_x r) \<and> in_i32 (loc_y r) \<and> 0 \<le> size_w r \<and> 0 \<le> size_h r \<and>
     loc_x r + size_w r < 2147483648 \<and> loc_y r + size_h r < 2147483648"

lemma contains_wf:
  "wf_rect r \<Longrightarrow> contains r (x, y) \<longleftrightarrow>
     loc_x r \<le> x \<and> x < loc_x r + size_w r \<and> loc_y r \<le> y \<and> y < loc_y r + size_h r"
  by (auto simp: contains_def sat_add_def wf_rect_def in_i32_def)

text \<open>Containment and separation of rectangles.\<close>

definition inside :: "rect \<Rightarrow> rect \<Rightarrow> bool" where
  "inside a b \<longleftrightarrow> loc_x b \<le> loc_x a \<and> loc_x a + size_w a \<le> loc_x b + size_w b \<and>
     loc_y b \<le> loc_y a \<and> loc_y a + size_h a \<le> loc_y b + size_h b"

definition apart :: "rect \<Rightarrow> rect \<Rightarrow> bool" where
  "apart a b \<longleftrightarrow> loc_x a + size_w a \<le> loc_x b \<or> loc_x b + size_w b \<le> loc_x a \<or>
     loc_y a + size_h a \<le> loc_y b \<or> loc_y b + size_h b \<le> loc_y a"

lemma inside_refl [simp]: "inside a a"
  by (simp add: inside_def)

lemma inside_trans: "inside a b \<Longrightarrow> inside b c \<Longrightarrow> inside a c"
  by (auto simp: inside_def)

lemma apart_sym: "apart a b \<Longrightarrow> apart b a"
  by (auto simp: apart_def)

lemma apart_inside: "apart a b \<Longrightarrow> inside a' a \<Longrightarrow> inside b' b \<Longrightarrow> apart a' b'"
  by (auto simp: apart_def inside_def)

lemma apart_no_common_point:
  "apart a b \<Longrightarrow> wf_rect a \<Longrightarrow> wf_rect b \<Longrightarrow> contains a p \<Longrightarrow> \<not> contains b p"
  by (cases p) (auto simp: contains_wf apart_def)

lemma sorted_wrt_apart_nth:
  "sorted_wrt apart rs \<Longrightarrow> i < length rs \<Longrightarrow> j < length rs \<Longrightarrow> i \<noteq> j \<Longrightarrow> apart (rs ! i) (rs ! j)"
  by (metis apart_sym linorder_neqE_nat sorted_wrt_nth_less)

lemma sorted_wrt_apart_append:
  "sorted_wrt apart rs \<Longrightarrow> sorted_wrt apart ss \<Longrightarrow> \<forall>r \<in> set rs. inside r a \<Longrightarrow>
   \<forall>s \<in> set ss. inside s b \<Longrightarrow> apart a b \<Longrightarrow> sorted_wrt apart (rs @ ss)"
  by (auto simp: sorted_wrt_append intro: apart_inside)

end
