(* ===== verification/Float64.thy ===== *)
theory Float64
  imports Prelude
begin

text \<open>
  IEEE 754 binary64, as Rust's \<open>f64\<close> computes. A value is NaN, an infinity or a
  rational; every operation rounds its exact result with \<open>rnd\<close>, to the nearest
  multiple of the unit in the last place, ties to even, subnormals included,
  overflow to infinity. The two zeros are one value here: the code never divides
  by a zero it has not excluded and never looks at a sign bit.

  Clients reason from four laws of rounding only: it is monotone, it leaves the
  representable dyadics alone, it is symmetric, and its results are
  representable. The locale \<open>rounding\<close> states them.
\<close>

datatype f64 = FNaN | FInf bool | Fin rat

section \<open>Rounding\<close>

function ilog2 :: "int \<Rightarrow> nat" where
  "ilog2 n = (if n \<le> 1 then 0 else Suc (ilog2 (n div 2)))"
  by pat_completeness auto
termination
  by (relation "measure nat") auto

declare ilog2.simps [simp del]

text \<open>\<open>pow2 k\<close> is \<open>2^k\<close> for any integer \<open>k\<close>.\<close>

definition pow2 :: "int \<Rightarrow> rat" where
  "pow2 k = (if 0 \<le> k then 2 ^ nat k else 1 / 2 ^ nat (- k))"

text \<open>The exponent of a positive rational: \<open>pow2 (expo x) \<le> x < pow2 (expo x + 1)\<close>.\<close>

definition expo :: "rat \<Rightarrow> int" where
  "expo x = (if 1 \<le> x then int (ilog2 \<lfloor>x\<rfloor>) else - int (Suc (ilog2 (\<lceil>1 / x\<rceil> - 1))))"

definition ulp_exp :: "rat \<Rightarrow> int" where
  "ulp_exp x = max (expo x - 52) (- 1074)"

definition round_half_even :: "rat \<Rightarrow> int" where
  "round_half_even x =
     (let n = \<lfloor>x\<rfloor>; d = x - of_int n
      in if d < 1 / 2 then n else if 1 / 2 < d then n + 1
         else if even n then n else n + 1)"

definition rndp :: "rat \<Rightarrow> rat" where
  "rndp x = of_int (round_half_even (x / pow2 (ulp_exp x))) * pow2 (ulp_exp x)"

definition rndr :: "rat \<Rightarrow> rat" where
  "rndr x = (if x = 0 then 0 else if 0 < x then rndp x else - rndp (- x))"

definition rnd :: "rat \<Rightarrow> f64" where
  "rnd x = (let r = rndr x in if r = 0 \<or> expo \<bar>r\<bar> < 1024 then Fin r else FInf (r < 0))"

section \<open>Arithmetic\<close>

fun f_neg :: "f64 \<Rightarrow> f64" where
  "f_neg FNaN = FNaN"
| "f_neg (FInf s) = FInf (\<not> s)"
| "f_neg (Fin x) = Fin (- x)"

fun f_add :: "f64 \<Rightarrow> f64 \<Rightarrow> f64" where
  "f_add (Fin x) (Fin y) = rnd (x + y)"
| "f_add FNaN _ = FNaN"
| "f_add _ FNaN = FNaN"
| "f_add (FInf s) (FInf t) = (if s = t then FInf s else FNaN)"
| "f_add (FInf s) (Fin _) = FInf s"
| "f_add (Fin _) (FInf t) = FInf t"

definition f_sub :: "f64 \<Rightarrow> f64 \<Rightarrow> f64" where
  "f_sub a b = f_add a (f_neg b)"

fun f_mul :: "f64 \<Rightarrow> f64 \<Rightarrow> f64" where
  "f_mul (Fin x) (Fin y) = rnd (x * y)"
| "f_mul FNaN _ = FNaN"
| "f_mul _ FNaN = FNaN"
| "f_mul (FInf s) (FInf t) = FInf (s \<noteq> t)"
| "f_mul (FInf s) (Fin y) = (if y = 0 then FNaN else FInf (s \<noteq> (y < 0)))"
| "f_mul (Fin x) (FInf t) = (if x = 0 then FNaN else FInf (t \<noteq> (x < 0)))"

text \<open>A zero divisor counts as positive zero.\<close>

fun f_div :: "f64 \<Rightarrow> f64 \<Rightarrow> f64" where
  "f_div (Fin x) (Fin y) =
     (if y = 0 then (if x = 0 then FNaN else FInf (x < 0)) else rnd (x / y))"
| "f_div FNaN _ = FNaN"
| "f_div _ FNaN = FNaN"
| "f_div (FInf _) (FInf _) = FNaN"
| "f_div (FInf s) (Fin y) = FInf (s \<noteq> (y < 0))"
| "f_div (Fin _) (FInf _) = Fin 0"

fun f_lt :: "f64 \<Rightarrow> f64 \<Rightarrow> bool" where
  "f_lt FNaN _ = False"
| "f_lt _ FNaN = False"
| "f_lt (Fin x) (Fin y) \<longleftrightarrow> x < y"
| "f_lt (FInf s) (FInf t) \<longleftrightarrow> s \<and> \<not> t"
| "f_lt (FInf s) (Fin _) \<longleftrightarrow> s"
| "f_lt (Fin _) (FInf t) \<longleftrightarrow> \<not> t"

definition f_le :: "f64 \<Rightarrow> f64 \<Rightarrow> bool" where
  "f_le a b \<longleftrightarrow> f_lt a b \<or> (a = b \<and> a \<noteq> FNaN)"

text \<open>\<open>f64::max\<close> and \<open>f64::min\<close> ignore a NaN operand; \<open>f64::clamp\<close> keeps a NaN receiver.\<close>

definition f_max :: "f64 \<Rightarrow> f64 \<Rightarrow> f64" where
  "f_max a b = (if a = FNaN then b else if b = FNaN then a else if f_lt a b then b else a)"

definition f_min :: "f64 \<Rightarrow> f64 \<Rightarrow> f64" where
  "f_min a b = (if a = FNaN then b else if b = FNaN then a else if f_lt b a then b else a)"

definition f_clamp :: "f64 \<Rightarrow> f64 \<Rightarrow> f64 \<Rightarrow> f64" where
  "f_clamp x lo hi = (if f_lt x lo then lo else if f_lt hi x then hi else x)"

text \<open>\<open>f64::from(i32)\<close> is exact; \<open>n as f64\<close> rounds.\<close>

definition f_of_i32 :: "int \<Rightarrow> f64" where
  "f_of_i32 n = Fin (of_int n)"

definition f_of_usize :: "nat \<Rightarrow> f64" where
  "f_of_usize n = rnd (of_nat n)"

text \<open>A decimal literal denotes the nearest double.\<close>

definition f_lit :: "rat \<Rightarrow> f64" where
  "f_lit x = rnd x"

text \<open>\<open>f64::round\<close>, half away from zero, and the saturating cast \<open>as i32\<close>.\<close>

definition round_away :: "rat \<Rightarrow> int" where
  "round_away x = (if 0 \<le> x then \<lfloor>x + 1 / 2\<rfloor> else - \<lfloor>- x + 1 / 2\<rfloor>)"

fun f_round :: "f64 \<Rightarrow> f64" where
  "f_round (Fin x) = Fin (of_int (round_away x))"
| "f_round y = y"

definition sat_i32 :: "int \<Rightarrow> int" where
  "sat_i32 n = max (- 2147483648) (min 2147483647 n)"

definition trunc_rat :: "rat \<Rightarrow> int" where
  "trunc_rat x = (if 0 \<le> x then \<lfloor>x\<rfloor> else - \<lfloor>- x\<rfloor>)"

fun f_as_i32 :: "f64 \<Rightarrow> int" where
  "f_as_i32 FNaN = 0"
| "f_as_i32 (FInf s) = (if s then - 2147483648 else 2147483647)"
| "f_as_i32 (Fin x) = sat_i32 (trunc_rat x)"

text \<open>The idiom \<open>x.round() as i32\<close>.\<close>

definition f_round_i32 :: "f64 \<Rightarrow> int" where
  "f_round_i32 x = f_as_i32 (f_round x)"

text \<open>\<open>iter().sum::<f64>()\<close> adds from the left, from zero.\<close>

definition f_sum :: "f64 list \<Rightarrow> f64" where
  "f_sum xs = foldl f_add (Fin 0) xs"

text \<open>A representable finite value.\<close>

fun f_rep :: "f64 \<Rightarrow> bool" where
  "f_rep (Fin x) \<longleftrightarrow> rnd x = Fin x"
| "f_rep _ \<longleftrightarrow> False"

lemma ilog2_num [simp]:
  "ilog2 (numeral (num.Bit0 k)) = Suc (ilog2 (numeral k))"
  "ilog2 (numeral (num.Bit1 k)) = Suc (ilog2 (numeral k))"
  "ilog2 1 = 0"
  by (subst ilog2.simps, simp)+

lemmas f64_eval = f_lit_def f_of_i32_def f_of_usize_def f_round_i32_def f_sub_def f_max_def f_min_def
  f_clamp_def f_sum_def rnd_def rndr_def rndp_def round_half_even_def ulp_exp_def expo_def pow2_def
  round_away_def trunc_rat_def sat_i32_def Let_def

section \<open>Exponents\<close>

lemma ilog2_bounds: "1 \<le> n \<Longrightarrow> 2 ^ ilog2 n \<le> n \<and> n < 2 ^ Suc (ilog2 n)"
proof (induction n rule: ilog2.induct)
  case (1 n)
  show ?case
  proof (cases "n \<le> 1")
    case True
    with 1 show ?thesis by (subst (1 2) ilog2.simps) simp
  next
    case False
    with 1 have "2 ^ ilog2 (n div 2) \<le> n div 2 \<and> n div 2 < 2 ^ Suc (ilog2 (n div 2))" by simp
    with False show ?thesis by (subst (1 2) ilog2.simps) auto
  qed
qed

lemma pow2_pos [simp]: "0 < pow2 k"
  by (simp add: pow2_def)

lemma pow2_nonneg [simp]: "0 \<le> pow2 k"
  by (simp add: pow2_def)

lemma pow2_not_neg [simp]: "\<not> pow2 k < 0"
  using pow2_pos [of k] by linarith

lemma pow2_neq0 [simp]: "pow2 k \<noteq> 0"
  using pow2_pos [of k] by linarith

lemma pow2_0 [simp]: "pow2 0 = 1"
  by (simp add: pow2_def)

lemma pow2_powi: "pow2 k = power_int 2 k"
  by (simp add: pow2_def power_int_def inverse_eq_divide power_one_over)

lemma pow2_add: "pow2 (a + b) = pow2 a * pow2 b"
  by (simp add: pow2_powi power_int_add)

lemma pow2_Suc: "pow2 (k + 1) = 2 * pow2 k"
  by (simp add: pow2_add) (simp add: pow2_def)

lemma pow2_nat: "pow2 (int n) = 2 ^ n"
  by (simp add: pow2_def)

lemma pow2_minus_nat: "pow2 (- int n) = 1 / 2 ^ n"
  by (cases "n = 0") (simp_all add: pow2_def)

lemma pow2_mono: "a \<le> b \<Longrightarrow> pow2 a \<le> pow2 b"
  by (simp add: pow2_powi power_int_increasing)

lemma pow2_less_iff: "pow2 a < pow2 b \<longleftrightarrow> a < b"
  by (metis pow2_mono linorder_not_le order_less_irrefl order.strict_trans1 pow2_powi power_int_strict_increasing one_less_numeral_iff semiring_norm(76))

lemma pow2_diff: "pow2 a / pow2 b = pow2 (a - b)"
  using pow2_add [of "a - b" b] by (simp add: field_simps)

lemma pow2_int: "0 \<le> k \<Longrightarrow> pow2 k = of_int (2 ^ nat k)"
  by (simp add: pow2_def)

lemma expo_bounds:
  assumes "0 < x"
  shows "pow2 (expo x) \<le> x" "x < pow2 (expo x + 1)"
proof -
  have "pow2 (expo x) \<le> x \<and> x < pow2 (expo x + 1)"
  proof (cases "1 \<le> x")
    case True
    then have "1 \<le> \<lfloor>x\<rfloor>" by simp
    from ilog2_bounds [OF this] have
      "(2::int) ^ ilog2 \<lfloor>x\<rfloor> \<le> \<lfloor>x\<rfloor>" "\<lfloor>x\<rfloor> < 2 ^ Suc (ilog2 \<lfloor>x\<rfloor>)" by auto
    then have "(2::rat) ^ ilog2 \<lfloor>x\<rfloor> \<le> x" "x < 2 ^ Suc (ilog2 \<lfloor>x\<rfloor>)"
      by (simp_all add: le_floor_iff floor_less_iff)
    with True show ?thesis
      by (simp add: expo_def pow2_nat pow2_Suc)
  next
    case False
    let ?n = "\<lceil>1 / x\<rceil> - 1" and ?k = "ilog2 (\<lceil>1 / x\<rceil> - 1)"
    from False assms have "1 < 1 / x" by (simp add: field_simps)
    then have "1 \<le> ?n" by linarith
    from ilog2_bounds [OF this] have
      "(2::int) ^ ?k \<le> ?n" "?n < 2 ^ Suc ?k" by auto
    then have "(2::int) ^ ?k < \<lceil>1 / x\<rceil>" "\<lceil>1 / x\<rceil> \<le> 2 ^ Suc ?k" by linarith+
    then have "(2::rat) ^ ?k < 1 / x" "1 / x \<le> 2 ^ Suc ?k"
      by (simp_all add: less_ceiling_iff ceiling_le_iff)
    with assms have "1 / 2 ^ Suc ?k \<le> x" "x < 1 / 2 ^ ?k"
      by (simp_all add: field_simps)
    moreover have "expo x + 1 = - int ?k" "expo x = - int (Suc ?k)" using False by (simp_all add: expo_def)
    ultimately show ?thesis by (simp only: pow2_minus_nat)
  qed
  then show "pow2 (expo x) \<le> x" "x < pow2 (expo x + 1)" by auto
qed

lemma expo_le_iff: "0 < x \<Longrightarrow> x < pow2 (k + 1) \<Longrightarrow> expo x \<le> k"
  using expo_bounds(1) [of x] pow2_less_iff [of "expo x" "k + 1"] by linarith

lemma expo_mono: "0 < x \<Longrightarrow> x \<le> y \<Longrightarrow> expo x \<le> expo y"
  using expo_bounds(2) [of y] by (intro expo_le_iff) auto

section \<open>The laws of rounding\<close>

locale rounding =
  fixes r :: "rat \<Rightarrow> rat"
  assumes mono: "x \<le> y \<Longrightarrow> r x \<le> r y"
    and dyadic: "\<bar>k\<bar> \<le> 9007199254740992 \<Longrightarrow> - 1074 \<le> s \<Longrightarrow>
      r (of_int k * pow2 s) = of_int k * pow2 s"
    and idem: "r (r x) = r x"
    and odd: "r (- x) = - r x"
begin

lemma int_exact: "\<bar>k\<bar> \<le> 9007199254740992 \<Longrightarrow> r (of_int k) = of_int k"
  using dyadic [of k 0] by simp

lemma zero: "r 0 = 0"
  using int_exact [of 0] by simp

lemma one: "r 1 = 1"
  using int_exact [of 1] by simp

lemma between_ints:
  assumes "of_int a \<le> x" "x \<le> of_int b" "\<bar>a\<bar> \<le> 9007199254740992" "\<bar>b\<bar> \<le> 9007199254740992"
  shows "of_int a \<le> r x" "r x \<le> of_int b"
  using mono [OF assms(1)] mono [OF assms(2)] assms(3,4) by (simp_all add: int_exact)

lemma nonneg: "0 \<le> x \<Longrightarrow> 0 \<le> r x"
  using mono [of 0 x] by (simp add: zero)

lemma pos_le_one: "0 \<le> x \<Longrightarrow> x \<le> 1 \<Longrightarrow> r x \<le> 1"
  using mono [of x 1] by (simp add: one)

lemma fixed_le: "r a = a \<Longrightarrow> a \<le> x \<Longrightarrow> a \<le> r x"
  using mono [of a x] by simp

lemma scaled_within:
  assumes "0 \<le> q" "q \<le> 1" "0 \<le> n" "n \<le> 9007199254740992"
  shows "0 \<le> r (of_int n * q) \<and> r (of_int n * q) \<le> of_int n"
proof -
  from assms have "0 \<le> of_int n * q" "of_int n * q \<le> of_int n"
    by (simp_all add: mult_left_le)
  with between_ints [of 0 "of_int n * q" n] assms show ?thesis by simp
qed

end

lemma rhe_int [simp]: "round_half_even (of_int k) = k"
  by (simp add: round_half_even_def)

lemma rhe_mono: "x \<le> y \<Longrightarrow> round_half_even x \<le> round_half_even y"
proof -
  assume le: "x \<le> y"
  have lo: "\<lfloor>z\<rfloor> \<le> round_half_even z" and hi: "round_half_even z \<le> \<lfloor>z\<rfloor> + 1" for z
    by (simp_all add: round_half_even_def Let_def)
  from le have "\<lfloor>x\<rfloor> \<le> \<lfloor>y\<rfloor>" by (rule floor_mono)
  then consider "\<lfloor>x\<rfloor> + 1 \<le> \<lfloor>y\<rfloor>" | "\<lfloor>x\<rfloor> = \<lfloor>y\<rfloor>" by linarith
  then show ?thesis
  proof cases
    case 1
    with lo [of y] hi [of x] show ?thesis by linarith
  next
    case 2
    with le show ?thesis by (auto simp: round_half_even_def Let_def)
  qed
qed

lemma pow2_grid: "t \<le> s \<Longrightarrow> of_int k * pow2 s / pow2 t = of_int (k * 2 ^ nat (s - t))"
  by (simp add: pow2_diff pow2_int flip: times_divide_eq_right)

lemma rhe_ge_int: "of_int k \<le> x \<Longrightarrow> k \<le> round_half_even x"
  using rhe_mono [of "of_int k" x] by (simp only: rhe_int)

lemma rhe_le_int: "x \<le> of_int k \<Longrightarrow> round_half_even x \<le> k"
  using rhe_mono [of x "of_int k"] by (simp only: rhe_int)

lemma rndp_ge:
  assumes "ulp_exp x \<le> s" "of_int k * pow2 s \<le> x"
  shows "of_int k * pow2 s \<le> rndp x"
proof -
  let ?t = "ulp_exp x"
  have "of_int k * pow2 s / pow2 ?t \<le> x / pow2 ?t"
    using assms(2) by (simp add: divide_right_mono)
  then have "k * 2 ^ nat (s - ?t) \<le> round_half_even (x / pow2 ?t)"
    unfolding pow2_grid [OF assms(1)] by (rule rhe_ge_int)
  then have "of_int k * pow2 s / pow2 ?t \<le> (of_int (round_half_even (x / pow2 ?t)) :: rat)"
    unfolding pow2_grid [OF assms(1)] by (simp only: of_int_le_iff)
  then show ?thesis by (simp add: rndp_def pos_divide_le_eq)
qed

lemma rndp_le:
  assumes "ulp_exp x \<le> s" "x \<le> of_int k * pow2 s"
  shows "rndp x \<le> of_int k * pow2 s"
proof -
  let ?t = "ulp_exp x"
  have "x / pow2 ?t \<le> of_int k * pow2 s / pow2 ?t"
    using assms(2) by (simp add: divide_right_mono)
  then have "round_half_even (x / pow2 ?t) \<le> k * 2 ^ nat (s - ?t)"
    unfolding pow2_grid [OF assms(1)] by (rule rhe_le_int)
  then have "(of_int (round_half_even (x / pow2 ?t)) :: rat) \<le> of_int k * pow2 s / pow2 ?t"
    unfolding pow2_grid [OF assms(1)] by (simp only: of_int_le_iff)
  then show ?thesis by (simp add: rndp_def pos_le_divide_eq)
qed

lemma rndp_nonneg: "0 < x \<Longrightarrow> 0 \<le> rndp x"
  using rndp_ge [of x "ulp_exp x" 0] by simp

lemma rndp_mono:
  assumes "0 < x" "x \<le> y"
  shows "rndp x \<le> rndp y"
proof (cases "ulp_exp x = ulp_exp y")
  case True
  from assms(2) have "x / pow2 (ulp_exp y) \<le> y / pow2 (ulp_exp y)"
    by (simp add: divide_right_mono)
  from rhe_mono [OF this] True show ?thesis
    by (simp add: rndp_def)
next
  case False
  have exy: "expo x \<le> expo y" using assms by (rule expo_mono)
  with False have u: "ulp_exp x < ulp_exp y" "ulp_exp y = expo y - 52" "expo x < expo y"
    by (auto simp: ulp_exp_def)
  have "x \<le> pow2 (expo y)"
    using expo_bounds(2) [OF assms(1)] pow2_mono [of "expo x + 1" "expo y"] u(3) by linarith
  then have "rndp x \<le> of_int 1 * pow2 (expo y)" using u by (intro rndp_le) auto
  also have "of_int 1 * pow2 (expo y) \<le> rndp y"
    using expo_bounds(1) [of y] assms u by (intro rndp_ge) auto
  finally show ?thesis .
qed

lemma rndp_exact:
  assumes "ulp_exp x \<le> s" "x = of_int k * pow2 s"
  shows "rndp x = x"
  using rndp_ge [OF assms(1), of k] rndp_le [OF assms(1), of k] assms(2) by simp

lemma rndp_dyadic:
  assumes "0 < k" "k \<le> 9007199254740992" "- 1074 \<le> s"
  shows "rndp (of_int k * pow2 s) = of_int k * pow2 s"
proof (cases "k = 9007199254740992")
  case True
  have "(9007199254740992 :: rat) = pow2 53" by (simp add: pow2_def)
  then have eq: "of_int k * pow2 s = pow2 (s + 53)" using True by (simp add: pow2_add)
  have "expo (pow2 (s + 53)) \<le> s + 53" using pow2_less_iff by (intro expo_le_iff) auto
  with assms(3) have "ulp_exp (pow2 (s + 53)) \<le> s + 53" by (simp add: ulp_exp_def)
  from rndp_exact [OF this, of 1] show ?thesis by (simp add: eq)
next
  case False
  with assms have "k < 9007199254740992" by simp
  then have "(of_int k :: rat) < pow2 53" by (simp add: pow2_def)
  then have "of_int k * pow2 s < pow2 (s + 52 + 1)" by (simp add: pow2_add mult.commute)
  then have "expo (of_int k * pow2 s) \<le> s + 52" using assms by (intro expo_le_iff) auto
  with assms(3) have "ulp_exp (of_int k * pow2 s) \<le> s" by (simp add: ulp_exp_def)
  from rndp_exact [OF this, of k] show ?thesis by simp
qed

lemma rndp_form:
  assumes "0 < x"
  shows "\<exists>j. 0 \<le> j \<and> j \<le> 9007199254740992 \<and> rndp x = of_int j * pow2 (ulp_exp x)"
proof (intro exI conjI)
  let ?t = "ulp_exp x" let ?j = "round_half_even (x / pow2 ?t)"
  show "rndp x = of_int ?j * pow2 ?t" by (simp add: rndp_def)
  show "0 \<le> ?j" using rhe_mono [of 0 "x / pow2 ?t"] rhe_int [of 0] assms by simp
  have "expo x + 1 \<le> ?t + 53" by (simp add: ulp_exp_def)
  with expo_bounds(2) [OF assms] pow2_mono [of "expo x + 1" "?t + 53"]
  have "x \<le> pow2 (?t + 53)" by linarith
  then have "x / pow2 ?t \<le> pow2 53" by (simp add: pow2_add pos_divide_le_eq mult.commute)
  also have "pow2 53 = of_int 9007199254740992" by (simp add: pow2_def)
  finally show "?j \<le> 9007199254740992" by (rule rhe_le_int)
qed

interpretation rn: rounding rndr
proof unfold_locales
  fix x y :: rat assume "x \<le> y"
  then show "rndr x \<le> rndr y"
    using rndp_mono [of x y] rndp_mono [of "- y" "- x"] rndp_nonneg [of y] rndp_nonneg [of "- x"]
    by (auto simp: rndr_def)
next
  fix k s :: int assume "\<bar>k\<bar> \<le> 9007199254740992" "- 1074 \<le> s"
  then show "rndr (of_int k * pow2 s) = of_int k * pow2 s"
    using rndp_dyadic [of k s] rndp_dyadic [of "- k" s] pow2_pos [of s]
    by (cases k "0 :: int" rule: linorder_cases)
      (auto simp: rndr_def zero_less_mult_iff mult_less_0_iff not_less_iff_gr_or_eq)
next
  have pos: "rndr (rndp x) = rndp x" if "0 < x" for x :: rat
  proof -
    obtain j where j: "0 \<le> j" "j \<le> 9007199254740992" "rndp x = of_int j * pow2 (ulp_exp x)"
      using rndp_form [OF \<open>0 < x\<close>] by blast
    have "- 1074 \<le> ulp_exp x" by (simp add: ulp_exp_def)
    with j show ?thesis using rndp_dyadic [of j "ulp_exp x"]
      by (cases "j = 0") (auto simp: rndr_def zero_less_mult_iff)
  qed
  have neg: "rndr (- y) = - rndr y" for y by (auto simp: rndr_def)
  fix x show "rndr (- x) = - rndr x" by (rule neg)
  show "rndr (rndr x) = rndr x"
    using pos [of x] pos [of "- x"] neg [of "rndp (- x)"] by (auto simp: rndr_def)
qed

section \<open>What the layouts use\<close>

lemma rnd_Fin:
  assumes "\<bar>x\<bar> \<le> 9007199254740992"
  shows "rnd x = Fin (rndr x)"
proof (cases "rndr x = 0")
  case True
  then show ?thesis by (simp add: rnd_def)
next
  case False
  from assms rn.between_ints [of "- 9007199254740992" x 9007199254740992]
  have "\<bar>rndr x\<bar> \<le> 9007199254740992" by (simp add: abs_le_iff)
  moreover have "(9007199254740992 :: rat) < pow2 54" by (simp add: pow2_def)
  ultimately have "expo \<bar>rndr x\<bar> \<le> 53" using False by (intro expo_le_iff) auto
  then show ?thesis by (simp add: rnd_def)
qed

lemma rnd_int: "\<bar>n\<bar> \<le> 9007199254740992 \<Longrightarrow> rnd (of_int n) = Fin (of_int n)"
  by (simp add: rnd_Fin rn.int_exact)

lemma round_away_int [simp]: "round_away (of_int n) = n"
proof -
  have "\<lfloor>of_int n + 1 / 2 :: rat\<rfloor> = n" "\<lfloor>- of_int n + 1 / 2 :: rat\<rfloor> = - n" by linarith+
  then show ?thesis by (simp add: round_away_def)
qed

lemma round_away_mono: "x \<le> y \<Longrightarrow> round_away x \<le> round_away y"
  unfolding round_away_def by (auto intro: floor_mono) linarith+

lemma round_away_between: "of_int a \<le> x \<Longrightarrow> x \<le> of_int b \<Longrightarrow> a \<le> round_away x \<and> round_away x \<le> b"
  using round_away_mono [of "of_int a" x] round_away_mono [of x "of_int b"] by simp

lemma trunc_rat_int [simp]: "trunc_rat (of_int n) = n"
  by (simp add: trunc_rat_def flip: of_int_minus)

lemma sat_i32_id: "- 2147483648 \<le> n \<Longrightarrow> n \<le> 2147483647 \<Longrightarrow> sat_i32 n = n"
  by (simp add: sat_i32_def)

lemma in_i32_sat [simp]: "in_i32 (sat_i32 n)"
  by (simp add: sat_i32_def in_i32_def)

lemma in_i32_f_as_i32 [simp]: "in_i32 (f_as_i32 x)"
  by (cases x) (auto simp: in_i32_def sat_i32_def)

lemma in_i32_f_round_i32 [simp]: "in_i32 (f_round_i32 x)"
  by (simp add: f_round_i32_def)

lemma f_round_i32_Fin: "f_round_i32 (Fin x) = sat_i32 (round_away x)"
  by (simp add: f_round_i32_def)

lemma f_round_i32_NaN [simp]: "f_round_i32 FNaN = 0"
  by (simp add: f_round_i32_def)

lemma f_round_i32_of_int: "in_i32 n \<Longrightarrow> f_round_i32 (Fin (of_int n)) = n"
  by (simp add: f_round_i32_Fin sat_i32_id in_i32_def)

text \<open>A fraction of \<open>n\<close> pixels, rounded, is between zero and \<open>n\<close>.\<close>

lemma f_mul_frac:
  assumes "0 \<le> n" "n \<le> 2147483647" "0 \<le> q" "q \<le> 1"
  shows "0 \<le> f_round_i32 (f_mul (f_of_i32 n) (Fin q)) \<and> f_round_i32 (f_mul (f_of_i32 n) (Fin q)) \<le> n"
proof -
  let ?x = "of_int n * q"
  from assms have b: "0 \<le> ?x" "?x \<le> of_int n" by (simp_all add: mult_left_le)
  then have "rnd ?x = Fin (rndr ?x)" using assms by (intro rnd_Fin) auto
  moreover have "0 \<le> rndr ?x" "rndr ?x \<le> of_int n"
    using rn.scaled_within [of q n] assms by auto
  ultimately show ?thesis
    using round_away_between [of 0 "rndr ?x" n] assms
    by (simp add: f_of_i32_def f_round_i32_Fin sat_i32_id)
qed

definition mfact_lo :: f64 where
  "mfact_lo = f_lit (1 / 20)"

definition mfact_hi :: f64 where
  "mfact_hi = f_lit (19 / 20)"

lemma mfact_lo [code]: "mfact_lo = Fin (3602879701896397 / 72057594037927936)"
  by code_simp

lemma mfact_hi [code]: "mfact_hi = Fin (4278419646001971 / 4503599627370496)"
  by code_simp

text \<open>\<open>mfact.clamp(0.05, 0.95)\<close> is NaN for NaN and otherwise a proper fraction.\<close>

fun mfact_ok :: "f64 \<Rightarrow> bool" where
  "mfact_ok (Fin q) \<longleftrightarrow>
     3602879701896397 / 72057594037927936 \<le> q \<and> q \<le> 4278419646001971 / 4503599627370496"
| "mfact_ok _ \<longleftrightarrow> False"

lemma clamp_mfact_NaN [simp]: "f_clamp FNaN mfact_lo mfact_hi = FNaN"
  by (simp add: f_clamp_def mfact_lo mfact_hi)

lemma clamp_mfact: "m \<noteq> FNaN \<Longrightarrow> mfact_ok (f_clamp m mfact_lo mfact_hi)"
  by (cases m) (simp_all add: f_clamp_def mfact_lo mfact_hi)

lemma clamp_mfact_idem:
  "f_clamp (f_clamp m mfact_lo mfact_hi) mfact_lo mfact_hi = f_clamp m mfact_lo mfact_hi"
  by (cases m) (auto simp: f_clamp_def mfact_lo mfact_hi)

lemma scaled_px:
  assumes "0 \<le> n" "n \<le> 2147483647"
  shows "0 \<le> f_round_i32 (f_mul (f_of_i32 n) (f_clamp m mfact_lo mfact_hi)) \<and>
    f_round_i32 (f_mul (f_of_i32 n) (f_clamp m mfact_lo mfact_hi)) \<le> n"
proof (cases "m = FNaN")
  case True
  with assms show ?thesis by (simp add: f_of_i32_def)
next
  case False
  then have "mfact_ok (f_clamp m mfact_lo mfact_hi)" by (rule clamp_mfact)
  then show ?thesis using f_mul_frac [OF assms] by (cases "f_clamp m mfact_lo mfact_hi") auto
qed

lemma f_repD: "f_rep x \<Longrightarrow> \<exists>q. x = Fin q \<and> rndr q = q"
  by (cases x) (auto simp: rnd_def Let_def split: if_splits)

lemma f_rep_rnd: "rnd x = Fin q \<Longrightarrow> f_rep (Fin q)"
  using rn.idem [of x] rn.zero by (auto simp: rnd_def Let_def split: if_splits)

end
