(* ===== verification/Config.thy ===== *)
theory Config
  imports Geometry Float64
begin

text \<open>
  The configuration (\<^verbatim>\<open>src/config\<close>): layout kinds, rules, actions, bindings
  and the part of the global \<open>Config\<close> the modelled code reads. All default
  Cargo features are on. A \<open>String\<close> is its UTF-8 bytes; a \<open>char\<close> is its code
  point; a \<open>usize\<close> is a \<open>nat\<close>.
\<close>

section \<open>Layouts\<close>

datatype layout_kind =
  Tile | Monocle | Col | Scroll | Dwindle | Bstack | CenteredMaster | LuaLayout

record layout_def =
  ld_symbol :: string
  ld_kind :: layout_kind

definition default_layout_kind :: layout_kind where
  "default_layout_kind = Tile"

definition layout_kind_name :: "layout_kind \<Rightarrow> string" where
  "layout_kind_name k = (case k of
     Tile \<Rightarrow> ''tile'' | Monocle \<Rightarrow> ''monocle'' | Col \<Rightarrow> ''col'' | Scroll \<Rightarrow> ''scroll''
   | Dwindle \<Rightarrow> ''dwindle'' | Bstack \<Rightarrow> ''bstack''
   | CenteredMaster \<Rightarrow> ''centeredmaster'' | LuaLayout \<Rightarrow> ''lua'')"

definition default_layouts :: "layout_def list" where
  "default_layouts =
     [\<lparr>ld_symbol = ''[]='', ld_kind = Tile\<rparr>, \<lparr>ld_symbol = ''[M]'', ld_kind = Monocle\<rparr>,
      \<lparr>ld_symbol = ''||'', ld_kind = Col\<rparr>, \<lparr>ld_symbol = ''>>>'', ld_kind = Scroll\<rparr>,
      \<lparr>ld_symbol = ''[@]'', ld_kind = Dwindle\<rparr>, \<lparr>ld_symbol = ''(B)'', ld_kind = Bstack\<rparr>,
      \<lparr>ld_symbol = ''|-|'', ld_kind = CenteredMaster\<rparr>]"

datatype pertag_rule = Fixed nat | ByCount "nat list"

section \<open>Rules\<close>

record rule =
  r_id :: "string option"
  r_title :: "string option"
  r_tags :: u32
  r_switch_to_tag :: bool
  r_is_floating :: bool
  r_monitor :: int
  r_scratch_key :: nat
  r_no_swallow :: bool

datatype vrr_mode = VrrOff | VrrOn | VrrOnDemand

text \<open>The transform is the code of the protocol's \<open>wl_output.transform\<close> enum.\<close>

record monitor_rule =
  mr_name :: "string option"
  mr_mfact :: f64
  mr_nmaster :: int
  mr_scale :: f64
  mr_layout_idx :: nat
  mr_transform :: nat
  mr_x :: int
  mr_y :: int
  mr_vrr :: vrr_mode

definition default_monitor_rule :: monitor_rule where
  "default_monitor_rule =
     \<lparr>mr_name = None, mr_mfact = f_lit (55 / 100), mr_nmaster = 1, mr_scale = f_lit 1,
      mr_layout_idx = 0, mr_transform = 0, mr_x = -1, mr_y = -1, mr_vrr = VrrOff\<rparr>"

text \<open>The same rule with its factors evaluated, for the evaluation of instances.\<close>

lemma default_monitor_rule_code [code]:
  "default_monitor_rule =
     \<lparr>mr_name = None, mr_mfact = Fin (2476979795053773 / 4503599627370496),
      mr_nmaster = 1, mr_scale = Fin 1, mr_layout_idx = 0, mr_transform = 0, mr_x = -1,
      mr_y = -1, mr_vrr = VrrOff\<rparr>"
proof -
  have "f_lit (55 / 100) = Fin (2476979795053773 / 4503599627370496)" "f_lit 1 = Fin 1"
    by code_simp+
  then show ?thesis by (simp add: default_monitor_rule_def)
qed

section \<open>Actions and bindings\<close>

record scratch_cmd =
  sc_key :: nat
  sc_cmd :: "string list"

datatype action =
    Spawn "string list" | FocusStack int | IncNmaster int | SetMfact f64 | Zoom | ViewPrev
  | ViewNextOccTag int | KillClient | SetLayout nat | CycleLayout | ResetLayout
  | ToggleFloating | ToggleFullscreen | TogglePassthrough | ToggleGaps
  | View u32 | ViewTagSpawn u32 | ToggleView u32 | Tag u32 | ToggleTag u32
  | FocusMon int | TagMon int | Move | Resize
  | ToggleScratch scratch_cmd | FocusOrToggleScratch scratch_cmd
  | FocusOrToggleMatchingScratch scratch_cmd
  | Chvt u32 | ReloadConfig | Quit | CallLua string | ToggleBar | BarPrompt
  | ToggleOverview | ToggleOverviewAll | OverviewNav u32 | TogglePip | MovePip
  | Lock | LockConsume | Consumed | SendKeys "u32 list"

definition ipc_command :: "action \<Rightarrow> string option" where
  "ipc_command a = (case a of
     Spawn _ \<Rightarrow> Some ''spawn'' | FocusStack _ \<Rightarrow> Some ''focusstack''
   | IncNmaster _ \<Rightarrow> Some ''incnmaster'' | SetMfact _ \<Rightarrow> Some ''setmfact''
   | Zoom \<Rightarrow> Some ''zoom'' | ViewPrev \<Rightarrow> Some ''viewprev''
   | ViewNextOccTag _ \<Rightarrow> Some ''viewnextocctag'' | KillClient \<Rightarrow> Some ''killclient''
   | SetLayout _ \<Rightarrow> Some ''setlayout'' | CycleLayout \<Rightarrow> Some ''cyclelayout''
   | ToggleFloating \<Rightarrow> Some ''togglefloating'' | ToggleFullscreen \<Rightarrow> Some ''togglefullscreen''
   | TogglePassthrough \<Rightarrow> Some ''togglepassthrough'' | View _ \<Rightarrow> Some ''view''
   | ViewTagSpawn _ \<Rightarrow> Some ''viewtag_spawn'' | ToggleView _ \<Rightarrow> Some ''toggleview''
   | Tag _ \<Rightarrow> Some ''tag'' | ToggleTag _ \<Rightarrow> Some ''toggletag''
   | FocusMon _ \<Rightarrow> Some ''focusmon'' | TagMon _ \<Rightarrow> Some ''tagmon''
   | Chvt _ \<Rightarrow> Some ''chvt'' | ReloadConfig \<Rightarrow> Some ''reloadconfig'' | Quit \<Rightarrow> Some ''quit''
   | Move \<Rightarrow> None | Resize \<Rightarrow> None | ResetLayout \<Rightarrow> None | ToggleGaps \<Rightarrow> Some ''togglegaps''
   | ToggleScratch _ \<Rightarrow> None | FocusOrToggleScratch _ \<Rightarrow> None
   | FocusOrToggleMatchingScratch _ \<Rightarrow> None | CallLua _ \<Rightarrow> None
   | ToggleBar \<Rightarrow> Some ''togglebar'' | BarPrompt \<Rightarrow> Some ''barprompt''
   | ToggleOverview \<Rightarrow> None | ToggleOverviewAll \<Rightarrow> None | OverviewNav _ \<Rightarrow> None
   | TogglePip \<Rightarrow> None | MovePip \<Rightarrow> None | Lock \<Rightarrow> Some ''lock'' | LockConsume \<Rightarrow> None
   | Consumed \<Rightarrow> None | SendKeys _ \<Rightarrow> None)"

record key_bind =
  kb_mods :: u32
  kb_keysym :: u32
  kb_action :: action
  kb_app_id :: "string option"

record button_bind =
  bb_mods :: u32
  bb_button :: u32
  bb_action :: action
  bb_app_id :: "string option"

section \<open>The global configuration\<close>

text \<open>A colour is its packed \<open>0xRRGGBBAA\<close> code; no modelled code computes with it.\<close>

record config =
  c_mouse_focus :: bool
  c_warp_cursor :: bool
  c_follow :: bool
  c_border_px :: u32
  c_gaps_px :: u32
  c_smart_gaps :: bool
  c_border_color :: u32
  c_focus_color :: u32
  c_fade_in_ms :: nat
  c_fade_out_ms :: nat
  c_tag_transition :: bool
  c_tag_transition_ms :: nat
  c_auto_back_empty_tag :: bool
  c_tag_count :: nat
  c_pertag_layouts :: "pertag_rule option list"
  c_rules :: "rule list"
  c_layouts :: "layout_def list"
  c_monitor_rules :: "monitor_rule list"
  c_repeat_rate :: int
  c_repeat_delay :: int
  c_keys :: "key_bind list"
  c_buttons :: "button_bind list"
  c_auto_spawn :: "string list option list"
  c_hint_keys :: string
  c_overview_padding :: u32
  c_pip_width :: u32
  c_pip_margin :: u32
  c_pip_border_px :: u32
  c_pip_corner :: string
  c_swallow_enabled :: bool
  c_swallow_terminals :: "string list"

definition default_rules :: "rule list" where
  "default_rules = [\<lparr>r_id = Some ''scratchpad'', r_title = None, r_tags = 0,
     r_switch_to_tag = False, r_is_floating = True, r_monitor = -1, r_scratch_key = 115,
     r_no_swallow = False\<rparr>]"

definition default_terminals :: "string list" where
  "default_terminals =
     [''foot'', ''footclient'', ''st'', ''xterm'', ''urxvt'', ''rxvt'', ''alacritty'',
      ''kitty'', ''wezterm'', ''org.wezfurlong.wezterm'', ''contour'', ''ghostty'',
      ''com.mitchellh.ghostty'', ''org.gnome.console'', ''w+termite'']"

text \<open>
  \<open>Config::default()\<close>, with the default bindings as arguments: they are built from
  the key codes of the xkbcommon package.
\<close>

definition default_config :: "key_bind list \<Rightarrow> button_bind list \<Rightarrow> config" where
  "default_config keys buttons =
     \<lparr>c_mouse_focus = True, c_warp_cursor = True, c_follow = True, c_border_px = 1,
      c_gaps_px = 0, c_smart_gaps = True, c_border_color = 0x222222ff,
      c_focus_color = 0xdf73ffff, c_fade_in_ms = 0, c_fade_out_ms = 0,
      c_tag_transition = True, c_tag_transition_ms = 100, c_auto_back_empty_tag = True,
      c_tag_count = 9, c_pertag_layouts = replicate 6 (Some (Fixed 0)),
      c_rules = default_rules, c_layouts = default_layouts,
      c_monitor_rules = [default_monitor_rule], c_repeat_rate = 25, c_repeat_delay = 600,
      c_keys = keys, c_buttons = buttons, c_auto_spawn = replicate 6 None,
      c_hint_keys = ''123456789'', c_overview_padding = 40, c_pip_width = 480,
      c_pip_margin = 24, c_pip_border_px = 2, c_pip_corner = ''bottom-right'',
      c_swallow_enabled = False, c_swallow_terminals = default_terminals\<rparr>"

text \<open>\<open>(1 << tag_count) - 1\<close> in \<open>u32\<close>.\<close>

definition tag_mask :: "config \<Rightarrow> u32" where
  "tag_mask c = shl1 (c_tag_count c) - 1"

definition MODKEY :: u32 where
  "MODKEY = 64"

definition MOD_TAP_KEYSYM :: u32 where
  "MOD_TAP_KEYSYM = 0"

text \<open>
  The gaps toggle (\<^verbatim>\<open>src/features/effects/gaps.rs\<close>): the process-wide flag is an
  argument.
\<close>

definition toggle_gaps :: "bool \<Rightarrow> bool" where
  "toggle_gaps on = (\<not> on)"

definition effective :: "bool \<Rightarrow> nat \<Rightarrow> bool \<Rightarrow> u32 \<Rightarrow> int" where
  "effective gaps_on n smart_gaps gaps_px =
     (if gaps_on \<and> (n > 1 \<or> \<not> smart_gaps)
      then (if uint gaps_px < 2147483648 then uint gaps_px else 2147483647) else 0)"

text \<open>A configuration whose tag count the mask arithmetic can represent.\<close>

definition tags_ok :: "config \<Rightarrow> bool" where
  "tags_ok c \<longleftrightarrow> 0 < c_tag_count c \<and> c_tag_count c < 32"

lemma bit_tag_mask: "tags_ok c \<Longrightarrow> bit (tag_mask c) i \<longleftrightarrow> i < c_tag_count c"
proof -
  assume "tags_ok c"
  then have "tag_mask c = mask (c_tag_count c)"
    by (simp add: tag_mask_def shl1_def tags_ok_def mask_eq_exp_minus_1)
  with \<open>tags_ok c\<close> show ?thesis by (auto simp: bit_mask_iff tags_ok_def)
qed

lemma tag_mask_nonzero: "tags_ok c \<Longrightarrow> tag_mask c \<noteq> 0"
  using bit_tag_mask [of c 0] by (auto simp: tags_ok_def)

lemma effective_nonneg: "0 \<le> effective g n s px"
  by (simp add: effective_def)

lemma effective_le: "effective g n s px \<le> uint px"
  by (simp add: effective_def)

end
