(* ===== verification/Monitor.thy ===== *)
theory Monitor
  imports Config "HOL-Library.Code_Target_Nat"
begin

text \<open>
  Per-monitor state (\<^verbatim>\<open>src/monitor.rs\<close>) and the per-tag layouts
  (\<^verbatim>\<open>src/features/windows/pertag_layouts.rs\<close>).

  A two-element array is a pair read by \<open>sel2\<close>. The invariant \<open>wf_monitor\<close>
  says that both tag sets are non-empty subsets of the tag mask, both selectors
  are 0 or 1 and every layout index is in range; \<open>mon_step\<close> lists the operations
  the compositor applies to a monitor and preserves it.
\<close>

section \<open>State\<close>

record woutput =
  out_id :: nat
  out_name :: string

record monitor =
  mon_output :: woutput
  tagset :: "u32 \<times> u32"
  sel_tags :: nat
  lt :: "nat \<times> nat"
  sel_lt :: nat
  mfact :: f64
  nmaster :: int
  m_area :: rect
  w_area :: rect
  asleep :: bool
  tag_lt_override :: "nat option list"
  col_facts :: "f64 list"
  scroll_col :: nat

record monitor_memory =
  mem_mfact :: f64
  mem_nmaster :: int
  mem_lt :: "nat \<times> nat"
  mem_sel_lt :: nat
  mem_tag_lt_override :: "nat option list"

fun sel2 :: "'a \<times> 'a \<Rightarrow> nat \<Rightarrow> 'a" where
  "sel2 (a, b) i = (if i = 0 then a else b)"

fun upd2 :: "'a \<times> 'a \<Rightarrow> nat \<Rightarrow> 'a \<Rightarrow> 'a \<times> 'a" where
  "upd2 (a, b) i x = (if i = 0 then (x, b) else (a, x))"

definition flip :: "nat \<Rightarrow> nat" where
  "flip i = i XOR 1"

definition USIZE_MAX :: nat where
  "USIZE_MAX = 18446744073709551615"

definition starts_with :: "string \<Rightarrow> string \<Rightarrow> bool" where
  "starts_with s p = prefix p s"

section \<open>Construction, snapshot and restore\<close>

definition matching_rule :: "config \<Rightarrow> string \<Rightarrow> monitor_rule" where
  "matching_rule c name =
     (case List.find (\<lambda>r. case mr_name r of Some p \<Rightarrow> starts_with name p | None \<Rightarrow> False)
        (c_monitor_rules c) of
       Some r \<Rightarrow> r
     | None \<Rightarrow>
        (case List.find (\<lambda>r. mr_name r = None) (rev (c_monitor_rules c)) of
          Some r \<Rightarrow> r
        | None \<Rightarrow> (case c_monitor_rules c of r # _ \<Rightarrow> r | [] \<Rightarrow> default_monitor_rule)))"

definition matching_rule_for_output :: "config \<Rightarrow> woutput \<Rightarrow> monitor_rule" where
  "matching_rule_for_output c out = matching_rule c (out_name out)"

definition monitor_new :: "config \<Rightarrow> woutput \<Rightarrow> monitor" where
  "monitor_new c out =
     (let rule = matching_rule c (out_name out);
          initial_tagset = 1;
          lt_idx = min (mr_layout_idx rule) (length (c_layouts c) - 1)
      in \<lparr>mon_output = out, tagset = (initial_tagset, initial_tagset), sel_tags = 0,
          lt = (lt_idx, lt_idx), sel_lt = 0, mfact = mr_mfact rule, nmaster = mr_nmaster rule,
          m_area = rect_default, w_area = rect_default, asleep = False,
          tag_lt_override = replicate (c_tag_count c) None, col_facts = [], scroll_col = 0\<rparr>)"

definition snapshot :: "monitor \<Rightarrow> monitor_memory" where
  "snapshot m = \<lparr>mem_mfact = mfact m, mem_nmaster = nmaster m, mem_lt = lt m,
     mem_sel_lt = sel_lt m, mem_tag_lt_override = tag_lt_override m\<rparr>"

text \<open>The loop over \<open>v.iter_mut().zip(saved)\<close> stops at the shorter vector.\<close>

fun zip_restore :: "(nat \<Rightarrow> nat) \<Rightarrow> nat option list \<Rightarrow> nat option list \<Rightarrow> nat option list" where
  "zip_restore clamp (_ # vs) (s # ss) = map_option clamp s # zip_restore clamp vs ss"
| "zip_restore clamp vs _ = vs"

definition restore :: "config \<Rightarrow> monitor \<Rightarrow> monitor_memory \<Rightarrow> monitor" where
  "restore c m mem =
     (let n_layouts = length (c_layouts c); clamp = (\<lambda>i. min i (n_layouts - 1))
      in m\<lparr>mfact := mem_mfact mem, nmaster := mem_nmaster mem,
           lt := (clamp (fst (mem_lt mem)), clamp (snd (mem_lt mem))),
           sel_lt := mem_sel_lt mem AND 1,
           tag_lt_override :=
             zip_restore clamp (replicate (c_tag_count c) None) (mem_tag_lt_override mem)\<rparr>)"

section \<open>Reading\<close>

definition tags :: "monitor \<Rightarrow> u32" where
  "tags m = sel2 (tagset m) (sel_tags m)"

definition layout_idx :: "monitor \<Rightarrow> nat" where
  "layout_idx m = sel2 (lt m) (sel_lt m)"

definition layout_kind_of :: "config \<Rightarrow> monitor \<Rightarrow> layout_kind" where
  "layout_kind_of c m = (case get_at (c_layouts c) (sel2 (lt m) (sel_lt m)) of
     None \<Rightarrow> default_layout_kind | Some l \<Rightarrow> ld_kind l)"

definition layout_symbol :: "config \<Rightarrow> monitor \<Rightarrow> string" where
  "layout_symbol c m = (case get_at (c_layouts c) (sel2 (lt m) (sel_lt m)) of
     None \<Rightarrow> ''><>'' | Some l \<Rightarrow> ld_symbol l)"

section \<open>Per-tag layouts\<close>

definition set_monitor_layout :: "config \<Rightarrow> monitor \<Rightarrow> nat \<Rightarrow> monitor" where
  "set_monitor_layout c m idx =
     (if idx < length (c_layouts c) \<and> sel2 (lt m) (sel_lt m) \<noteq> idx
      then let s = flip (sel_lt m) in m\<lparr>sel_lt := s, lt := upd2 (lt m) s idx\<rparr>
      else m)"

definition pin_of :: "monitor \<Rightarrow> nat \<Rightarrow> nat option" where
  "pin_of m i = (case get_at (tag_lt_override m) i of Some x \<Rightarrow> x | None \<Rightarrow> None)"

definition is_pinned :: "monitor \<Rightarrow> nat \<Rightarrow> bool" where
  "is_pinned m i = (pin_of m i \<noteq> None)"

definition pertag_rule_of :: "config \<Rightarrow> nat \<Rightarrow> pertag_rule option" where
  "pertag_rule_of c i = (case get_at (c_pertag_layouts c) i of Some x \<Rightarrow> x | None \<Rightarrow> None)"

definition pertag_apply :: "config \<Rightarrow> monitor \<Rightarrow> u32 \<Rightarrow> monitor" where
  "pertag_apply c m tagmask =
     (if \<not> is_power_of_two tagmask then m
      else let tag_idx = trailing_zeros tagmask in
        case pin_of m tag_idx of
          Some idx \<Rightarrow> set_monitor_layout c m idx
        | None \<Rightarrow>
           (case pertag_rule_of c tag_idx of
             Some (Fixed idx) \<Rightarrow> set_monitor_layout c m idx
           | _ \<Rightarrow> m))"

definition pertag_reset :: "config \<Rightarrow> monitor \<Rightarrow> u32 \<Rightarrow> monitor" where
  "pertag_reset c m tagmask =
     (if \<not> is_power_of_two tagmask then m
      else let tag_idx = trailing_zeros tagmask in
        pertag_apply c
          (m\<lparr>tag_lt_override := update_at tag_idx (\<lambda>_. None) (tag_lt_override m)\<rparr>) tagmask)"

definition by_count_idx :: "nat list \<Rightarrow> nat \<Rightarrow> nat option" where
  "by_count_idx xs cnt = (if xs = [] then None
     else Some (case get_at xs (cnt - 1) of Some i \<Rightarrow> i | None \<Rightarrow> last xs))"

definition apply_dynamic :: "config \<Rightarrow> monitor \<Rightarrow> u32 \<Rightarrow> nat \<Rightarrow> monitor" where
  "apply_dynamic c m tagmask cnt =
     (if \<not> is_power_of_two tagmask then m
      else let tag_idx = trailing_zeros tagmask in
        if is_pinned m tag_idx then m
        else case pertag_rule_of c tag_idx of
          Some (ByCount xs) \<Rightarrow>
           (case by_count_idx xs cnt of
             Some idx \<Rightarrow> set_monitor_layout c m idx | None \<Rightarrow> m)
        | _ \<Rightarrow> m)"

section \<open>Layout and view changes\<close>

definition record_pin :: "monitor \<Rightarrow> monitor" where
  "record_pin m =
     (let tag = tags m in
      if is_power_of_two tag
      then m\<lparr>tag_lt_override := update_at (trailing_zeros tag)
                (\<lambda>_. Some (sel2 (lt m) (sel_lt m))) (tag_lt_override m)\<rparr>
      else m)"

definition set_layout :: "config \<Rightarrow> monitor \<Rightarrow> nat \<Rightarrow> monitor" where
  "set_layout c m idx =
     (if idx = USIZE_MAX then record_pin (m\<lparr>sel_lt := flip (sel_lt m)\<rparr>)
      else if idx < length (c_layouts c) \<and> sel2 (lt m) (sel_lt m) \<noteq> idx
      then let s = flip (sel_lt m) in record_pin (m\<lparr>sel_lt := s, lt := upd2 (lt m) s idx\<rparr>)
      else m)"

definition view :: "config \<Rightarrow> monitor \<Rightarrow> u32 \<Rightarrow> monitor" where
  "view c m tagmask =
     (let new_tags = tagmask AND tag_mask c in
      if new_tags = 0 \<or> new_tags = sel2 (tagset m) (sel_tags m) then m
      else let s = flip (sel_tags m) in
        pertag_apply c (m\<lparr>sel_tags := s, tagset := upd2 (tagset m) s new_tags\<rparr>) new_tags)"

definition toggle_view :: "config \<Rightarrow> monitor \<Rightarrow> u32 \<Rightarrow> monitor" where
  "toggle_view c m tagmask =
     (let new = (sel2 (tagset m) (sel_tags m) XOR tagmask) AND tag_mask c in
      if new \<noteq> 0
      then let s = flip (sel_tags m) in m\<lparr>sel_tags := s, tagset := upd2 (tagset m) s new\<rparr>
      else m)"

definition view_prev :: "config \<Rightarrow> monitor \<Rightarrow> monitor" where
  "view_prev c m =
     (let m' = m\<lparr>sel_tags := flip (sel_tags m)\<rparr>
      in pertag_apply c m' (sel2 (tagset m') (sel_tags m')))"

text \<open>
  \<open>rem_euclid\<close> by the positive tag count is \<open>mod\<close>; a count of zero leaves the
  range \<open>1..=count\<close> empty, so no division happens. The count is below \<open>2^31\<close>.
\<close>

definition occ_step :: "config \<Rightarrow> int \<Rightarrow> int \<Rightarrow> int \<Rightarrow> u32" where
  "occ_step c pos dir step =
     shl1 (nat (i32 (pos + dir * step) mod int (c_tag_count c)))"

definition next_occupied_tag :: "config \<Rightarrow> monitor \<Rightarrow> u32 \<Rightarrow> int \<Rightarrow> u32 option" where
  "next_occupied_tag c m occupied dir =
     (let current = sel2 (tagset m) (sel_tags m) in
      if current = 0 then None
      else let pos = int (31 - leading_zeros current) in
        map_option (\<lambda>step. occ_step c pos dir (int step))
          (List.find (\<lambda>step. occupied AND occ_step c pos dir (int step) \<noteq> 0)
             [1..<c_tag_count c + 1]))"

section \<open>The per-tag rules of the configuration file\<close>

text \<open>A Lua value, as far as the parser looks: a table here is its sequence part.\<close>

datatype lua_value = LNil | LString string | LInteger int | LTable "lua_value list" | LOther

definition resolve_layout :: "lua_value \<Rightarrow> layout_def list \<Rightarrow> nat \<Rightarrow> nat option" where
  "resolve_layout v layouts tile_idx = (case v of
     LString name \<Rightarrow>
       Some (case position (\<lambda>l. layout_kind_name (ld_kind l) = name) layouts of
               Some i \<Rightarrow> i | None \<Rightarrow> tile_idx)
   | LInteger n \<Rightarrow> if 0 \<le> n \<and> nat n < length layouts then Some (nat n) else None
   | _ \<Rightarrow> None)"

definition tile_index :: "layout_def list \<Rightarrow> nat" where
  "tile_index layouts =
     (case position (\<lambda>l. ld_kind l = default_layout_kind) layouts of Some i \<Rightarrow> i | None \<Rightarrow> 0)"

definition lua_parse_rule :: "layout_def list \<Rightarrow> nat \<Rightarrow> lua_value \<Rightarrow> pertag_rule" where
  "lua_parse_rule layouts tile_idx v = (case v of
     LTable xs \<Rightarrow>
       (let indices = List.map_filter (\<lambda>x. resolve_layout x layouts tile_idx) xs
        in if indices = [] then Fixed tile_idx else ByCount indices)
   | LString _ \<Rightarrow> Fixed (case resolve_layout v layouts tile_idx of Some i \<Rightarrow> i | None \<Rightarrow> tile_idx)
   | LInteger _ \<Rightarrow> Fixed (case resolve_layout v layouts tile_idx of Some i \<Rightarrow> i | None \<Rightarrow> tile_idx)
   | _ \<Rightarrow> Fixed tile_idx)"

text \<open>\<open>tbl\<close> is the table's \<open>pertag_layouts\<close> field, when it is a table, as a function of the key.\<close>

definition lua_parse ::
  "(nat \<Rightarrow> lua_value) option \<Rightarrow> layout_def list \<Rightarrow> nat \<Rightarrow> pertag_rule option list" where
  "lua_parse tbl layouts tag_count =
     (let tile_idx = tile_index layouts in
      case tbl of
        None \<Rightarrow> replicate tag_count (Some (Fixed tile_idx))
      | Some t \<Rightarrow> map (\<lambda>tag_num. Some (lua_parse_rule layouts tile_idx (t tag_num)))
                    [1..<tag_count + 1])"

section \<open>Reading and writing the slots\<close>

lemma flip_lt2: "i < 2 \<Longrightarrow> flip i = 1 - i"
  by (cases "i = 0") (auto simp: flip_def less_2_cases_iff)

lemma flip_lt [simp]: "i < 2 \<Longrightarrow> flip i < 2"
  by (simp add: flip_lt2)

lemma flip_flip [simp]: "flip (flip i) = i"
  by (simp add: flip_def xor.assoc)

lemma flip_neq [simp]: "flip i \<noteq> i" "i \<noteq> flip i"
proof -
  show "flip i \<noteq> i"
  proof
    assume "flip i = i"
    then have "bit (flip i) 0 = bit i 0" by simp
    then show False by (simp add: flip_def bit_xor_iff bit_Suc_0_iff)
  qed
  then show "i \<noteq> flip i" by metis
qed

lemma sel2_upd2 [simp]:
  "i < 2 \<Longrightarrow> j < 2 \<Longrightarrow> sel2 (upd2 p i x) j = (if i = j then x else sel2 p j)"
  by (cases p) auto

lemma sel2_upd2_flip [simp]:
  "i < 2 \<Longrightarrow> sel2 (upd2 p (flip i) x) i = sel2 p i"
  "i < 2 \<Longrightarrow> sel2 (upd2 p i x) (flip i) = sel2 p (flip i)"
  by simp_all

section \<open>Well-formed monitors\<close>

definition good_tags :: "config \<Rightarrow> u32 \<Rightarrow> bool" where
  "good_tags c t \<longleftrightarrow> t \<noteq> 0 \<and> t AND tag_mask c = t"

text \<open>
  \<open>wf_tags\<close> speaks of the view, \<open>wf_layout\<close> of the layout slots and pins.
\<close>

definition wf_tags :: "config \<Rightarrow> monitor \<Rightarrow> bool" where
  "wf_tags c m \<longleftrightarrow> sel_tags m < 2 \<and> (\<forall>i < 2. good_tags c (sel2 (tagset m) i))"

definition wf_layout :: "config \<Rightarrow> monitor \<Rightarrow> bool" where
  "wf_layout c m \<longleftrightarrow> sel_lt m < 2 \<and> (\<forall>i < 2. sel2 (lt m) i < length (c_layouts c)) \<and>
     length (tag_lt_override m) = c_tag_count c \<and>
     (\<forall>i. Some i \<in> set (tag_lt_override m) \<longrightarrow> i < length (c_layouts c))"

definition wf_monitor :: "config \<Rightarrow> monitor \<Rightarrow> bool" where
  "wf_monitor c m \<longleftrightarrow> wf_tags c m \<and> wf_layout c m"

definition config_ok :: "config \<Rightarrow> bool" where
  "config_ok c \<longleftrightarrow> tags_ok c \<and> c_layouts c \<noteq> []"

lemma good_tags_tags: "wf_tags c m \<Longrightarrow> good_tags c (tags m)"
  by (simp add: wf_tags_def tags_def)

lemma good_tags_mask: "t AND tag_mask c \<noteq> 0 \<Longrightarrow> good_tags c (t AND tag_mask c)"
  by (simp add: good_tags_def and.assoc)

lemma set_update_at: "x \<in> set (update_at i f xs) \<Longrightarrow> x \<in> set xs \<or> (i < length xs \<and> x = f (xs ! i))"
  by (auto simp: update_at_def dest: set_update_subset_insert [THEN subsetD] split: if_splits)

lemma set_monitor_layout_frame [frame_simps]:
  "tagset (set_monitor_layout c m i) = tagset m"
  "sel_tags (set_monitor_layout c m i) = sel_tags m"
  "tag_lt_override (set_monitor_layout c m i) = tag_lt_override m"
  by (simp_all add: set_monitor_layout_def Let_def)

lemma wf_set_monitor_layout: "wf_layout c m \<Longrightarrow> wf_layout c (set_monitor_layout c m i)"
  by (auto simp: wf_layout_def set_monitor_layout_def Let_def)

lemma layout_set_monitor_layout [mon_simps]:
  "wf_layout c m \<Longrightarrow> i < length (c_layouts c) \<Longrightarrow> layout_idx (set_monitor_layout c m i) = i"
  by (auto simp: wf_layout_def set_monitor_layout_def layout_idx_def Let_def)

lemma pertag_apply_cases:
  "pertag_apply c m t = m \<or> (\<exists>i. pertag_apply c m t = set_monitor_layout c m i)"
  by (simp add: pertag_apply_def Let_def split: option.splits pertag_rule.splits) blast?

lemma pertag_apply_frame [frame_simps]:
  "tagset (pertag_apply c m t) = tagset m"
  "sel_tags (pertag_apply c m t) = sel_tags m"
  "tag_lt_override (pertag_apply c m t) = tag_lt_override m"
  using pertag_apply_cases [of c m t] by (auto simp: frame_simps)

lemma wf_pertag_apply: "wf_layout c m \<Longrightarrow> wf_layout c (pertag_apply c m t)"
  using pertag_apply_cases [of c m t] by (auto simp: wf_set_monitor_layout)

lemma apply_dynamic_cases:
  "apply_dynamic c m t n = m \<or> (\<exists>i. apply_dynamic c m t n = set_monitor_layout c m i)"
  by (simp add: apply_dynamic_def Let_def split: option.splits pertag_rule.splits) blast?

lemma apply_dynamic_frame [frame_simps]:
  "tagset (apply_dynamic c m t n) = tagset m"
  "sel_tags (apply_dynamic c m t n) = sel_tags m"
  "tag_lt_override (apply_dynamic c m t n) = tag_lt_override m"
  using apply_dynamic_cases [of c m t n] by (auto simp: frame_simps)

lemma wf_apply_dynamic: "wf_layout c m \<Longrightarrow> wf_layout c (apply_dynamic c m t n)"
  using apply_dynamic_cases [of c m t n] by (auto simp: wf_set_monitor_layout)

lemma wf_tags_cong:
  "tagset m' = tagset m \<Longrightarrow> sel_tags m' = sel_tags m \<Longrightarrow> wf_tags c m' = wf_tags c m"
  by (simp add: wf_tags_def)

lemma wf_layout_cong:
  "lt m' = lt m \<Longrightarrow> sel_lt m' = sel_lt m \<Longrightarrow> tag_lt_override m' = tag_lt_override m \<Longrightarrow>
   wf_layout c m' = wf_layout c m"
  by (simp add: wf_layout_def)

lemma wf_tags_frame [simp]:
  "wf_tags c (pertag_apply c m t) = wf_tags c m"
  "wf_tags c (apply_dynamic c m t n) = wf_tags c m"
  "wf_tags c (m\<lparr>tag_lt_override := os\<rparr>) = wf_tags c m"
  "wf_tags c (m\<lparr>lt := p, sel_lt := i\<rparr>) = wf_tags c m"
  by (rule wf_tags_cong; simp add: frame_simps)+

lemma wf_layout_frame [simp]:
  "wf_layout c (m\<lparr>sel_tags := i\<rparr>) = wf_layout c m"
  "wf_layout c (m\<lparr>tagset := p\<rparr>) = wf_layout c m"
  "wf_layout c (m\<lparr>sel_tags := i, tagset := p\<rparr>) = wf_layout c m"
  by (rule wf_layout_cong; simp)+

lemma min_last [simp]: "xs \<noteq> [] \<Longrightarrow> min x (length xs - Suc 0) < length xs"
  by (cases xs) auto

section \<open>Every operation preserves well-formedness\<close>

lemma wf_layout_flip:
  assumes "wf_layout c m" "i < length (c_layouts c)"
  shows "wf_layout c (m\<lparr>sel_lt := flip (sel_lt m)\<rparr>)"
    "wf_layout c (m\<lparr>sel_lt := flip (sel_lt m), lt := upd2 (lt m) (flip (sel_lt m)) i\<rparr>)"
  using assms by (auto simp: wf_layout_def)

lemma wf_layout_override:
  assumes "wf_layout c m" "\<And>i. f = (\<lambda>_. Some i) \<Longrightarrow> i < length (c_layouts c)"
    "f = (\<lambda>_. None) \<or> (\<exists>i. f = (\<lambda>_. Some i))"
  shows "wf_layout c (m\<lparr>tag_lt_override := update_at k f (tag_lt_override m)\<rparr>)"
  using assms by (auto simp: wf_layout_def dest!: set_update_at)

lemma wf_layout_idx: "wf_layout c m \<Longrightarrow> sel2 (lt m) (sel_lt m) < length (c_layouts c)"
  by (simp add: wf_layout_def)

lemma record_pin_frame [frame_simps]:
  "tagset (record_pin m) = tagset m" "sel_tags (record_pin m) = sel_tags m"
  "lt (record_pin m) = lt m" "sel_lt (record_pin m) = sel_lt m"
  by (simp_all add: record_pin_def Let_def)

lemma set_layout_frame [frame_simps]:
  "tagset (set_layout c m i) = tagset m" "sel_tags (set_layout c m i) = sel_tags m"
  by (simp_all add: set_layout_def Let_def frame_simps)

lemma wf_record_pin: "wf_layout c m \<Longrightarrow> wf_layout c (record_pin m)"
  by (auto simp: record_pin_def Let_def wf_layout_idx dest: fun_cong intro!: wf_layout_override)

lemma wf_set_layout:
  assumes "wf_layout c m"
  shows "wf_layout c (set_layout c m i)"
proof -
  have "wf_layout c (m\<lparr>sel_lt := flip (sel_lt m)\<rparr>)"
    using assms wf_layout_flip(1) wf_layout_idx by blast
  with assms show ?thesis
    by (auto simp: set_layout_def Let_def intro!: wf_record_pin wf_layout_flip(2))
qed

lemma wf_new: "config_ok c \<Longrightarrow> wf_monitor c (monitor_new c out)"
proof -
  assume ok: "config_ok c"
  then have "bit (tag_mask c) 0" by (simp add: config_ok_def bit_tag_mask tags_ok_def)
  then have "good_tags c 1"
    by (auto simp: good_tags_def bit_and_iff bit_1_iff intro!: bit_word_eqI)
  moreover have "min x (length (c_layouts c) - Suc 0) < length (c_layouts c)" for x
    using ok by (cases "c_layouts c") (auto simp: config_ok_def)
  ultimately show ?thesis using ok
    by (auto simp: wf_monitor_def wf_tags_def wf_layout_def monitor_new_def Let_def config_ok_def)
qed

lemma length_zip_restore [simp]: "length (zip_restore f vs ss) = length vs"
  by (induction f vs ss rule: zip_restore.induct) auto

lemma set_zip_restore:
  "Some i \<in> set (zip_restore f (replicate n None) ss) \<Longrightarrow> \<exists>j. i = f j"
proof (induction ss arbitrary: n)
  case (Cons s ss)
  then show ?case by (cases n; cases s) auto
qed (cases n; simp)

lemma wf_restore:
  assumes "config_ok c"
  shows "wf_layout c (restore c m mem)"
proof -
  have "mem_sel_lt mem AND 1 < 2" by (simp add: and_one_eq)
  with assms show ?thesis
    by (auto simp: wf_layout_def restore_def Let_def config_ok_def less_2_cases_iff dest!: set_zip_restore)
qed

lemma restore_frame [frame_simps]:
  "tagset (restore c m mem) = tagset m" "sel_tags (restore c m mem) = sel_tags m"
  by (simp_all add: restore_def Let_def)

lemma wf_tags_switch:
  assumes "wf_tags c m" "good_tags c t"
  shows "wf_tags c (m\<lparr>sel_tags := flip (sel_tags m), tagset := upd2 (tagset m) (flip (sel_tags m)) t\<rparr>)"
    "wf_tags c (m\<lparr>sel_tags := flip (sel_tags m)\<rparr>)"
  using assms by (auto simp: wf_tags_def)

lemma wf_apply: "wf_monitor c m \<Longrightarrow> wf_monitor c (pertag_apply c m t)"
  by (simp add: wf_monitor_def wf_pertag_apply)

lemma wf_view: "wf_monitor c m \<Longrightarrow> wf_monitor c (view c m t)"
  by (simp add: wf_monitor_def view_def Let_def wf_tags_switch good_tags_mask wf_pertag_apply)

lemma wf_toggle_view: "wf_monitor c m \<Longrightarrow> wf_monitor c (toggle_view c m t)"
  by (simp add: wf_monitor_def toggle_view_def Let_def wf_tags_switch good_tags_mask)

lemma wf_view_prev: "wf_monitor c m \<Longrightarrow> wf_monitor c (view_prev c m)"
  using wf_tags_switch(2) [of c m "tags m"]
  by (simp add: wf_monitor_def view_prev_def Let_def good_tags_tags wf_pertag_apply)

lemma wf_reset: "wf_monitor c m \<Longrightarrow> wf_monitor c (pertag_reset c m t)"
  by (auto simp: pertag_reset_def Let_def wf_monitor_def
      intro!: wf_pertag_apply wf_layout_override dest: fun_cong)

section \<open>Runs of a monitor\<close>

text \<open>What the compositor does to a monitor, one operation at a time.\<close>

inductive view_step :: "config \<Rightarrow> monitor \<Rightarrow> monitor \<Rightarrow> bool" for c where
  vs_view: "view_step c m (view c m t)"
| vs_toggle_view: "view_step c m (toggle_view c m t)"
| vs_view_prev: "view_step c m (view_prev c m)"
| vs_apply: "view_step c m (pertag_apply c m t)"
| vs_dynamic: "view_step c m (apply_dynamic c m t n)"
| vs_fields: "view_step c m (m\<lparr>mfact := f, nmaster := k, m_area := r, w_area := w,
    asleep := a, col_facts := fs, scroll_col := sc\<rparr>)"

inductive mon_step :: "config \<Rightarrow> monitor \<Rightarrow> monitor \<Rightarrow> bool" for c where
  ms_view: "view_step c m m' \<Longrightarrow> mon_step c m m'"
| ms_set_layout: "mon_step c m (set_layout c m i)"
| ms_reset: "mon_step c m (pertag_reset c m t)"
| ms_restore: "mon_step c m (restore c m mem)"

inductive_simps mon_step_simps: "mon_step c m m'"
inductive_cases view_stepE: "view_step c m m'"

lemma view_frame [frame_simps]: "tag_lt_override (view c m t) = tag_lt_override m"
  by (simp add: view_def Let_def frame_simps)

lemma toggle_view_frame [frame_simps]:
  "tag_lt_override (toggle_view c m t) = tag_lt_override m"
  "lt (toggle_view c m t) = lt m" "sel_lt (toggle_view c m t) = sel_lt m"
  by (simp_all add: toggle_view_def Let_def)

lemma view_prev_frame [frame_simps]: "tag_lt_override (view_prev c m) = tag_lt_override m"
  by (simp add: view_prev_def Let_def frame_simps)

lemma view_step_pins: "view_step c m m' \<Longrightarrow> tag_lt_override m' = tag_lt_override m"
  by (erule view_stepE) (simp_all add: frame_simps)

lemma wf_fields:
  "wf_monitor c (m\<lparr>mfact := f, nmaster := k, m_area := r, w_area := w,
    asleep := a, col_facts := fs, scroll_col := sc\<rparr>) = wf_monitor c m"
  by (simp add: wf_monitor_def wf_tags_def wf_layout_def)

lemma wf_view_step: "view_step c m m' \<Longrightarrow> wf_monitor c m \<Longrightarrow> wf_monitor c m'"
  by (erule view_stepE)
    (simp_all add: wf_view wf_toggle_view wf_view_prev wf_apply wf_fields,
     simp add: wf_monitor_def wf_apply_dynamic)

lemma wf_mon_step:
  assumes "config_ok c" "mon_step c m m'" "wf_monitor c m"
  shows "wf_monitor c m'"
proof -
  have "wf_monitor c (set_layout c m i)" "wf_monitor c (restore c m mem)" for i mem
    using assms(1,3) wf_tags_cong [of "set_layout c m i" m c] wf_tags_cong [of "restore c m mem" m c]
    by (simp_all add: wf_monitor_def wf_set_layout wf_restore frame_simps)
  with assms show ?thesis by (auto simp: mon_step_simps wf_view_step wf_reset)
qed

lemma view_steps_keep:
  "(view_step c)\<^sup>*\<^sup>* m m' \<Longrightarrow> wf_monitor c m \<Longrightarrow>
   wf_monitor c m' \<and> tag_lt_override m' = tag_lt_override m"
  by (induction rule: rtranclp_induct) (auto simp: wf_view_step view_step_pins)

text \<open>C12: whatever sequence of operations the compositor applies to a monitor it
  has just created, both tag sets stay non-empty subsets of the tag mask, the
  selectors stay 0 or 1 and every layout index, pins included, stays in range.\<close>

theorem monitor_always_wf:
  assumes "config_ok c" "(mon_step c)\<^sup>*\<^sup>* (monitor_new c out) m"
  shows "wf_monitor c m"
  using assms(2) by (induction rule: rtranclp_induct) (auto simp: assms(1) wf_new wf_mon_step)

section \<open>The view\<close>

lemma tags_view [mon_simps]:
  "wf_tags c m \<Longrightarrow> t AND tag_mask c \<noteq> 0 \<Longrightarrow> tags (view c m t) = t AND tag_mask c"
  by (auto simp: view_def tags_def Let_def frame_simps wf_tags_def)

lemma tags_view_prev: "tags (view_prev c m) = sel2 (tagset m) (flip (sel_tags m))"
  by (simp add: view_prev_def tags_def Let_def frame_simps)

text \<open>A view change can be undone: after \<open>view\<close> has switched to new tags,
  \<open>view_prev\<close> shows the old ones and a second \<open>view_prev\<close> the new ones again.\<close>

lemma view_prev_undoes_view:
  assumes "wf_monitor c m" "t AND tag_mask c \<noteq> 0" "t AND tag_mask c \<noteq> tags m"
  shows "tags (view c m t) = t AND tag_mask c \<and>
    tags (view_prev c (view c m t)) = tags m \<and>
    tags (view_prev c (view_prev c (view c m t))) = t AND tag_mask c"
proof -
  from assms have s: "sel_tags m < 2" by (simp add: wf_monitor_def wf_tags_def)
  from assms have "tagset (view c m t) = upd2 (tagset m) (flip (sel_tags m)) (t AND tag_mask c)"
    "sel_tags (view c m t) = flip (sel_tags m)"
    by (simp_all add: view_def tags_def Let_def frame_simps)
  with s show ?thesis
    by (simp add: tags_def view_prev_def Let_def frame_simps)
qed

section \<open>Pins\<close>

lemma single_tag_in_range:
  assumes "tags_ok c" "good_tags c t" "is_power_of_two t"
  shows "trailing_zeros t < c_tag_count c"
proof -
  have "bit t (trailing_zeros t)"
    using trailing_zeros_spec(2) [OF is_power_of_two_nonzero [OF assms(3)]] .
  moreover have "t AND tag_mask c = t" using assms(2) by (simp add: good_tags_def)
  ultimately have "bit (tag_mask c) (trailing_zeros t)" by (metis bit_and_iff)
  with assms(1) show ?thesis by (simp add: bit_tag_mask)
qed

lemma pin_of_record_pin:
  assumes "is_power_of_two (tags m)" "trailing_zeros (tags m) < length (tag_lt_override m)"
  shows "pin_of (record_pin m) (trailing_zeros (tags m)) = Some (layout_idx m)"
  using assms by (simp add: record_pin_def Let_def pin_of_def get_at_def update_at_def layout_idx_def)

lemma pin_of_set_layout:
  assumes "wf_monitor c m" "tags_ok c" "is_power_of_two (tags m)"
    "i = USIZE_MAX \<or> (i < length (c_layouts c) \<and> i \<noteq> layout_idx m)"
  shows "pin_of (set_layout c m i) (trailing_zeros (tags m)) = Some (layout_idx (set_layout c m i))"
proof -
  have len: "trailing_zeros (tags m) < length (tag_lt_override m)"
    using assms single_tag_in_range [OF assms(2) _ assms(3)]
    by (auto simp: wf_monitor_def wf_layout_def good_tags_tags)
  have *: "pin_of (record_pin m') (trailing_zeros (tags m)) = Some (layout_idx (record_pin m'))"
    if "tags m' = tags m" "tag_lt_override m' = tag_lt_override m" for m'
    using pin_of_record_pin [of m'] that assms(3) len by (simp add: layout_idx_def frame_simps)
  show ?thesis using assms(4)
    by (auto simp: set_layout_def Let_def layout_idx_def [of m] intro!: *) (simp_all add: tags_def)
qed

lemma view_single_pinned:
  assumes "wf_monitor c m" "good_tags c t" "is_power_of_two t" "tags m \<noteq> t"
    "pin_of m (trailing_zeros t) = Some i" "i < length (c_layouts c)"
  shows "layout_idx (view c m t) = i"
proof -
  let ?m = "m\<lparr>sel_tags := flip (sel_tags m), tagset := upd2 (tagset m) (flip (sel_tags m)) t\<rparr>"
  have "view c m t = pertag_apply c ?m t"
    using assms(2) not_sym [OF assms(4)] by (simp add: view_def Let_def good_tags_def tags_def)
  also have "\<dots> = set_monitor_layout c ?m i"
    using assms(3,5) by (simp add: pertag_apply_def pin_of_def)
  finally show ?thesis using assms(1,6)
    by (simp add: layout_set_monitor_layout wf_monitor_def)
qed

lemma pin_in_range:
  "wf_layout c m \<Longrightarrow> pin_of m k = Some i \<Longrightarrow> i < length (c_layouts c)"
  by (auto simp: wf_layout_def pin_of_def in_set_conv_nth split: option.splits)

text \<open>A layout the user selects while a single tag is shown is pinned to that
  tag: after any sequence of view changes, count-based switches and changes of
  the other fields that leaves the tag, viewing the tag again brings the layout
  back.\<close>

theorem manual_layout_survives:
  assumes "config_ok c" "wf_monitor c m" "is_power_of_two (tags m)"
    "i = USIZE_MAX \<or> (i < length (c_layouts c) \<and> i \<noteq> layout_idx m)"
    "(view_step c)\<^sup>*\<^sup>* (set_layout c m i) m'" "tags m' \<noteq> tags m"
  shows "tags (view c m' (tags m)) = tags m \<and>
    layout_idx (view c m' (tags m)) = layout_idx (set_layout c m i)"
proof -
  have good: "good_tags c (tags m)" using assms(2) by (simp add: wf_monitor_def good_tags_tags)
  have "wf_monitor c (set_layout c m i)"
    using wf_mon_step [OF assms(1) ms_set_layout assms(2)] .
  with view_steps_keep [OF assms(5)]
  have k: "wf_monitor c m'" "tag_lt_override m' = tag_lt_override (set_layout c m i)" by auto
  then have pin: "pin_of m' (trailing_zeros (tags m)) = Some (layout_idx (set_layout c m i))"
    using pin_of_set_layout [OF assms(2) _ assms(3,4)] assms(1)
    by (simp add: pin_of_def config_ok_def)
  with k(1) have "layout_idx (set_layout c m i) < length (c_layouts c)"
    by (auto simp: wf_monitor_def dest: pin_in_range)
  with view_single_pinned [OF k(1) good assms(3,6) pin] k(1) good show ?thesis
    by (simp add: tags_view wf_monitor_def good_tags_def)
qed

lemma default_config_ok: "config_ok (default_config ks bs)"
  by (simp add: config_ok_def tags_ok_def default_config_def default_layouts_def)

section \<open>Unplugging and plugging back\<close>

lemma zip_restore_id:
  "length vs = length ss \<Longrightarrow> \<forall>i. Some i \<in> set ss \<longrightarrow> f i = i \<Longrightarrow> zip_restore f vs ss = ss"
proof (induction f vs ss rule: zip_restore.induct)
  case (1 f v vs s ss)
  then show ?case by (cases s) auto
qed auto

text \<open>A monitor's layout state survives an unplug: restoring the snapshot taken
  at removal into any fresh monitor gives back its master factor, master count,
  both layout slots, the selector and every per-tag pin, and changes nothing else.\<close>

lemma restore_snapshot:
  assumes "wf_layout c m"
  shows "restore c m0 (snapshot m) =
    m0\<lparr>mfact := mfact m, nmaster := nmaster m, lt := lt m, sel_lt := sel_lt m,
       tag_lt_override := tag_lt_override m\<rparr>"
proof -
  from assms have "sel2 (lt m) 0 < length (c_layouts c)" "sel2 (lt m) 1 < length (c_layouts c)"
    by (simp_all add: wf_layout_def)
  then have "fst (lt m) < length (c_layouts c)" "snd (lt m) < length (c_layouts c)"
    by (cases "lt m"; simp)+
  moreover from assms have "sel_lt m AND 1 = sel_lt m"
    by (auto simp: wf_layout_def and_one_eq)
  moreover from assms have
    "zip_restore (\<lambda>i. min i (length (c_layouts c) - 1)) (replicate (c_tag_count c) None)
       (tag_lt_override m) = tag_lt_override m"
    by (intro zip_restore_id) (auto simp: wf_layout_def)
  ultimately show ?thesis by (simp add: restore_def snapshot_def Let_def min_absorb1)
qed

section \<open>The next occupied tag\<close>

text \<open>The position the search starts from: the highest shown tag.\<close>

definition top_tag :: "monitor \<Rightarrow> int" where
  "top_tag m = int (31 - leading_zeros (tags m))"

text \<open>The tag looked at in step \<open>k\<close> of the search.\<close>

definition searched :: "config \<Rightarrow> monitor \<Rightarrow> int \<Rightarrow> nat \<Rightarrow> u32" where
  "searched c m dir k = shl1 (nat ((top_tag m + dir * int k) mod int (c_tag_count c)))"

lemma find_upt_iff:
  "List.find P [1..<Suc n] = Some k \<longleftrightarrow> 1 \<le> k \<and> k \<le> n \<and> P k \<and> (\<forall>j. 1 \<le> j \<and> j < k \<longrightarrow> \<not> P j)"
proof -
  have "List.find P [1..<Suc n] = Some k \<longleftrightarrow>
      (\<exists>i < n. P (Suc i) \<and> k = Suc i \<and> (\<forall>j < i. \<not> P (Suc j)))"
    by (auto simp: find_Some_iff simp del: upt_Suc)
  also have "\<dots> \<longleftrightarrow> 1 \<le> k \<and> k \<le> n \<and> P k \<and> (\<forall>j. 1 \<le> j \<and> j < k \<longrightarrow> \<not> P j)"
    by (cases k) (auto simp: less_Suc_eq_0_disj Suc_le_eq elim: lessE)
  finally show ?thesis .
qed

lemma cyclic_reach:
  assumes "i < n" "dir = 1 \<or> dir = - 1"
  shows "\<exists>k. 1 \<le> k \<and> k \<le> n \<and> nat ((pos + dir * int k) mod int n) = i"
proof -
  let ?x = "dir * (int i - pos) - 1"
  let ?k = "nat (?x mod int n) + 1"
  from assms(1) have n: "0 < int n" by simp
  have k: "int ?k = ?x mod int n + 1" using n by simp
  obtain q where q: "int ?k = ?x + 1 - int n * q"
    using k minus_mult_div_eq_mod [of ?x "int n"] by (metis diff_add_eq)
  have "pos + dir * int ?k = pos + dir * (?x + 1) + int n * (- (dir * q))"
    unfolding q by (simp add: algebra_simps)
  then have "(pos + dir * int ?k) mod int n = (pos + dir * (?x + 1)) mod int n"
    by (simp only: mod_mult_self2)
  also have "pos + dir * (?x + 1) = int i" using assms(2) by auto
  also have "int i mod int n = int i" using assms(1) by simp
  finally have "nat ((pos + dir * int ?k) mod int n) = i" by simp
  moreover have "?k \<le> n" using k pos_mod_bound [OF n, of ?x] by linarith
  ultimately show ?thesis by (intro exI [of _ ?k]) simp
qed

lemma bit_searched:
  assumes "tags_ok c"
  shows "bit (searched c m dir k) i \<longleftrightarrow> i = nat ((top_tag m + dir * int k) mod int (c_tag_count c))"
proof -
  let ?x = "(top_tag m + dir * int k) mod int (c_tag_count c)"
  have "0 < int (c_tag_count c)" "int (c_tag_count c) < 32" using assms by (auto simp: tags_ok_def)
  then have "?x < 32" using pos_mod_bound [of "int (c_tag_count c)"] by (metis order.strict_trans)
  then have "nat ?x < 32" by simp
  then show ?thesis by (simp add: searched_def bit_shl1)
qed

lemma searched_none_iff:
  assumes "tags_ok c" "dir = 1 \<or> dir = - 1"
  shows "(\<forall>k. 1 \<le> k \<and> k \<le> c_tag_count c \<longrightarrow> occ AND searched c m dir k = 0) \<longleftrightarrow>
    occ AND tag_mask c = 0" (is "?l \<longleftrightarrow> ?r")
proof
  assume l: ?l
  have "\<not> (bit occ i \<and> bit (tag_mask c) i)" for i
  proof (cases "i < c_tag_count c")
    case True
    from cyclic_reach [OF this assms(2), of "top_tag m"] obtain k where
      "1 \<le> k" "k \<le> c_tag_count c" "nat ((top_tag m + dir * int k) mod int (c_tag_count c)) = i"
      by blast
    then have "bit (searched c m dir k) i" "occ AND searched c m dir k = 0"
      using l assms(1) by (simp_all add: bit_searched)
    then show ?thesis by (metis bit_and_iff bit_0_eq bot_apply bot_bool_def)
  qed (use assms(1) in \<open>simp add: bit_tag_mask\<close>)
  then show ?r by (intro bit_word_eqI) (simp add: bit_and_iff)
next
  assume r: ?r
  have "searched c m dir k AND tag_mask c = searched c m dir k" for k
  proof (rule bit_word_eqI)
    fix i
    have "0 < int (c_tag_count c)" using assms(1) by (simp add: tags_ok_def)
    then show "bit (searched c m dir k AND tag_mask c) i = bit (searched c m dir k) i"
      using assms(1) by (auto simp: bit_and_iff bit_searched bit_tag_mask nat_less_iff)
  qed
  then have "occ AND searched c m dir k = (occ AND tag_mask c) AND searched c m dir k" for k
    by (metis and.assoc and.commute)
  with r show ?l by simp
qed

lemma next_occupied_tag_find:
  assumes "tags_ok c" "tags m \<noteq> 0" "dir = 1 \<or> dir = - 1"
  shows "next_occupied_tag c m occ dir = map_option (searched c m dir)
    (List.find (\<lambda>k. occ AND searched c m dir k \<noteq> 0) [1..<Suc (c_tag_count c)])"
proof -
  have step: "occ_step c (top_tag m) dir (int k) = searched c m dir k"
    if "k \<in> set [1..<Suc (c_tag_count c)]" for k
  proof -
    have "0 \<le> top_tag m" "top_tag m < 32" by (simp_all add: top_tag_def)
    with that assms(1,3) have "i32 (top_tag m + dir * int k) = top_tag m + dir * int k"
      by (intro i32_id) (auto simp: tags_ok_def)
    then show ?thesis by (simp add: occ_step_def searched_def)
  qed
  have "next_occupied_tag c m occ dir = map_option (\<lambda>k. occ_step c (top_tag m) dir (int k))
      (List.find (\<lambda>k. occ AND occ_step c (top_tag m) dir (int k) \<noteq> 0) [1..<Suc (c_tag_count c)])"
    using assms(2) by (simp add: next_occupied_tag_def tags_def top_tag_def Let_def del: upt_Suc)
  also have "\<dots> = map_option (\<lambda>k. occ_step c (top_tag m) dir (int k))
      (List.find (\<lambda>k. occ AND searched c m dir k \<noteq> 0) [1..<Suc (c_tag_count c)])"
    by (intro arg_cong [where f = "map_option _"] find_cong) (auto simp: step simp del: upt_Suc)
  also have "\<dots> = map_option (searched c m dir)
      (List.find (\<lambda>k. occ AND searched c m dir k \<noteq> 0) [1..<Suc (c_tag_count c)])"
    by (intro map_option_cong) (auto simp: step simp del: upt_Suc dest!: find_SomeD)
  finally show ?thesis .
qed

text \<open>\<open>next_occupied_tag\<close> finds a tag exactly when some tag is occupied. The tag
  it returns is occupied and is the first occupied one, starting one place after (or
  before) the highest tag shown and wrapping around the tag count.\<close>

theorem next_occupied_tag_correct:
  assumes "tags_ok c" "wf_tags c m" "dir = 1 \<or> dir = - 1"
  shows "(next_occupied_tag c m occ dir = None \<longleftrightarrow> occ AND tag_mask c = 0) \<and>
    (\<forall>r. next_occupied_tag c m occ dir = Some r \<longrightarrow>
      (\<exists>k. 1 \<le> k \<and> k \<le> c_tag_count c \<and> r = searched c m dir k \<and> occ AND r \<noteq> 0 \<and>
         (\<forall>j. 1 \<le> j \<and> j < k \<longrightarrow> occ AND searched c m dir j = 0)))"
proof -
  have "tags m \<noteq> 0" using good_tags_tags [OF assms(2)] by (simp add: good_tags_def)
  note eq = next_occupied_tag_find [OF assms(1) this assms(3), of occ]
  have "next_occupied_tag c m occ dir = None \<longleftrightarrow> occ AND tag_mask c = 0"
    unfolding eq searched_none_iff [OF assms(1,3), where m = m, symmetric]
    by (auto simp: find_None_iff less_Suc_eq_le simp del: upt_Suc)
  then show ?thesis
    unfolding eq by (auto simp: find_upt_iff simp del: upt_Suc One_nat_def)
qed

section \<open>Count-based layouts\<close>

lemma resolve_layout_range:
  "resolve_layout v ls ti = Some i \<Longrightarrow> ti < length ls \<Longrightarrow> i < length ls"
  by (auto simp: resolve_layout_def split: lua_value.splits option.splits if_splits
      dest: position_Some)

lemma tile_index_range: "ls \<noteq> [] \<Longrightarrow> tile_index ls < length ls"
  by (auto simp: tile_index_def split: option.splits dest: position_Some)

definition indices_of :: "layout_def list \<Rightarrow> lua_value list \<Rightarrow> nat list" where
  "indices_of ls xs = List.map_filter (\<lambda>x. resolve_layout x ls (tile_index ls)) xs"

lemma indices_of_range:
  "ls \<noteq> [] \<Longrightarrow> i \<in> set (indices_of ls xs) \<Longrightarrow> i < length ls"
  by (auto simp: indices_of_def List.map_filter_def intro: resolve_layout_range tile_index_range)

lemma pertag_rule_of_parsed:
  assumes "c_pertag_layouts c = lua_parse (Some tbl) ls n" "k < n"
  shows "pertag_rule_of c k = Some (lua_parse_rule ls (tile_index ls) (tbl (Suc k)))"
  using assms by (simp add: pertag_rule_of_def lua_parse_def get_at_def Let_def del: upt_Suc)

lemma min_lt_length: "xs \<noteq> [] \<Longrightarrow> min k (length xs - 1) < length xs"
  by (cases xs) auto

lemma by_count_idx_eq:
  "xs \<noteq> [] \<Longrightarrow> by_count_idx xs n = Some (xs ! min (n - 1) (length xs - 1))"
  by (auto simp: by_count_idx_def get_at_def last_conv_nth min_def split: option.splits)

text \<open>A tag given a list of layouts in the configuration shows, unless the user has
  pinned a layout on it, the entry for its number of tiled windows: entry \<open>n\<close> for \<open>n\<close>
  windows, the first for none, the last for every count past the list. The entries
  are the list's valid ones, unknown names read as the tile layout.\<close>

theorem count_rule_selects_layout:
  assumes "wf_monitor c m" "config_ok c" "good_tags c t" "is_power_of_two t"
    "pin_of m (trailing_zeros t) = None"
    "c_pertag_layouts c = lua_parse (Some tbl) (c_layouts c) (c_tag_count c)"
    "tbl (Suc (trailing_zeros t)) = LTable xs"
    "indices_of (c_layouts c) xs \<noteq> []"
  shows "layout_idx (apply_dynamic c m t n) =
    indices_of (c_layouts c) xs ! min (n - 1) (length (indices_of (c_layouts c) xs) - 1)"
proof -
  let ?is = "indices_of (c_layouts c) xs"
  have "trailing_zeros t < c_tag_count c"
    using assms(2,3,4) by (intro single_tag_in_range) (auto simp: config_ok_def)
  then have "pertag_rule_of c (trailing_zeros t) = Some (ByCount ?is)"
    using assms(6,7,8)
    by (simp add: pertag_rule_of_parsed lua_parse_rule_def indices_of_def Let_def)
  moreover have "?is ! min (n - 1) (length ?is - 1) < length (c_layouts c)"
    using assms(2,8) min_lt_length [OF assms(8)] by (intro indices_of_range [where xs = xs] nth_mem) (auto simp: config_ok_def)
  ultimately show ?thesis using assms(1,4,5,8)
    by (simp add: apply_dynamic_def is_pinned_def by_count_idx_eq layout_set_monitor_layout
        wf_monitor_def)
qed

section \<open>The properties on the default configuration\<close>

abbreviation conf0 :: config where
  "conf0 \<equiv> default_config [] []"

abbreviation mon0 :: monitor where
  "mon0 \<equiv> monitor_new conf0 \<lparr>out_id = 0, out_name = ''DP-1''\<rparr>"

lemma wf_mon0: "wf_monitor conf0 mon0"
  by (simp add: wf_new default_config_ok)

lemma monitor_always_wf_witness: "wf_monitor conf0 (view conf0 (set_layout conf0 mon0 2) 4)"
proof (rule monitor_always_wf [OF default_config_ok])
  have "mon_step conf0 mon0 (set_layout conf0 mon0 2)" by (rule ms_set_layout)
  moreover have "mon_step conf0 (set_layout conf0 mon0 2) (view conf0 (set_layout conf0 mon0 2) 4)"
    by (intro ms_view vs_view)
  ultimately show "(mon_step conf0)\<^sup>*\<^sup>* mon0 (view conf0 (set_layout conf0 mon0 2) 4)" by simp
qed

lemma view_prev_undoes_view_witness:
  "tags (view conf0 mon0 4) = 4 \<and> tags (view_prev conf0 (view conf0 mon0 4)) = 1"
proof -
  have "4 AND tag_mask conf0 = 4" "tags mon0 = 1" by code_simp+
  with view_prev_undoes_view [OF wf_mon0, of 4] show ?thesis by simp
qed

lemma manual_layout_survives_witness:
  "layout_idx (view conf0 (view conf0 (set_layout conf0 mon0 2) 4) 1) = 2"
proof -
  have t: "tags mon0 = 1" "is_power_of_two (tags mon0)" "layout_idx (set_layout conf0 mon0 2) = 2"
    "2 < length (c_layouts conf0) \<and> 2 \<noteq> layout_idx mon0"
    "tags (view conf0 (set_layout conf0 mon0 2) 4) \<noteq> tags mon0" by code_simp+
  have "(view_step conf0)\<^sup>*\<^sup>* (set_layout conf0 mon0 2) (view conf0 (set_layout conf0 mon0 2) 4)"
    by (intro r_into_rtranclp vs_view)
  from manual_layout_survives [OF default_config_ok wf_mon0 t(2) disjI2 [OF t(4)] this t(5)] t
  show ?thesis by simp
qed

lemma restore_snapshot_witness:
  "restore conf0 mon0 (snapshot (set_layout conf0 mon0 2)) =
   mon0\<lparr>mfact := mfact (set_layout conf0 mon0 2), nmaster := nmaster (set_layout conf0 mon0 2),
     lt := (0, 2), sel_lt := 1, tag_lt_override := Some 2 # replicate 8 None\<rparr>"
proof -
  have "wf_layout conf0 (set_layout conf0 mon0 2)"
    using wf_mon0 by (simp add: wf_monitor_def wf_set_layout)
  note restore_snapshot [OF this, of mon0]
  moreover have "lt (set_layout conf0 mon0 2) = (0, 2)" "sel_lt (set_layout conf0 mon0 2) = 1"
    "tag_lt_override (set_layout conf0 mon0 2) = Some 2 # replicate 8 None" by code_simp+
  ultimately show ?thesis by simp
qed

lemma next_occupied_tag_witness:
  "next_occupied_tag conf0 mon0 0 1 = None \<and> next_occupied_tag conf0 mon0 6 1 = Some 2"
proof -
  have "tags_ok conf0" "wf_tags conf0 mon0"
    using default_config_ok wf_mon0 by (simp_all add: config_ok_def wf_monitor_def)
  from next_occupied_tag_correct [OF this, of 1 0] have "next_occupied_tag conf0 mon0 0 1 = None"
    by simp
  moreover have "next_occupied_tag conf0 mon0 6 1 = Some 2" by code_simp
  ultimately show ?thesis by simp
qed

definition count_conf :: config where
  "count_conf = conf0\<lparr>c_pertag_layouts :=
     lua_parse (Some (\<lambda>k. if k = 1 then LTable [LString ''monocle'', LInteger 2] else LNil))
       default_layouts 9\<rparr>"

lemma count_rule_selects_layout_witness:
  "layout_idx (apply_dynamic count_conf mon0 1 5) = 2"
proof -
  have ok: "config_ok count_conf" "wf_monitor count_conf mon0"
    "c_layouts count_conf = default_layouts" "c_tag_count count_conf = 9"
    "c_pertag_layouts count_conf = lua_parse
       (Some (\<lambda>k. if k = 1 then LTable [LString ''monocle'', LInteger 2] else LNil)) default_layouts 9"
    using default_config_ok [of "[]" "[]"] wf_mon0
    by (simp_all add: count_conf_def config_ok_def tags_ok_def wf_monitor_def wf_tags_def
        wf_layout_def good_tags_def tag_mask_def, simp_all add: default_config_def)
  have t: "good_tags count_conf 1" "is_power_of_two 1" "pin_of mon0 (trailing_zeros 1) = None"
    "trailing_zeros 1 = 0"
    "indices_of default_layouts [LString ''monocle'', LInteger 2] = [1, 2]" by code_simp+
  have "layout_idx (apply_dynamic count_conf mon0 1 5) =
      indices_of (c_layouts count_conf) [LString ''monocle'', LInteger 2] !
        min (5 - 1) (length (indices_of (c_layouts count_conf) [LString ''monocle'', LInteger 2]) - 1)"
    using ok t by (intro count_rule_selects_layout
      [where tbl = "\<lambda>k. if k = 1 then LTable [LString ''monocle'', LInteger 2] else LNil"]) simp_all
  then show ?thesis by (simp add: ok t)
qed

end
