(* ===== verification/Window.thy ===== *)
theory Window
  imports Monitor
begin

text \<open>
  Per-window metadata (\<^verbatim>\<open>src/window.rs\<close>). A window is a number; its
  \<open>user_data\<close> is an entry of a store from windows to states, absent until
  \<open>with_state_mut\<close> first touches it. The render-only fields (element ids, damage
  counters, the fade's alpha) and the two caches of the Lua hooks are left out:
  no modelled code reads them. Instants are milliseconds.
\<close>

type_synonym wid = nat
type_synonym surface = nat

record wstate =
  ws_tags :: u32
  is_floating :: bool
  is_fullscreen :: bool
  is_urgent :: bool
  scratch_key :: nat
  switch_to_tag :: "u32 option"
  ws_bw :: u32
  border_color :: u32
  border_counter :: nat
  rules_applied :: bool
  needs_centering :: bool
  saved_loc :: "point option"
  mon_idx :: nat
  cfact :: f64
  last_title :: "string option"
  last_appid :: "string option"
  pending_geom :: "rect option"
  buffer_mapped :: bool
  last_focused :: bool
  is_override_redirect :: bool
  fade_start :: "nat option"
  fading_out :: bool
  slide_offset_x :: f64
  slide_from_x :: f64
  slide_start :: "nat option"
  slide_to_x :: f64
  slide_out :: bool
  is_swallowed :: bool
  swallowing :: "wid option"
  no_swallow :: bool

definition wstate_new :: "config \<Rightarrow> wstate" where
  "wstate_new c =
     \<lparr>ws_tags = 0, is_floating = False, is_fullscreen = False, is_urgent = False,
      scratch_key = 0, switch_to_tag = None, ws_bw = c_border_px c,
      border_color = c_border_color c, border_counter = 0, rules_applied = False,
      needs_centering = False, saved_loc = None, mon_idx = 0, cfact = f_lit 1,
      last_title = None, last_appid = None, pending_geom = None, buffer_mapped = False,
      last_focused = False, is_override_redirect = False, fade_start = None,
      fading_out = False, slide_offset_x = f_lit 0, slide_from_x = f_lit 0,
      slide_start = None, slide_to_x = f_lit 0, slide_out = False, is_swallowed = False,
      swallowing = None, no_swallow = False\<rparr>"

type_synonym wstore = "wid \<rightharpoonup> wstate"

section \<open>Accessors\<close>

text \<open>
  The borrows of the \<open>RefCell\<close> never overlap in this single-threaded program, so
  \<open>try_borrow\<close> succeeds.
\<close>

definition with_state_mut :: "config \<Rightarrow> wstore \<Rightarrow> wid \<Rightarrow> (wstate \<Rightarrow> wstate) \<Rightarrow> wstore" where
  "with_state_mut c ws w f =
     ws(w \<mapsto> f (case ws w of Some s \<Rightarrow> s | None \<Rightarrow> wstate_new c))"

definition with_state :: "wstore \<Rightarrow> wid \<Rightarrow> (wstate \<Rightarrow> 'a) \<Rightarrow> 'a option" where
  "with_state ws w f = map_option f (ws w)"

definition unwrap_or :: "'a option \<Rightarrow> 'a \<Rightarrow> 'a" where
  "unwrap_or x d = (case x of Some y \<Rightarrow> y | None \<Rightarrow> d)"

definition window_tags :: "wstore \<Rightarrow> wid \<Rightarrow> u32" where
  "window_tags ws w = unwrap_or (with_state ws w ws_tags) 0"

definition window_is_floating :: "wstore \<Rightarrow> wid \<Rightarrow> bool" where
  "window_is_floating ws w = unwrap_or (with_state ws w is_floating) False"

definition window_is_fullscreen :: "wstore \<Rightarrow> wid \<Rightarrow> bool" where
  "window_is_fullscreen ws w = unwrap_or (with_state ws w is_fullscreen) False"

definition window_is_scratch :: "wstore \<Rightarrow> wid \<Rightarrow> nat \<Rightarrow> bool" where
  "window_is_scratch ws w key = unwrap_or (with_state ws w (\<lambda>s. scratch_key s = key)) False"

definition window_is_any_scratch :: "wstore \<Rightarrow> wid \<Rightarrow> bool" where
  "window_is_any_scratch ws w = unwrap_or (with_state ws w (\<lambda>s. scratch_key s \<noteq> 0)) False"

definition window_visible_on :: "wstore \<Rightarrow> wid \<Rightarrow> u32 \<Rightarrow> bool" where
  "window_visible_on ws w t = (window_tags ws w AND t \<noteq> 0)"

definition set_window_tags :: "config \<Rightarrow> wstore \<Rightarrow> wid \<Rightarrow> u32 \<Rightarrow> wstore" where
  "set_window_tags c ws w t = with_state_mut c ws w (ws_tags_update (\<lambda>_. t))"

definition toggle_floating :: "config \<Rightarrow> wstore \<Rightarrow> wid \<Rightarrow> wstore" where
  "toggle_floating c ws w = with_state_mut c ws w (is_floating_update Not)"

definition set_fullscreen :: "config \<Rightarrow> wstore \<Rightarrow> wid \<Rightarrow> bool \<Rightarrow> wstore" where
  "set_fullscreen c ws w fs = with_state_mut c ws w (is_fullscreen_update (\<lambda>_. fs))"

definition set_urgent :: "config \<Rightarrow> wstore \<Rightarrow> wid \<Rightarrow> bool \<Rightarrow> wstore" where
  "set_urgent c ws w urgent = with_state_mut c ws w (is_urgent_update (\<lambda>_. urgent))"

section \<open>The store\<close>

text \<open>
  What the passes over the windows rely on: an update of one key is seen there and
  nowhere else. Inside, the law of every loop \<open>for w in &self.windows { .. }\<close>.
\<close>

locale keyed_store =
  fixes look :: "'s \<Rightarrow> 'k \<Rightarrow> 'v"
    and change :: "'s \<Rightarrow> 'k \<Rightarrow> ('v \<Rightarrow> 'v) \<Rightarrow> 's"
  assumes look_same: "look (change s k f) k = f (look s k)"
    and look_other: "k' \<noteq> k \<Longrightarrow> look (change s k f) k' = look s k'"
begin

lemma look_change: "look (change s k f) k' = (if k' = k then f (look s k) else look s k')"
  by (simp add: look_same look_other)

lemma look_fold_notin:
  "k \<notin> set ks \<Longrightarrow> look (fold (\<lambda>k s. change s k (g k)) ks s) k = look s k"
  by (induction ks arbitrary: s) (auto simp: look_change)

lemma look_fold:
  "distinct ks \<Longrightarrow>
   look (fold (\<lambda>k s. change s k (g k)) ks s) k = (if k \<in> set ks then g k (look s k) else look s k)"
  by (induction ks arbitrary: s) (auto simp: look_change look_fold_notin)

text \<open>A field no step of the loop changes.\<close>

lemma look_fold_keep:
  assumes "\<And>k v. fld (g k v) = fld v"
  shows "fld (look (fold (\<lambda>k s. change s k (g k)) ks s) k) = fld (look s k)"
proof (induction ks arbitrary: s)
  case (Cons a ks)
  then show ?case by (simp add: look_change assms)
qed simp

end

text \<open>The state a window has, or would be created with.\<close>

definition state_of :: "config \<Rightarrow> wstore \<Rightarrow> wid \<Rightarrow> wstate" where
  "state_of c ws w = (case ws w of Some s \<Rightarrow> s | None \<Rightarrow> wstate_new c)"

interpretation store: keyed_store "state_of c" "with_state_mut c" for c
  by unfold_locales (auto simp: state_of_def with_state_mut_def)

lemma with_state_mut_apply [simp]:
  "with_state_mut c ws w f v = (if v = w then Some (f (state_of c ws w)) else ws v)"
  by (simp add: with_state_mut_def state_of_def)

lemma dom_with_state_mut [simp]: "dom (with_state_mut c ws w f) = insert w (dom ws)"
  by (auto simp: with_state_mut_def)

lemma dom_fold_with_state_mut [simp]:
  "dom (fold (\<lambda>w ws. with_state_mut c ws w (g w)) us ws) = set us \<union> dom ws"
  by (induction us arbitrary: ws) auto

lemma unwrap_or_simps [simp]: "unwrap_or (Some x) d = x" "unwrap_or None d = d"
  by (simp_all add: unwrap_or_def)

lemma with_state_simps [simp]:
  "with_state ws w f = None \<longleftrightarrow> ws w = None"
  "with_state ws w f = Some x \<longleftrightarrow> (\<exists>s. ws w = Some s \<and> f s = x)"
  by (auto simp: with_state_def)

text \<open>A query with default \<open>False\<close> holds exactly of the present states with the property.\<close>

lemma unwrap_or_False: "unwrap_or (with_state ws w p) False \<longleftrightarrow> (\<exists>s. ws w = Some s \<and> p s)"
  by (cases "ws w") (simp_all add: with_state_def)

lemma window_tags_Some: "ws w = Some s \<Longrightarrow> window_tags ws w = ws_tags s"
  by (simp add: window_tags_def with_state_def)

lemma window_tags_nonzero: "window_tags ws w \<noteq> 0 \<Longrightarrow> \<exists>s. ws w = Some s \<and> ws_tags s = window_tags ws w"
  by (cases "ws w") (simp_all add: window_tags_def with_state_def)

lemma window_visible_on_iff:
  "window_visible_on ws w t \<longleftrightarrow> (\<exists>s. ws w = Some s \<and> ws_tags s AND t \<noteq> 0)"
  by (cases "ws w") (simp_all add: window_visible_on_def window_tags_def with_state_def)

lemma unwrap_or_cong:
  "(\<And>s. P (f s) = P (g s)) \<Longrightarrow> map_option P (with_state ws w f) = map_option P (with_state ws w g)"
  by (cases "ws w") (simp_all add: with_state_def)

end
