(* ===== verification/Space.thy ===== *)
theory Space
  imports Window
begin

text \<open>
  The plane the windows are mapped on
  (\<^verbatim>\<open>smithay/src/desktop/space/mod.rs\<close>): the mapped elements back to
  front, each with its location. The outputs an element overlaps (enter and leave
  events) are left out. An element's own geometry, its bounding box and its input
  region belong to the client and are arguments.
\<close>

type_synonym space = "(wid \<times> point) list"

text \<open>\<open>RenderZindex::Shell\<close>: rwl never overrides the default of a window.\<close>

definition z_index :: "wid \<Rightarrow> nat" where
  "z_index w = 30"

definition elem_pos :: "space \<Rightarrow> wid \<Rightarrow> nat option" where
  "elem_pos sp w = position (\<lambda>e. fst e = w) sp"

definition insert_elem :: "space \<Rightarrow> nat \<Rightarrow> wid \<times> point \<Rightarrow> space" where
  "insert_elem sp idx e = sort_key (z_index \<circ> fst) (take idx sp @ e # drop idx sp)"

text \<open>With \<open>activate\<close>: the calls of \<open>set_activate\<close>, the new element's first.\<close>

definition activations :: "space \<Rightarrow> wid \<Rightarrow> (wid \<times> bool) list" where
  "activations sp w = (w, True) # map (\<lambda>e. (fst e, False)) sp"

definition create_inner_element :: "space \<Rightarrow> wid \<Rightarrow> point \<Rightarrow> space \<times> (wid \<times> point)" where
  "create_inner_element sp w p =
     (case elem_pos sp w of Some i \<Rightarrow> (remove_at i sp, (w, p)) | None \<Rightarrow> (sp, (w, p)))"

definition map_element :: "space \<Rightarrow> wid \<Rightarrow> point \<Rightarrow> space" where
  "map_element sp w p =
     (let (sp', e) = create_inner_element sp w p in insert_elem sp' (length sp') e)"

definition map_element_activating :: "space \<Rightarrow> wid \<Rightarrow> point \<Rightarrow> space \<times> (wid \<times> bool) list" where
  "map_element_activating sp w p =
     (let (sp', e) = create_inner_element sp w p
      in (insert_elem sp' (length sp') e, activations sp' w))"

definition raise_element :: "space \<Rightarrow> wid \<Rightarrow> space" where
  "raise_element sp w = (case elem_pos sp w of
     Some i \<Rightarrow> let e = sp ! i; sp' = remove_at i sp in insert_elem sp' (length sp') e
   | None \<Rightarrow> sp)"

definition lower_element :: "space \<Rightarrow> wid \<Rightarrow> space" where
  "lower_element sp w = (case elem_pos sp w of
     Some i \<Rightarrow> insert_elem (remove_at i sp) 0 (sp ! i) | None \<Rightarrow> sp)"

definition map_element_above :: "space \<Rightarrow> wid \<Rightarrow> point \<Rightarrow> wid \<Rightarrow> space" where
  "map_element_above sp w p ref = (case elem_pos sp ref of
     None \<Rightarrow> sp
   | Some rp \<Rightarrow> (case elem_pos sp w of
       Some i \<Rightarrow> insert_elem (remove_at i sp) (if i > rp then rp + 1 else rp) (sp ! i)
     | None \<Rightarrow> (let (sp', e) = create_inner_element sp w p in insert_elem sp' (rp + 1) e)))"

definition raise_element_above :: "space \<Rightarrow> wid \<Rightarrow> wid \<Rightarrow> space" where
  "raise_element_above sp w ref = (case elem_pos sp w of
     None \<Rightarrow> sp
   | Some i \<Rightarrow> (case elem_pos sp ref of
       None \<Rightarrow> sp
     | Some rp \<Rightarrow> insert_elem (remove_at i sp) (if i > rp then rp + 1 else rp) (sp ! i)))"

definition relocate_element :: "space \<Rightarrow> wid \<Rightarrow> point \<Rightarrow> space" where
  "relocate_element sp w p = (case elem_pos sp w of
     Some i \<Rightarrow> update_at i (\<lambda>e. (fst e, p)) sp | None \<Rightarrow> sp)"

definition unmap_elem :: "space \<Rightarrow> wid \<Rightarrow> space" where
  "unmap_elem sp w = (case elem_pos sp w of Some i \<Rightarrow> remove_at i sp | None \<Rightarrow> sp)"

definition elements :: "space \<Rightarrow> wid list" where
  "elements sp = map fst sp"

definition element_location :: "space \<Rightarrow> wid \<Rightarrow> point option" where
  "element_location sp w = map_option snd (List.find (\<lambda>e. fst e = w) sp)"

text \<open>\<open>geo\<close> is the client's geometry; the space replaces its location.\<close>

definition inner_geometry :: "(wid \<Rightarrow> rect) \<Rightarrow> wid \<times> point \<Rightarrow> rect" where
  "inner_geometry geo e =
     (geo (fst e))\<lparr>loc_x := fst (snd e), loc_y := snd (snd e)\<rparr>"

definition element_geometry :: "space \<Rightarrow> (wid \<Rightarrow> rect) \<Rightarrow> wid \<Rightarrow> rect option" where
  "element_geometry sp geo w =
     map_option (inner_geometry geo) (List.find (\<lambda>e. fst e = w) sp)"

definition render_location :: "(wid \<Rightarrow> rect) \<Rightarrow> wid \<times> point \<Rightarrow> point" where
  "render_location geo e =
     (sat_add (fst (snd e)) (- loc_x (geo (fst e))),
      sat_add (snd (snd e)) (- loc_y (geo (fst e))))"

definition inner_bbox :: "(wid \<Rightarrow> rect) \<Rightarrow> (wid \<Rightarrow> rect) \<Rightarrow> wid \<times> point \<Rightarrow> rect" where
  "inner_bbox bbox geo e =
     (let b = bbox (fst e); g = geo (fst e); p = snd e
      in b\<lparr>loc_x := sat_add (loc_x b) (sat_add (fst p) (- loc_x g)),
           loc_y := sat_add (loc_y b) (sat_add (snd p) (- loc_y g))\<rparr>)"

text \<open>
  \<open>element_under\<close>: the topmost element whose box holds the point and whose input
  region, asked at the point relative to the drawn surface, accepts it. \<open>hit b p\<close> is
  the containment of the \<open>f64\<close> point in the box, \<open>region w l\<close> the client's answer for
  the drawn location \<open>l\<close>.
  Points add and subtract with saturation.
\<close>

definition element_under ::
  "space \<Rightarrow> (wid \<Rightarrow> rect) \<Rightarrow> (wid \<Rightarrow> rect) \<Rightarrow> (rect \<Rightarrow> bool) \<Rightarrow> (wid \<Rightarrow> point \<Rightarrow> bool)
     \<Rightarrow> (wid \<times> point) option" where
  "element_under sp bbox geo hit region =
     map_option (\<lambda>e. (fst e, render_location geo e))
       (List.find (\<lambda>e. region (fst e) (render_location geo e))
         (filter (\<lambda>e. hit (inner_bbox bbox geo e)) (rev sp)))"

section \<open>The abstract plane\<close>

text \<open>A space holds an element at most once.\<close>

definition wf_space :: "space \<Rightarrow> bool" where
  "wf_space sp \<longleftrightarrow> distinct (map fst sp)"

lemma sort_key_const: "sort_key (\<lambda>x. c) xs = xs"
  by (induction xs) (simp_all add: insort_is_Cons)

lemma insert_elem_eq: "insert_elem sp i e = take i sp @ e # drop i sp"
  by (simp add: insert_elem_def z_index_def o_def sort_key_const del: sort_key_simps)

lemma position_iff_find:
  "List.find p xs = (case position p xs of Some i \<Rightarrow> Some (xs ! i) | None \<Rightarrow> None)"
  by (induction xs) (auto split: option.splits)

lemma elem_pos_None: "elem_pos sp w = None \<longleftrightarrow> w \<notin> set (map fst sp)"
  by (force simp: elem_pos_def position_None)

lemma remove_pos_filter:
  "distinct (map fst sp) \<Longrightarrow> position (\<lambda>e. fst e = w) sp = Some i \<Longrightarrow>
   remove_at i sp = filter (\<lambda>e. fst e \<noteq> w) sp"
proof (induction sp arbitrary: i)
  case (Cons e sp)
  show ?case
  proof (cases "fst e = w")
    case True
    with Cons.prems have "i = 0" "fst e \<notin> set (map fst sp)" by auto
    moreover from this True have "filter (\<lambda>e. fst e \<noteq> w) sp = sp"
      by (metis (mono_tags, lifting) filter_True image_eqI image_set)
    ultimately show ?thesis using True by (simp add: remove_at_def)
  next
    case False
    with Cons.prems obtain j where "i = Suc j" "position (\<lambda>e. fst e = w) sp = Some j"
      by auto
    with False Cons show ?thesis by (simp add: remove_at_def)
  qed
qed simp

lemma unmap_elem_filter: "wf_space sp \<Longrightarrow> unmap_elem sp w = filter (\<lambda>e. fst e \<noteq> w) sp"
proof (cases "elem_pos sp w")
  case None
  then have "\<forall>e \<in> set sp. fst e \<noteq> w" by (auto simp: elem_pos_None)
  with None show ?thesis by (simp add: unmap_elem_def)
next
  case (Some i)
  moreover assume "wf_space sp"
  ultimately show ?thesis
    using remove_pos_filter [of sp w i] by (simp add: unmap_elem_def elem_pos_def wf_space_def)
qed

lemma map_element_eq: "map_element sp w p = unmap_elem sp w @ [(w, p)]"
  by (simp add: map_element_def create_inner_element_def unmap_elem_def insert_elem_eq
      split: option.splits)

lemma map_element_filter:
  "wf_space sp \<Longrightarrow> map_element sp w p = filter (\<lambda>e. fst e \<noteq> w) sp @ [(w, p)]"
  by (simp add: map_element_eq unmap_elem_filter)

lemma relocate_map:
  "wf_space sp \<Longrightarrow> relocate_element sp w p = map (\<lambda>e. if fst e = w then (w, p) else e) sp"
proof (cases "elem_pos sp w")
  case None
  then have "\<forall>e \<in> set sp. fst e \<noteq> w" by (auto simp: elem_pos_None)
  with None show ?thesis by (simp add: relocate_element_def map_idI)
next
  case (Some i)
  assume wf: "wf_space sp"
  from Some have i: "i < length sp" "fst (sp ! i) = w"
    using position_Some [of "\<lambda>e. fst e = w" sp i] by (auto simp: elem_pos_def)
  show ?thesis
  proof (rule nth_equalityI)
    show "length (relocate_element sp w p) = length (map (\<lambda>e. if fst e = w then (w, p) else e) sp)"
      by (simp add: relocate_element_def Some)
    fix j assume "j < length (relocate_element sp w p)"
    then have j: "j < length sp" by (simp add: relocate_element_def Some)
    have "fst (sp ! j) = w \<longleftrightarrow> j = i"
      using wf i j nth_eq_iff_index_eq [of "map fst sp" j i] by (auto simp: wf_space_def)
    with i j Some show "relocate_element sp w p ! j = map (\<lambda>e. if fst e = w then (w, p) else e) sp ! j"
      by (auto simp: relocate_element_def nth_update_at)
  qed
qed

lemma wf_unmap [intro]: "wf_space sp \<Longrightarrow> wf_space (unmap_elem sp w)"
  by (simp add: unmap_elem_filter wf_space_def distinct_map_filter)

lemma wf_map_element [intro]: "wf_space sp \<Longrightarrow> wf_space (map_element sp w p)"
  by (auto simp: map_element_filter wf_space_def distinct_map_filter)

lemma wf_relocate [intro]: "wf_space sp \<Longrightarrow> wf_space (relocate_element sp w p)"
proof -
  assume wf: "wf_space sp"
  have "map fst (map (\<lambda>e. if fst e = w then (w, p) else e) sp) = map fst sp"
    by (induction sp) auto
  then show ?thesis using wf unfolding relocate_map [OF wf] wf_space_def by metis
qed

lemma location_map_of: "element_location sp w = map_of sp w"
  by (induction sp) (auto simp: element_location_def)

lemma element_geometry_map:
  "element_geometry sp geo w =
     map_option (\<lambda>p. (geo w)\<lparr>loc_x := fst p, loc_y := snd p\<rparr>) (element_location sp w)"
  by (induction sp) (auto simp: element_geometry_def element_location_def inner_geometry_def)

lemma geometry_None_iff [simp]: "element_geometry sp geo w = None \<longleftrightarrow> element_location sp w = None"
  by (simp add: element_geometry_map)

lemma map_of_filter_neq:
  "map_of (filter (\<lambda>e. fst e \<noteq> w) sp) v = (if v = w then None else map_of sp v)"
  by (induction sp) auto

text \<open>
  The contract of the plane: where each window is after each operation. Its clients
  reason with the locations alone.
\<close>

locale plane =
  fixes ok :: "'s \<Rightarrow> bool"
    and loc_at :: "'s \<Rightarrow> wid \<Rightarrow> point option"
    and put :: "'s \<Rightarrow> wid \<Rightarrow> point \<Rightarrow> 's"
    and move :: "'s \<Rightarrow> wid \<Rightarrow> point \<Rightarrow> 's"
    and drop_elem :: "'s \<Rightarrow> wid \<Rightarrow> 's"
  assumes ok_put: "ok s \<Longrightarrow> ok (put s w p)"
    and ok_move: "ok s \<Longrightarrow> ok (move s w p)"
    and ok_drop: "ok s \<Longrightarrow> ok (drop_elem s w)"
    and lat_put: "ok s \<Longrightarrow> loc_at (put s w p) v = (if v = w then Some p else loc_at s v)"
    and lat_move: "ok s \<Longrightarrow>
      loc_at (move s w p) v = (if v = w \<and> loc_at s w \<noteq> None then Some p else loc_at s v)"
    and lat_drop: "ok s \<Longrightarrow> loc_at (drop_elem s w) v = (if v = w then None else loc_at s v)"
begin

lemma ok_drops: "ok s \<Longrightarrow> ok (fold (\<lambda>w s. drop_elem s w) us s)"
  by (induction us arbitrary: s) (auto simp: ok_drop)

lemma lat_drops: "ok s \<Longrightarrow> loc_at (fold (\<lambda>w s. drop_elem s w) us s) v = (if v \<in> set us then None else loc_at s v)"
  by (induction us arbitrary: s) (auto simp: ok_drop lat_drop)

lemma ok_puts: "ok s \<Longrightarrow> ok (fold (\<lambda>(w, p) s. put s w p) wps s)"
  by (induction wps arbitrary: s) (auto simp: ok_put)

lemma lat_puts:
  "ok s \<Longrightarrow> distinct (map fst wps) \<Longrightarrow>
   loc_at (fold (\<lambda>(w, p) s. put s w p) wps s) v =
     (case map_of wps v of Some p \<Rightarrow> Some p | None \<Rightarrow> loc_at s v)"
proof (induction wps arbitrary: s)
  case (Cons wp wps)
  obtain w p where wp: "wp = (w, p)" by (cases wp)
  with Cons.prems have "map_of wps w = None" by (simp add: map_of_eq_None_iff)
  with Cons wp show ?case by (auto simp: ok_put lat_put split: option.split)
qed simp

text \<open>Either way of placing puts a mapped element at its point.\<close>

lemma lat_moved: "ok s \<Longrightarrow> loc_at s w \<noteq> None \<Longrightarrow> loc_at (move s w p) w = Some p"
  by (simp add: lat_move)

end

interpretation sp: plane wf_space element_location map_element relocate_element unmap_elem
proof
  fix sp :: space and w v :: wid and p :: point
  assume wf: "wf_space sp"
  show "wf_space (map_element sp w p)" "wf_space (relocate_element sp w p)"
    "wf_space (unmap_elem sp w)" using wf by auto
  show "element_location (map_element sp w p) v = (if v = w then Some p else element_location sp v)"
    by (simp add: location_map_of map_element_filter [OF wf] map_add_def map_of_filter_neq
        split: option.split)
  show "element_location (unmap_elem sp w) v = (if v = w then None else element_location sp v)"
    by (simp add: location_map_of unmap_elem_filter [OF wf] map_of_filter_neq)
  show "element_location (relocate_element sp w p) v =
      (if v = w \<and> element_location sp w \<noteq> None then Some p else element_location sp v)"
    unfolding location_map_of relocate_map [OF wf] by (induction sp) auto
qed

text \<open>Stacking: mapping puts on top, moving keeps the order.\<close>

lemma map_element_on_top: "last (elements (map_element sp w p)) = w"
  by (simp add: map_element_eq elements_def)

lemma elements_map_element:
  "wf_space sp \<Longrightarrow> elements (map_element sp w p) = filter (\<lambda>v. v \<noteq> w) (elements sp) @ [w]"
  by (simp add: map_element_filter elements_def filter_map o_def)

lemma elements_relocate: "wf_space sp \<Longrightarrow> elements (relocate_element sp w p) = elements sp"
  by (induction sp) (auto simp: relocate_map elements_def wf_space_def)

lemma elements_unmap:
  "wf_space sp \<Longrightarrow> elements (unmap_elem sp w) = filter (\<lambda>v. v \<noteq> w) (elements sp)"
  by (simp add: unmap_elem_filter elements_def filter_map o_def)

lemma elements_location: "v \<in> set (elements sp) \<longleftrightarrow> element_location sp v \<noteq> None"
  by (simp add: location_map_of elements_def map_of_eq_None_iff)

lemma wf_space_Nil [simp]: "wf_space []"
  by (simp add: wf_space_def)

end
