(* ===== verification/Layout.thy ===== *)
theory Layout
  imports Monitor
begin

text \<open>
  The tiling layouts (\<^verbatim>\<open>src/features/layout\<close>) and the layout given by the user's Lua
  callback (\<^verbatim>\<open>src/features/integration/hooks.rs\<close>). Each takes the monitor and one size
  factor per tiled window and returns one rectangle per window, in tiling order.
  \<open>g\<close> is the process-wide gaps flag.

  The locale \<open>layout_algo\<close> states what the compositor relies on: one rectangle per
  window, none of them empty. Every layout of the program interprets it.
\<close>

section \<open>Spans\<close>

text \<open>The loop of \<open>weighted_spans\<close>: \<open>used\<close> pixels are gone, the list is what is left of the weights.\<close>

fun spans_from :: "int \<Rightarrow> int \<Rightarrow> f64 list \<Rightarrow> int list" where
  "spans_from tot used [] = []"
| "spans_from tot used (w # ws) =
     (let remaining = f_sum (map (\<lambda>w. f_max w (Fin 0)) (w # ws));
          span = (if f_lt (Fin 0) remaining
                  then f_round_i32
                    (f_mul (f_of_i32 (i32 (tot - used))) (f_div (f_max w (Fin 0)) remaining))
                  else tdiv (i32 (tot - used)) (usize_as_i32 (length (w # ws))))
      in span # spans_from tot (i32 (used + span)) ws)"

definition weighted_spans :: "int \<Rightarrow> f64 list \<Rightarrow> int list" where
  "weighted_spans tot weights = spans_from tot 0 weights"

section \<open>What the layouts share\<close>

definition gap_px :: "config \<Rightarrow> bool \<Rightarrow> nat \<Rightarrow> int" where
  "gap_px c g n = effective g n (c_smart_gaps c) (c_gaps_px c)"

definition border_w :: "config \<Rightarrow> nat \<Rightarrow> int" where
  "border_w c n = (if n > 1 then u32_as_i32 (c_border_px c) else 0)"

definition outer_area :: "int \<Rightarrow> rect \<Rightarrow> rect" where
  "outer_area gp raw = mk_rect (i32 (loc_x raw + gp)) (i32 (loc_y raw + gp))
     (max (i32 (size_w raw - 2 * gp)) 1) (max (i32 (size_h raw - 2 * gp)) 1)"

text \<open>The window inside a cell: the border is drawn outside it.\<close>

definition inset :: "int \<Rightarrow> int \<Rightarrow> int \<Rightarrow> int \<Rightarrow> int \<Rightarrow> rect" where
  "inset bw x y w h = mk_rect (i32 (x + bw)) (i32 (y + bw))
     (max (i32 (w - 2 * bw)) 1) (max (i32 (h - 2 * bw)) 1)"

text \<open>
  The loops of the \<open>column\<close> and \<open>row\<close> closures over the spans; the gap is left out
  after the last window.
\<close>

fun column_cells :: "int \<Rightarrow> int \<Rightarrow> int \<Rightarrow> int \<Rightarrow> int \<Rightarrow> int \<Rightarrow> int list \<Rightarrow> rect list" where
  "column_cells gp bw y0 x w off [] = []"
| "column_cells gp bw y0 x w off (h # hs) =
     inset bw x (y0 + off) w h #
     column_cells gp bw y0 x w (i32 (off + h + (if hs \<noteq> [] then gp else 0))) hs"

definition column :: "int \<Rightarrow> int \<Rightarrow> rect \<Rightarrow> f64 list \<Rightarrow> int \<Rightarrow> int \<Rightarrow> rect list" where
  "column gp bw area cf col_w col_x =
     (if cf = [] then []
      else let n_gaps = i32 ((usize_as_i32 (length cf) - 1) * gp);
               win_h_total = i32 (size_h area - n_gaps)
        in column_cells gp bw (loc_y area) col_x col_w 0 (weighted_spans win_h_total cf))"

fun row_cells :: "int \<Rightarrow> int \<Rightarrow> int \<Rightarrow> int \<Rightarrow> int \<Rightarrow> int \<Rightarrow> int list \<Rightarrow> rect list" where
  "row_cells gp bw x0 y h off [] = []"
| "row_cells gp bw x0 y h off (w # ws) =
     inset bw (x0 + off) y w h #
     row_cells gp bw x0 y h (i32 (off + w + (if ws \<noteq> [] then gp else 0))) ws"

definition row :: "int \<Rightarrow> int \<Rightarrow> rect \<Rightarrow> f64 list \<Rightarrow> int \<Rightarrow> int \<Rightarrow> rect list" where
  "row gp bw area cf row_h row_y =
     (if cf = [] then []
      else let n_gaps = i32 ((usize_as_i32 (length cf) - 1) * gp);
               win_w_total = i32 (size_w area - n_gaps)
        in row_cells gp bw (loc_x area) row_y row_h 0 (weighted_spans win_w_total cf))"

text \<open>\<open>(f64::from(total) * mfact).round() as i32\<close>\<close>

definition share :: "int \<Rightarrow> f64 \<Rightarrow> int" where
  "share tot fr = f_round_i32 (f_mul (f_of_i32 tot) fr)"

section \<open>Tile\<close>

definition tile_split :: "int \<Rightarrow> rect \<Rightarrow> f64 \<Rightarrow> nat \<Rightarrow> int \<times> int \<times> int" where
  "tile_split gp area mf in_stack =
     (if in_stack > 0
      then let mw = share (i32 (size_w area - gp)) mf;
               sw = max (i32 (size_w area - mw - gp)) 1
        in (mw, i32 (loc_x area + mw + gp), sw)
      else (size_w area, loc_x area, 0))"

definition tile_arrange :: "config \<Rightarrow> bool \<Rightarrow> monitor \<Rightarrow> f64 list \<Rightarrow> rect list" where
  "tile_arrange c g m cfacts =
     (let n = length cfacts;
          gp = gap_px c g n;
          bw = border_w c n;
          area = outer_area gp (w_area m);
          nm = nat (max (nmaster m) 0);
          mf = f_clamp (mfact m) mfact_lo mfact_hi;
          in_master = min n nm;
          in_stack = n - nm;
          (master_w, stack_x, stack_w) = tile_split gp area mf in_stack
      in column gp bw area (take in_master cfacts) master_w (loc_x area) @
         column gp bw area (drop in_master cfacts) stack_w stack_x)"

section \<open>Monocle\<close>

definition monocle_arrange :: "monitor \<Rightarrow> f64 list \<Rightarrow> rect list" where
  "monocle_arrange m cfacts =
     (let raw = w_area m;
          geom = mk_rect (loc_x raw) (loc_y raw)
            (max (i32 (size_w raw - 2)) 1) (max (i32 (size_h raw - 2)) 1)
      in replicate (length cfacts) geom)"

section \<open>Col\<close>

text \<open>The \<open>scan\<close> over the fractions; only the last column takes what is left.\<close>

fun col_cells :: "int \<Rightarrow> int \<Rightarrow> rect \<Rightarrow> int \<Rightarrow> int \<Rightarrow> int \<Rightarrow> f64 list \<Rightarrow> rect list" where
  "col_cells gp bw area usable_w col_h off [] = []"
| "col_cells gp bw area usable_w col_h off (fr # fs) =
     (let win_w = (if fs = [] then i32 (usable_w - off) else share usable_w fr)
      in mk_rect (i32 (loc_x area + off + bw)) (i32 (loc_y area + bw))
           (max (i32 (win_w - 2 * bw)) 1) col_h #
         col_cells gp bw area usable_w col_h (i32 (off + win_w + (if fs \<noteq> [] then gp else 0))) fs)"

definition col_arrange :: "config \<Rightarrow> bool \<Rightarrow> monitor \<Rightarrow> f64 list \<Rightarrow> rect list" where
  "col_arrange c g m cfacts =
     (let n = length cfacts in
      if n = 0 then []
      else let gp = gap_px c g n;
               bw = border_w c n;
               area = outer_area gp (w_area m);
               col_h = max (i32 (size_h area - 2 * bw)) 1;
               n_gaps = i32 ((usize_as_i32 n - 1) * gp);
               usable_w = max (i32 (size_w area - n_gaps)) 1;
               facts = (if length (col_facts m) = n then col_facts m
                        else replicate n (f_div (f_lit 1) (f_of_usize n)))
        in col_cells gp bw area usable_w col_h 0 facts)"

section \<open>Scroll\<close>

text \<open>\<open>clamp\<close> of \<open>i32\<close>: the bounds are in order here.\<close>

definition clamp_int :: "int \<Rightarrow> int \<Rightarrow> int \<Rightarrow> int" where
  "clamp_int x lo hi = (if x < lo then lo else if x > hi then hi else x)"

definition scroll_offset :: "int \<Rightarrow> int \<Rightarrow> int \<Rightarrow> nat \<Rightarrow> nat \<Rightarrow> int" where
  "scroll_offset gp area_w col_w n sc =
     (let total_w = i32 (col_w * usize_as_i32 n + gp * (usize_as_i32 n - 1));
          focused_col = usize_as_i32 (min sc (n - 1));
          focused_left = i32 (focused_col * (col_w + gp));
          center_offset = i32 (focused_left + tdiv col_w 2 - tdiv area_w 2);
          max_offset = max (i32 (total_w - area_w)) 0
      in clamp_int center_offset 0 max_offset)"

definition scroll_arrange :: "config \<Rightarrow> bool \<Rightarrow> monitor \<Rightarrow> f64 list \<Rightarrow> rect list" where
  "scroll_arrange c g m cfacts =
     (let n = length cfacts in
      if n = 0 then []
      else let gp = gap_px c g n;
               bw = border_w c n;
               area = outer_area gp (w_area m)
        in if n = 1 then [area]
           else let mf = f_clamp (mfact m) mfact_lo mfact_hi;
                    col_w = max (share (size_w area) mf) 1;
                    so = scroll_offset gp (size_w area) col_w n (scroll_col m)
             in map (\<lambda>i. let canvas_x = i32 (int i * (col_w + gp));
                             screen_x = i32 (loc_x area + canvas_x - so)
                         in inset bw screen_x (loc_y area) col_w (size_h area)) [0..<n])"

section \<open>Dwindle\<close>

text \<open>Iteration \<open>i\<close> on the remaining region \<open>(rx, ry, rw, rh)\<close>; \<open>k\<close> iterations follow it.\<close>

primrec dwindle_cells ::
  "int \<Rightarrow> int \<Rightarrow> f64 \<Rightarrow> nat \<Rightarrow> nat \<Rightarrow> int \<Rightarrow> int \<Rightarrow> int \<Rightarrow> int \<Rightarrow> rect list" where
  "dwindle_cells gp bw mf 0 i rx ry rw rh = [inset bw rx ry rw rh]"
| "dwindle_cells gp bw mf (Suc k) i rx ry rw rh =
     (if i mod 2 = 0
      then let ratio = (if i = 0 then mf else f_lit (1 / 2));
               win_w = max (share (max (i32 (rw - gp)) 1) ratio) 1
        in inset bw rx ry win_w rh #
           dwindle_cells gp bw mf k (Suc i) (i32 (rx + win_w + gp)) ry
             (max (i32 (rw - win_w - gp)) 1) rh
      else let win_h = max (share (max (i32 (rh - gp)) 1) (f_lit (1 / 2))) 1
        in inset bw rx ry rw win_h #
           dwindle_cells gp bw mf k (Suc i) rx (i32 (ry + win_h + gp))
             rw (max (i32 (rh - win_h - gp)) 1))"

definition dwindle_arrange :: "config \<Rightarrow> bool \<Rightarrow> monitor \<Rightarrow> f64 list \<Rightarrow> rect list" where
  "dwindle_arrange c g m cfacts =
     (let n = length cfacts in
      if n = 0 then []
      else let gp = gap_px c g n;
               bw = border_w c n;
               area = outer_area gp (w_area m)
        in if n = 1 then [area]
           else let mf = f_clamp (mfact m) mfact_lo mfact_hi
             in dwindle_cells gp bw mf (n - 1) 0 (loc_x area) (loc_y area) (size_w area) (size_h area))"

section \<open>Bottom stack\<close>

definition bstack_split :: "int \<Rightarrow> rect \<Rightarrow> f64 \<Rightarrow> nat \<Rightarrow> int \<times> int \<times> int" where
  "bstack_split gp area mf in_stack =
     (if in_stack > 0
      then let mh = share (i32 (size_h area - gp)) mf;
               sh = max (i32 (size_h area - mh - gp)) 1
        in (mh, i32 (loc_y area + mh + gp), sh)
      else (size_h area, loc_y area, 0))"

definition bstack_arrange :: "config \<Rightarrow> bool \<Rightarrow> monitor \<Rightarrow> f64 list \<Rightarrow> rect list" where
  "bstack_arrange c g m cfacts =
     (let n = length cfacts;
          gp = gap_px c g n;
          bw = border_w c n;
          area = outer_area gp (w_area m);
          nm = nat (max (nmaster m) 0);
          mf = f_clamp (mfact m) mfact_lo mfact_hi;
          in_master = min n nm;
          in_stack = n - nm
      in if n = 2 \<and> in_stack > 0
         then let master_w = share (i32 (size_w area - gp)) mf;
                  stack_w = max (i32 (size_w area - master_w - gp)) 1;
                  stack_x = i32 (loc_x area + master_w + gp)
           in [inset bw (loc_x area) (loc_y area) master_w (size_h area),
               inset bw stack_x (loc_y area) stack_w (size_h area)]
         else let (master_h, stack_y, stack_h) = bstack_split gp area mf in_stack
           in row gp bw area (take in_master cfacts) master_h (loc_y area) @
              row gp bw area (drop in_master cfacts) stack_h stack_y)"

section \<open>Centred master\<close>

text \<open>The six numbers \<open>master_x, master_w, left_x, left_w, right_x, right_w\<close>.\<close>

definition centered_split ::
  "int \<Rightarrow> rect \<Rightarrow> f64 \<Rightarrow> nat \<Rightarrow> nat \<Rightarrow> int \<times> int \<times> int \<times> int \<times> int \<times> int" where
  "centered_split gp area mf mcount scount =
     (let area_x = loc_x area; area_w = size_w area in
      if scount = 0 then (area_x, area_w, 0, 0, 0, 0)
      else if scount = 1 then
        let has_master = mcount > 0;
            inner_gap = (if has_master then gp else 0);
            mw = (if has_master then share (i32 (area_w - inner_gap)) mf else 0);
            sw = max (i32 (area_w - mw - inner_gap)) 1;
            sx = i32 (area_x + mw + inner_gap)
        in (area_x, mw, 0, 0, sx, sw)
      else if mcount > 0 then
        let mw = share (i32 (area_w - 2 * gp)) mf;
            side = max (i32 (area_w - 2 * gp - mw)) 2;
            lw = tdiv side 2;
            rw = i32 (side - lw);
            lx = area_x;
            mx = i32 (area_x + lw + gp);
            rx = i32 (mx + mw + gp)
        in (mx, mw, lx, lw, rx, rw)
      else
        let lw = tdiv (i32 (area_w - gp)) 2;
            rw = max (i32 (area_w - gp - lw)) 1
        in (0, 0, area_x, lw, i32 (area_x + lw + gp), rw))"

text \<open>The loops that store a column's rectangles at computed indices.\<close>

fun store_at :: "(nat \<Rightarrow> nat) \<Rightarrow> nat \<Rightarrow> rect list \<Rightarrow> rect list \<Rightarrow> rect list" where
  "store_at f k [] geoms = geoms"
| "store_at f k (r # rs) geoms = store_at f (Suc k) rs (geoms[f k := r])"

definition centered_arrange :: "config \<Rightarrow> bool \<Rightarrow> monitor \<Rightarrow> f64 list \<Rightarrow> rect list" where
  "centered_arrange c g m cfacts =
     (let n = length cfacts;
          gp = gap_px c g n;
          bw = border_w c n;
          area = outer_area gp (w_area m);
          nm = nat (max (nmaster m) 0);
          mf = f_clamp (mfact m) mfact_lo mfact_hi;
          mcount = min n nm;
          scount = n - mcount;
          rcount = (scount + 1) div 2;
          lcount = scount div 2;
          (master_x, master_w, left_x, left_w, right_x, right_w) =
            centered_split gp area mf mcount scount;
          right_cf = map (\<lambda>k. cfacts ! (mcount + 2 * k)) [0..<rcount];
          left_cf = map (\<lambda>k. cfacts ! (mcount + 2 * k + 1)) [0..<lcount];
          master = column gp bw area (take mcount cfacts) master_w master_x;
          right = column gp bw area right_cf right_w right_x;
          left = column gp bw area left_cf left_w left_x;
          geoms = replicate n (mk_rect 0 0 0 0)
      in store_at (\<lambda>k. mcount + 2 * k + 1) 0 left
           (store_at (\<lambda>k. mcount + 2 * k) 0 right
             (store_at (\<lambda>i. i) 0 master geoms)))"

section \<open>The Lua layout\<close>

text \<open>
  The user's \<open>on_arrange\<close> is a parameter: \<open>None\<close> when it is not defined; its result is
  \<open>None\<close> when the call fails, else a table from 1-based indices to cells, each field of
  a cell a number or not.
\<close>

record lua_cell =
  lc_x :: "f64 option"
  lc_y :: "f64 option"
  lc_w :: "f64 option"
  lc_h :: "f64 option"

record lua_area =
  la_rect :: rect
  la_mfact :: f64
  la_nmaster :: int

type_synonym on_arrange = "(nat \<Rightarrow> lua_area \<Rightarrow> string \<Rightarrow> (nat \<Rightarrow> lua_cell option) option) option"

definition lua_num :: "f64 option \<Rightarrow> int \<Rightarrow> int" where
  "lua_num v d = (case v of Some x \<Rightarrow> f_round_i32 x | None \<Rightarrow> d)"

fun lua_cells ::
  "rect \<Rightarrow> int \<Rightarrow> (nat \<Rightarrow> lua_cell option) \<Rightarrow> nat \<Rightarrow> nat \<Rightarrow> rect list option" where
  "lua_cells area bw tbl i 0 = Some []"
| "lua_cells area bw tbl i (Suc k) =
     (case tbl i of
        None \<Rightarrow> None
      | Some r \<Rightarrow>
         (let rect = mk_rect (i32 (lua_num (lc_x r) (loc_x area) + bw))
             (i32 (lua_num (lc_y r) (loc_y area) + bw))
             (max (i32 (lua_num (lc_w r) (size_w area) - 2 * bw)) 1)
             (max (i32 (lua_num (lc_h r) (size_h area) - 2 * bw)) 1)
          in map_option (\<lambda>rs. rect # rs) (lua_cells area bw tbl (Suc i) k)))"

definition lua_arrange :: "on_arrange \<Rightarrow> config \<Rightarrow> monitor \<Rightarrow> f64 list \<Rightarrow> rect list" where
  "lua_arrange f c m cfacts =
     (let n = length cfacts; area = w_area m; fallback = replicate n area in
      case f of
        None \<Rightarrow> fallback
      | Some func \<Rightarrow>
         (case func n \<lparr>la_rect = area, la_mfact = mfact m, la_nmaster = nmaster m\<rparr>
                 (layout_symbol c m) of
            None \<Rightarrow> fallback
          | Some tbl \<Rightarrow>
             (let bw = (if n > 1 then (if uint (c_border_px c) < 2147483648
                          then uint (c_border_px c) else 0) else 0)
              in case lua_cells area bw tbl 1 n of
                   None \<Rightarrow> fallback | Some out \<Rightarrow> out)))"

section \<open>Dispatch\<close>

definition layout_arrange ::
  "on_arrange \<Rightarrow> config \<Rightarrow> bool \<Rightarrow> monitor \<Rightarrow> f64 list \<Rightarrow> rect list" where
  "layout_arrange f c g m cfacts =
     (if cfacts = [] then []
      else case layout_kind_of c m of
        Tile \<Rightarrow> tile_arrange c g m cfacts
      | Monocle \<Rightarrow> monocle_arrange m cfacts
      | Col \<Rightarrow> col_arrange c g m cfacts
      | Scroll \<Rightarrow> scroll_arrange c g m cfacts
      | Dwindle \<Rightarrow> dwindle_arrange c g m cfacts
      | Bstack \<Rightarrow> bstack_arrange c g m cfacts
      | CenteredMaster \<Rightarrow> centered_arrange c g m cfacts
      | LuaLayout \<Rightarrow> lua_arrange f c m cfacts)"

section \<open>The spans partition the total\<close>

text \<open>
  A usable weight: a representable number or NaN, which \<open>max(0.0)\<close> turns into zero.
  Window factors are clamped, so infinities do not occur.
\<close>

definition weight_ok :: "f64 \<Rightarrow> bool" where
  "weight_ok w \<longleftrightarrow> f_rep w \<or> w = FNaN"

lemma weight_ok_max: "weight_ok w \<Longrightarrow> \<exists>q. f_max w (Fin 0) = Fin q \<and> 0 \<le> q \<and> rnd q = Fin q"
proof -
  assume "weight_ok w"
  moreover have "rnd 0 = Fin 0" by (simp add: rnd_def rn.zero)
  ultimately show ?thesis
    by (cases w) (auto simp: weight_ok_def f_max_def not_less)
qed

lemma weights_ok_max:
  "\<forall>w \<in> set ws. weight_ok w \<Longrightarrow>
   \<exists>qs. map (\<lambda>w. f_max w (Fin 0)) ws = map Fin qs \<and> (\<forall>q \<in> set qs. 0 \<le> q)"
proof (induction ws)
  case (Cons w ws)
  then obtain qs where "map (\<lambda>w. f_max w (Fin 0)) ws = map Fin qs" "\<forall>q \<in> set qs. 0 \<le> q" by auto
  moreover from Cons obtain q where "f_max w (Fin 0) = Fin q" "0 \<le> q" using weight_ok_max [of w] by auto
  ultimately show ?case by (intro exI [of _ "q # qs"]) simp
qed simp

lemma fold_add_inf: "foldl f_add (FInf False) (map Fin qs) = FInf False"
  by (induction qs) auto

lemma rnd_add_ge:
  assumes "rnd a = Fin a" "0 \<le> a" "0 \<le> q"
  shows "rnd (a + q) = FInf False \<or> (\<exists>b. rnd (a + q) = Fin b \<and> a \<le> b)"
proof -
  have "rndr a = a" using assms(1) by (auto simp: rnd_def Let_def split: if_splits)
  then have "a \<le> rndr (a + q)" using assms(3) by (intro rn.fixed_le) simp_all
  with assms(2) show ?thesis by (auto simp: rnd_def Let_def)
qed

lemma fold_add_ge:
  "rnd a = Fin a \<Longrightarrow> 0 \<le> a \<Longrightarrow> \<forall>q \<in> set qs. 0 \<le> q \<Longrightarrow>
   foldl f_add (Fin a) (map Fin qs) = FInf False \<or>
   (\<exists>b. foldl f_add (Fin a) (map Fin qs) = Fin b \<and> a \<le> b)"
proof (induction qs arbitrary: a)
  case (Cons q qs)
  then consider "rnd (a + q) = FInf False" | b where "rnd (a + q) = Fin b" "a \<le> b"
    using rnd_add_ge [of a q] by auto
  then show ?case
  proof cases
    case 1
    then show ?thesis by (simp add: fold_add_inf)
  next
    case 2
    then have "f_rep (Fin b)" by (intro f_rep_rnd)
    then have "rnd b = Fin b" by simp
    moreover have "0 \<le> b" using 2(2) Cons.prems(2) by simp
    moreover have "\<forall>q \<in> set qs. 0 \<le> q" using Cons.prems(3) by simp
    ultimately have "foldl f_add (Fin b) (map Fin qs) = FInf False \<or>
        (\<exists>b'. foldl f_add (Fin b) (map Fin qs) = Fin b' \<and> b \<le> b')" by (rule Cons.IH)
    with 2 show ?thesis by auto
  qed
qed simp

text \<open>The share of one weight in the weights from it on is a fraction.\<close>

lemma weight_fraction:
  assumes "\<forall>w \<in> set (w # ws). weight_ok w"
    "f_lt (Fin 0) (f_sum (map (\<lambda>w. f_max w (Fin 0)) (w # ws)))"
  shows "\<exists>q. f_div (f_max w (Fin 0)) (f_sum (map (\<lambda>w. f_max w (Fin 0)) (w # ws))) = Fin q \<and>
    0 \<le> q \<and> q \<le> 1 \<and> (ws = [] \<longrightarrow> q = 1)"
proof -
  from assms(1) obtain a where a: "f_max w (Fin 0) = Fin a" "0 \<le> a" "rnd a = Fin a"
    using weight_ok_max [of w] by auto
  from assms(1) obtain qs where qs: "map (\<lambda>w. f_max w (Fin 0)) ws = map Fin qs" "\<forall>q \<in> set qs. 0 \<le> q"
    using weights_ok_max [of ws] by auto
  let ?sum = "f_sum (map (\<lambda>w. f_max w (Fin 0)) (w # ws))"
  have sum: "?sum = foldl f_add (Fin a) (map Fin qs)"
    by (simp add: f_sum_def a qs)
  consider "foldl f_add (Fin a) (map Fin qs) = FInf False"
    | b where "foldl f_add (Fin a) (map Fin qs) = Fin b" "a \<le> b"
    using fold_add_ge [OF a(3,2) qs(2)] by auto
  then show ?thesis
  proof cases
    case 1
    moreover have "ws \<noteq> []" using 1 qs by auto
    ultimately show ?thesis unfolding sum by (simp add: a)
  next
    case 2
    then have b: "0 < b" using assms(2) sum by simp
    have f: "0 \<le> a / b" "a / b \<le> 1" using 2 b a(2) by (simp_all add: divide_le_eq)
    then have "rnd (a / b) = Fin (rndr (a / b))" by (intro rnd_Fin) simp
    moreover have "0 \<le> rndr (a / b)" "rndr (a / b) \<le> 1"
      using f rn.nonneg rn.pos_le_one by auto
    moreover have "ws = [] \<longrightarrow> rndr (a / b) = 1" using 2 qs b by (auto simp: rn.one)
    ultimately show ?thesis using b unfolding sum by (simp add: 2 a)
  qed
qed

lemma span_bounds:
  assumes "\<forall>w \<in> set (w # ws). weight_ok w" "0 \<le> r" "r < 2147483648"
    "length (w # ws) < 2147483648"
    "s = (if f_lt (Fin 0) (f_sum (map (\<lambda>w. f_max w (Fin 0)) (w # ws)))
       then f_round_i32 (f_mul (f_of_i32 r)
         (f_div (f_max w (Fin 0)) (f_sum (map (\<lambda>w. f_max w (Fin 0)) (w # ws)))))
       else tdiv r (usize_as_i32 (length (w # ws))))"
  shows "0 \<le> s \<and> s \<le> r \<and> (ws = [] \<longrightarrow> s = r)"
proof (cases "f_lt (Fin 0) (f_sum (map (\<lambda>w. f_max w (Fin 0)) (w # ws)))")
  case True
  from weight_fraction [OF assms(1) this] obtain q where
    q: "f_div (f_max w (Fin 0)) (f_sum (map (\<lambda>w. f_max w (Fin 0)) (w # ws))) = Fin q"
    "0 \<le> q" "q \<le> 1" "ws = [] \<longrightarrow> q = 1" by blast
  have "f_round_i32 (f_mul (f_of_i32 r) (Fin 1)) = r"
    using assms(2,3) by (simp add: f_of_i32_def rnd_int f_round_i32_of_int in_i32_def)
  with True q assms f_mul_frac [of r q] show ?thesis by simp
next
  case False
  let ?n = "int (length (w # ws))"
  have div_le: "r div ?n \<le> r" using div_le_dividend [of "nat r" "length (w # ws)"] assms(2)
    by (metis int_nat_eq of_nat_le_iff zdiv_int)
  have "s = r div ?n"
    using False assms by (simp add: usize_as_i32_id tdiv_pos)
  moreover have "0 \<le> r div ?n"
    using assms(2) by (simp add: pos_imp_zdiv_nonneg_iff)
  ultimately show ?thesis using div_le by auto
qed

lemma spans_from_partition:
  "\<forall>w \<in> set ws. weight_ok w \<Longrightarrow> length ws < 2147483648 \<Longrightarrow>
   0 \<le> used \<Longrightarrow> used \<le> tot \<Longrightarrow> tot < 2147483648 \<Longrightarrow> ws \<noteq> [] \<Longrightarrow>
   (\<forall>s \<in> set (spans_from tot used ws). 0 \<le> s) \<and> sum_list (spans_from tot used ws) = tot - used"
proof (induction ws arbitrary: used)
  case (Cons w ws)
  define s where "s = (if f_lt (Fin 0) (f_sum (map (\<lambda>w. f_max w (Fin 0)) (w # ws)))
     then f_round_i32 (f_mul (f_of_i32 (tot - used))
       (f_div (f_max w (Fin 0)) (f_sum (map (\<lambda>w. f_max w (Fin 0)) (w # ws)))))
     else tdiv (tot - used) (usize_as_i32 (length (w # ws))))"
  have b: "0 \<le> s \<and> s \<le> tot - used \<and> (ws = [] \<longrightarrow> s = tot - used)"
    using Cons.prems by (intro span_bounds [OF _ _ _ _ s_def]) auto
  have r: "i32 (tot - used) = tot - used" "i32 (used + s) = used + s"
    using Cons.prems b by (intro i32_id; linarith)+
  then have eq: "spans_from tot used (w # ws) = s # spans_from tot (used + s) ws"
    unfolding s_def by (simp only: spans_from.simps Let_def)
  show ?case
  proof (cases "ws = []")
    case True
    with b eq show ?thesis by simp
  next
    case False
    then have "(\<forall>x \<in> set (spans_from tot (used + s) ws). 0 \<le> x) \<and>
        sum_list (spans_from tot (used + s) ws) = tot - (used + s)"
      using Cons.prems b by (intro Cons.IH) auto
    with b eq show ?thesis by simp
  qed
qed simp

lemma length_spans_from: "length (spans_from tot used ws) = length ws"
  by (induction ws arbitrary: used) (simp_all add: Let_def)

text \<open>\<open>weighted_spans\<close> splits its total exactly: one span per weight, none negative,
  and they add up to the total, rounding included, whatever the weights are.\<close>

lemma weighted_spans_partition:
  assumes "ws \<noteq> []" "\<forall>w \<in> set ws. weight_ok w" "length ws < 2147483648"
    "0 \<le> tot" "tot < 2147483648"
  shows "length (weighted_spans tot ws) = length ws \<and>
    (\<forall>s \<in> set (weighted_spans tot ws). 0 \<le> s) \<and> sum_list (weighted_spans tot ws) = tot"
  using spans_from_partition [OF assms(2,3), of 0 tot] assms
  by (simp add: weighted_spans_def length_spans_from)

lemma weighted_spans_partition_witness:
  "sum_list (weighted_spans 100 [Fin 1, Fin 1, Fin (1 / 2)]) = 100"
proof -
  have "weight_ok (Fin 1)" "weight_ok (Fin (1 / 2))" by (code_simp; simp)+
  with weighted_spans_partition [of "[Fin 1, Fin 1, Fin (1 / 2)]" 100] show ?thesis by simp
qed

section \<open>One window, one rectangle\<close>

locale layout_algo =
  fixes arr :: "monitor \<Rightarrow> f64 list \<Rightarrow> rect list"
    and ok :: "monitor \<Rightarrow> bool"
  assumes len: "length (arr m cf) = length cf"
    and nonempty: "ok m \<Longrightarrow> r \<in> set (arr m cf) \<Longrightarrow> 1 \<le> size_w r \<and> 1 \<le> size_h r"
begin

lemma empty: "arr m [] = []"
  using len [of m "[]"] by simp

text \<open>Pairing windows with rectangles loses no window.\<close>

lemma zip_all: "length ws = length cf \<Longrightarrow> map fst (zip ws (arr m cf)) = ws"
  by (simp add: len)

lemma zip_set: "length ws = length cf \<Longrightarrow> fst ` set (zip ws (arr m cf)) = set ws"
  by (metis zip_all list.set_map)

end

lemma length_column_cells [simp]: "length (column_cells gp bw y x w off hs) = length hs"
  by (induction hs arbitrary: off) auto

lemma length_row_cells [simp]: "length (row_cells gp bw x y h off ws) = length ws"
  by (induction ws arbitrary: off) auto

lemma length_column [simp]: "length (column gp bw area cf w x) = length cf"
  by (simp add: column_def Let_def weighted_spans_def length_spans_from)

lemma length_row [simp]: "length (row gp bw area cf h y) = length cf"
  by (simp add: row_def Let_def weighted_spans_def length_spans_from)

lemma length_col_cells [simp]: "length (col_cells gp bw area u h off fs) = length fs"
  by (induction fs arbitrary: off) (auto simp: Let_def)

lemma length_dwindle_cells [simp]: "length (dwindle_cells gp bw mf k i rx ry rw rh) = Suc k"
  by (induction k arbitrary: i rx ry rw rh) (auto simp: Let_def)

lemma length_store_at [simp]: "length (store_at f k rs g) = length g"
  by (induction rs arbitrary: k g) auto

definition big :: "rect \<Rightarrow> bool" where
  "big r \<longleftrightarrow> 1 \<le> size_w r \<and> 1 \<le> size_h r"

lemma big_inset [simp]: "big (inset bw x y w h)"
  by (simp add: big_def inset_def)

lemma big_column_cells: "r \<in> set (column_cells gp bw y x w off hs) \<Longrightarrow> big r"
  by (induction hs arbitrary: off) auto

lemma big_row_cells: "r \<in> set (row_cells gp bw x y h off ws) \<Longrightarrow> big r"
  by (induction ws arbitrary: off) auto

lemma big_column: "r \<in> set (column gp bw area cf w x) \<Longrightarrow> big r"
  by (auto simp: column_def Let_def big_column_cells split: if_splits)

lemma big_row: "r \<in> set (row gp bw area cf h y) \<Longrightarrow> big r"
  by (auto simp: row_def Let_def big_row_cells split: if_splits)

lemma big_col_cells: "r \<in> set (col_cells gp bw area u h off fs) \<Longrightarrow> 1 \<le> h \<Longrightarrow> big r"
  by (induction fs arbitrary: off) (auto simp: Let_def big_def)

lemma big_dwindle_cells: "r \<in> set (dwindle_cells gp bw mf k i rx ry rw rh) \<Longrightarrow> big r"
  by (induction k arbitrary: i rx ry rw rh) (auto simp: Let_def split: if_splits)

lemma big_outer_area [simp]: "big (outer_area gp raw)"
  by (simp add: big_def outer_area_def)

interpretation tile: layout_algo "tile_arrange c g" "\<lambda>_. True" for c g
  by unfold_locales
    (auto simp: tile_arrange_def Let_def big_def [symmetric] split: prod.splits dest: big_column)

interpretation monocle: layout_algo monocle_arrange "\<lambda>_. True"
  by unfold_locales (auto simp: monocle_arrange_def Let_def)

interpretation col: layout_algo "col_arrange c g" "\<lambda>_. True" for c g
  by unfold_locales
    (auto simp: col_arrange_def Let_def big_def [symmetric] dest: big_col_cells split: if_splits)

interpretation scroll: layout_algo "scroll_arrange c g" "\<lambda>_. True" for c g
  by unfold_locales
    (auto simp: scroll_arrange_def Let_def big_def [symmetric] split: if_splits)

interpretation dwindle: layout_algo "dwindle_arrange c g" "\<lambda>_. True" for c g
  by unfold_locales
    (auto simp: dwindle_arrange_def Let_def big_def [symmetric] dest: big_dwindle_cells split: if_splits)

interpretation bstack: layout_algo "bstack_arrange c g" "\<lambda>_. True" for c g
  by unfold_locales
    (auto simp: bstack_arrange_def Let_def big_def [symmetric] split: prod.splits if_splits
      dest: big_row)

text \<open>Storing at computed indices: the indices hit, and the ones left alone.\<close>

lemma store_at_miss: "\<forall>j < length rs. f (k + j) \<noteq> i \<Longrightarrow> store_at f k rs g ! i = g ! i"
proof (induction rs arbitrary: k g)
  case (Cons r rs)
  then have "f k \<noteq> i" by (metis add_0_right length_greater_0_conv list.distinct(1))
  moreover have "\<forall>j < length rs. f (Suc k + j) \<noteq> i"
    using Cons.prems by (metis Suc_less_eq add_Suc_shift length_Cons)
  ultimately show ?case by (simp add: Cons.IH)
qed simp

lemma store_at_hit:
  "inj f \<Longrightarrow> j < length rs \<Longrightarrow> f (k + j) < length g \<Longrightarrow> store_at f k rs g ! f (k + j) = rs ! j"
proof (induction rs arbitrary: k g j)
  case (Cons r rs)
  show ?case
  proof (cases j)
    case 0
    have "\<forall>i < length rs. f (Suc k + i) \<noteq> f k"
      using injD [OF Cons.prems(1)] by fastforce
    then have "store_at f (Suc k) rs (g[f k := r]) ! f k = g[f k := r] ! f k"
      by (rule store_at_miss)
    with 0 Cons.prems(3) show ?thesis by simp
  next
    case (Suc j')
    with Cons.prems Cons.IH [of j' "Suc k" "g[f k := r]"] show ?thesis by simp
  qed
qed simp

text \<open>
  The rectangles of \<open>centered_arrange\<close>, index by index: masters first, then the two
  side columns alternately, the right one first.
\<close>

definition interleaved :: "nat \<Rightarrow> rect list \<Rightarrow> rect list \<Rightarrow> rect list \<Rightarrow> nat \<Rightarrow> rect" where
  "interleaved k master right left i =
     (if i < k then master ! i
      else if even (i - k) then right ! ((i - k) div 2) else left ! ((i - k) div 2))"

lemma store_interleaved:
  assumes "length master = k" "length right = (n - k + 1) div 2" "length left = (n - k) div 2"
    "k \<le> n" "i < n" "length g = n"
  shows "store_at (\<lambda>j. k + 2 * j + 1) 0 left
      (store_at (\<lambda>j. k + 2 * j) 0 right (store_at (\<lambda>j. j) 0 master g)) ! i =
    interleaved k master right left i"
proof -
  let ?l = "\<lambda>j. k + 2 * j + 1" and ?r = "\<lambda>j::nat. k + 2 * j"
  let ?g1 = "store_at (\<lambda>j. j) 0 master g"
  let ?g2 = "store_at ?r 0 right ?g1"
  have inj: "inj ?l" "inj ?r" "inj (\<lambda>j::nat. j)" by (auto simp: inj_def)
  consider "i < k" | j where "i = k + 2 * j" | j where "i = k + 2 * j + 1"
  proof (cases "i < k")
    case False
    then have i: "i = k + (i - k)" by simp
    show ?thesis
    proof (cases "even (i - k)")
      case True
      then obtain j where "i - k = 2 * j" by (elim evenE)
      with i that(2) show ?thesis by metis
    next
      case False
      then obtain j where "i - k = 2 * j + 1" by (elim oddE)
      with i that(3) show ?thesis by (metis add.assoc)
    qed
  qed
  then show ?thesis
  proof cases
    case 1
    then have "store_at ?l 0 left ?g2 ! i = ?g1 ! i" by (simp add: store_at_miss)
    also have "\<dots> = master ! i"
      using store_at_hit [OF inj(3), of i master 0 g] 1 assms by simp
    finally show ?thesis using 1 by (simp add: interleaved_def)
  next
    case (2 j)
    then have "\<forall>j' < length left. ?l (0 + j') \<noteq> i" by presburger
    then have "store_at ?l 0 left ?g2 ! i = ?g2 ! i" by (rule store_at_miss)
    also have "\<dots> = right ! j"
      using store_at_hit [OF inj(2), of j right 0 ?g1] 2 assms by simp
    finally show ?thesis using 2 by (simp add: interleaved_def)
  next
    case (3 j)
    then have "store_at ?l 0 left ?g2 ! i = left ! j"
      using store_at_hit [OF inj(1), of j left 0 ?g2] assms by simp
    then show ?thesis using 3 by (simp add: interleaved_def)
  qed
qed

text \<open>The columns of the centred layout and their places, as the code computes them.\<close>

definition centered_cols ::
  "config \<Rightarrow> bool \<Rightarrow> monitor \<Rightarrow> f64 list \<Rightarrow> nat \<times> rect list \<times> rect list \<times> rect list" where
  "centered_cols c g m cfacts =
     (let n = length cfacts; gp = gap_px c g n; bw = border_w c n;
          area = outer_area gp (w_area m);
          mcount = min n (nat (max (nmaster m) 0));
          scount = n - mcount;
          (mx, mw, lx, lw, rx, rw) =
            centered_split gp area (f_clamp (mfact m) mfact_lo mfact_hi) mcount scount
      in (mcount,
          column gp bw area (take mcount cfacts) mw mx,
          column gp bw area (map (\<lambda>k. cfacts ! (mcount + 2 * k)) [0..<(scount + 1) div 2]) rw rx,
          column gp bw area (map (\<lambda>k. cfacts ! (mcount + 2 * k + 1)) [0..<scount div 2]) lw lx))"

lemma centered_arrange_cols:
  assumes "centered_cols c g m cf = (k, ms, rs, ls)"
  shows "length (centered_arrange c g m cf) = length cf"
    "k = min (length cf) (nat (max (nmaster m) 0))" "length ms = k"
    "length rs = (length cf - k + 1) div 2" "length ls = (length cf - k) div 2"
    "i < length cf \<Longrightarrow> centered_arrange c g m cf ! i = interleaved k ms rs ls i"
proof -
  let ?n = "length cf" and ?k = "min (length cf) (nat (max (nmaster m) 0))"
  obtain mx mw lx lw rx rw where sp: "centered_split (gap_px c g ?n)
      (outer_area (gap_px c g ?n) (w_area m)) (f_clamp (mfact m) mfact_lo mfact_hi) ?k (?n - ?k) =
      (mx, mw, lx, lw, rx, rw)" by (metis prod_cases6)
  note defs = centered_cols_def centered_arrange_def Let_def sp prod.case
  show l: "length (centered_arrange c g m cf) = length cf"
    unfolding defs by simp
  have t: "(?k, column (gap_px c g ?n) (border_w c ?n) (outer_area (gap_px c g ?n) (w_area m)) (take ?k cf) mw mx,
      column (gap_px c g ?n) (border_w c ?n) (outer_area (gap_px c g ?n) (w_area m))
        (map (\<lambda>j. cf ! (?k + 2 * j)) [0..<(?n - ?k + 1) div 2]) rw rx,
      column (gap_px c g ?n) (border_w c ?n) (outer_area (gap_px c g ?n) (w_area m))
        (map (\<lambda>j. cf ! (?k + 2 * j + 1)) [0..<(?n - ?k) div 2]) lw lx) = (k, ms, rs, ls)"
    using assms unfolding defs .
  note e = t [unfolded prod.inject]
  note e1 = conjunct1 [OF e] and e2 = conjunct1 [OF conjunct2 [OF e]]
    and e3 = conjunct1 [OF conjunct2 [OF conjunct2 [OF e]]]
    and e4 = conjunct2 [OF conjunct2 [OF conjunct2 [OF e]]]
  from e1 show k1: "k = min (length cf) (nat (max (nmaster m) 0))" by (rule sym)
  show k2: "length ms = k" "length rs = (length cf - k + 1) div 2" "length ls = (length cf - k) div 2"
    using arg_cong [OF e2, where f = length] arg_cong [OF e3, where f = length]
      arg_cong [OF e4, where f = length]
    unfolding length_column length_map length_take length_upt k1 by simp_all
  have "centered_arrange c g m cf =
      store_at (\<lambda>j. k + 2 * j + 1) 0 ls (store_at (\<lambda>j. k + 2 * j) 0 rs
        (store_at (\<lambda>j. j) 0 ms (replicate (length cf) (mk_rect 0 0 0 0))))"
    using t unfolding defs prod.inject by (elim conjE) (simp only:)
  with store_interleaved [OF k2, where i = i] k1
  show "i < length cf \<Longrightarrow> centered_arrange c g m cf ! i = interleaved k ms rs ls i" by simp
qed

lemma half_index:
  assumes "(a :: nat) < b"
  shows "even a \<Longrightarrow> a div 2 < (b + 1) div 2" "odd a \<Longrightarrow> a div 2 < b div 2"
  using assms by (auto elim!: evenE oddE)

lemma interleaved_in:
  assumes "i < n" "length ms = k" "length rs = (n - k + 1) div 2" "length ls = (n - k) div 2"
  shows "interleaved k ms rs ls i \<in> set ms \<union> set rs \<union> set ls"
proof -
  have "even (i - k) \<Longrightarrow> (i - k) div 2 < length rs" "odd (i - k) \<Longrightarrow> (i - k) div 2 < length ls"
    if "\<not> i < k" using half_index [of "i - k" "n - k"] assms that by auto
  with assms show ?thesis by (auto simp: interleaved_def)
qed

lemma centered_set:
  assumes "centered_cols c g m cf = (k, ms, rs, ls)" "r \<in> set (centered_arrange c g m cf)"
  shows "r \<in> set ms \<union> set rs \<union> set ls"
proof -
  note cols = centered_arrange_cols [OF assms(1)]
  from assms(2) obtain i where i: "i < length cf" "r = interleaved k ms rs ls i"
    using cols(1,6) by (metis in_set_conv_nth)
  show ?thesis unfolding i(2) by (rule interleaved_in [OF i(1) cols(3-5)])
qed

lemma big_centered: "r \<in> set (centered_arrange c g m cf) \<Longrightarrow> big r"
proof -
  assume r: "r \<in> set (centered_arrange c g m cf)"
  obtain k ms rs ls where c: "centered_cols c g m cf = (k, ms, rs, ls)" by (metis prod_cases4)
  have "\<forall>x \<in> set ms \<union> set rs \<union> set ls. big x"
    using c by (auto simp: centered_cols_def Let_def split: prod.splits dest: big_column)
  with centered_set [OF c r] show ?thesis by blast
qed

interpretation centered: layout_algo "centered_arrange c g" "\<lambda>_. True" for c g
proof unfold_locales
  show "length (centered_arrange c g m cf) = length cf" for m cf
    by (metis centered_arrange_cols(1) prod_cases4)
  show "r \<in> set (centered_arrange c g m cf) \<Longrightarrow> 1 \<le> size_w r \<and> 1 \<le> size_h r" for m cf r
    using big_centered by (auto simp: big_def)
qed

lemma lua_cells_big:
  "lua_cells area bw tbl i n = Some rs \<Longrightarrow> length rs = n \<and> (\<forall>r \<in> set rs. big r)"
  by (induction n arbitrary: i rs) (auto simp: Let_def big_def split: option.splits)

interpretation lua: layout_algo "lua_arrange f c" "\<lambda>m. big (w_area m)" for f c
proof unfold_locales
  have "length (lua_arrange f c m cf) = length cf \<and>
      (big (w_area m) \<longrightarrow> (\<forall>r \<in> set (lua_arrange f c m cf). big r))" for m cf
    unfolding lua_arrange_def Let_def by (simp split: option.splits add: lua_cells_big)
  then show "length (lua_arrange f c m cf) = length cf"
    "big (w_area m) \<Longrightarrow> r \<in> set (lua_arrange f c m cf) \<Longrightarrow> 1 \<le> size_w r \<and> 1 \<le> size_h r"
    for m cf r unfolding big_def by blast+
qed

lemmas layout_lens = tile.len monocle.len col.len scroll.len dwindle.len bstack.len
  centered.len lua.len

interpretation arrange: layout_algo "layout_arrange f c g" "\<lambda>m. big (w_area m)" for f c g
proof unfold_locales
  show "length (layout_arrange f c g m cf) = length cf" for m cf
    by (simp add: layout_arrange_def layout_lens split: layout_kind.split)
  show "1 \<le> size_w r \<and> 1 \<le> size_h r"
    if "big (w_area m)" "r \<in> set (layout_arrange f c g m cf)" for m cf r
    using that tile.nonempty [of r] monocle.nonempty [of r] col.nonempty [of r] scroll.nonempty [of r]
      dwindle.nonempty [of r] bstack.nonempty [of r] centered.nonempty [of r] lua.nonempty [OF that(1), of r]
    by (auto simp: layout_arrange_def split: if_splits layout_kind.splits)
qed

text \<open>Every layout, the user's Lua one and its fallback included, returns exactly
  one rectangle per tiled window, and none of them is empty, so each window the
  compositor pairs with a rectangle is configured and none is dropped.\<close>

theorem arrange_one_rect_each:
  assumes "length ws = length cf" "1 \<le> size_w (w_area m)" "1 \<le> size_h (w_area m)"
  shows "map fst (zip ws (layout_arrange f c g m cf)) = ws \<and>
    (\<forall>r \<in> set (layout_arrange f c g m cf). 1 \<le> size_w r \<and> 1 \<le> size_h r)"
  using arrange.zip_all [OF assms(1)] arrange.nonempty [of m] assms(2,3) by (auto simp: big_def)

end
