(* ===== verification/State.thy ===== *)
theory State
  imports Space Layout
begin

text \<open>
  The compositor's state (\<^verbatim>\<open>src/state.rs\<close>), the facts it reads from the
  clients, the calls it makes outside, and the queries on the state. Calls to the
  protocol libraries, to the status printers and to the Lua hooks are recorded in
  order in the \<open>trace\<close>.
\<close>

section \<open>What the clients own\<close>

datatype dialog_hint = DlgUnknown | DlgDialog | DlgModal

datatype wm_window_type =
  WmDropdownMenu | WmDialog | WmMenu | WmNotification | WmNormal | WmPopupMenu | WmSplash
| WmToolbar | WmTooltip | WmUtility | WmCombo | WmDesktop | WmDock | WmDnd

text \<open>
  A window is a Wayland toplevel or an X11 window. The parent, dialog hint and size
  hints are the former's; the type, modality and transience the latter's.
\<close>

record client =
  cl_surface :: "surface option"
  cl_x11 :: bool
  cl_app_id :: "string option"
  cl_title :: "string option"
  cl_pid :: "int option"
  cl_geometry :: rect
  cl_parent :: "surface option"
  cl_dialog_hint :: dialog_hint
  cl_min_size :: "int \<times> int"
  cl_max_size :: "int \<times> int"
  cl_pending_min_size :: "int \<times> int"
  cl_pending_max_size :: "int \<times> int"
  cl_x11_modal :: bool
  cl_x11_type :: "wm_window_type option"
  cl_x11_min_size :: "(int \<times> int) option"
  cl_x11_max_size :: "(int \<times> int) option"
  cl_x11_transient :: bool
  cl_x11_fullscreen :: bool
  cl_x11_geometry :: rect

section \<open>What the compositor calls\<close>

datatype tl_state = Activated | TiledLeft | TiledRight | TiledTop | TiledBottom | FullscreenState

datatype tl_op = SetSize "(int \<times> int) option" | SetState tl_state | UnsetState tl_state

datatype hook_event =
  HkWindowOpen wid | HkWindowClose wid | HkFocus wid | HkStartup | HkTagSwitch u32 u32
| HkTitleChange wid string | HkLayoutChange nat nat | HkFullscreen wid bool
| HkMonitorAdd string | HkMonitorRemove string | HkMonitorLayout | HkUrgency wid
| HkLock | HkUnlock | HkConfigError string | HkCall string

datatype ipc_event =
  EvWindow string wid | EvTitle wid | EvFocus "wid option" | EvTag nat | EvLayout nat nat nat
| EvFullscreen wid | EvMonitor string string | EvUrgency wid

datatype effect =
  TlPending wid "tl_op list" | TlDecoration wid | TlConfigure wid | TlPendingConfigure wid | TlClose wid
| XConfigure wid rect | XActivated wid bool | XFullscreen wid bool | XClose wid
| SpaceActivate wid bool | KbFocus "surface option" | InjectKeys "u32 list"
| ReleasePressedKeys | PointerRefresh | PointerWarp | PointerMotion "f64 \<times> f64" "surface option"
| PointerButton u32 bool | IdleActivity
| PrintStatus | ScheduleRender | Hook hook_event | Ipc ipc_event | SpawnProc "string list"
| BarCommand string | ChangeVt int | ReloadConf | StopLoop | Notify string
| SetWallpaper "string option" "string option" | ConfirmLock | Authenticate string "nat list"

text \<open>Deferred actions of the Lua callbacks (\<open>HookCmd\<close> of \<^verbatim>\<open>hooks.rs\<close>).\<close>

datatype hook_cmd =
  HcSpawn "string list" | HcView u32 | HcNotify string | HcSetTags wid u32
| HcSetFloating wid bool | HcFocus wid | HcClose wid | HcSetLayout nat | HcDispatch action
| HcSetFullscreen wid bool | HcToggleTags wid u32 | HcMoveToMonitor wid int | HcWarp wid
| HcSetScratch wid nat | HcSetWallpaper "string option" "string option"

record rule_override =
  ro_tags :: "u32 option"
  ro_floating :: "bool option"
  ro_monitor :: "int option"
  ro_switch_to_tag :: "bool option"
  ro_scratch_key :: "nat option"
  ro_no_swallow :: "bool option"

section \<open>Sub-states\<close>

datatype cursor_mode = CmNormal | CmPressed | CmMove | CmResize

record overview_cell =
  oc_window :: wid
  oc_source :: rect
  oc_target :: rect
  oc_hint :: string
  oc_tag :: u32

datatype selection = SelWindow wid u32 | SelCancel

record overview_state =
  ov_cells :: "overview_cell list"
  ov_output :: woutput
  ov_typed :: string
  ov_hovered :: "nat option"
  ov_selected :: "nat option"
  ov_all_tags :: bool
  ov_anim_start :: nat
  ov_closing :: "selection option"

datatype corner = TopLeft | TopRight | BottomLeft | BottomRight

record pip_state =
  pip_window :: wid
  pip_output :: woutput
  pip_corner :: corner

datatype phase = Typing | Authenticating | Failed

text \<open>A timer or channel registration is its presence; characters are code points.\<close>

record lock_state =
  lk_user :: string
  lk_password :: "nat list"
  lk_phase :: phase
  lk_generation :: nat
  lk_auth_started :: "nat option"
  lk_flash_timer :: bool
  lk_anim_timer :: bool

section \<open>The compositor\<close>

text \<open>
  The first group of fields stands for what lies outside: the loaded configuration,
  the gaps switch, the clock, the user's Lua functions, the layer-shell maps (usable
  zone and whether some layer claims an exclusive one), the parents of processes, the
  modes of the outputs, what loading the configuration file gives, two environment
  variables and the clients.
\<close>

record rwl =
  cfg :: config
  gaps_on :: bool
  now :: nat
  on_arrange_fn :: on_arrange
  window_rule_fn :: "wid \<Rightarrow> rule_override option"
  lua_on :: "nat \<Rightarrow> hook_event \<Rightarrow> hook_cmd list"
  layer_zone :: "woutput \<Rightarrow> rect \<times> bool"
  parent_pid :: "int \<Rightarrow> int option"
  out_mode :: "woutput \<Rightarrow> (int \<times> int) option"
  config_file :: config
  config_error :: "string option"
  env_user :: "string option"
  env_logname :: "string option"
  clients :: "wid \<Rightarrow> client"
  ws :: wstore
  space :: space
  has_keyboard :: bool
  pointer :: "(f64 \<times> f64) option"
  pointer_grabbed :: bool
  cursor_mode :: cursor_mode
  cursor_hidden :: bool
  cursor_hide_timer :: bool
  key_repeat_action :: "action option"
  key_repeat_timer :: "(nat \<times> nat) option"
  intercepted_keys :: "u32 list"
  monitors :: "monitor list"
  sel_mon :: nat
  tag_history :: "u32 list list"
  monitor_mem :: "string \<rightharpoonup> monitor_memory"
  monitor_bounds :: "int \<times> int \<times> int \<times> int"
  windows :: "wid list"
  focus_stack :: "wid list"
  window_map :: "surface \<rightharpoonup> wid"
  grabbed_window :: "wid option"
  grab_start :: "(f64 \<times> f64) option"
  grab_geom :: "rect option"
  grab_mfact :: "f64 option"
  grab_cfact :: "f64 option"
  grab_col_idx :: "nat option"
  grab_col_facts :: "f64 list option"
  grab_was_floating :: bool
  lock_surfaces :: "(surface \<times> woutput) list"
  locked :: bool
  native_lock :: "lock_state option"
  overview :: "overview_state option"
  mod_tap :: "(nat \<times> u32) option"
  pip :: "pip_state option"
  passthrough :: bool
  running :: bool
  initial_warp_done :: bool
  startup_done :: bool
  pending_tag_transition :: "(u32 \<times> u32 \<times> f64) option"
  x11_or_windows :: "wid list"
  hook_queue :: "hook_cmd list"
  hook_count :: nat
  trace :: "effect list"

text \<open>A call outside is appended to the trace; a hook may queue commands.\<close>

definition emit :: "effect \<Rightarrow> rwl \<Rightarrow> rwl" where
  "emit e s = s\<lparr>trace := trace s @ [e]\<rparr>"

definition emits :: "effect list \<Rightarrow> rwl \<Rightarrow> rwl" where
  "emits es s = s\<lparr>trace := trace s @ es\<rparr>"

definition fire :: "hook_event \<Rightarrow> rwl \<Rightarrow> rwl" where
  "fire h s = s\<lparr>trace := trace s @ [Hook h],
     hook_queue := hook_queue s @ lua_on s (hook_count s) h, hook_count := Suc (hook_count s)\<rparr>"

definition mod_state :: "wid \<Rightarrow> (wstate \<Rightarrow> wstate) \<Rightarrow> rwl \<Rightarrow> rwl" where
  "mod_state w f s = s\<lparr>ws := with_state_mut (cfg s) (ws s) w f\<rparr>"

definition geometry_of :: "rwl \<Rightarrow> wid \<Rightarrow> rect option" where
  "geometry_of s w = element_geometry (space s) (\<lambda>v. cl_geometry (clients s v)) w"

definition toplevel :: "rwl \<Rightarrow> wid \<Rightarrow> bool" where
  "toplevel s w = (\<not> cl_x11 (clients s w))"

section \<open>Queries\<close>

definition sel_monitor :: "rwl \<Rightarrow> monitor option" where
  "sel_monitor s = get_at (monitors s) (sel_mon s)"

definition sel_tags_of :: "rwl \<Rightarrow> u32" where
  "sel_tags_of s = (case sel_monitor s of Some m \<Rightarrow> tags m | None \<Rightarrow> 0)"

text \<open>The windows a monitor shows: its tags overlap and it is the window's monitor.\<close>

definition shown_on :: "wstore \<Rightarrow> u32 \<Rightarrow> nat \<Rightarrow> wid \<Rightarrow> bool" where
  "shown_on st t mon w =
     unwrap_or (with_state st w (\<lambda>x. ws_tags x AND t \<noteq> 0 \<and> mon_idx x = mon)) False"

definition focused_window :: "rwl \<Rightarrow> wid option" where
  "focused_window s = List.find (shown_on (ws s) (sel_tags_of s) (sel_mon s)) (focus_stack s)"

definition tile_master_window :: "rwl \<Rightarrow> wid option" where
  "tile_master_window s = (case sel_monitor s of
     None \<Rightarrow> None
   | Some mon \<Rightarrow>
       if layout_kind_of (cfg s) mon \<noteq> Tile then None
       else List.find (\<lambda>w. unwrap_or (with_state (ws s) w (\<lambda>x.
              mon_idx x = sel_mon s \<and> ws_tags x AND tags mon \<noteq> 0 \<and> rules_applied x \<and>
              \<not> is_floating x \<and> \<not> is_fullscreen x)) False) (windows s))"

definition upd_sel_monitor :: "(monitor \<Rightarrow> monitor) \<Rightarrow> rwl \<Rightarrow> rwl" where
  "upd_sel_monitor f s = s\<lparr>monitors := update_at (sel_mon s) f (monitors s)\<rparr>"

definition upd_monitor :: "nat \<Rightarrow> (monitor \<Rightarrow> monitor) \<Rightarrow> rwl \<Rightarrow> rwl" where
  "upd_monitor i f s = s\<lparr>monitors := update_at i f (monitors s)\<rparr>"

definition monitor_for_output :: "rwl \<Rightarrow> woutput \<Rightarrow> nat option" where
  "monitor_for_output s out = position (\<lambda>m. mon_output m = out) (monitors s)"

text \<open>\<open>x as i32\<close> truncates towards zero and saturates.\<close>

definition monitor_at :: "rwl \<Rightarrow> f64 \<Rightarrow> f64 \<Rightarrow> nat option" where
  "monitor_at s x y =
     position (\<lambda>m. contains (m_area m) (f_as_i32 x, f_as_i32 y)) (monitors s)"

definition window_for_surface :: "rwl \<Rightarrow> surface \<Rightarrow> wid option" where
  "window_for_surface s surf = window_map s surf"

fun union_bounds :: "int \<times> int \<times> int \<times> int \<Rightarrow> int \<times> int \<times> int \<times> int \<Rightarrow> int \<times> int \<times> int \<times> int" where
  "union_bounds (ax1, ay1, ax2, ay2) (x1, y1, x2, y2) =
     (min ax1 x1, min ay1 y1, max ax2 x2, max ay2 y2)"

definition rect_bounds :: "rect \<Rightarrow> int \<times> int \<times> int \<times> int" where
  "rect_bounds r =
     (loc_x r, loc_y r, i32 (loc_x r + size_w r), i32 (loc_y r + size_h r))"

definition update_monitor_bounds :: "rwl \<Rightarrow> rwl" where
  "update_monitor_bounds s = s\<lparr>monitor_bounds :=
     (case map (\<lambda>m. rect_bounds (m_area m)) (monitors s) of
        [] \<Rightarrow> (0, 0, 0, 0) | b # bs \<Rightarrow> foldl union_bounds b bs)\<rparr>"

definition target_monitor_for_window :: "rwl \<Rightarrow> int \<Rightarrow> nat" where
  "target_monitor_for_window s rule_monitor =
     (if rule_monitor \<ge> 0 then min (nat rule_monitor) (length (monitors s) - 1) else sel_mon s)"

definition dir_to_monitor :: "rwl \<Rightarrow> nat \<Rightarrow> int \<Rightarrow> nat option" where
  "dir_to_monitor s from dir =
     (let n = length (monitors s) in
      if n < 2 then None
      else Some (if dir > 0 then (from + 1) mod n else (from + n - 1) mod n))"

definition tiled_in :: "wstore \<Rightarrow> u32 \<Rightarrow> wid \<Rightarrow> bool" where
  "tiled_in st t w \<longleftrightarrow>
     window_visible_on st w t \<and> \<not> window_is_floating st w \<and> \<not> window_is_fullscreen st w \<and>
     unwrap_or (with_state st w rules_applied) False"

definition count_tiled :: "rwl \<Rightarrow> u32 \<Rightarrow> nat" where
  "count_tiled s t = length (filter (tiled_in (ws s) t) (windows s))"

definition next_occ_tag :: "rwl \<Rightarrow> int \<Rightarrow> u32 option" where
  "next_occ_tag s dir = (case sel_monitor s of
     None \<Rightarrow> None
   | Some mon \<Rightarrow>
       let occupied = foldl (OR) 0 (map (window_tags (ws s)) (windows s))
       in next_occupied_tag (cfg s) mon occupied dir)"

text \<open>The tag history keeps its entries unique and at most sixteen, dropping the oldest.\<close>

definition push_history :: "u32 \<Rightarrow> u32 list \<Rightarrow> u32 list" where
  "push_history t hist =
     (let h = filter (\<lambda>x. x \<noteq> t) hist @ [t] in if length h > 16 then tl h else h)"

definition update_tag_history :: "nat \<Rightarrow> u32 \<Rightarrow> rwl \<Rightarrow> rwl" where
  "update_tag_history i target s = (case get_at (monitors s) i of
     None \<Rightarrow> s
   | Some m \<Rightarrow>
       if tags m = target then s
       else s\<lparr>tag_history := update_at i (push_history (tags m)) (tag_history s)\<rparr>)"

section \<open>Work areas\<close>

definition work_area :: "rect \<times> bool \<Rightarrow> monitor \<Rightarrow> rect" where
  "work_area z mon =
     (let (zone, has_exclusive_layers) = z;
          new_w = (if size_w zone > 0 \<and> size_h zone > 0
                   then mk_rect (i32 (loc_x (m_area mon) + loc_x zone))
                          (i32 (loc_y (m_area mon) + loc_y zone)) (size_w zone) (size_h zone)
                   else m_area mon)
      in if has_exclusive_layers \<and> new_w = m_area mon \<and> w_area mon \<noteq> m_area mon
         then w_area mon else new_w)"

definition update_work_areas :: "rwl \<Rightarrow> rwl" where
  "update_work_areas s = s\<lparr>monitors :=
     map (\<lambda>m. m\<lparr>w_area := work_area (layer_zone s (mon_output m)) m\<rparr>) (monitors s)\<rparr>"

section \<open>Small operations\<close>

definition set_focus :: "surface option \<Rightarrow> rwl \<Rightarrow> rwl" where
  "set_focus surf s = (if has_keyboard s then emit (KbFocus surf) s else s)"

definition schedule_render :: "rwl \<Rightarrow> rwl" where
  "schedule_render = emit ScheduleRender"

definition print_status :: "rwl \<Rightarrow> rwl" where
  "print_status = emit PrintStatus"

text \<open>
  \<open>refresh_pointer_focus\<close>: the surface search below the pointer is the toolkit's;
  the call is recorded when the guards let it through.
\<close>

definition refresh_pointer_focus :: "rwl \<Rightarrow> rwl" where
  "refresh_pointer_focus s =
     (if locked s then s
      else case pointer s of
        None \<Rightarrow> s
      | Some _ \<Rightarrow> if pointer_grabbed s then s else emit PointerRefresh s)"

definition focused_surface :: "rwl \<Rightarrow> surface option" where
  "focused_surface s = (case focused_window s of
     Some w \<Rightarrow> cl_surface (clients s w) | None \<Rightarrow> None)"

text \<open>\<open>interactive\<close> is the topmost layer surface that may take the keyboard.\<close>

definition update_layer_focus :: "surface option \<Rightarrow> rwl \<Rightarrow> rwl" where
  "update_layer_focus interactive s =
     (if locked s then s
      else case interactive of
        Some surf \<Rightarrow> set_focus (Some surf) s
      | None \<Rightarrow> set_focus (focused_surface s) s)"

definition update_borders :: "rwl \<Rightarrow> rwl" where
  "update_borders s =
     (let focused = focused_window s in
      s\<lparr>ws := fold (\<lambda>w st. with_state_mut (cfg s) st w
          (\<lambda>x. x\<lparr>border_color := (if Some w = focused then c_focus_color (cfg s)
                                    else c_border_color (cfg s)),
                  border_counter := Suc (border_counter x)\<rparr>)) (windows s) (ws s)\<rparr>)"

text \<open>Pointer activity shows the cursor and restarts the timer that hides it.\<close>

definition handle_cursor_activity :: "rwl \<Rightarrow> rwl" where
  "handle_cursor_activity s =
     (let s1 = emit IdleActivity s;
          s2 = (if cursor_hidden s1 then schedule_render (s1\<lparr>cursor_hidden := False\<rparr>) else s1)
      in s2\<lparr>cursor_hide_timer := True\<rparr>)"

definition cursor_hide_fired :: "rwl \<Rightarrow> rwl" where
  "cursor_hide_fired s = schedule_render (s\<lparr>cursor_hidden := True, cursor_hide_timer := False\<rparr>)"

definition release_all_pressed_keys :: "rwl \<Rightarrow> rwl" where
  "release_all_pressed_keys s = (if has_keyboard s then emit ReleasePressedKeys s else s)"

definition stop_key_repeat :: "rwl \<Rightarrow> rwl" where
  "stop_key_repeat s = s\<lparr>key_repeat_timer := None, key_repeat_action := None\<rparr>"

section \<open>A state to run in\<close>

text \<open>
  The examples of the development start here: the default configuration without
  bindings, a client that shows nothing, no Lua functions and no monitor.
\<close>

definition idle_client :: client where
  "idle_client = \<lparr>cl_surface = None, cl_x11 = False, cl_app_id = None, cl_title = None,
     cl_pid = None, cl_geometry = mk_rect 0 0 0 0, cl_parent = None,
     cl_dialog_hint = DlgUnknown, cl_min_size = (0, 0), cl_max_size = (0, 0),
     cl_pending_min_size = (0, 0), cl_pending_max_size = (0, 0), cl_x11_modal = False,
     cl_x11_type = None, cl_x11_min_size = None, cl_x11_max_size = None,
     cl_x11_transient = False, cl_x11_fullscreen = False, cl_x11_geometry = mk_rect 0 0 0 0\<rparr>"

definition idle :: rwl where
  "idle = \<lparr>cfg = default_config [] [], gaps_on = True, now = 0, on_arrange_fn = None,
     window_rule_fn = (\<lambda>_. None), lua_on = (\<lambda>_ _. []),
     layer_zone = (\<lambda>_. (mk_rect 0 0 0 0, False)), parent_pid = (\<lambda>_. None),
     out_mode = (\<lambda>_. Some (1920, 1080)), config_file = default_config [] [],
     config_error = None, env_user = None, env_logname = None, clients = (\<lambda>_. idle_client),
     ws = Map.empty, space = [], has_keyboard = True, pointer = None, pointer_grabbed = False,
     cursor_mode = CmNormal, cursor_hidden = False, cursor_hide_timer = False,
     key_repeat_action = None, key_repeat_timer = None, intercepted_keys = [], monitors = [],
     sel_mon = 0, tag_history = [], monitor_mem = Map.empty, monitor_bounds = (0, 0, 0, 0),
     windows = [], focus_stack = [], window_map = Map.empty, grabbed_window = None,
     grab_start = None, grab_geom = None, grab_mfact = None, grab_cfact = None,
     grab_col_idx = None, grab_col_facts = None, grab_was_floating = False,
     lock_surfaces = [], locked = False, native_lock = None, overview = None, mod_tap = None,
     pip = None, passthrough = False, running = True, initial_warp_done = False,
     startup_done = False, pending_tag_transition = None, x11_or_windows = [],
     hook_queue = [], hook_count = 0, trace = []\<rparr>"

lemma idle_simps [simp]:
  "cfg idle = default_config [] []" "clients idle = (\<lambda>_. idle_client)" "ws idle = Map.empty"
  "space idle = []" "monitors idle = []" "windows idle = []" "focus_stack idle = []"
  "window_map idle = Map.empty" "locked idle = False" "native_lock idle = None"
  "tag_history idle = []" "sel_mon idle = 0" "has_keyboard idle = True" "overview idle = None"
  "cl_x11 idle_client = False" "pointer idle = None" "pip idle = None"
  by (simp_all add: idle_def idle_client_def)

end
