(* ===== verification/Text.thy ===== *)
theory Text
  imports Prelude
begin

text \<open>
  The operations of Rust's \<open>str\<close> the sources use, on strings of bytes: ASCII case,
  substring search, splitting at white space and at a character, reading and
  writing decimal numbers. White space is the ASCII one.
\<close>

definition ascii_lower :: "char \<Rightarrow> char" where
  "ascii_lower c = (let n = of_char c :: nat in
     if 65 \<le> n \<and> n \<le> 90 then char_of (n + 32) else c)"

definition to_ascii_lowercase :: "string \<Rightarrow> string" where
  "to_ascii_lowercase = map ascii_lower"

definition eq_ignore_ascii_case :: "string \<Rightarrow> string \<Rightarrow> bool" where
  "eq_ignore_ascii_case a b \<longleftrightarrow> to_ascii_lowercase a = to_ascii_lowercase b"

text \<open>\<open>hay.contains(needle)\<close>: some suffix of the text starts with the needle.\<close>

fun str_contains :: "string \<Rightarrow> string \<Rightarrow> bool" where
  "str_contains [] needle = (needle = [])"
| "str_contains (c # cs) needle = (prefix needle (c # cs) \<or> str_contains cs needle)"

lemma str_contains_iff: "str_contains hay needle \<longleftrightarrow> sublist needle hay"
  by (induction hay) (auto simp: sublist_Cons_right)

definition is_ws :: "char \<Rightarrow> bool" where
  "is_ws c \<longleftrightarrow> (let n = of_char c :: nat in (9 \<le> n \<and> n \<le> 13) \<or> n = 32)"

text \<open>\<open>split_whitespace\<close>: the maximal runs without white space.\<close>

fun split_ws :: "string \<Rightarrow> string list" where
  "split_ws [] = []"
| "split_ws (c # cs) =
     (if is_ws c then split_ws cs
      else case cs of
        [] \<Rightarrow> [[c]]
      | d # _ \<Rightarrow> if is_ws d then [c] # split_ws cs
                 else case split_ws cs of [] \<Rightarrow> [[c]] | w # ws \<Rightarrow> (c # w) # ws)"

lemma split_ws_nonempty: "\<not> is_ws c \<Longrightarrow> split_ws (c # cs) \<noteq> []"
  by (auto split: list.split)

text \<open>A run followed by white space is the first word.\<close>

lemma split_ws_word:
  "w \<noteq> [] \<Longrightarrow> \<forall>c \<in> set w. \<not> is_ws c \<Longrightarrow> is_ws s \<Longrightarrow>
   split_ws (w @ s # rest) = w # split_ws rest"
proof (induction w)
  case (Cons c w)
  then show ?case by (cases w) (auto simp: split_ws_nonempty)
qed simp

lemma split_ws_last: "w \<noteq> [] \<Longrightarrow> \<forall>c \<in> set w. \<not> is_ws c \<Longrightarrow> split_ws w = [w]"
proof (induction w)
  case (Cons c w)
  then show ?case by (cases w) auto
qed simp

definition trim_start :: "string \<Rightarrow> string" where
  "trim_start s = dropWhile is_ws s"

definition trim :: "string \<Rightarrow> string" where
  "trim s = rev (dropWhile is_ws (rev (dropWhile is_ws s)))"

text \<open>\<open>split_once\<close> and \<open>rsplit_once\<close> at a character.\<close>

fun split_once :: "char \<Rightarrow> string \<Rightarrow> (string \<times> string) option" where
  "split_once c [] = None"
| "split_once c (d # s) =
     (if d = c then Some ([], s)
      else map_option (\<lambda>(a, b). (d # a, b)) (split_once c s))"

definition rsplit_once :: "char \<Rightarrow> string \<Rightarrow> (string \<times> string) option" where
  "rsplit_once c s = map_option (\<lambda>(a, b). (rev b, rev a)) (split_once c (rev s))"

lemma split_once_first: "c \<notin> set a \<Longrightarrow> split_once c (a @ c # b) = Some (a, b)"
  by (induction a) auto

lemma rsplit_once_last: "c \<notin> set b \<Longrightarrow> rsplit_once c (a @ c # b) = Some (a, b)"
  using split_once_first [of c "rev b" "rev a"] by (simp add: rsplit_once_def)

section \<open>Decimal numbers\<close>

definition digit :: "char \<Rightarrow> nat option" where
  "digit c = (let n = of_char c :: nat in if 48 \<le> n \<and> n \<le> 57 then Some (n - 48) else None)"

fun parse_digits :: "nat \<Rightarrow> string \<Rightarrow> nat option" where
  "parse_digits acc [] = Some acc"
| "parse_digits acc (c # cs) = (case digit c of
     None \<Rightarrow> None | Some d \<Rightarrow> parse_digits (10 * acc + d) cs)"

definition parse_nat :: "string \<Rightarrow> nat option" where
  "parse_nat s = (if s = [] then None else parse_digits 0 s)"

text \<open>\<open>parse::<i32>()\<close> and \<open>parse::<u32>()\<close>: an optional sign, digits, in range.\<close>

definition parse_signed :: "int \<Rightarrow> int \<Rightarrow> string \<Rightarrow> int option" where
  "parse_signed lo hi s =
     (let v = (case s of
          [] \<Rightarrow> None
        | c # cs \<Rightarrow> if c = CHR ''-'' then map_option (\<lambda>n. - int n) (parse_nat cs)
                   else if c = CHR ''+'' then map_option int (parse_nat cs)
                   else map_option int (parse_nat s))
      in case v of None \<Rightarrow> None | Some i \<Rightarrow> if lo \<le> i \<and> i \<le> hi then Some i else None)"

definition parse_i32 :: "string \<Rightarrow> int option" where
  "parse_i32 = parse_signed (- 2147483648) 2147483647"

definition parse_unsigned :: "nat \<Rightarrow> string \<Rightarrow> nat option" where
  "parse_unsigned hi s =
     (let v = (case s of
          c # cs \<Rightarrow> if c = CHR ''+'' then parse_nat cs else parse_nat s | [] \<Rightarrow> None)
      in case v of None \<Rightarrow> None | Some n \<Rightarrow> if n \<le> hi then Some n else None)"

definition digit_char :: "nat \<Rightarrow> char" where
  "digit_char d = char_of (d + 48)"

fun show_nat :: "nat \<Rightarrow> string" where
  "show_nat n = (if n < 10 then [digit_char n] else show_nat (n div 10) @ [digit_char (n mod 10)])"

declare show_nat.simps [simp del]

definition show_int :: "int \<Rightarrow> string" where
  "show_int i = (if i < 0 then CHR ''-'' # show_nat (nat (- i)) else show_nat (nat i))"

lemma digit_digit_char [simp]: "d < 10 \<Longrightarrow> digit (digit_char d) = Some d"
  by (simp add: digit_def digit_char_def of_char_of)

lemma parse_digits_append:
  "parse_digits acc (a @ b) = (case parse_digits acc a of None \<Rightarrow> None | Some n \<Rightarrow> parse_digits n b)"
  by (induction a arbitrary: acc) (auto split: option.splits)

lemma parse_digits_show: "parse_digits 0 (show_nat n) = Some n"
proof (induction n rule: show_nat.induct)
  case (1 n)
  then show ?case
    by (subst show_nat.simps) (auto simp: parse_digits_append)
qed

lemma show_nat_nonempty [simp]: "show_nat n \<noteq> []"
  by (subst show_nat.simps) simp

lemma parse_show_nat [simp]: "parse_nat (show_nat n) = Some n"
  by (simp add: parse_nat_def parse_digits_show)

lemma show_nat_digits: "c \<in> set (show_nat n) \<Longrightarrow> \<exists>d < 10. c = digit_char d"
proof (induction n rule: show_nat.induct)
  case (1 n)
  show ?case
  proof (cases "n < 10")
    case True
    with 1(2) show ?thesis by (subst (asm) show_nat.simps) auto
  next
    case False
    with 1(2) have "c \<in> set (show_nat (n div 10)) \<or> c = digit_char (n mod 10)"
      by (subst (asm) show_nat.simps) auto
    with 1(1) [OF False] show ?thesis by (metis mod_less_divisor zero_less_numeral)
  qed
qed

lemma digit_char_code: "d < 10 \<Longrightarrow> of_char (digit_char d) = d + 48"
  by (simp add: digit_char_def of_char_of)

lemma digit_char_neq: "d < 10 \<Longrightarrow> of_char c \<notin> {48..57::nat} \<Longrightarrow> digit_char d \<noteq> c"
  using digit_char_code by fastforce

lemma show_nat_no: "of_char c \<notin> {48..57::nat} \<Longrightarrow> c \<notin> set (show_nat n)"
  using show_nat_digits digit_char_neq by fastforce

lemma show_nat_hd: "\<exists>c cs. show_nat n = c # cs \<and> c \<noteq> CHR ''-'' \<and> c \<noteq> CHR ''+''"
proof -
  obtain c cs where "show_nat n = c # cs" by (cases "show_nat n") auto
  moreover from this have "c \<in> set (show_nat n)" by simp
  ultimately show ?thesis
    using show_nat_no [of "CHR ''-''" n] show_nat_no [of "CHR ''+''" n] by force
qed

lemma show_nat_ws: "c \<in> set (show_nat n) \<Longrightarrow> \<not> is_ws c"
proof -
  assume "c \<in> set (show_nat n)"
  then obtain d where "d < 10" "c = digit_char d" using show_nat_digits by blast
  then show ?thesis by (simp add: is_ws_def digit_char_code)
qed

text \<open>Printing and parsing are inverse on the range.\<close>

lemma parse_signed_show: "lo \<le> i \<Longrightarrow> i \<le> hi \<Longrightarrow> parse_signed lo hi (show_int i) = Some i"
proof -
  assume r: "lo \<le> i" "i \<le> hi"
  obtain c cs where c: "show_nat (nat i) = c # cs" "c \<noteq> CHR ''-''" "c \<noteq> CHR ''+''"
    using show_nat_hd by blast
  have p: "parse_nat (c # cs) = Some (nat i)" by (metis c(1) parse_show_nat)
  show ?thesis
  proof (cases "i < 0")
    case True
    with r show ?thesis by (simp add: show_int_def parse_signed_def)
  next
    case False
    with r c p show ?thesis by (simp add: show_int_def parse_signed_def)
  qed
qed

lemma parse_i32_show: "in_i32 i \<Longrightarrow> parse_i32 (show_int i) = Some i"
  by (auto simp: parse_i32_def in_i32_def intro: parse_signed_show)

lemma parse_unsigned_show: "n \<le> hi \<Longrightarrow> parse_unsigned hi (show_nat n) = Some n"
proof -
  assume "n \<le> hi"
  moreover obtain c cs where c: "show_nat n = c # cs" "c \<noteq> CHR ''-''" "c \<noteq> CHR ''+''"
    using show_nat_hd by blast
  moreover have "parse_nat (c # cs) = Some n" by (metis c(1) parse_show_nat)
  ultimately show ?thesis by (simp add: parse_unsigned_def)
qed

lemma show_int_no_ws: "c \<in> set (show_int i) \<Longrightarrow> \<not> is_ws c"
  using show_nat_ws by (auto simp: show_int_def is_ws_def split: if_splits)

lemma show_int_nonempty [simp]: "show_int i \<noteq> []"
  by (simp add: show_int_def)

lemma show_int_no: "of_char c \<notin> insert 45 {48..57::nat} \<Longrightarrow> c \<notin> set (show_int i)"
  using show_nat_no [of c] by (auto simp: show_int_def)

end
