(* ===== verification/Swallow.thy ===== *)
theory Swallow
  imports State Text
begin

text \<open>
  Terminal swallowing (\<^verbatim>\<open>src/features/windows/swallow.rs\<close>): a window whose
  process descends from a terminal's takes the terminal's place, which is hidden
  until the window goes. The parents of processes are read from \<^verbatim>\<open>/proc\<close>, whose
  line format \<open>stat_ppid\<close> parses.
\<close>

section \<open>Finding the terminal\<close>

definition is_terminal :: "config \<Rightarrow> string \<Rightarrow> bool" where
  "is_terminal c app_id = list_ex (\<lambda>t. eq_ignore_ascii_case t app_id) (c_swallow_terminals c)"

definition window_pid :: "rwl \<Rightarrow> wid \<Rightarrow> int option" where
  "window_pid s w = (if toplevel s w then cl_pid (clients s w) else None)"

text \<open>\<open>parent_pid\<close> on Linux: the fields after the last closing parenthesis.\<close>

definition stat_ppid :: "string \<Rightarrow> int option" where
  "stat_ppid stat = (case rsplit_once (CHR '')'') stat of
     None \<Rightarrow> None
   | Some (_, tail) \<Rightarrow> (case split_ws tail of
       _ # ppid # _ \<Rightarrow> parse_i32 ppid | _ \<Rightarrow> None))"

definition rule_matches :: "string \<Rightarrow> string \<Rightarrow> rule \<Rightarrow> bool" where
  "rule_matches appid title r \<longleftrightarrow>
     (case r_id r of None \<Rightarrow> True | Some i \<Rightarrow> str_contains appid i) \<and>
     (case r_title r of None \<Rightarrow> True | Some t \<Rightarrow> str_contains title t)"

text \<open>The walk up the ancestry, at most \<open>n\<close> steps.\<close>

fun ancestor_walk ::
  "(int \<Rightarrow> int option) \<Rightarrow> (int \<times> wid) list \<Rightarrow> nat \<Rightarrow> int option \<Rightarrow> wid option" where
  "ancestor_walk ppid cands 0 pid = None"
| "ancestor_walk ppid cands (Suc n) pid = (case pid of
     None \<Rightarrow> None
   | Some p \<Rightarrow>
       if p \<le> 1 then None
       else case List.find (\<lambda>c. fst c = p) cands of
         Some (_, t) \<Rightarrow> Some t
       | None \<Rightarrow> ancestor_walk ppid cands n (ppid p))"

definition swallow_candidates :: "rwl \<Rightarrow> wid \<Rightarrow> (int \<times> wid) list" where
  "swallow_candidates s child =
     List.map_filter (\<lambda>w. map_option (\<lambda>p. (p, w)) (window_pid s w))
       (filter (\<lambda>w. case with_state (ws s) w last_appid of
            Some (Some a) \<Rightarrow> is_terminal (cfg s) a | _ \<Rightarrow> False)
         (filter (\<lambda>w. \<not> unwrap_or (with_state (ws s) w is_swallowed) False)
           (filter (\<lambda>w. w \<noteq> child) (windows s))))"

definition find_target :: "rwl \<Rightarrow> wid \<Rightarrow> string \<Rightarrow> string \<Rightarrow> wid option" where
  "find_target s child appid title =
     (if \<not> c_swallow_enabled (cfg s) then None
      else if is_terminal (cfg s) appid then None
      else if unwrap_or (with_state (ws s) child no_swallow) False then None
      else if list_ex (\<lambda>r. r_no_swallow r \<and> rule_matches appid title r) (c_rules (cfg s)) then None
      else case window_pid s child of
        None \<Rightarrow> None
      | Some child_pid \<Rightarrow>
          let cands = swallow_candidates s child in
          if cands = [] then None
          else ancestor_walk (parent_pid s) cands 32 (parent_pid s child_pid))"

section \<open>Swallowing and restoring\<close>

definition do_swallow :: "wid \<Rightarrow> wid \<Rightarrow> rwl \<Rightarrow> rwl" where
  "do_swallow child term s =
     (let (t, mon, floating, cf) =
        unwrap_or (with_state (ws s) term (\<lambda>x. (ws_tags x, mon_idx x, is_floating x, cfact x)))
          (1, 0, False, f_lit 1)
      in mod_state term (is_swallowed_update (\<lambda>_. True))
          (mod_state child (\<lambda>x. x\<lparr>ws_tags := t, mon_idx := mon, is_floating := floating,
              cfact := cf, needs_centering := floating, swallowing := Some term\<rparr>) s))"

definition try_swallow :: "wid \<Rightarrow> rwl \<Rightarrow> rwl" where
  "try_swallow child s =
     (let (appid, title) = unwrap_or (with_state (ws s) child
            (\<lambda>x. (unwrap_or (last_appid x) [], unwrap_or (last_title x) []))) ([], [])
      in case find_target s child appid title of
           Some term \<Rightarrow> do_swallow child term s | None \<Rightarrow> s)"

definition swallowed_by :: "rwl \<Rightarrow> wid \<Rightarrow> wid option" where
  "swallowed_by s w = (case with_state (ws s) w swallowing of
     Some (Some t) \<Rightarrow> if t \<in> set (windows s) then Some t else None | _ \<Rightarrow> None)"

definition restore_terminal :: "wid \<Rightarrow> wid \<Rightarrow> rwl \<Rightarrow> rwl" where
  "restore_terminal w term s =
     (let (t, mon) = unwrap_or (with_state (ws s) w (\<lambda>x. (ws_tags x, mon_idx x))) (1, 0)
      in mod_state term (\<lambda>x. x\<lparr>is_swallowed := False, ws_tags := t, mon_idx := mon\<rparr>) s)"

definition drop_links :: "wid \<Rightarrow> rwl \<Rightarrow> rwl" where
  "drop_links w s = s\<lparr>ws := fold (\<lambda>v st.
     if unwrap_or (with_state st v (\<lambda>x. swallowing x = Some w)) False
     then with_state_mut (cfg s) st v (swallowing_update (\<lambda>_. None)) else st) (windows s) (ws s)\<rparr>"

definition on_unmap :: "wid \<Rightarrow> rwl \<Rightarrow> rwl \<times> wid option" where
  "on_unmap w s =
     (let restored = swallowed_by s w;
          s1 = (case restored of Some t \<Rightarrow> restore_terminal w t s | None \<Rightarrow> s);
          s2 = (if unwrap_or (with_state (ws s1) w is_swallowed) False then drop_links w s1 else s1)
      in (s2, restored))"

end
