(* ===== verification/Transition.thy ===== *)
theory Transition
  imports State
begin

text \<open>
  The slide animation of a tag switch
  (\<^verbatim>\<open>src/features/effects/tag_transition.rs\<close>): windows that leave the view are
  marked before the layout pass, which then keeps them mapped; windows that enter
  it start off-screen after the pass.
\<close>

section \<open>Marking\<close>

definition slide_guard :: "config \<Rightarrow> u32 \<Rightarrow> u32 \<Rightarrow> bool" where
  "slide_guard c old_tag new_tags \<longleftrightarrow>
     \<not> (old_tag = 0 \<or> new_tags = 0 \<or> new_tags = old_tag) \<and>
     \<not> (\<not> c_tag_transition c \<or> c_tag_transition_ms c = 0)"

definition mark_slide_out :: "nat \<Rightarrow> f64 \<Rightarrow> wstate \<Rightarrow> wstate" where
  "mark_slide_out t to_x x =
     x\<lparr>slide_from_x := f_lit 0, slide_to_x := to_x, slide_offset_x := f_lit 0,
       slide_out := True, slide_start := Some t\<rparr>"

definition mark_slide_outs :: "u32 \<Rightarrow> u32 \<Rightarrow> f64 \<Rightarrow> rwl \<Rightarrow> rwl" where
  "mark_slide_outs old_tag new_raw output_w s =
     (let new_tags = new_raw AND tag_mask (cfg s) in
      if \<not> slide_guard (cfg s) old_tag new_tags then s
      else
        let old_pos = trailing_zeros old_tag; new_pos = trailing_zeros new_tags;
            to_x = (if new_pos \<ge> old_pos then f_neg output_w else output_w)
        in s\<lparr>ws := fold (\<lambda>w st.
             let t = window_tags st w in
             if t AND old_tag \<noteq> 0 \<and> t AND new_tags = 0
             then with_state_mut (cfg s) st w (mark_slide_out (now s) to_x) else st)
             (windows s) (ws s)\<rparr>)"

definition start_slide_in :: "nat \<Rightarrow> f64 \<Rightarrow> wstate \<Rightarrow> wstate" where
  "start_slide_in t from_x x =
     (if slide_out x then x
      else if \<not> buffer_mapped x then x
      else x\<lparr>slide_from_x := from_x, slide_to_x := f_lit 0, slide_offset_x := from_x,
             slide_start := Some t\<rparr>)"

definition start_tag_transition :: "u32 \<Rightarrow> u32 \<Rightarrow> f64 \<Rightarrow> rwl \<Rightarrow> rwl" where
  "start_tag_transition old_tag new_raw output_w s =
     (let new_tags = new_raw AND tag_mask (cfg s) in
      if \<not> slide_guard (cfg s) old_tag new_tags then s
      else
        let old_pos = trailing_zeros old_tag; new_pos = trailing_zeros new_tags;
            from_x = (if new_pos \<ge> old_pos then output_w else f_neg output_w)
        in s\<lparr>ws := fold (\<lambda>w st.
             let t = window_tags st w in
             if t AND new_tags \<noteq> 0 \<and> t AND old_tag = 0
             then with_state_mut (cfg s) st w (start_slide_in (now s) from_x) else st)
             (windows s) (ws s)\<rparr>)"

section \<open>Advancing\<close>

text \<open>
  One frame. Whether the animation begun at an instant is over, and the eased offset of a
  window, are computed in \<open>f32\<close> and arguments here. A finished slide-out keeps its flag, for
  \<open>finalize_slide_outs\<close>.
\<close>

definition advance_slide :: "(nat \<Rightarrow> bool) \<Rightarrow> (wstate \<Rightarrow> f64) \<Rightarrow> wstate \<Rightarrow> wstate" where
  "advance_slide over eased x = (case slide_start x of
     None \<Rightarrow> x
   | Some t0 \<Rightarrow>
       let x1 = x\<lparr>slide_offset_x := eased x\<rparr> in
       if over t0
       then x1\<lparr>slide_start := None,
               slide_offset_x := (if slide_out x1 then slide_offset_x x1 else f_lit 0)\<rparr>
       else x1)"

definition advance_tag_transitions ::
  "(nat \<Rightarrow> bool) \<Rightarrow> (wstate \<Rightarrow> f64) \<Rightarrow> rwl \<Rightarrow> rwl \<times> bool" where
  "advance_tag_transitions over eased s =
     (if \<not> c_tag_transition (cfg s) \<or> c_tag_transition_ms (cfg s) = 0 then (s, False)
      else
        (s\<lparr>ws := fold (\<lambda>w st. with_state_mut (cfg s) st w (advance_slide over eased))
             (elements (space s)) (ws s)\<rparr>,
         list_ex (\<lambda>w. unwrap_or (with_state (ws s) w
           (\<lambda>x. case slide_start x of Some t0 \<Rightarrow> \<not> over t0 | None \<Rightarrow> False)) False)
           (elements (space s))))"

text \<open>The output width a switch slides over.\<close>

definition output_width :: "rwl \<Rightarrow> nat \<Rightarrow> f64" where
  "output_width s i = (case get_at (monitors s) i of
     Some m \<Rightarrow> f_of_i32 (size_w (w_area m)) | None \<Rightarrow> f_lit 1920)"

definition tags_at :: "rwl \<Rightarrow> nat \<Rightarrow> u32" where
  "tags_at s i = (case get_at (monitors s) i of Some m \<Rightarrow> tags m | None \<Rightarrow> 0)"

end
