(* ===== verification/Rules.thy ===== *)
theory Rules
  imports Swallow Transition
begin

text \<open>
  Placement of a new window: intrinsic floating, the configured rules, the user's
  \<open>on_window_rule\<close> override and the view change a rule may ask for
  (\<open>apply_rules\<close> of \<^verbatim>\<open>src/state.rs\<close>).
\<close>

section \<open>Windows that float by themselves\<close>

definition fixed_size :: "int \<times> int \<Rightarrow> int \<times> int \<Rightarrow> bool" where
  "fixed_size mn mx \<longleftrightarrow>
     fst mn \<noteq> 0 \<and> snd mn \<noteq> 0 \<and> (fst mn = fst mx \<or> snd mn = snd mx)"

definition float_window_type :: "wm_window_type \<Rightarrow> bool" where
  "float_window_type t \<longleftrightarrow>
     t \<in> {WmDialog, WmUtility, WmSplash, WmToolbar, WmMenu, WmDropdownMenu, WmPopupMenu,
          WmTooltip, WmNotification, WmCombo}"

definition window_is_float_type :: "client \<Rightarrow> bool" where
  "window_is_float_type cl =
     (if cl_x11 cl then
        (if cl_x11_modal cl then True
         else if (case cl_x11_type cl of Some t \<Rightarrow> float_window_type t | None \<Rightarrow> False) then True
         else case (cl_x11_min_size cl, cl_x11_max_size cl) of
           (Some mn, Some mx) \<Rightarrow> fixed_size mn mx | _ \<Rightarrow> False)
      else fixed_size (cl_min_size cl) (cl_max_size cl) \<or>
           fixed_size (cl_pending_min_size cl) (cl_pending_max_size cl))"

section \<open>Accumulating the rules\<close>

record rule_accum =
  ra_tags :: u32
  ra_floating :: bool
  ra_scratch_key :: nat
  ra_monitor :: int
  ra_switch_to_tag :: "u32 option"

definition accum_rule :: "u32 \<Rightarrow> rule_accum \<Rightarrow> rule \<Rightarrow> rule_accum" where
  "accum_rule valid_tags acc r =
     \<lparr>ra_tags = ra_tags acc OR r_tags r,
      ra_floating = (ra_floating acc \<or> r_is_floating r),
      ra_scratch_key = (if r_scratch_key r = 0 then ra_scratch_key acc else r_scratch_key r),
      ra_monitor = (if r_monitor r \<ge> 0 then r_monitor r else ra_monitor acc),
      ra_switch_to_tag = (if r_switch_to_tag r \<and> r_tags r \<noteq> 0
        then Some (r_tags r AND valid_tags) else ra_switch_to_tag acc)\<rparr>"

definition static_rules :: "config \<Rightarrow> string \<Rightarrow> string \<Rightarrow> bool \<Rightarrow> rule_accum" where
  "static_rules c appid title floating =
     foldl (accum_rule (tag_mask c))
       \<lparr>ra_tags = 0, ra_floating = floating, ra_scratch_key = 0, ra_monitor = -1,
        ra_switch_to_tag = None\<rparr>
       (filter (rule_matches appid title) (c_rules c))"

text \<open>The override of the Lua callback: each given field wins.\<close>

definition apply_override :: "u32 \<Rightarrow> rule_override \<Rightarrow> rule_accum \<Rightarrow> rule_accum" where
  "apply_override valid_tags ov a =
     (let new_tags = unwrap_or (ro_tags ov) (ra_tags a)
      in \<lparr>ra_tags = new_tags,
          ra_floating = unwrap_or (ro_floating ov) (ra_floating a),
          ra_scratch_key = unwrap_or (ro_scratch_key ov) (ra_scratch_key a),
          ra_monitor = unwrap_or (ro_monitor ov) (ra_monitor a),
          ra_switch_to_tag = (case ro_switch_to_tag ov of
             Some True \<Rightarrow> if new_tags AND valid_tags \<noteq> 0 then Some (new_tags AND valid_tags)
                          else ra_switch_to_tag a
           | Some False \<Rightarrow> None
           | None \<Rightarrow> ra_switch_to_tag a)\<rparr>)"

text \<open>App id, title and dialog hint, from the toplevel or the X11 window.\<close>

definition client_names :: "client \<Rightarrow> string \<times> string \<times> dialog_hint" where
  "client_names cl =
     (unwrap_or (cl_app_id cl) [], unwrap_or (cl_title cl) [],
      if cl_x11 cl then (if cl_x11_transient cl then DlgDialog else DlgUnknown)
      else cl_dialog_hint cl)"

definition is_dialog :: "dialog_hint \<Rightarrow> bool" where
  "is_dialog d \<longleftrightarrow> d = DlgDialog \<or> d = DlgModal"

section \<open>Applying them\<close>

text \<open>A toplevel with a parent goes where the parent is.\<close>

definition place_with_parent :: "wid \<Rightarrow> surface \<Rightarrow> rwl \<Rightarrow> rwl" where
  "place_with_parent w parent s =
     (let (parent_mon, parent_tags) =
        (case window_map s parent of
           Some pw \<Rightarrow> (case with_state (ws s) pw (\<lambda>x. (mon_idx x, ws_tags x)) of
              Some d \<Rightarrow> d
            | None \<Rightarrow> (sel_mon s, case get_at (monitors s) (sel_mon s) of
                         Some m \<Rightarrow> tags m | None \<Rightarrow> 1))
         | None \<Rightarrow> (sel_mon s, case get_at (monitors s) (sel_mon s) of
                      Some m \<Rightarrow> tags m | None \<Rightarrow> 1))
      in mod_state w (\<lambda>x. x\<lparr>ws_tags := parent_tags, is_floating := True,
           needs_centering := True, mon_idx := parent_mon\<rparr>) s)"

definition jump_to_rule_tag :: "wid \<Rightarrow> nat \<Rightarrow> u32 \<Rightarrow> rwl \<Rightarrow> rwl" where
  "jump_to_rule_tag w mon msk s =
     (let s1 = update_tag_history mon msk s in
      case get_at (monitors s1) mon of
        None \<Rightarrow> s1
      | Some m \<Rightarrow>
          let prev = tags m; effective = msk AND tag_mask (cfg s) in
          if prev = effective then s1
          else
            let output_w = f_of_i32 (size_w (w_area m));
                s2 = mark_slide_outs prev effective output_w s1;
                s3 = upd_monitor mon (\<lambda>m. view (cfg s) m msk) s2;
                s4 = mod_state w (switch_to_tag_update (\<lambda>_. Some prev)) s3
            in s4\<lparr>pending_tag_transition := Some (prev, effective, output_w)\<rparr>)"

definition rules_for :: "rwl \<Rightarrow> wid \<Rightarrow> rule_accum" where
  "rules_for s w =
     (let cl = clients s w; (appid, title, hint) = client_names cl;
          floating = (window_is_float_type cl \<or> is_dialog hint \<or>
                      unwrap_or (with_state (ws s) w is_floating) False);
          a = static_rules (cfg s) appid title floating
      in case window_rule_fn s w of
           Some ov \<Rightarrow> apply_override (tag_mask (cfg s)) ov a | None \<Rightarrow> a)"

definition override_no_swallow :: "wid \<Rightarrow> rwl \<Rightarrow> rwl" where
  "override_no_swallow w s = (case window_rule_fn s w of
     Some ov \<Rightarrow> (case ro_no_swallow ov of
        Some ns \<Rightarrow> mod_state w (no_swallow_update (\<lambda>_. ns)) s | None \<Rightarrow> s)
   | None \<Rightarrow> s)"

definition effective_tags :: "rwl \<Rightarrow> nat \<Rightarrow> u32 \<Rightarrow> u32" where
  "effective_tags s mon new_tags =
     (if new_tags \<noteq> 0 then new_tags AND tag_mask (cfg s)
      else case get_at (monitors s) mon of Some m \<Rightarrow> tags m | None \<Rightarrow> 1)"

definition apply_rules :: "wid \<Rightarrow> rwl \<Rightarrow> rwl" where
  "apply_rules w s =
     (case (if toplevel s w then cl_parent (clients s w) else None) of
        Some parent \<Rightarrow> place_with_parent w parent s
      | None \<Rightarrow>
        let cl = clients s w; (appid, title, hint) = client_names cl;
            a = rules_for s w;
            s1 = override_no_swallow w s;
            mon = target_monitor_for_window s1 (ra_monitor a);
            eff = effective_tags s1 mon (ra_tags a);
            will_swallow = (find_target s1 w appid title \<noteq> None);
            s2 = (case ra_switch_to_tag a of
                    Some msk \<Rightarrow> if will_swallow then s1 else jump_to_rule_tag w mon msk s1
                  | None \<Rightarrow> s1);
            center = (ra_floating a \<and> \<not> cl_x11 cl)
        in mod_state w (\<lambda>x. x\<lparr>ws_tags := eff, is_floating := ra_floating a,
             needs_centering := center, scratch_key := ra_scratch_key a, mon_idx := mon,
             last_appid := (if last_appid x = None then Some appid else last_appid x),
             last_title := (if last_title x = None then Some title else last_title x)\<rparr>) s2)"

end
