(* ===== verification/Arrange.thy ===== *)
theory Arrange
  imports Rules
begin

text \<open>
  The layout pass over a monitor (\<open>arrange\<close>, \<open>arrange_all\<close>), focus changes
  (\<open>focus_window\<close>) and the end of slide-outs, all of \<^verbatim>\<open>src/state.rs\<close>.
\<close>

section \<open>Which windows a monitor shows\<close>

definition all_visible :: "monitor list \<Rightarrow> u32" where
  "all_visible ms = foldl (OR) 0 (map tags ms)"

text \<open>The single pass of \<open>arrange\<close>: hidden, tiled, floating (scratchpads among them), full screen.\<close>

datatype display = Skip | Hidden | TiledWin | FloatWin | ScratchWin | FsWin

definition display_of :: "wstore \<Rightarrow> u32 \<Rightarrow> u32 \<Rightarrow> wid \<Rightarrow> display" where
  "display_of st all_vis t w = (case st w of
     None \<Rightarrow> Skip
   | Some x \<Rightarrow>
       if is_swallowed x then Hidden
       else if ws_tags x AND all_vis = 0 then Hidden
       else if ws_tags x AND t \<noteq> 0
       then (if is_fullscreen x then FsWin
             else if is_floating x then (if scratch_key x \<noteq> 0 then ScratchWin else FloatWin)
             else if rules_applied x then TiledWin else Skip)
       else Skip)"

definition in_class :: "display set \<Rightarrow> rwl \<Rightarrow> u32 \<Rightarrow> wid list" where
  "in_class ds s t =
     filter (\<lambda>w. display_of (ws s) (all_visible (monitors s)) t w \<in> ds) (windows s)"

section \<open>The steps\<close>

definition map_at :: "wid \<Rightarrow> point \<Rightarrow> rwl \<Rightarrow> rwl" where
  "map_at w p s = s\<lparr>space := map_element (space s) w p\<rparr>"

definition x11_set_fullscreen :: "wid \<Rightarrow> bool \<Rightarrow> rwl \<Rightarrow> rwl" where
  "x11_set_fullscreen w b s =
     emit (XFullscreen w b)
       (s\<lparr>clients := (clients s)(w := (clients s w)\<lparr>cl_x11_fullscreen := b\<rparr>)\<rparr>)"

definition untile :: "tl_op list" where
  "untile = map UnsetState [TiledLeft, TiledRight, TiledTop, TiledBottom]"

definition activation :: "bool \<Rightarrow> tl_op" where
  "activation b = (if b then SetState Activated else UnsetState Activated)"

definition save_location :: "wid \<Rightarrow> rwl \<Rightarrow> rwl" where
  "save_location w s =
     (if window_is_floating (ws s) w then
        (case geometry_of s w of
           Some g \<Rightarrow> mod_state w (saved_loc_update (\<lambda>_. Some (rect_loc g))) s | None \<Rightarrow> s)
      else s)"

definition hide_elem :: "wid \<Rightarrow> rwl \<Rightarrow> rwl" where
  "hide_elem w s = s\<lparr>space := unmap_elem (space s) w\<rparr>"

definition send_hidden :: "wid \<Rightarrow> rwl \<Rightarrow> rwl" where
  "send_hidden w s =
     (if toplevel s w
      then emits [TlPending w (UnsetState Activated # untile), TlConfigure w] s else s)"

definition sliding_out :: "wstore \<Rightarrow> wid \<Rightarrow> bool" where
  "sliding_out st w = unwrap_or (with_state st w (\<lambda>x. slide_out x \<and> slide_start x \<noteq> None)) False"

definition hide_window :: "wid \<Rightarrow> rwl \<Rightarrow> rwl" where
  "hide_window w s =
     (if sliding_out (ws s) w then s
      else send_hidden w (hide_elem w (save_location w s)))"

definition focused_on :: "rwl \<Rightarrow> u32 \<Rightarrow> nat \<Rightarrow> wid option" where
  "focused_on s t i = List.find (shown_on (ws s) t i) (focus_stack s)"

definition sync_scroll :: "nat \<Rightarrow> wid option \<Rightarrow> wid list \<Rightarrow> rwl \<Rightarrow> rwl" where
  "sync_scroll i focused tiled s =
     upd_monitor i (\<lambda>m.
       if layout_kind_of (cfg s) m \<in> {Monocle, Scroll}
       then m\<lparr>scroll_col := (case position (\<lambda>w. focused = Some w) tiled of
              Some k \<Rightarrow> k | None \<Rightarrow> min (scroll_col m) (length tiled - 1))\<rparr>
       else m) s"

definition configure_toplevel :: "wid \<Rightarrow> tl_op list \<Rightarrow> bool \<Rightarrow> rwl \<Rightarrow> rwl" where
  "configure_toplevel w ops was_unmapped s =
     (if toplevel s w
      then emits [TlPending w ops,
                  if was_unmapped then TlConfigure w else TlPendingConfigure w] s
      else s)"

definition place_tiled :: "wid option \<Rightarrow> bool \<Rightarrow> wid \<times> rect \<Rightarrow> rwl \<Rightarrow> rwl" where
  "place_tiled focused monocle wg s =
     (let (w, geom) = wg; is_focused = (focused = Some w);
          old = geometry_of s w; was_unmapped = (old = None);
          s1 = (case old of
                  None \<Rightarrow> map_at w (rect_loc geom) s
                | Some g \<Rightarrow>
                    if rect_loc g \<noteq> rect_loc geom
                    then s\<lparr>space := relocate_element (space s) w (rect_loc geom)\<rparr>
                    else if is_focused \<and> monocle then map_at w (rect_loc geom) s else s);
          (geom_changed, focus_changed) =
            unwrap_or (with_state (ws s1) w
              (\<lambda>x. (pending_geom x \<noteq> Some geom, last_focused x \<noteq> is_focused))) (True, True);
          s2 = mod_state w (\<lambda>x. x\<lparr>pending_geom := Some geom, last_focused := is_focused,
                 border_counter := (if geom_changed \<or> focus_changed \<or> was_unmapped
                   then Suc (border_counter x) else border_counter x)\<rparr>) s1;
          s3 = configure_toplevel w
                 ([SetSize (Some (rect_size geom))] @
                  map SetState [TiledLeft, TiledRight, TiledTop, TiledBottom] @
                  [UnsetState FullscreenState, activation is_focused]) was_unmapped s2
      in if cl_x11 (clients s3 w)
         then
           let s4 = (if cl_x11_fullscreen (clients s3 w) then x11_set_fullscreen w False s3 else s3);
               s5 = (if geom_changed \<or> was_unmapped then emit (XConfigure w geom) s4 else s4)
           in if focus_changed \<or> was_unmapped then emit (XActivated w is_focused) s5 else s5
         else s3)"

definition resolve_loc :: "rwl \<Rightarrow> point \<Rightarrow> wid \<Rightarrow> point" where
  "resolve_loc s default_loc w = (case geometry_of s w of
     Some g \<Rightarrow> rect_loc g
   | None \<Rightarrow> (case with_state (ws s) w saved_loc of Some (Some p) \<Rightarrow> p | _ \<Rightarrow> default_loc))"

text \<open>The focus flag of an X11 window, updated when it changed.\<close>

definition x11_focus_changed :: "wid \<Rightarrow> bool \<Rightarrow> rwl \<Rightarrow> bool" where
  "x11_focus_changed w is_focused s =
     unwrap_or (with_state (ws s) w (\<lambda>x. last_focused x \<noteq> is_focused)) True"

definition note_x11_focus :: "wid \<Rightarrow> bool \<Rightarrow> rwl \<Rightarrow> rwl" where
  "note_x11_focus w is_focused s =
     (if x11_focus_changed w is_focused s
      then mod_state w (last_focused_update (\<lambda>_. is_focused)) s else s)"

definition place_floating :: "wid option \<Rightarrow> point \<Rightarrow> wid list \<Rightarrow> wid \<Rightarrow> rwl \<Rightarrow> rwl" where
  "place_floating focused default_loc scratch w s =
     (let was_unmapped = (geometry_of s w = None);
          loc = resolve_loc s default_loc w;
          s1 = (if w \<in> set scratch then s else map_at w loc s);
          s2 = mod_state w (\<lambda>x. x\<lparr>pending_geom := None,
                 border_counter := Suc (border_counter x)\<rparr>) s1;
          is_focused = (focused = Some w);
          s3 = configure_toplevel w
                 ([SetSize None] @ untile @ [UnsetState FullscreenState, activation is_focused])
                 was_unmapped s2
      in if cl_x11 (clients s3 w)
         then
           let focus_changed = x11_focus_changed w is_focused s3;
               s4 = note_x11_focus w is_focused s3;
               s5 = (if cl_x11_fullscreen (clients s4 w) then x11_set_fullscreen w False s4 else s4);
               xg = cl_x11_geometry (clients s5 w);
               s6 = (if was_unmapped \<or> rect_loc xg \<noteq> loc
                     then emit (XConfigure w (mk_rect (fst loc) (snd loc) (size_w xg) (size_h xg))) s5
                     else s5)
           in if focus_changed \<or> was_unmapped then emit (XActivated w is_focused) s6 else s6
         else s3)"

definition place_fullscreen :: "wid option \<Rightarrow> rect \<Rightarrow> wid \<Rightarrow> rwl \<Rightarrow> rwl" where
  "place_fullscreen focused fs_geom w s =
     (let is_focused = (focused = Some w); was_unmapped = (geometry_of s w = None);
          s1 = map_at w (rect_loc fs_geom) s;
          s2 = mod_state w (\<lambda>x. x\<lparr>pending_geom := Some fs_geom,
                 border_counter := Suc (border_counter x)\<rparr>) s1;
          s3 = configure_toplevel w
                 ([SetSize (Some (rect_size fs_geom)), SetState FullscreenState] @ untile @
                  [activation is_focused]) was_unmapped s2
      in if cl_x11 (clients s3 w)
         then
           let focus_changed = x11_focus_changed w is_focused s3;
               s4 = note_x11_focus w is_focused s3;
               s5 = (if \<not> cl_x11_fullscreen (clients s4 w) then x11_set_fullscreen w True s4 else s4);
               s6 = (if was_unmapped \<or> cl_x11_geometry (clients s5 w) \<noteq> fs_geom
                     then emit (XConfigure w fs_geom) s5 else s5)
           in if focus_changed \<or> was_unmapped then emit (XActivated w is_focused) s6 else s6
         else s3)"

definition place_scratch :: "point \<Rightarrow> wid \<Rightarrow> rwl \<Rightarrow> rwl" where
  "place_scratch default_loc w s = map_at w (resolve_loc s default_loc w) s"

definition dynamic_layout :: "nat \<Rightarrow> u32 \<Rightarrow> rwl \<Rightarrow> rwl" where
  "dynamic_layout i t s =
     (if is_power_of_two t
      then upd_monitor i (\<lambda>m. apply_dynamic (cfg s) m t (count_tiled s t)) s else s)"

definition cfacts_of :: "wstore \<Rightarrow> wid list \<Rightarrow> f64 list" where
  "cfacts_of st = map (\<lambda>w. unwrap_or (with_state st w cfact) (f_lit 1))"

definition arrange :: "nat \<Rightarrow> rwl \<Rightarrow> rwl" where
  "arrange i s = (case get_at (monitors s) i of
     None \<Rightarrow> s
   | Some mon \<Rightarrow>
       let t = tags mon; default_loc = rect_loc (w_area mon); fs_geom = m_area mon;
           s1 = dynamic_layout i t s;
           hidden = in_class {Hidden} s1 t; tiled = in_class {TiledWin} s1 t;
           floating = in_class {FloatWin, ScratchWin} s1 t;
           fs_windows = in_class {FsWin} s1 t; scratch = in_class {ScratchWin} s1 t;
           s2 = fold hide_window hidden s1;
           focused = focused_on s2 t i;
           s3 = sync_scroll i focused tiled s2;
           m = monitors s3 ! i;
           geoms = layout_arrange (on_arrange_fn s3) (cfg s3) (gaps_on s3) m (cfacts_of (ws s3) tiled);
           monocle = (layout_kind_of (cfg s3) m = Monocle);
           s4 = fold (place_tiled focused monocle) (zip tiled geoms) s3;
           s5 = fold (place_floating focused default_loc scratch) floating s4;
           s6 = fold (place_fullscreen focused fs_geom) fs_windows s5
       in fold (place_scratch default_loc) scratch s6)"

definition arrange_all :: "rwl \<Rightarrow> rwl" where
  "arrange_all s =
     (let s1 = update_work_areas s;
          pending = pending_tag_transition s1;
          s2 = s1\<lparr>pending_tag_transition := None\<rparr>;
          s3 = fold arrange [0..<length (monitors s2)] s2;
          s4 = (case pending of
                  Some (old, new, ow) \<Rightarrow> start_tag_transition old new ow s3 | None \<Rightarrow> s3)
      in refresh_pointer_focus (print_status (schedule_render s4)))"

section \<open>Focus\<close>

definition raise_focus :: "wid \<Rightarrow> wid list \<Rightarrow> wid list" where
  "raise_focus w st = (case position (\<lambda>v. v = w) st of
     Some pos \<Rightarrow> rotate_prefix pos st | None \<Rightarrow> w # st)"

definition mon_of :: "rwl \<Rightarrow> wid option \<Rightarrow> nat option" where
  "mon_of s w = (case w of Some v \<Rightarrow> with_state (ws s) v mon_idx | None \<Rightarrow> None)"

definition first_of :: "wid list \<Rightarrow> wid option" where
  "first_of st = (case st of [] \<Rightarrow> None | w # _ \<Rightarrow> Some w)"

definition focus_changed_to :: "wid option \<Rightarrow> rwl \<Rightarrow> rwl" where
  "focus_changed_to prev s =
     (let s1 = print_status s;
          s2 = (case first_of (focus_stack s1) of Some w \<Rightarrow> fire (HkFocus w) s1 | None \<Rightarrow> s1);
          s3 = emit (Ipc (EvFocus (first_of (focus_stack s2)))) s2;
          new_mon = mon_of s3 (first_of (focus_stack s3));
          prev_mon = mon_of s3 prev
      in case new_mon of
           Some i \<Rightarrow>
             let s4 = arrange i (s3\<lparr>sel_mon := i\<rparr>);
                 s5 = (case prev_mon of
                         Some p \<Rightarrow> if p \<noteq> i then arrange p s4 else s4 | None \<Rightarrow> s4)
             in schedule_render s5
         | None \<Rightarrow> arrange_all s3)"

definition focus_window :: "wid option \<Rightarrow> rwl \<Rightarrow> rwl" where
  "focus_window w s =
     (let surf = (case w of Some v \<Rightarrow> cl_surface (clients s v) | None \<Rightarrow> None);
          prev = first_of (focus_stack s);
          s1 = (case w of
                  Some v \<Rightarrow> mod_state v (is_urgent_update (\<lambda>_. False))
                    (s\<lparr>focus_stack := raise_focus v (focus_stack s)\<rparr>)
                | None \<Rightarrow> s)
      in if locked s1 then s1
         else
           let s3 = update_borders (set_focus surf s1)
           in if first_of (focus_stack s3) \<noteq> prev then focus_changed_to prev s3 else s3)"

definition refocus :: "rwl \<Rightarrow> rwl" where
  "refocus s = focus_window (focused_window s) s"

section \<open>The end of a slide-out\<close>

definition finalize_slide_out :: "u32 \<Rightarrow> wid \<Rightarrow> rwl \<Rightarrow> rwl" where
  "finalize_slide_out all_vis w s =
     (let settle = mod_state w (\<lambda>x. x\<lparr>slide_out := False, slide_offset_x := f_lit 0\<rparr>) in
      if unwrap_or (with_state (ws s) w (\<lambda>x. ws_tags x AND all_vis \<noteq> 0)) False then settle s
      else send_hidden w (settle (hide_elem w (save_location w s))))"

definition finalize_slide_outs :: "rwl \<Rightarrow> rwl" where
  "finalize_slide_outs s =
     (let all_vis = all_visible (monitors s);
          to_finalize = filter (\<lambda>w. unwrap_or (with_state (ws s) w
             (\<lambda>x. slide_out x \<and> slide_start x = None)) False) (windows s)
      in fold (finalize_slide_out all_vis) to_finalize s)"

section \<open>The render gate\<close>

definition output_tags :: "rwl \<Rightarrow> woutput \<Rightarrow> u32" where
  "output_tags s out = (case List.find (\<lambda>m. mon_output m = out) (monitors s) of
     Some m \<Rightarrow> tags m | None \<Rightarrow> 0)"

definition pending_resize :: "bool \<Rightarrow> rwl \<Rightarrow> u32 \<Rightarrow> wid \<Rightarrow> bool" where
  "pending_resize mapped s t w = unwrap_or (with_state (ws s) w (\<lambda>x.
     if is_floating x \<or> is_fullscreen x then False
     else if ws_tags x AND t = 0 then False
     else if buffer_mapped x \<noteq> mapped then False
     else case pending_geom x of
       None \<Rightarrow> False | Some p \<Rightarrow> rect_size (cl_geometry (clients s w)) \<noteq> rect_size p)) False"

definition any_tiled_pending_resize :: "rwl \<Rightarrow> woutput \<Rightarrow> bool" where
  "any_tiled_pending_resize s out =
     list_ex (pending_resize False s (output_tags s out)) (windows s)"

definition any_existing_tiled_pending_resize :: "rwl \<Rightarrow> woutput \<Rightarrow> bool" where
  "any_existing_tiled_pending_resize s out =
     list_ex (pending_resize True s (output_tags s out)) (windows s)"

section \<open>Titles\<close>

text \<open>Title and app id that changed since they were cached, with the new values.\<close>

definition live_names :: "client \<Rightarrow> string option \<times> string option" where
  "live_names cl =
     (if cl_x11 cl then (Some (unwrap_or (cl_title cl) []), Some (unwrap_or (cl_app_id cl) []))
      else (cl_title cl, cl_app_id cl))"

definition stale_names ::
  "rwl \<Rightarrow> wid \<Rightarrow> (wid \<times> string option \<times> bool \<times> string option \<times> bool) option" where
  "stale_names s w =
     (let (t, a) = live_names (clients s w);
          (tc, ac) = unwrap_or (with_state (ws s) w
             (\<lambda>x. (last_title x \<noteq> t, last_appid x \<noteq> a))) (False, False)
      in if tc \<or> ac then Some (w, t, tc, a, ac) else None)"

fun update_names ::
  "wid \<times> string option \<times> bool \<times> string option \<times> bool \<Rightarrow> rwl \<Rightarrow> rwl" where
  "update_names (w, t, tc, a, ac) s =
     (let s1 = mod_state w (\<lambda>x. x\<lparr>last_title := (if tc then t else last_title x),
                last_appid := (if ac then a else last_appid x)\<rparr>) s;
          s2 = (case (tc, t) of (True, Some v) \<Rightarrow> fire (HkTitleChange w v) s1 | _ \<Rightarrow> s1)
      in if tc then emit (Ipc (EvTitle w)) s2 else s2)"

definition check_toplevel_titles :: "rwl \<Rightarrow> rwl" where
  "check_toplevel_titles s =
     (let updates = List.map_filter (stale_names s) (windows s) in
      if updates = [] then s else print_status (fold update_names updates s))"

end
