(* ===== verification/Overview.thy ===== *)
theory Overview
  imports Arrange
begin

text \<open>
  The workspace overview (\<^verbatim>\<open>src/features/windows/overview/mod.rs\<close>): a grid of
  thumbnails with hint labels, selected by typing, arrows or the pointer, and the
  picture-in-picture box (\<^verbatim>\<open>src/features/windows/pip.rs\<close>). Drawing is left out;
  whether an animation is over is an argument.
\<close>

section \<open>The grid\<close>

text \<open>
  \<open>(n as f64).sqrt().ceil()\<close>, exact for any possible number of windows: the least
  \<open>k\<close> whose square reaches \<open>n\<close>.
\<close>

definition ceil_sqrt :: "nat \<Rightarrow> nat" where
  "ceil_sqrt n = length (takeWhile (\<lambda>k. k * k < n) [0..<n])"

definition grid_dims :: "config \<Rightarrow> nat \<Rightarrow> rect \<Rightarrow> nat \<times> int \<times> int \<times> int" where
  "grid_dims c n work =
     (let pad = u32_as_i32 (c_overview_padding c);
          cols = max (ceil_sqrt n) 1;
          rows = max ((n + cols - 1) div cols) 1;
          cell_w = max (i32 (tdiv (i32 (size_w work - pad)) (usize_as_i32 cols) - pad)) 1;
          cell_h = max (i32 (tdiv (i32 (size_h work - pad)) (usize_as_i32 rows) - pad)) 1
      in (cols, cell_w, cell_h, pad))"

definition assign_hints :: "config \<Rightarrow> nat \<Rightarrow> string list" where
  "assign_hints c n =
     (let chars = c_hint_keys c in
      if chars = [] then replicate n []
      else if n \<le> length chars then map (\<lambda>a. [a]) (take n chars)
      else take n (concat (map (\<lambda>a. map (\<lambda>b. [a, b]) chars) chars)))"

definition overview_sort_key :: "wstore \<Rightarrow> wid \<Rightarrow> nat" where
  "overview_sort_key st w =
     (let t = window_tags st w in if t = 0 then 4294967295 else trailing_zeros t)"

definition overview_windows :: "rwl \<Rightarrow> bool \<Rightarrow> u32 \<Rightarrow> wid list" where
  "overview_windows s all_tags active_tags =
     sort_key (overview_sort_key (ws s))
       (filter (\<lambda>w. all_tags \<or> window_visible_on (ws s) w active_tags)
         (filter (\<lambda>w. unwrap_or (with_state (ws s) w (\<lambda>x. scratch_key x = 0)) True)
           (filter (\<lambda>w. unwrap_or (with_state (ws s) w buffer_mapped) False) (windows s))))"

definition cell_target :: "rect \<Rightarrow> nat \<times> int \<times> int \<times> int \<Rightarrow> nat \<Rightarrow> rect" where
  "cell_target work dims i =
     (let (cols, cell_w, cell_h, pad) = dims; col = i mod cols; row = i div cols
      in mk_rect (i32 (loc_x work + pad + (cell_w + pad) * usize_as_i32 col))
           (i32 (loc_y work + pad + (cell_h + pad) * usize_as_i32 row)) cell_w cell_h)"

definition build_cells :: "rwl \<Rightarrow> bool \<Rightarrow> u32 \<Rightarrow> rect \<Rightarrow> overview_cell list" where
  "build_cells s all_tags active_tags work =
     (let wins = overview_windows s all_tags active_tags; n = length wins in
      if n = 0 then []
      else
        let hints = assign_hints (cfg s) n; dims = grid_dims (cfg s) n work
        in map (\<lambda>(i, w). let target = cell_target work dims i in
              \<lparr>oc_window = w, oc_source = unwrap_or (geometry_of s w) target,
               oc_target = target, oc_hint = unwrap_or (get_at hints i) [],
               oc_tag = window_tags (ws s) w\<rparr>) (enumerate 0 wins))"

section \<open>Opening and closing\<close>

definition begin_close :: "selection \<Rightarrow> rwl \<Rightarrow> rwl" where
  "begin_close sel s = schedule_render
     (s\<lparr>overview := map_option (\<lambda>ov. ov\<lparr>ov_closing := Some sel, ov_anim_start := now s\<rparr>)
          (overview s)\<rparr>)"

definition overview_toggle :: "bool \<Rightarrow> rwl \<Rightarrow> rwl" where
  "overview_toggle all_tags s =
     (if overview s \<noteq> None then begin_close SelCancel s
      else case sel_monitor s of
        None \<Rightarrow> s
      | Some mon \<Rightarrow>
          let cells = build_cells s all_tags (tags mon) (w_area mon) in
          if cells = [] then s
          else schedule_render (s\<lparr>overview := Some \<lparr>ov_cells = cells,
                 ov_output = mon_output mon, ov_typed = [], ov_hovered = None,
                 ov_selected = None, ov_all_tags = all_tags, ov_anim_start = now s,
                 ov_closing = None\<rparr>\<rparr>))"

definition force_close :: "rwl \<Rightarrow> rwl" where
  "force_close s =
     (if overview s \<noteq> None then schedule_render (s\<lparr>overview := None\<rparr>) else s)"

definition kill_selected :: "rwl \<Rightarrow> rwl" where
  "kill_selected s = (case overview s of
     None \<Rightarrow> s
   | Some ov \<Rightarrow> (case ov_selected ov of
       None \<Rightarrow> s
     | Some i \<Rightarrow> (case get_at (ov_cells ov) i of
         None \<Rightarrow> s
       | Some c \<Rightarrow> if toplevel s (oc_window c) then emit (TlClose (oc_window c)) s else s)))"

definition overview_on_window_closed :: "rwl \<Rightarrow> rwl" where
  "overview_on_window_closed s = (case overview s of
     None \<Rightarrow> s
   | Some ov \<Rightarrow>
      (case List.find (\<lambda>m. mon_output m = ov_output ov) (monitors s) of
         None \<Rightarrow> force_close s
       | Some m \<Rightarrow>
           let cells = build_cells s (ov_all_tags ov) (tags m) (w_area m) in
           if cells = [] then force_close s
           else schedule_render (s\<lparr>overview := Some (ov\<lparr>ov_cells := cells,
                  ov_hovered := None, ov_typed := [],
                  ov_selected := map_option (\<lambda>i. min i (length cells - 1)) (ov_selected ov)\<rparr>)\<rparr>)))"

section \<open>Keys\<close>

definition overview_dir :: "bool \<Rightarrow> nat option \<Rightarrow> nat \<Rightarrow> nat" where
  "overview_dir forward sel n = (case (sel, forward) of
     (None, True) \<Rightarrow> 0 | (None, False) \<Rightarrow> n - 1
   | (Some cur, True) \<Rightarrow> (cur + 1) mod n | (Some cur, False) \<Rightarrow> (cur + n - 1) mod n)"

definition move_selected :: "bool \<Rightarrow> rwl \<Rightarrow> rwl" where
  "move_selected forward s = (case overview s of
     None \<Rightarrow> s
   | Some ov \<Rightarrow>
       let n = length (ov_cells ov) in
       if n = 0 then s
       else schedule_render (s\<lparr>overview := Some (ov\<lparr>ov_typed := [],
              ov_selected := Some (overview_dir forward (ov_selected ov) n),
              ov_hovered := None\<rparr>)\<rparr>))"

definition type_char :: "char \<Rightarrow> rwl \<Rightarrow> rwl" where
  "type_char c s = (case overview s of
     None \<Rightarrow> s
   | Some ov \<Rightarrow>
       let typed = ov_typed ov @ [c] in
       if list_all (\<lambda>cell. \<not> starts_with (oc_hint cell) typed) (ov_cells ov)
       then schedule_render s
       else
         let s1 = s\<lparr>overview := Some (ov\<lparr>ov_typed := typed\<rparr>)\<rparr> in
         case List.find (\<lambda>cell. oc_hint cell = typed) (ov_cells ov) of
           Some cell \<Rightarrow> begin_close (SelWindow (oc_window cell) (oc_tag cell)) s1
         | None \<Rightarrow> schedule_render s1)"

definition best_cell :: "overview_state \<Rightarrow> overview_cell option" where
  "best_cell ov =
     (let matches = filter (\<lambda>c. starts_with (oc_hint c) (ov_typed ov)) (ov_cells ov) in
      if ov_typed ov \<noteq> [] \<and> length matches = 1 then Some (hd matches)
      else case (case ov_selected ov of Some i \<Rightarrow> Some i | None \<Rightarrow> ov_hovered ov) of
        Some i \<Rightarrow> get_at (ov_cells ov) i | None \<Rightarrow> None)"

definition select_best :: "rwl \<Rightarrow> rwl" where
  "select_best s = (case overview s of
     None \<Rightarrow> s
   | Some ov \<Rightarrow> (case best_cell ov of
       Some c \<Rightarrow> begin_close (SelWindow (oc_window c) (oc_tag c)) s | None \<Rightarrow> s))"

text \<open>Printable keys are typed in lower case.\<close>

definition overview_handle_key :: "u32 \<Rightarrow> rwl \<Rightarrow> rwl" where
  "overview_handle_key keysym s =
     (case overview s of
        None \<Rightarrow> s
      | Some ov \<Rightarrow>
         if ov_closing ov \<noteq> None then s
         else if keysym = 0xff1b then begin_close SelCancel s
         else if keysym = 0xff0d then select_best s
         else if keysym = 0xff51 \<or> keysym = 0xff52 then move_selected False s
         else if keysym = 0xff53 \<or> keysym = 0xff54 then move_selected True s
         else if keysym = 0xff08 then
           schedule_render (s\<lparr>overview := Some (ov\<lparr>ov_typed := butlast (ov_typed ov)\<rparr>)\<rparr>)
         else if 33 \<le> unat keysym \<and> unat keysym \<le> 126
         then type_char (ascii_lower (char_of (unat keysym))) s
         else s)"

section \<open>Pointer\<close>

definition round_point :: "f64 \<times> f64 \<Rightarrow> point" where
  "round_point p = (f_round_i32 (fst p), f_round_i32 (snd p))"

definition overview_pointer_motion :: "f64 \<times> f64 \<Rightarrow> rwl \<Rightarrow> rwl" where
  "overview_pointer_motion loc s = (case overview s of
     None \<Rightarrow> s
   | Some ov \<Rightarrow>
       let hit = position (\<lambda>c. contains (oc_target c) (round_point loc)) (ov_cells ov);
           s1 = s\<lparr>overview := Some (ov\<lparr>ov_hovered := hit,
                  ov_selected := (case hit of Some i \<Rightarrow> Some i | None \<Rightarrow> ov_selected ov)\<rparr>)\<rparr>
       in if hit \<noteq> ov_hovered ov then schedule_render s1 else s1)"

definition overview_pointer_click :: "f64 \<times> f64 \<Rightarrow> rwl \<Rightarrow> rwl" where
  "overview_pointer_click loc s = (case overview s of
     None \<Rightarrow> s
   | Some ov \<Rightarrow>
      (case List.find (\<lambda>c. contains (oc_target c) (round_point loc)) (ov_cells ov) of
         Some c \<Rightarrow> begin_close (SelWindow (oc_window c) (oc_tag c)) s | None \<Rightarrow> s))"

section \<open>Picture in picture\<close>

definition next_corner :: "corner \<Rightarrow> corner" where
  "next_corner c = (case c of
     TopLeft \<Rightarrow> TopRight | TopRight \<Rightarrow> BottomRight | BottomRight \<Rightarrow> BottomLeft
   | BottomLeft \<Rightarrow> TopLeft)"

definition corner_from_config :: "string \<Rightarrow> corner" where
  "corner_from_config v =
     (if v = ''top-left'' \<or> v = ''top_left'' then TopLeft
      else if v = ''top-right'' \<or> v = ''top_right'' then TopRight
      else if v = ''bottom-left'' \<or> v = ''bottom_left'' then BottomLeft
      else BottomRight)"

definition pip_toggle :: "rwl \<Rightarrow> rwl" where
  "pip_toggle s =
     (if pip s \<noteq> None then schedule_render (s\<lparr>pip := None\<rparr>)
      else case focused_window s of
        None \<Rightarrow> s
      | Some w \<Rightarrow> (case sel_monitor s of
          None \<Rightarrow> s
        | Some m \<Rightarrow> schedule_render (s\<lparr>pip := Some \<lparr>pip_window = w, pip_output = mon_output m,
              pip_corner = corner_from_config (c_pip_corner (cfg s))\<rparr>\<rparr>)))"

definition pip_move_corner :: "rwl \<Rightarrow> rwl" where
  "pip_move_corner s = (case pip s of
     None \<Rightarrow> s
   | Some p \<Rightarrow> schedule_render (s\<lparr>pip := Some (p\<lparr>pip_corner := next_corner (pip_corner p)\<rparr>)\<rparr>))"

definition pip_on_window_closed :: "wid \<Rightarrow> rwl \<Rightarrow> rwl" where
  "pip_on_window_closed w s = (case pip s of
     None \<Rightarrow> s
   | Some p \<Rightarrow> if pip_window p = w then schedule_render (s\<lparr>pip := None\<rparr>) else s)"

text \<open>\<open>clamp(1, max_w)\<close> on \<open>i32\<close>; the box keeps the aspect ratio within the margins.\<close>

definition clamp_i :: "int \<Rightarrow> int \<Rightarrow> int \<Rightarrow> int" where
  "clamp_i lo hi x = (if x < lo then lo else if x > hi then hi else x)"

definition pip_box_size :: "config \<Rightarrow> rect \<Rightarrow> int \<times> int \<Rightarrow> int \<times> int" where
  "pip_box_size c out win =
     (let width = u32_as_i32 (c_pip_width c); margin = u32_as_i32 (c_pip_margin c);
          max_w = max (i32 (size_w out - margin * 2)) 1;
          max_h = max (i32 (size_h out - margin * 2)) 1;
          box_w = clamp_i 1 max_w width;
          box_h = max (tdiv (i32 (box_w * snd win)) (fst win)) 1
      in if box_h > max_h
         then (clamp_i 1 max_w (tdiv (i32 (max_h * fst win)) (snd win)), max_h)
         else (box_w, box_h))"

definition corner_loc :: "corner \<Rightarrow> rect \<Rightarrow> int \<Rightarrow> int \<Rightarrow> int \<Rightarrow> point" where
  "corner_loc c out box_w box_h margin =
     (let left = i32 (loc_x out + margin);
          right = i32 (loc_x out + size_w out - margin - box_w);
          top = i32 (loc_y out + margin);
          bottom = i32 (loc_y out + size_h out - margin - box_h)
      in case c of
           TopLeft \<Rightarrow> (left, top) | TopRight \<Rightarrow> (right, top)
         | BottomLeft \<Rightarrow> (left, bottom) | BottomRight \<Rightarrow> (right, bottom))"

text \<open>The box of a session on an output, \<open>None\<close> for an empty window.\<close>

definition pip_rect :: "config \<Rightarrow> corner \<Rightarrow> rect \<Rightarrow> int \<times> int \<Rightarrow> rect option" where
  "pip_rect c cor out win =
     (if fst win \<le> 0 \<or> snd win \<le> 0 then None
      else let (bw, bh) = pip_box_size c out win;
               p = corner_loc cor out bw bh (u32_as_i32 (c_pip_margin c))
           in Some (mk_rect (fst p) (snd p) bw bh))"

end
