(* ===== verification/Lock.thy ===== *)
theory Lock
  imports Arrange
begin

text \<open>
  The built-in screen locker (\<^verbatim>\<open>src/features/session/lock.rs\<close>) and the handler of
  external lockers (\<^verbatim>\<open>src/handlers/session_lock.rs\<close>). The password check runs
  outside (\<open>Authenticate\<close>); its answer comes back as a call of \<open>on_auth_result\<close>. The
  registration of the result channel is taken to succeed.
\<close>

definition PASSWORD_CAP :: nat where "PASSWORD_CAP = 1024"
definition FILL_CHARS :: nat where "FILL_CHARS = 24"

text \<open>\<open>String::len\<close> is the UTF-8 length.\<close>

definition utf8_len :: "nat \<Rightarrow> nat" where
  "utf8_len c = (if c < 0x80 then 1 else if c < 0x800 then 2 else if c < 0x10000 then 3 else 4)"

definition byte_len :: "nat list \<Rightarrow> nat" where
  "byte_len cs = sum_list (map utf8_len cs)"

text \<open>\<open>generation\<close> is a \<open>usize\<close> that wraps.\<close>

definition bump :: "nat \<Rightarrow> nat" where
  "bump g = (g + 1) mod 18446744073709551616"

section \<open>The password buffer\<close>

definition lk_push :: "nat \<Rightarrow> lock_state \<Rightarrow> lock_state" where
  "lk_push c l =
     (if lk_phase l = Authenticating \<or> byte_len (lk_password l) \<ge> PASSWORD_CAP then l
      else l\<lparr>lk_password := lk_password l @ [c], lk_generation := bump (lk_generation l)\<rparr>)"

definition lk_backspace :: "lock_state \<Rightarrow> lock_state" where
  "lk_backspace l =
     (if lk_phase l = Authenticating then l
      else l\<lparr>lk_password := butlast (lk_password l), lk_generation := bump (lk_generation l)\<rparr>)"

definition lk_clear :: "lock_state \<Rightarrow> lock_state" where
  "lk_clear l =
     (if lk_phase l = Authenticating then l
      else l\<lparr>lk_password := [], lk_generation := bump (lk_generation l)\<rparr>)"

text \<open>Submitting moves the password out to the worker: the second component is the check asked for.\<close>

definition lk_submit :: "nat \<Rightarrow> lock_state \<Rightarrow> lock_state \<times> effect list" where
  "lk_submit t l =
     (if lk_phase l = Authenticating \<or> lk_password l = [] then (l, [])
      else (l\<lparr>lk_phase := Authenticating, lk_auth_started := Some t,
              lk_generation := bump (lk_generation l), lk_password := []\<rparr>,
            [Authenticate (lk_user l) (lk_password l)]))"

section \<open>Locking\<close>

definition current_user :: "rwl \<Rightarrow> string option" where
  "current_user s =
     (case (case env_user s of Some u \<Rightarrow> Some u | None \<Rightarrow> env_logname s) of
        Some u \<Rightarrow> if u = [] then None else Some u | None \<Rightarrow> None)"

definition reevaluate_pointer :: "rwl \<Rightarrow> rwl" where
  "reevaluate_pointer s = (case pointer s of Some _ \<Rightarrow> emit PointerRefresh s | None \<Rightarrow> s)"

definition native_lock_start :: "rwl \<Rightarrow> rwl" where
  "native_lock_start s =
     (if locked s \<or> native_lock s \<noteq> None then s
      else
        let l = \<lparr>lk_user = unwrap_or (current_user s) [], lk_password = [], lk_phase = Typing,
                 lk_generation = 0, lk_auth_started = None, lk_flash_timer = False,
                 lk_anim_timer = False\<rparr>;
            s1 = fire HkLock (s\<lparr>native_lock := Some l, locked := True\<rparr>);
            s2 = stop_key_repeat (s1\<lparr>cursor_mode := CmNormal\<rparr>)
        in schedule_render (reevaluate_pointer (set_focus None s2)))"

text \<open>\<open>char::is_control\<close>.\<close>

definition is_control :: "nat \<Rightarrow> bool" where
  "is_control c \<longleftrightarrow> c < 32 \<or> (127 \<le> c \<and> c < 160)"

definition KEY_Return :: u32 where "KEY_Return = 0xff0d"
definition KEY_KP_Enter :: u32 where "KEY_KP_Enter = 0xff8d"
definition KEY_Escape :: u32 where "KEY_Escape = 0xff1b"
definition KEY_BackSpace :: u32 where "KEY_BackSpace = 0xff08"

definition lk_key :: "nat \<Rightarrow> u32 \<Rightarrow> nat option \<Rightarrow> lock_state \<Rightarrow> lock_state \<times> effect list" where
  "lk_key t keysym ch l =
     (if keysym = KEY_Return \<or> keysym = KEY_KP_Enter then lk_submit t l
      else if keysym = KEY_Escape then (lk_clear l, [])
      else if keysym = KEY_BackSpace then (lk_backspace l, [])
      else case ch of
        Some c \<Rightarrow> if \<not> is_control c then (lk_push c l, []) else (l, [])
      | None \<Rightarrow> (l, []))"

definition start_auth_animation :: "lock_state \<Rightarrow> lock_state" where
  "start_auth_animation l = l\<lparr>lk_anim_timer := True\<rparr>"

definition feed_key :: "u32 \<Rightarrow> nat option \<Rightarrow> rwl \<Rightarrow> rwl" where
  "feed_key keysym ch s = (case native_lock s of
     None \<Rightarrow> s
   | Some l \<Rightarrow>
       let (l1, es) = lk_key (now s) keysym ch l;
           l2 = (if lk_phase l1 = Authenticating \<and> \<not> lk_anim_timer l1
                 then start_auth_animation l1 else l1)
       in schedule_render (emits es (s\<lparr>native_lock := Some l2\<rparr>)))"

text \<open>The timers: a frame of the working animation, the end of the red flash.\<close>

definition anim_tick :: "rwl \<Rightarrow> rwl" where
  "anim_tick s = schedule_render (s\<lparr>native_lock := map_option (\<lambda>l.
     if lk_phase l = Authenticating then l\<lparr>lk_generation := bump (lk_generation l)\<rparr>
     else l\<lparr>lk_anim_timer := False\<rparr>) (native_lock s)\<rparr>)"

definition flash_end :: "rwl \<Rightarrow> rwl" where
  "flash_end s = (case native_lock s of
     None \<Rightarrow> s
   | Some l \<Rightarrow>
       let l1 = l\<lparr>lk_flash_timer := False\<rparr> in
       if lk_phase l1 = Failed
       then schedule_render (s\<lparr>native_lock := Some (l1\<lparr>lk_phase := Typing,
              lk_generation := bump (lk_generation l1)\<rparr>)\<rparr>)
       else s\<lparr>native_lock := Some l1\<rparr>)"

definition native_unlock :: "rwl \<Rightarrow> rwl" where
  "native_unlock s =
     (let s1 = fire HkUnlock (s\<lparr>native_lock := None, locked := False\<rparr>);
          s2 = release_all_pressed_keys s1;
          s3 = set_focus (focused_surface s2) s2
      in schedule_render (reevaluate_pointer s3))"

definition on_auth_result :: "bool \<Rightarrow> rwl \<Rightarrow> rwl" where
  "on_auth_result ok s =
     (if ok then native_unlock s
      else case native_lock s of
        None \<Rightarrow> s
      | Some l \<Rightarrow> schedule_render (s\<lparr>native_lock := Some (l\<lparr>lk_password := [],
            lk_phase := Failed, lk_auth_started := None,
            lk_generation := bump (lk_generation l), lk_flash_timer := True\<rparr>)\<rparr>))"

section \<open>External lockers\<close>

definition session_lock :: "rwl \<Rightarrow> rwl" where
  "session_lock s =
     (if native_lock s \<noteq> None then s
      else schedule_render (reevaluate_pointer
             (fire HkLock (emit ConfirmLock (s\<lparr>locked := True\<rparr>)))))"

definition session_unlock :: "rwl \<Rightarrow> rwl" where
  "session_unlock s =
     (if native_lock s \<noteq> None then s
      else
        let s1 = fire HkUnlock (s\<lparr>locked := False, lock_surfaces := []\<rparr>)
        in schedule_render (reevaluate_pointer (set_focus (focused_surface s1) s1)))"

text \<open>The surface is tracked on its output, or the first monitor's when that is unknown.\<close>

definition new_lock_surface :: "surface \<Rightarrow> woutput option \<Rightarrow> rwl \<Rightarrow> rwl" where
  "new_lock_surface surf out s =
     (if native_lock s \<noteq> None then s
      else
        let assoc = (case out of Some out' \<Rightarrow> Some out'
                     | None \<Rightarrow> (case monitors s of m # _ \<Rightarrow> Some (mon_output m) | [] \<Rightarrow> None));
            s1 = (case assoc of
                    Some out' \<Rightarrow> s\<lparr>lock_surfaces := lock_surfaces s @ [(surf, out')]\<rparr> | None \<Rightarrow> s)
        in set_focus (Some surf) s1)"

section \<open>The progress bar\<close>

definition fill_fraction :: "lock_state \<Rightarrow> f64" where
  "fill_fraction l =
     f_div (f_of_usize (min (length (lk_password l)) FILL_CHARS)) (f_of_usize FILL_CHARS)"

text \<open>\<open>elapsed().as_secs_f64() * 1000.0 / ANIM_FILL_MS\<close>, saturating.\<close>

definition secs_f64 :: "nat \<Rightarrow> f64" where
  "secs_f64 ms = f_add (f_of_usize (ms div 1000))
     (f_div (f_of_usize (ms mod 1000 * 1000000)) (f_lit 1000000000))"

definition auth_fraction :: "nat \<Rightarrow> lock_state \<Rightarrow> f64" where
  "auth_fraction t l = (case lk_auth_started l of
     None \<Rightarrow> f_lit 0
   | Some t0 \<Rightarrow> f_min (f_div (f_mul (secs_f64 (t - t0)) (f_lit 1000)) (f_lit 2000)) (f_lit 1))"

datatype bar_colour = Blue | Neutral | Red

definition bar_fill :: "nat \<Rightarrow> lock_state \<Rightarrow> f64 \<times> bar_colour \<times> bool" where
  "bar_fill t l = (case lk_phase l of
     Typing \<Rightarrow> (fill_fraction l, Blue, False)
   | Authenticating \<Rightarrow> (auth_fraction t l, Neutral, True)
   | Failed \<Rightarrow> (f_lit 1, Red, False))"

text \<open>
  The track and, in front of it, the fill with its colour, for an output of the given
  mode and scale.
\<close>

definition bar_elements ::
  "nat \<Rightarrow> lock_state \<Rightarrow> (int \<times> int) option \<Rightarrow> f64 \<Rightarrow> (rect \<times> bar_colour option) list" where
  "bar_elements t l mode fscale = (case mode of
     None \<Rightarrow> []
   | Some (ow, oh) \<Rightarrow>
       if ow \<le> 0 \<or> oh \<le> 0 then []
       else
         let scale = f_max fscale (f_lit 1);
             track_w = f_as_i32 (f_mul (f_of_i32 ow) (f_lit (6 / 10)));
             height = f_round_i32 (f_mul (f_lit 8) scale);
             x = tdiv (i32 (ow - track_w)) 2;
             y = i32 (tdiv oh 2 - tdiv height 2);
             track = (mk_rect x y track_w height, None);
             (frac, colour, from_left) = bar_fill t l;
             fill_w = f_as_i32 (f_mul (f_of_i32 track_w) frac)
         in if fill_w \<le> 0 then [track]
            else
              let fill_x = (if from_left then x else i32 (x + tdiv (i32 (track_w - fill_w)) 2))
              in [(mk_rect fill_x y fill_w height, Some colour), track])"

end
