(* ===== verification/Output.thy ===== *)
theory Output
  imports Arrange
begin

text \<open>
  Monitors coming and going (\<^verbatim>\<open>src/handlers/output.rs\<close>), the pointer warp
  (\<^verbatim>\<open>src/features/integration/warp.rs\<close>) and the view left behind by the last
  window of a tag (\<^verbatim>\<open>src/features/windows/auto_back_empty_tag.rs\<close>).
\<close>

section \<open>Pointer warp\<close>

definition rect_center :: "rect \<Rightarrow> f64 \<times> f64" where
  "rect_center r =
     (f_add (f_of_i32 (loc_x r)) (f_div (f_of_i32 (size_w r)) (f_lit 2)),
      f_add (f_of_i32 (loc_y r)) (f_div (f_of_i32 (size_h r)) (f_lit 2)))"

definition warp_target :: "rwl \<Rightarrow> (f64 \<times> f64) option" where
  "warp_target s = (case focused_window s of
     Some w \<Rightarrow>
       map_option rect_center
         (case with_state (ws s) w pending_geom of
            Some (Some g) \<Rightarrow> Some g | _ \<Rightarrow> geometry_of s w)
   | None \<Rightarrow> map_option (\<lambda>m. rect_center (m_area m)) (get_at (monitors s) (sel_mon s)))"

definition warp_cursor_to_focused :: "rwl \<Rightarrow> rwl" where
  "warp_cursor_to_focused s =
     (if \<not> c_warp_cursor (cfg s) then s
      else
        let s1 = handle_cursor_activity s in
        case pointer s1 of
          None \<Rightarrow> s1
        | Some _ \<Rightarrow> (case warp_target s1 of
            None \<Rightarrow> s1 | Some p \<Rightarrow> emit PointerWarp (s1\<lparr>pointer := Some p\<rparr>)))"

section \<open>A new output\<close>

definition new_output_loc :: "rwl \<Rightarrow> monitor_rule \<Rightarrow> point" where
  "new_output_loc s rule =
     (if mr_x rule \<ge> 0 \<and> mr_y rule \<ge> 0 then (mr_x rule, mr_y rule)
      else (case map (\<lambda>m. i32 (loc_x (m_area m) + size_w (m_area m))) (monitors s) of
              [] \<Rightarrow> 0 | x # xs \<Rightarrow> foldl max x xs, 0))"

definition logical_size :: "f64 \<Rightarrow> int \<times> int \<Rightarrow> int \<times> int" where
  "logical_size scale md =
     (f_as_i32 (f_div (f_of_i32 (fst md)) scale), f_as_i32 (f_div (f_of_i32 (snd md)) scale))"

definition new_monitor :: "rwl \<Rightarrow> woutput \<Rightarrow> monitor" where
  "new_monitor s out =
     (let rule = matching_rule_for_output (cfg s) out; loc = new_output_loc s rule;
          (lw, lh) = logical_size (mr_scale rule) (unwrap_or (out_mode s out) (1920, 1080));
          area = mk_rect (fst loc) (snd loc) lw lh;
          m = (monitor_new (cfg s) out)\<lparr>m_area := area, w_area := area\<rparr>
      in case monitor_mem s (out_name out) of
           Some mem \<Rightarrow> restore (cfg s) m mem | None \<Rightarrow> m)"

text \<open>The startup hooks run once per process.\<close>

definition hooks_startup :: "u32 \<Rightarrow> rwl \<Rightarrow> rwl" where
  "hooks_startup current s =
     (if startup_done s then s
      else
        let s1 = fire (HkTagSwitch 0 current) (fire HkStartup (s\<lparr>startup_done := True\<rparr>))
        in case config_error s1 of Some e \<Rightarrow> fire (HkConfigError e) s1 | None \<Rightarrow> s1)"

definition output_added :: "woutput \<Rightarrow> rwl \<Rightarrow> rwl" where
  "output_added out s =
     (let mon = new_monitor s out;
          s1 = s\<lparr>monitors := monitors s @ [mon], tag_history := tag_history s @ [[]],
                 monitor_mem := (monitor_mem s)(out_name out := None)\<rparr>;
          s2 = arrange_all (update_monitor_bounds s1);
          s3 = (if \<not> initial_warp_done s2 \<and> pointer s2 \<noteq> None
                then warp_cursor_to_focused (s2\<lparr>initial_warp_done := True\<rparr>) else s2);
          s4 = hooks_startup (sel_tags_of s3) s3;
          s5 = fire HkMonitorLayout (fire (HkMonitorAdd (out_name out)) s4)
      in emit (Ipc (EvMonitor ''add'' (out_name out))) s5)"

section \<open>Rules applied again\<close>

text \<open>
  The monitor of the output is looked up again after the outputs were re-placed; the
  one at the index is found, as outputs are distinct.
\<close>

definition reapply_monitor_rule :: "rwl \<Rightarrow> monitor \<Rightarrow> monitor" where
  "reapply_monitor_rule s m =
     (let out = mon_output m; rule = matching_rule_for_output (cfg s) out;
          m1 = (if mr_x rule \<ge> 0 \<and> mr_y rule \<ge> 0
                then m\<lparr>m_area := (m_area m)\<lparr>loc_x := mr_x rule, loc_y := mr_y rule\<rparr>,
                       w_area := (w_area m)\<lparr>loc_x := mr_x rule, loc_y := mr_y rule\<rparr>\<rparr>
                else m)
      in case out_mode s out of
           None \<Rightarrow> m1
         | Some md \<Rightarrow>
             let (lw, lh) = logical_size (mr_scale rule) md
             in m1\<lparr>m_area := (m_area m1)\<lparr>size_w := lw, size_h := lh\<rparr>\<rparr>)"

definition reapply_monitor_rules :: "rwl \<Rightarrow> rwl" where
  "reapply_monitor_rules s =
     fire HkMonitorLayout (update_monitor_bounds
       (s\<lparr>monitors := map (reapply_monitor_rule s) (monitors s)\<rparr>))"

section \<open>An output goes\<close>

definition migration_target :: "rwl \<Rightarrow> nat \<Rightarrow> nat" where
  "migration_target s idx =
     (if length (monitors s) \<le> 1 then 0
      else if sel_mon s \<noteq> idx then sel_mon s
      else unwrap_or (List.find (\<lambda>i. i \<noteq> idx) [0..<length (monitors s)]) 0)"

text \<open>A window of the removed monitor moves to the target; hidden ones keep no tags.\<close>

definition migrate_window :: "config \<Rightarrow> nat \<Rightarrow> nat \<Rightarrow> u32 \<Rightarrow> wid \<Rightarrow> wstore \<Rightarrow> wstore" where
  "migrate_window c idx target target_tags w st =
     (if unwrap_or (with_state st w (\<lambda>x. mon_idx x = idx)) False
      then
        let current = unwrap_or (with_state st w ws_tags) 0;
            st1 = (if current \<noteq> 0 then set_window_tags c st w target_tags else st)
        in with_state_mut c st1 w (mon_idx_update (\<lambda>_. target))
      else st)"

definition shift_mon_idx :: "nat \<Rightarrow> wstate \<Rightarrow> wstate" where
  "shift_mon_idx idx x = (if mon_idx x > idx then x\<lparr>mon_idx := mon_idx x - 1\<rparr> else x)"

definition sel_after_removal :: "nat \<Rightarrow> nat \<Rightarrow> nat \<Rightarrow> nat" where
  "sel_after_removal n sel idx =
     (if n = 0 then 0 else if sel > idx then sel - 1 else if sel \<ge> n then n - 1 else sel)"

definition remove_monitor :: "woutput \<Rightarrow> nat \<Rightarrow> rwl \<Rightarrow> rwl" where
  "remove_monitor out idx s =
     (let target = migration_target s idx;
          target_tags = (case get_at (monitors s) target of Some m \<Rightarrow> tags m | None \<Rightarrow> 1);
          st1 = fold (migrate_window (cfg s) idx target target_tags) (windows s) (ws s);
          mem = (case get_at (monitors s) idx of
                   Some m \<Rightarrow> (monitor_mem s)(out_name out \<mapsto> snapshot m) | None \<Rightarrow> monitor_mem s);
          st2 = fold (\<lambda>w st. with_state_mut (cfg s) st w (shift_mon_idx idx)) (windows s) st1;
          mons = remove_at idx (monitors s);
          s1 = update_monitor_bounds
                 (s\<lparr>ws := st2, monitor_mem := mem, monitors := mons\<rparr>);
          s2 = s1\<lparr>tag_history := (if idx < length (tag_history s1)
                   then remove_at idx (tag_history s1) else tag_history s1),
                 sel_mon := sel_after_removal (length mons) (sel_mon s1) idx\<rparr>;
          s3 = fire HkMonitorLayout (fire (HkMonitorRemove (out_name out)) s2)
      in emit (Ipc (EvMonitor ''remove'' (out_name out))) s3)"

definition output_removed :: "woutput \<Rightarrow> rwl \<Rightarrow> rwl" where
  "output_removed out s =
     arrange_all (case monitor_for_output s out of
       Some idx \<Rightarrow> remove_monitor out idx s | None \<Rightarrow> s)"

section \<open>Leaving an empty tag\<close>

definition occupied_on :: "rwl \<Rightarrow> nat \<Rightarrow> u32 \<Rightarrow> bool" where
  "occupied_on s mon t = list_ex (\<lambda>w.
     unwrap_or (with_state (ws s) w mon_idx) 0 = mon \<and>
     unwrap_or (with_state (ws s) w (\<lambda>x. ws_tags x AND t)) 0 \<noteq> 0) (windows s)"

definition or_else :: "'a option \<Rightarrow> 'a option \<Rightarrow> 'a option" where
  "or_else a b = (case a of Some x \<Rightarrow> Some x | None \<Rightarrow> b)"

definition back_target :: "rwl \<Rightarrow> nat \<Rightarrow> u32 \<Rightarrow> u32 option \<Rightarrow> u32 option" where
  "back_target s mon current from_rule =
     or_else
       (case from_rule of
          Some prev \<Rightarrow> if prev \<noteq> current \<and> occupied_on s mon prev then Some prev else None
        | None \<Rightarrow> None)
     (or_else
       (case get_at (tag_history s) mon of
          Some hist \<Rightarrow> List.find (occupied_on s mon) (rev hist) | None \<Rightarrow> None)
     (or_else
       (case get_at (monitors s) mon of
          Some m \<Rightarrow> (let prev = sel2 (tagset m) (flip (sel_tags m)) in
            if prev = 0 \<or> prev = current then None
            else if occupied_on s mon prev then Some prev else None)
        | None \<Rightarrow> None)
       (case List.find (\<lambda>w. unwrap_or (with_state (ws s) w mon_idx) 0 = mon \<and>
                unwrap_or (with_state (ws s) w ws_tags) 0 \<noteq> 0) (windows s) of
          Some w \<Rightarrow> Some (unwrap_or (with_state (ws s) w ws_tags) 0) | None \<Rightarrow> None)))"

text \<open>The current slot is overwritten, so the empty tag does not become the previous view.\<close>

definition replace_view :: "config \<Rightarrow> u32 \<Rightarrow> monitor \<Rightarrow> monitor" where
  "replace_view c t m = pertag_apply c (m\<lparr>tagset := upd2 (tagset m) (sel_tags m) t\<rparr>) t"

definition auto_back :: "nat \<Rightarrow> u32 \<Rightarrow> u32 option \<Rightarrow> rwl \<Rightarrow> rwl" where
  "auto_back mon current from_rule s =
     (if current = 0 \<or> \<not> c_auto_back_empty_tag (cfg s) then s
      else if occupied_on s mon current then s
      else
        let s1 = s\<lparr>tag_history := update_at mon (filter (\<lambda>t. t \<noteq> current)) (tag_history s)\<rparr> in
        case back_target s1 mon current from_rule of
          None \<Rightarrow> s1
        | Some target \<Rightarrow>
            let s2 = upd_monitor mon (replace_view (cfg s1) target) s1;
                output_w = output_width s2 mon;
                s3 = stop_key_repeat (mark_slide_outs current target output_w s2);
                s4 = start_tag_transition current target output_w (arrange_all s3)
            in refocus s4)"

end
