(* ===== verification/Actions.thy ===== *)
theory Actions
  imports Overview Lock Output
begin

text \<open>
  The actions of key bindings, mouse bindings and the command socket
  (\<^verbatim>\<open>src/actions.rs\<close>), scratchpads (\<^verbatim>\<open>src/features/windows/scratchpad.rs\<close>)
  and the queue of deferred Lua commands (\<open>drain\<close>, \<open>apply\<close> of
  \<^verbatim>\<open>src/features/integration/hooks.rs\<close>).
\<close>

section \<open>Moving in the stack\<close>

definition zoom_candidate :: "rwl \<Rightarrow> u32 \<Rightarrow> wid \<Rightarrow> bool" where
  "zoom_candidate s t w \<longleftrightarrow>
     window_visible_on (ws s) w t \<and> \<not> window_is_floating (ws s) w \<and>
     unwrap_or (with_state (ws s) w (\<lambda>x. rules_applied x \<and> mon_idx x = sel_mon s)) False"

text \<open>
  The scan for the window to promote: whether the focused one was passed, and the
  first other tiled window.
\<close>

fun zoom_scan :: "(wid \<Rightarrow> bool) \<Rightarrow> wid \<Rightarrow> bool \<Rightarrow> wid list \<Rightarrow> bool \<times> wid option" where
  "zoom_scan cand f promote [] = (promote, None)"
| "zoom_scan cand f promote (w # us) =
     (if cand w then (if w = f then zoom_scan cand f True us else (promote, Some w))
      else zoom_scan cand f promote us)"

definition promote_window :: "wid \<Rightarrow> rwl \<Rightarrow> rwl" where
  "promote_window w s = (case position (\<lambda>v. v = w) (windows s) of
     None \<Rightarrow> s
   | Some pos \<Rightarrow>
       arrange_all (focus_window (Some w) (s\<lparr>windows := rotate_prefix pos (windows s)\<rparr>)))"

definition zoom :: "rwl \<Rightarrow> rwl" where
  "zoom s = (case focused_window s of
     None \<Rightarrow> s
   | Some focused \<Rightarrow>
       if window_is_floating (ws s) focused \<or> window_is_fullscreen (ws s) focused then s
       else case sel_monitor s of
         None \<Rightarrow> s
       | Some mon \<Rightarrow>
          (case zoom_scan (zoom_candidate s (tags mon)) focused False (windows s) of
             (_, None) \<Rightarrow> s
           | (promote_c, Some c) \<Rightarrow> promote_window (if promote_c then c else focused) s))"

definition focus_cycle :: "nat option \<Rightarrow> int \<Rightarrow> nat \<Rightarrow> nat" where
  "focus_cycle cur dir n = (case cur of
     Some pos \<Rightarrow> if dir > 0 then (pos + 1) mod n else (pos + n - 1) mod n
   | None \<Rightarrow> if dir > 0 then 0 else n - 1)"

definition on_sel_mon :: "rwl \<Rightarrow> wid \<Rightarrow> bool" where
  "on_sel_mon s w = unwrap_or (with_state (ws s) w
     (\<lambda>x. ws_tags x AND sel_tags_of s \<noteq> 0 \<and> rules_applied x \<and> mon_idx x = sel_mon s)) False"

definition focus_stack_step :: "int \<Rightarrow> rwl \<Rightarrow> rwl" where
  "focus_stack_step dir s =
     (let on_mon = filter (on_sel_mon s) (windows s); n = length on_mon in
      if n = 0 then s
      else
        let cur = (case focused_window s of
              Some f \<Rightarrow> position (\<lambda>w. w = f) on_mon | None \<Rightarrow> None)
        in focus_window (Some (on_mon ! focus_cycle cur dir n)) s)"

definition inc_nmaster :: "int \<Rightarrow> rwl \<Rightarrow> rwl" where
  "inc_nmaster delta s =
     arrange_all (upd_sel_monitor (\<lambda>m. m\<lparr>nmaster := max (i32 (nmaster m + delta)) 0\<rparr>) s)"

definition set_mfact :: "f64 \<Rightarrow> rwl \<Rightarrow> rwl" where
  "set_mfact delta s = arrange_all (upd_sel_monitor
     (\<lambda>m. m\<lparr>mfact := f_clamp (f_add (mfact m) delta) mfact_lo mfact_hi\<rparr>) s)"

definition spawn :: "string list \<Rightarrow> rwl \<Rightarrow> rwl" where
  "spawn cmd s = (if cmd = [] then s else emit (SpawnProc cmd) s)"

definition kill_focused :: "rwl \<Rightarrow> rwl" where
  "kill_focused s = (case focused_window s of
     None \<Rightarrow> s
   | Some w \<Rightarrow>
       let s1 = mod_state w (\<lambda>x. if c_fade_out_ms (cfg s) > 0 \<and> \<not> fading_out x
                  then x\<lparr>fading_out := True, fade_start := Some (now s)\<rparr> else x) s;
           s2 = (if toplevel s1 w then emit (TlClose w) s1 else s1)
       in if cl_x11 (clients s2 w) then emit (XClose w) s2 else s2)"

definition toggle_focused_floating :: "rwl \<Rightarrow> rwl" where
  "toggle_focused_floating s = (case focused_window s of
     None \<Rightarrow> s
   | Some w \<Rightarrow>
       let was_floating = window_is_floating (ws s) w;
           s1 = s\<lparr>ws := toggle_floating (cfg s) (ws s) w\<rparr>;
           s2 = (if \<not> was_floating then mod_state w (needs_centering_update (\<lambda>_. True)) s1 else s1)
       in arrange_all s2)"

definition toggle_focused_fullscreen :: "rwl \<Rightarrow> rwl" where
  "toggle_focused_fullscreen s = (case focused_window s of
     None \<Rightarrow> s
   | Some w \<Rightarrow>
       let fs = \<not> window_is_fullscreen (ws s) w;
           s1 = arrange_all (s\<lparr>ws := set_fullscreen (cfg s) (ws s) w fs\<rparr>)
       in emit (Ipc (EvFullscreen w)) (fire (HkFullscreen w fs) s1))"

section \<open>Views\<close>

definition sel_view :: "u32 \<Rightarrow> rwl \<Rightarrow> rwl" where
  "sel_view t s = upd_sel_monitor (\<lambda>m. view (cfg s) m t) s"

text \<open>The common end of a view change: layout, animation, focus.\<close>

definition slide_to :: "u32 \<Rightarrow> u32 \<Rightarrow> f64 \<Rightarrow> rwl \<Rightarrow> rwl" where
  "slide_to old new ow s =
     refocus (start_tag_transition old new ow (arrange_all (mark_slide_outs old new ow s)))"

definition do_view :: "u32 \<Rightarrow> rwl \<Rightarrow> rwl" where
  "do_view t s =
     (let old = tags_at s (sel_mon s); ow = output_width s (sel_mon s);
          s1 = sel_view t (update_tag_history (sel_mon s) t s)
      in slide_to old t ow s1)"

definition do_view_prev :: "rwl \<Rightarrow> rwl" where
  "do_view_prev s =
     (let i = sel_mon s; mon = get_at (monitors s) i;
          other = (\<lambda>m. sel2 (tagset m) (flip (sel_tags m)));
          old = tags_at s i;
          prev = (case mon of Some m \<Rightarrow> other m | None \<Rightarrow> 0);
          ow = output_width s i;
          s1 = (case mon of Some m \<Rightarrow> update_tag_history i (other m) s | None \<Rightarrow> s);
          s2 = upd_sel_monitor (\<lambda>m. view_prev (cfg s1) m) s1
      in slide_to old prev ow s2)"

definition do_view_next_occ :: "int \<Rightarrow> rwl \<Rightarrow> rwl" where
  "do_view_next_occ dir s = (case next_occ_tag s dir of Some t \<Rightarrow> do_view t s | None \<Rightarrow> s)"

definition do_toggle_view :: "u32 \<Rightarrow> rwl \<Rightarrow> rwl" where
  "do_toggle_view t s =
     (let i = sel_mon s;
          new_tags = (case get_at (monitors s) i of
            Some m \<Rightarrow> (tags m XOR t) AND tag_mask (cfg s) | None \<Rightarrow> 0);
          s1 = (if new_tags \<noteq> 0 then update_tag_history i new_tags s else s);
          s2 = upd_sel_monitor (\<lambda>m. toggle_view (cfg s1) m t) s1
      in refocus (arrange_all s2))"

definition view_tag_spawn :: "u32 \<Rightarrow> rwl \<Rightarrow> rwl" where
  "view_tag_spawn raw s =
     (let t = raw AND tag_mask (cfg s); old = tags_at s (sel_mon s);
          ow = output_width s (sel_mon s);
          s1 = sel_view t (update_tag_history (sel_mon s) t s);
          s2 = (if count_tiled s1 t = 0
                then (case get_at (c_auto_spawn (cfg s1)) (trailing_zeros t) of
                        Some (Some cmd) \<Rightarrow> spawn cmd s1 | _ \<Rightarrow> s1)
                else s1)
      in slide_to old t ow s2)"

definition do_tag :: "u32 \<Rightarrow> rwl \<Rightarrow> rwl" where
  "do_tag raw s =
     (let t = raw AND tag_mask (cfg s) in
      if t = 0 then s
      else
        let s1 = (case focused_window s of
              None \<Rightarrow> s
            | Some w \<Rightarrow>
                let s0 = s\<lparr>ws := set_window_tags (cfg s) (ws s) w t\<rparr> in
                if c_follow (cfg s)
                then sel_view t (update_tag_history (sel_mon s0) t s0) else s0)
        in refocus (arrange_all s1))"

definition do_toggle_tag :: "u32 \<Rightarrow> rwl \<Rightarrow> rwl" where
  "do_toggle_tag raw s =
     arrange_all (case focused_window s of
        None \<Rightarrow> s
      | Some w \<Rightarrow>
          let new = (window_tags (ws s) w XOR raw) AND tag_mask (cfg s) in
          if new \<noteq> 0 then s\<lparr>ws := set_window_tags (cfg s) (ws s) w new\<rparr> else s)"

section \<open>Layouts\<close>

definition do_set_layout :: "nat \<Rightarrow> rwl \<Rightarrow> rwl" where
  "do_set_layout i s = arrange_all (upd_sel_monitor (\<lambda>m. set_layout (cfg s) m i) s)"

definition do_cycle_layout :: "rwl \<Rightarrow> rwl" where
  "do_cycle_layout s =
     (let n = length (c_layouts (cfg s));
          cur = (case sel_monitor s of Some m \<Rightarrow> sel2 (lt m) (sel_lt m) | None \<Rightarrow> 0)
      in arrange_all (if n > 0
           then upd_sel_monitor (\<lambda>m. set_layout (cfg s) m ((cur + 1) mod n)) s else s))"

definition do_reset_layout :: "rwl \<Rightarrow> rwl" where
  "do_reset_layout s = arrange_all (upd_sel_monitor (\<lambda>m. pertag_reset (cfg s) m (tags m)) s)"

section \<open>Monitors\<close>

definition focus_mon :: "int \<Rightarrow> rwl \<Rightarrow> rwl" where
  "focus_mon dir s = (case dir_to_monitor s (sel_mon s) dir of
     None \<Rightarrow> s
   | Some next \<Rightarrow>
       let s1 = s\<lparr>sel_mon := next\<rparr>;
           top = List.find (\<lambda>w. window_visible_on (ws s1) w (tags_at s1 next) \<and>
                   unwrap_or (with_state (ws s1) w (\<lambda>x. mon_idx x = next)) False) (focus_stack s1)
       in arrange_all (focus_window top s1))"

definition tag_mon :: "int \<Rightarrow> rwl \<Rightarrow> rwl" where
  "tag_mon dir s = (case focused_window s of
     None \<Rightarrow> s
   | Some w \<Rightarrow> (case dir_to_monitor s (sel_mon s) dir of
       None \<Rightarrow> s
     | Some next \<Rightarrow>
         let new_tags = (case get_at (monitors s) next of Some m \<Rightarrow> tags m | None \<Rightarrow> 1);
             s1 = mod_state w (mon_idx_update (\<lambda>_. next))
                    (s\<lparr>ws := set_window_tags (cfg s) (ws s) w new_tags\<rparr>);
             s2 = (if c_follow (cfg s1)
                   then focus_window (Some w) (s1\<lparr>sel_mon := next\<rparr>) else s1)
         in arrange_all s2))"

definition focus_urgent :: "rwl \<Rightarrow> rwl" where
  "focus_urgent s =
     (let urgent = (\<lambda>w. unwrap_or (with_state (ws s) w is_urgent) False) in
      case or_else (List.find urgent (focus_stack s)) (List.find urgent (windows s)) of
        None \<Rightarrow> s
      | Some w \<Rightarrow>
          let (i, t) = unwrap_or (with_state (ws s) w (\<lambda>x. (mon_idx x, ws_tags x))) (sel_mon s, 0);
              s1 = s\<lparr>sel_mon := i\<rparr>;
              s2 = (if t \<noteq> 0 then upd_monitor i (\<lambda>m. view (cfg s1) m t) s1 else s1)
          in focus_window (Some w) (arrange_all s2))"

section \<open>Scratchpads\<close>

definition find_scratch :: "rwl \<Rightarrow> nat \<Rightarrow> wid option" where
  "find_scratch s key = List.find (\<lambda>w. window_is_scratch (ws s) w key) (windows s)"

definition hide_scratch :: "wid \<Rightarrow> rwl \<Rightarrow> rwl" where
  "hide_scratch w s =
     (let t = sel_tags_of s; sel = sel_mon s;
          s1 = s\<lparr>ws := set_window_tags (cfg s) (ws s) w 0,
                 focus_stack := filter (\<lambda>v. v \<noteq> w) (focus_stack s)\<rparr>;
          top = List.find (\<lambda>v. window_visible_on (ws s1) v t \<and>
                  unwrap_or (with_state (ws s1) v (\<lambda>x. mon_idx x = sel)) False) (focus_stack s1)
      in focus_window top s1)"

definition show_scratch :: "wid \<Rightarrow> rwl \<Rightarrow> rwl" where
  "show_scratch w s =
     (let t = (case sel_monitor s of Some m \<Rightarrow> tags m | None \<Rightarrow> 1)
      in focus_window (Some w) (s\<lparr>ws := set_window_tags (cfg s) (ws s) w t\<rparr>))"

definition after_scratch :: "rwl \<Rightarrow> rwl" where
  "after_scratch s = warp_cursor_to_focused (arrange_all s)"

definition toggle_scratch :: "scratch_cmd \<Rightarrow> rwl \<Rightarrow> rwl" where
  "toggle_scratch cmd s = (case find_scratch s (sc_key cmd) of
     Some w \<Rightarrow> after_scratch (if window_visible_on (ws s) w (sel_tags_of s)
                              then hide_scratch w s else show_scratch w s)
   | None \<Rightarrow> spawn (sc_cmd cmd) s)"

definition focus_or_toggle_scratch :: "scratch_cmd \<Rightarrow> rwl \<Rightarrow> rwl" where
  "focus_or_toggle_scratch cmd s = (case find_scratch s (sc_key cmd) of
     Some w \<Rightarrow> after_scratch (if focused_window s = Some w
                              then hide_scratch w s else show_scratch w s)
   | None \<Rightarrow> spawn (sc_cmd cmd) s)"

definition focus_or_toggle_matching_scratch :: "scratch_cmd \<Rightarrow> rwl \<Rightarrow> rwl" where
  "focus_or_toggle_matching_scratch cmd s =
     (let match_id = (case sc_cmd cmd of c # _ \<Rightarrow> c | [] \<Rightarrow> []);
          candidate = List.find (\<lambda>w. window_is_scratch (ws s) w (sc_key cmd) \<or>
            unwrap_or (with_state (ws s) w (\<lambda>x. case last_appid x of
               Some i \<Rightarrow> str_contains i match_id | None \<Rightarrow> False)) False) (windows s)
      in case candidate of
           Some w \<Rightarrow> after_scratch (if window_visible_on (ws s) w (sel_tags_of s)
                                    then hide_scratch w s else show_scratch w s)
         | None \<Rightarrow> spawn (sc_cmd cmd) s)"

section \<open>Dispatch\<close>

definition do_reload :: "rwl \<Rightarrow> rwl" where
  "do_reload s =
     (let s1 = emit ReloadConf (s\<lparr>cfg := config_file s\<rparr>);
          s2 = reapply_monitor_rules s1;
          s3 = s2\<lparr>monitors := map (\<lambda>m. pertag_apply (cfg s2) m (tags m)) (monitors s2)\<rparr>;
          s4 = emit (BarCommand ''all reload'') (arrange_all (update_borders s3))
      in case config_error s4 of Some e \<Rightarrow> fire (HkConfigError e) s4 | None \<Rightarrow> s4)"

definition run_action :: "action \<Rightarrow> rwl \<Rightarrow> rwl" where
  "run_action a s = (case a of
     Spawn cmd \<Rightarrow> spawn cmd s
   | FocusStack dir \<Rightarrow> focus_stack_step dir s
   | IncNmaster d \<Rightarrow> inc_nmaster d s
   | SetMfact d \<Rightarrow> set_mfact d s
   | Zoom \<Rightarrow> zoom s
   | ViewPrev \<Rightarrow> do_view_prev s
   | ViewNextOccTag dir \<Rightarrow> do_view_next_occ dir s
   | KillClient \<Rightarrow> kill_focused s
   | SetLayout i \<Rightarrow> do_set_layout i s
   | CycleLayout \<Rightarrow> do_cycle_layout s
   | ResetLayout \<Rightarrow> do_reset_layout s
   | ToggleFloating \<Rightarrow> toggle_focused_floating s
   | ToggleFullscreen \<Rightarrow> toggle_focused_fullscreen s
   | TogglePassthrough \<Rightarrow> s\<lparr>passthrough := \<not> passthrough s\<rparr>
   | ToggleGaps \<Rightarrow> arrange_all (s\<lparr>gaps_on := toggle_gaps (gaps_on s)\<rparr>)
   | View t \<Rightarrow> do_view t s
   | ViewTagSpawn t \<Rightarrow> view_tag_spawn t s
   | ToggleView t \<Rightarrow> do_toggle_view t s
   | Tag t \<Rightarrow> do_tag t s
   | ToggleTag t \<Rightarrow> do_toggle_tag t s
   | FocusMon dir \<Rightarrow> focus_mon dir s
   | TagMon dir \<Rightarrow> tag_mon dir s
   | Move \<Rightarrow> s | Resize \<Rightarrow> s
   | ToggleScratch c \<Rightarrow> toggle_scratch c s
   | FocusOrToggleScratch c \<Rightarrow> focus_or_toggle_scratch c s
   | FocusOrToggleMatchingScratch c \<Rightarrow> focus_or_toggle_matching_scratch c s
   | Chvt vt \<Rightarrow> emit (ChangeVt (u32_as_i32 vt)) s
   | ReloadConfig \<Rightarrow> do_reload s
   | Quit \<Rightarrow> emit StopLoop (s\<lparr>running := False\<rparr>)
   | CallLua f \<Rightarrow> fire (HkCall f) s
   | ToggleBar \<Rightarrow>
       arrange_all ((emit (BarCommand ''all toggle-visibility'') s)\<lparr>gaps_on := toggle_gaps (gaps_on s)\<rparr>)
   | BarPrompt \<Rightarrow> emit (BarCommand ''selected prompt'') s
   | ToggleOverview \<Rightarrow> overview_toggle False s
   | ToggleOverviewAll \<Rightarrow> overview_toggle True s
   | OverviewNav k \<Rightarrow> overview_handle_key k s
   | TogglePip \<Rightarrow> pip_toggle s
   | MovePip \<Rightarrow> pip_move_corner s
   | Lock \<Rightarrow> native_lock_start s
   | LockConsume \<Rightarrow> s | Consumed \<Rightarrow> s
   | SendKeys syms \<Rightarrow> if has_keyboard s then emit (InjectKeys syms) s else s)"

text \<open>What the events after an action compare: selected monitor, its tags, its layout.\<close>

definition tag_events :: "nat \<times> u32 option \<Rightarrow> rwl \<Rightarrow> rwl" where
  "tag_events before s = (case before of (i, old) \<Rightarrow>
     (case (old, map_option tags (sel_monitor s)) of
        (Some old_v, Some n) \<Rightarrow> if i = sel_mon s \<and> old_v \<noteq> n
           then emit (Ipc (EvTag i)) (fire (HkTagSwitch old_v n) s) else s
      | _ \<Rightarrow> s))"

definition layout_events :: "nat \<times> nat option \<Rightarrow> rwl \<Rightarrow> rwl" where
  "layout_events before s = (case before of (i, old) \<Rightarrow>
     (case (old, map_option layout_idx (sel_monitor s)) of
        (Some old_v, Some n) \<Rightarrow> if i = sel_mon s \<and> old_v \<noteq> n
           then emit (Ipc (EvLayout i old_v n)) (fire (HkLayoutChange old_v n) s) else s
      | _ \<Rightarrow> s))"

text \<open>An open overview swallows its own keys, closes a thumbnail's window, or gives way.\<close>

datatype overview_gate = Pass rwl | Done rwl

definition overview_guard :: "action \<Rightarrow> rwl \<Rightarrow> overview_gate" where
  "overview_guard a s =
     (if overview s = None then Pass s
      else case a of
        OverviewNav _ \<Rightarrow> Pass s | ToggleOverview \<Rightarrow> Pass s | ToggleOverviewAll \<Rightarrow> Pass s
      | Consumed \<Rightarrow> Pass s
      | KillClient \<Rightarrow> Done (kill_selected s)
      | _ \<Rightarrow> Pass (force_close s))"

text \<open>
  Dispatch while the queue is being drained: a nested \<open>CallLua\<close> only queues. Two
  actions return before the events.
\<close>

definition dispatch_in :: "action \<Rightarrow> rwl \<Rightarrow> rwl" where
  "dispatch_in a s = (case overview_guard a s of
     Done s' \<Rightarrow> s'
   | Pass s0 \<Rightarrow>
       let tag_before = (sel_mon s0, map_option tags (sel_monitor s0));
           layout_before = (sel_mon s0, map_option layout_idx (sel_monitor s0));
           s1 = run_action a s0
       in case a of
            CallLua _ \<Rightarrow> s1 | SendKeys _ \<Rightarrow> s1
          | _ \<Rightarrow> layout_events layout_before (tag_events tag_before s1))"

section \<open>The queue of deferred commands\<close>

definition managed :: "rwl \<Rightarrow> wid \<Rightarrow> bool" where
  "managed s w \<longleftrightarrow> w \<in> set (windows s)"

definition retag :: "wid \<Rightarrow> u32 \<Rightarrow> rwl \<Rightarrow> rwl" where
  "retag w t s = refocus (arrange_all (s\<lparr>ws := set_window_tags (cfg s) (ws s) w t\<rparr>))"

definition move_to_monitor :: "wid \<Rightarrow> int \<Rightarrow> rwl \<Rightarrow> rwl" where
  "move_to_monitor w dir s =
     (let from = unwrap_or (with_state (ws s) w mon_idx) (sel_mon s) in
      case dir_to_monitor s from dir of
        None \<Rightarrow> s
      | Some next \<Rightarrow>
          let t = (case get_at (monitors s) next of Some m \<Rightarrow> tags m | None \<Rightarrow> 1);
              s1 = mod_state w (mon_idx_update (\<lambda>_. next))
                     (s\<lparr>ws := set_window_tags (cfg s) (ws s) w t\<rparr>)
          in refocus (arrange_all s1))"

definition apply_hook_cmd :: "hook_cmd \<Rightarrow> rwl \<Rightarrow> rwl" where
  "apply_hook_cmd c s = (case c of
     HcSpawn argv \<Rightarrow> spawn argv s
   | HcView raw \<Rightarrow> (let t = raw AND tag_mask (cfg s) in
       if t \<noteq> 0 then dispatch_in (View t) s else s)
   | HcNotify msg \<Rightarrow> emit (Notify msg) s
   | HcSetTags w raw \<Rightarrow> (let t = raw AND tag_mask (cfg s) in
       if t \<noteq> 0 \<and> managed s w then retag w t s else s)
   | HcSetFloating w b \<Rightarrow>
       if managed s w
       then arrange_all (mod_state w (\<lambda>x. x\<lparr>is_floating := b,
              needs_centering := (if b then True else needs_centering x)\<rparr>) s) else s
   | HcFocus w \<Rightarrow> if managed s w then focus_window (Some w) s else s
   | HcClose w \<Rightarrow> if toplevel s w then emit (TlClose w) s else s
   | HcSetLayout i \<Rightarrow> dispatch_in (SetLayout i) s
   | HcDispatch a \<Rightarrow> dispatch_in a s
   | HcSetFullscreen w b \<Rightarrow>
       if managed s w then arrange_all (s\<lparr>ws := set_fullscreen (cfg s) (ws s) w b\<rparr>) else s
   | HcToggleTags w raw \<Rightarrow> (let t = raw AND tag_mask (cfg s) in
       if t \<noteq> 0 \<and> managed s w then
         (let nxt = (window_tags (ws s) w XOR t) AND tag_mask (cfg s) in
          if nxt \<noteq> 0 then retag w nxt s else s)
       else s)
   | HcMoveToMonitor w dir \<Rightarrow> if managed s w then move_to_monitor w dir s else s
   | HcWarp w \<Rightarrow>
       if managed s w then warp_cursor_to_focused (focus_window (Some w) s) else s
   | HcSetScratch w key \<Rightarrow>
       if managed s w then mod_state w (scratch_key_update (\<lambda>_. key)) s else s
   | HcSetWallpaper path mode \<Rightarrow> schedule_render (emit (SetWallpaper path mode) s))"

text \<open>At most eight rounds, so callbacks that keep queuing cannot hang the loop.\<close>

fun drain_rounds :: "nat \<Rightarrow> rwl \<Rightarrow> rwl" where
  "drain_rounds 0 s = s"
| "drain_rounds (Suc n) s =
     (if hook_queue s = [] then s
      else drain_rounds n (fold apply_hook_cmd (hook_queue s) (s\<lparr>hook_queue := []\<rparr>)))"

definition drain :: "rwl \<Rightarrow> rwl" where
  "drain s = drain_rounds 8 s"

definition dispatch :: "action \<Rightarrow> rwl \<Rightarrow> rwl" where
  "dispatch a s = (case overview_guard a s of
     Done s' \<Rightarrow> s'
   | Pass s0 \<Rightarrow> (case a of CallLua _ \<Rightarrow> drain (run_action a s0) | _ \<Rightarrow> dispatch_in a s))"

section \<open>The end of the overview\<close>

definition finish_close :: "rwl \<Rightarrow> rwl" where
  "finish_close s = (case overview s of
     None \<Rightarrow> s
   | Some ov \<Rightarrow>
       let s1 = s\<lparr>overview := None\<rparr>;
           s2 = (case ov_closing ov of
                   Some (SelWindow w t) \<Rightarrow>
                     let s' = (if t \<noteq> 0 \<and> t \<noteq> sel_tags_of s1 then dispatch (View t) s1 else s1)
                     in warp_cursor_to_focused (focus_window (Some w) s')
                 | _ \<Rightarrow> s1)
       in schedule_render s2)"

text \<open>One frame of the animation; \<open>over\<close> tells whether its duration has elapsed.\<close>

definition overview_advance :: "bool \<Rightarrow> rwl \<Rightarrow> rwl \<times> bool" where
  "overview_advance over s = (case overview s of
     None \<Rightarrow> (s, False)
   | Some ov \<Rightarrow>
       if ov_closing ov \<noteq> None then (if over then (finish_close s, False) else (s, True))
       else (s, \<not> over))"

end
