(* ===== verification/Lifecycle.thy ===== *)
theory Lifecycle
  imports Actions
begin

text \<open>
  Windows appearing, committing and going: the xdg-shell handler
  (\<^verbatim>\<open>src/handlers/xdg_shell.rs\<close>), the toplevel part of the surface commit
  (\<^verbatim>\<open>src/handlers/compositor.rs\<close>) and the X11 handler
  (\<^verbatim>\<open>src/handlers/xwayland.rs\<close>). A new window's number is the caller's, fresh.
\<close>

section \<open>A new toplevel\<close>

definition map_activating :: "wid \<Rightarrow> point \<Rightarrow> rwl \<Rightarrow> rwl" where
  "map_activating w p s =
     (let (sp, acts) = map_element_activating (space s) w p
      in emits (map (\<lambda>(v, b). SpaceActivate v b) acts) (s\<lparr>space := sp\<rparr>))"

definition initial_place :: "rwl \<Rightarrow> point \<times> u32" where
  "initial_place s = (case sel_monitor s of
     Some m \<Rightarrow> (rect_loc (w_area m), tags m) | None \<Rightarrow> ((0, 0), 1))"

text \<open>The layout after the new window went on top of the focus stack.\<close>

definition arrange_for_new :: "wid \<Rightarrow> wid option \<Rightarrow> rwl \<Rightarrow> rwl" where
  "arrange_for_new w prev s =
     (if first_of (focus_stack s) = prev then s
      else case with_state (ws s) w mon_idx of
        None \<Rightarrow> arrange_all s
      | Some i \<Rightarrow>
          let prev_mon = mon_of s prev; s1 = arrange i (s\<lparr>sel_mon := i\<rparr>)
          in case prev_mon of
               Some p \<Rightarrow> if p \<noteq> i then arrange p s1 else s1 | None \<Rightarrow> s1)"

definition new_toplevel :: "wid \<Rightarrow> surface \<Rightarrow> rwl \<Rightarrow> rwl" where
  "new_toplevel w surf s =
     (let (loc, initial_tags) = initial_place s; i = sel_mon s;
          s1 = map_activating w loc
                 (mod_state w (\<lambda>x. x\<lparr>ws_tags := initial_tags, mon_idx := i\<rparr>) s);
          s2 = s1\<lparr>windows := w # windows s1, window_map := (window_map s1)(surf \<mapsto> w)\<rparr>;
          s3 = emits [TlDecoration w, TlConfigure w] s2;
          prev = first_of (focus_stack s3);
          s4 = s3\<lparr>focus_stack := w # filter (\<lambda>v. v \<noteq> w) (focus_stack s3)\<rparr>
      in print_status (update_borders (arrange_for_new w prev s4)))"

section \<open>A toplevel goes\<close>

text \<open>A window leaves the lists when it is a toplevel with the destroyed surface.\<close>

definition not_of_surface :: "rwl \<Rightarrow> surface \<Rightarrow> wid \<Rightarrow> bool" where
  "not_of_surface s surf v \<longleftrightarrow> \<not> toplevel s v \<or> cl_surface (clients s v) \<noteq> Some surf"

definition forget_surface :: "surface \<Rightarrow> rwl \<Rightarrow> rwl" where
  "forget_surface surf s = s\<lparr>window_map := (window_map s)(surf := None),
     windows := filter (not_of_surface s surf) (windows s),
     focus_stack := filter (not_of_surface s surf) (focus_stack s)\<rparr>"

text \<open>What follows for the window itself: the restored terminal is returned.\<close>

definition close_window :: "wid \<Rightarrow> bool \<Rightarrow> rwl \<Rightarrow> rwl \<times> wid option" where
  "close_window w was_visible s =
     (let s1 = pip_on_window_closed w s;
          i = unwrap_or (with_state (ws s1) w mon_idx) (sel_mon s1);
          from_rule = unwrap_or (with_state (ws s1) w switch_to_tag) None;
          was_floating = unwrap_or (with_state (ws s1) w is_floating) False;
          s2 = hide_elem w s1;
          current = tags_at s2 i;
          s3 = (if was_visible \<and> \<not> was_floating then auto_back i current from_rule s2 else s2);
          s4 = (if was_visible
                then emit (Ipc (EvWindow ''close'' w)) (drain (fire (HkWindowClose w) s3)) else s3)
      in on_unmap w s4)"

definition toplevel_destroyed :: "surface \<Rightarrow> rwl \<Rightarrow> rwl" where
  "toplevel_destroyed surf s =
     (let window = window_map s surf;
          s1 = forget_surface surf s;
          was_visible = (case window of
            Some w \<Rightarrow> unwrap_or (with_state (ws s1) w buffer_mapped) False | None \<Rightarrow> False);
          (s2, restored) = (case window of
            Some w \<Rightarrow> close_window w was_visible s1 | None \<Rightarrow> (s1, None));
          top = (if was_visible then or_else (tile_master_window s2) (focused_window s2)
                 else focused_window s2);
          s3 = arrange_all (focus_window (or_else restored top) s2);
          s4 = (if was_visible then warp_cursor_to_focused s3 else s3)
      in if was_visible then overview_on_window_closed s4 else s4)"

section \<open>Requests of the client\<close>

definition request_fullscreen :: "surface \<Rightarrow> bool \<Rightarrow> rwl \<Rightarrow> rwl" where
  "request_fullscreen surf fs s = (case window_map s surf of
     None \<Rightarrow> s
   | Some w \<Rightarrow>
       let was_fs = window_is_fullscreen (ws s) w;
           s1 = arrange_all (s\<lparr>ws := set_fullscreen (cfg s) (ws s) w fs\<rparr>)
       in if was_fs \<noteq> fs then emit (Ipc (EvFullscreen w)) (fire (HkFullscreen w fs) s1) else s1)"

definition parent_changed :: "surface \<Rightarrow> rwl \<Rightarrow> rwl" where
  "parent_changed surf s = (case window_map s surf of
     None \<Rightarrow> s
   | Some w \<Rightarrow>
       if cl_parent (clients s w) \<noteq> None \<and> \<not> window_is_floating (ws s) w
       then mod_state w (rules_applied_update (\<lambda>_. False)) s else s)"

section \<open>Commit\<close>

definition commit_border :: "wid \<Rightarrow> rwl \<Rightarrow> rwl" where
  "commit_border w s = (case unwrap_or (with_state (ws s) w pending_geom) None of
     None \<Rightarrow> s
   | Some p \<Rightarrow>
       let sz = rect_size (cl_geometry (clients s w)) in
       if sz = rect_size p \<and> fst sz > 0
       then mod_state w (\<lambda>x. x\<lparr>border_counter := Suc (border_counter x)\<rparr>) s else s)"

definition first_commit :: "wid \<Rightarrow> rwl \<Rightarrow> rwl" where
  "first_commit w s =
     (let s1 = mod_state w (rules_applied_update (\<lambda>_. True)) s;
          s2 = try_swallow w (apply_rules w s1);
          s3 = drain (fire (HkWindowOpen w) s2);
          s4 = refocus (arrange_all s3)
      in emit (Ipc (EvWindow ''open'' w)) s4)"

definition commit_rules :: "wid \<Rightarrow> bool \<Rightarrow> rwl \<Rightarrow> rwl" where
  "commit_rules w initial_sent s =
     (if unwrap_or (with_state (ws s) w (\<lambda>x. \<not> rules_applied x)) False then first_commit w s
      else if toplevel s w \<and> \<not> initial_sent then arrange_all s else s)"

definition mapped_ops :: "bool \<Rightarrow> bool \<Rightarrow> bool \<Rightarrow> tl_op list" where
  "mapped_ops is_focused is_tiled is_fs =
     activation is_focused #
     (if is_tiled then map SetState [TiledLeft, TiledRight, TiledTop, TiledBottom] else untile) @
     [if is_fs then SetState FullscreenState else UnsetState FullscreenState]"

text \<open>The first buffer: the states are sent again, and fixed-size windows start to float.\<close>

definition first_buffer :: "wid \<Rightarrow> rwl \<Rightarrow> rwl" where
  "first_buffer w s =
     (let s1 = mod_state w (\<lambda>x. if c_fade_in_ms (cfg s) > 0
                 then x\<lparr>buffer_mapped := True, fade_start := Some (now s), fading_out := False\<rparr>
                 else x\<lparr>buffer_mapped := True\<rparr>) s;
          is_focused = (first_of (focus_stack s1) = Some w);
          is_fs = window_is_fullscreen (ws s1) w;
          is_tiled = (\<not> window_is_floating (ws s1) w \<and> \<not> is_fs);
          s2 = (if toplevel s1 w
                then emits [TlPending w (mapped_ops is_focused is_tiled is_fs), TlConfigure w] s1
                else s1);
          s3 = (if is_focused then warp_cursor_to_focused s2 else s2)
      in if toplevel s3 w \<and> \<not> window_is_floating (ws s3) w \<and> \<not> window_is_fullscreen (ws s3) w \<and>
            window_is_float_type (clients s3 w)
         then arrange_all (mod_state w (\<lambda>x. x\<lparr>is_floating := True, needs_centering := True\<rparr>) s3)
         else s3)"

definition commit_buffer :: "wid \<Rightarrow> rwl \<Rightarrow> rwl" where
  "commit_buffer w s =
     (let g = cl_geometry (clients s w) in
      if \<not> unwrap_or (with_state (ws s) w buffer_mapped) True \<and> size_w g > 0 \<and> size_h g > 0
      then first_buffer w s else s)"

definition center_in :: "monitor \<Rightarrow> int \<times> int \<Rightarrow> point" where
  "center_in m sz =
     (i32 (loc_x (m_area m) + tdiv (i32 (size_w (w_area m) - fst sz)) 2),
      i32 (loc_y (m_area m) + tdiv (i32 (size_h (w_area m) - snd sz)) 2))"

definition commit_center :: "wid \<Rightarrow> rwl \<Rightarrow> rwl" where
  "commit_center w s =
     (let g = cl_geometry (clients s w) in
      if unwrap_or (with_state (ws s) w needs_centering) False \<and> size_w g > 0 \<and> size_h g > 0
      then
        (case get_at (monitors s) (unwrap_or (with_state (ws s) w mon_idx) (sel_mon s)) of
           None \<Rightarrow> s
         | Some m \<Rightarrow>
             let loc = center_in m (rect_size g);
                 s1 = mod_state w (needs_centering_update (\<lambda>_. False)) s
             in if list_ex (\<lambda>m. tags m AND window_tags (ws s1) w \<noteq> 0) (monitors s1)
                then map_at w loc s1 else mod_state w (saved_loc_update (\<lambda>_. Some loc)) s1)
      else s)"

definition commit_names :: "wid \<Rightarrow> rwl \<Rightarrow> rwl" where
  "commit_names w s =
     (let (t, a) = live_names (clients s w);
          (tc, ac) = unwrap_or (with_state (ws s) w
             (\<lambda>x. (last_title x \<noteq> t, last_appid x \<noteq> a))) (False, False)
      in if tc \<or> ac
         then print_status (mod_state w (\<lambda>x. x\<lparr>last_title := (if tc then t else last_title x),
                last_appid := (if ac then a else last_appid x)\<rparr>) s)
         else s)"

definition commit_toplevel :: "surface \<Rightarrow> bool \<Rightarrow> rwl \<Rightarrow> rwl" where
  "commit_toplevel surf initial_sent s = (case window_map s surf of
     None \<Rightarrow> s
   | Some w \<Rightarrow>
       commit_names w (commit_center w (commit_buffer w
         (commit_rules w initial_sent (commit_border w s)))))"

text \<open>
  A layer surface's commit: \<open>zone\<close> is what its output has left, \<open>interactive\<close> the topmost
  layer surface that may take the keyboard.
\<close>

definition commit_layer :: "nat \<Rightarrow> rect \<Rightarrow> surface option \<Rightarrow> rwl \<Rightarrow> rwl" where
  "commit_layer i zone interactive s = (case get_at (monitors s) i of
     None \<Rightarrow> s
   | Some m \<Rightarrow>
       let new_w = work_area (zone, False) m;
           s1 = (if new_w \<noteq> w_area m
                 then arrange i (upd_monitor i (\<lambda>m. m\<lparr>w_area := new_w\<rparr>) s) else s)
       in update_layer_focus interactive s1)"

text \<open>A commit on a surface that is a toplevel's, or a layer's on a monitor, or neither.\<close>

definition commit ::
  "surface \<Rightarrow> bool \<Rightarrow> nat option \<Rightarrow> rect \<Rightarrow> surface option \<Rightarrow> rwl \<Rightarrow> rwl" where
  "commit surf initial_sent layer_mon zone interactive s = schedule_render
     (if window_for_surface s surf \<noteq> None then commit_toplevel surf initial_sent s
      else case layer_mon of Some i \<Rightarrow> commit_layer i zone interactive s | None \<Rightarrow> s)"

section \<open>Activation requests\<close>

text \<open>\<open>request_activation\<close> of \<^verbatim>\<open>src/handlers/data_device.rs\<close>.\<close>

definition request_activation :: "surface \<Rightarrow> rwl \<Rightarrow> rwl" where
  "request_activation surf s = (case window_for_surface s surf of
     None \<Rightarrow> s
   | Some w \<Rightarrow>
       if first_of (focus_stack s) = Some w then s
       else focus_urgent (emit (Ipc (EvUrgency w)) (fire (HkUrgency w)
              (s\<lparr>ws := set_urgent (cfg s) (ws s) w True\<rparr>))))"

section \<open>X11 windows\<close>

definition center_x11 :: "wid \<Rightarrow> rwl \<Rightarrow> rwl" where
  "center_x11 w s =
     (let cl = clients s w;
          sz = (case (cl_x11_min_size cl, cl_x11_max_size cl) of
                  (Some mn, Some mx) \<Rightarrow> if mn = mx then mn else rect_size (cl_x11_geometry cl)
                | _ \<Rightarrow> rect_size (cl_x11_geometry cl))
      in if \<not> cl_x11 cl \<or> fst sz \<le> 0 \<or> snd sz \<le> 0 then s
         else case get_at (monitors s) (unwrap_or (with_state (ws s) w mon_idx) (sel_mon s)) of
           None \<Rightarrow> s
         | Some m \<Rightarrow>
             let loc = center_in m sz;
                 s1 = map_at w loc (mod_state w (saved_loc_update (\<lambda>_. Some loc)) s)
             in schedule_render (emit (XConfigure w (mk_rect (fst loc) (snd loc) (fst sz) (snd sz))) s1))"

definition map_x11_window :: "wid \<Rightarrow> rwl \<Rightarrow> rwl" where
  "map_x11_window w s =
     (let (loc, initial_tags) = initial_place s; i = sel_mon s;
          float = window_is_float_type (clients s w);
          s1 = map_activating w loc (mod_state w (\<lambda>x. x\<lparr>ws_tags := initial_tags, mon_idx := i,
                 is_floating := (if float then True else is_floating x)\<rparr>) s);
          s2 = s1\<lparr>windows := w # windows s1,
                  window_map := (case cl_surface (clients s1 w) of
                    Some surf \<Rightarrow> (window_map s1)(surf \<mapsto> w) | None \<Rightarrow> window_map s1)\<rparr>;
          s3 = (if float then center_x11 w s2 else s2)
      in print_status (arrange_all (focus_window (Some w) s3)))"

definition map_x11_override_redirect :: "wid \<Rightarrow> rwl \<Rightarrow> rwl" where
  "map_x11_override_redirect w s =
     (let s1 = map_activating w (rect_loc (cl_x11_geometry (clients s w)))
                 (mod_state w (\<lambda>x. x\<lparr>is_override_redirect := True, rules_applied := True\<rparr>) s)
      in schedule_render (s1\<lparr>x11_or_windows := x11_or_windows s1 @ [w]\<rparr>))"

definition dismiss_x11_popups :: "rwl \<Rightarrow> rwl" where
  "dismiss_x11_popups s =
     (if x11_or_windows s = [] then s
      else schedule_render (fold hide_elem (x11_or_windows s) (s\<lparr>x11_or_windows := []\<rparr>)))"

definition unmap_x11_window :: "wid \<Rightarrow> rwl \<Rightarrow> rwl" where
  "unmap_x11_window w s =
     (if w \<notin> set (windows s) \<union> set (x11_or_windows s) then s
      else
        let s1 = hide_elem w s in
        if unwrap_or (with_state (ws s1) w is_override_redirect) False
        then schedule_render (s1\<lparr>x11_or_windows := filter (\<lambda>v. v \<noteq> w) (x11_or_windows s1)\<rparr>)
        else
          let s2 = s1\<lparr>window_map := (case cl_surface (clients s1 w) of
                         Some surf \<Rightarrow> (window_map s1)(surf := None) | None \<Rightarrow> window_map s1),
                      windows := filter (\<lambda>v. v \<noteq> w) (windows s1),
                      focus_stack := filter (\<lambda>v. v \<noteq> w) (focus_stack s1)\<rparr>
          in print_status (arrange_all (refocus (dismiss_x11_popups s2))))"

text \<open>A float hint that arrives after the mapping.\<close>

definition x11_property_notify :: "wid \<Rightarrow> rwl \<Rightarrow> rwl" where
  "x11_property_notify w s =
     (if w \<notin> set (windows s) \<union> set (x11_or_windows s) then s
      else
        let (is_or, already) = unwrap_or (with_state (ws s) w
              (\<lambda>x. (is_override_redirect x, is_floating x))) (True, True)
        in if is_or \<or> already \<or> \<not> window_is_float_type (clients s w) then s
           else print_status (arrange_all (center_x11 w
                  (mod_state w (is_floating_update (\<lambda>_. True)) s))))"

text \<open>\<open>i32::try_from(u32)\<close> keeps the old value when it does not fit.\<close>

definition size_request :: "u32 option \<Rightarrow> int \<Rightarrow> int" where
  "size_request r old = (case r of
     Some v \<Rightarrow> if uint v < 2147483648 then uint v else old | None \<Rightarrow> old)"

definition x11_requested ::
  "rect \<Rightarrow> point option \<Rightarrow> int option \<Rightarrow> int option \<Rightarrow> u32 option \<Rightarrow> u32 option \<Rightarrow> rect" where
  "x11_requested g saved rx ry rw rh =
     (let p = unwrap_or saved (rect_loc g)
      in mk_rect (unwrap_or rx (fst p)) (unwrap_or ry (snd p))
           (size_request rw (size_w g)) (size_request rh (size_h g)))"

definition x11_configure_request ::
  "wid \<Rightarrow> int option \<Rightarrow> int option \<Rightarrow> u32 option \<Rightarrow> u32 option \<Rightarrow> rwl \<Rightarrow> rwl" where
  "x11_configure_request w rx ry rw rh s =
     (let known = (w \<in> set (windows s) \<union> set (x11_or_windows s));
          xg = cl_x11_geometry (clients s w);
          floating = (if known then unwrap_or (with_state (ws s) w
             (\<lambda>x. is_override_redirect x \<or> is_floating x)) True else True)
      in if \<not> floating then emit (XConfigure w xg) s
         else
           let saved = (if known then unwrap_or (with_state (ws s) w saved_loc) None else None);
               g = x11_requested xg saved rx ry rw rh;
               s1 = emit (XConfigure w g) s
           in if known
              then schedule_render (mod_state w (saved_loc_update (\<lambda>_. Some (rect_loc g)))
                     (map_at w (rect_loc g) s1))
              else s1)"

definition x11_configure_notify :: "wid \<Rightarrow> point \<Rightarrow> rwl \<Rightarrow> rwl" where
  "x11_configure_notify w p s =
     (if w \<in> set (windows s) \<union> set (x11_or_windows s) then schedule_render (map_at w p s) else s)"

text \<open>XWayland exits: its windows go all at once.\<close>

definition x11_disconnected :: "rwl \<Rightarrow> rwl" where
  "x11_disconnected s =
     (let dead = filter (\<lambda>w. cl_x11 (clients s w)) (windows s) in
      if dead = [] \<and> x11_or_windows s = [] then s
      else
        let s1 = fold (\<lambda>w s. let s' = hide_elem w s in
                   case cl_surface (clients s' w) of
                     Some surf \<Rightarrow> s'\<lparr>window_map := (window_map s')(surf := None)\<rparr> | None \<Rightarrow> s') dead s;
            s2 = fold hide_elem (x11_or_windows s1) (s1\<lparr>x11_or_windows := []\<rparr>);
            s3 = s2\<lparr>windows := filter (\<lambda>w. \<not> cl_x11 (clients s2 w)) (windows s2),
                    focus_stack := filter (\<lambda>w. \<not> cl_x11 (clients s2 w)) (focus_stack s2)\<rparr>
        in print_status (arrange_all (refocus s3)))"

end
