(* ===== verification/Grab.thy ===== *)
theory Grab
  imports Lifecycle
begin

text \<open>
  Interactive moves and resizes (\<^verbatim>\<open>src/grab/mod.rs\<close>): floating windows follow the
  pointer; in the tiling layouts the drag moves the master split, the window's size
  factor or the boundary of a column.
\<close>

definition col_window_idx :: "rwl \<Rightarrow> wid \<Rightarrow> nat \<Rightarrow> nat option" where
  "col_window_idx s w i = (case get_at (monitors s) i of
     None \<Rightarrow> None
   | Some m \<Rightarrow> position (\<lambda>v. v = w) (filter (tiled_in (ws s) (tags m)) (windows s)))"

definition start_move :: "wid \<Rightarrow> rwl \<Rightarrow> rwl" where
  "start_move w s = (case pointer s of
     None \<Rightarrow> s
   | Some loc \<Rightarrow>
       let s1 = s\<lparr>grab_was_floating := window_is_floating (ws s) w\<rparr>;
           s2 = mod_state w (is_floating_update (\<lambda>_. True)) s1;
           s3 = s2\<lparr>grabbed_window := Some w, grab_start := Some loc,
                   grab_geom := geometry_of s2 w, cursor_mode := CmMove\<rparr>
       in focus_window (Some w) s3)"

text \<open>The column factors a resize starts from: the monitor's own, or equal shares.\<close>

definition grab_facts :: "rwl \<Rightarrow> nat \<Rightarrow> f64 list" where
  "grab_facts s i = (case get_at (monitors s) i of
     None \<Rightarrow> []
   | Some m \<Rightarrow>
       let n = count_tiled s (tags m) in
       if length (col_facts m) = n \<and> n > 0 then col_facts m
       else if n > 0 then replicate n (f_div (f_lit 1) (f_of_usize n)) else [])"

definition grab_snapshot :: "wid \<Rightarrow> rwl \<Rightarrow> rwl" where
  "grab_snapshot w s =
     (if window_is_floating (ws s) w
      then s\<lparr>grab_mfact := None, grab_cfact := None, grab_col_idx := None, grab_col_facts := None\<rparr>
      else
        let i = unwrap_or (with_state (ws s) w mon_idx) 0;
            mon = get_at (monitors s) i;
            s1 = (if map_option (layout_kind_of (cfg s)) mon = Some Col
                  then s\<lparr>grab_mfact := None, grab_col_idx := col_window_idx s w i,
                         grab_col_facts := Some (grab_facts s i)\<rparr>
                  else s\<lparr>grab_mfact := map_option mfact mon, grab_col_idx := None,
                         grab_col_facts := None\<rparr>)
        in s1\<lparr>grab_cfact := with_state (ws s1) w cfact\<rparr>)"

definition start_resize :: "wid \<Rightarrow> rwl \<Rightarrow> rwl" where
  "start_resize w s = (case pointer s of
     None \<Rightarrow> s
   | Some loc \<Rightarrow>
       let s1 = grab_snapshot w s;
           s2 = s1\<lparr>grabbed_window := Some w, grab_start := Some loc,
                   grab_geom := geometry_of s1 w, cursor_mode := CmResize\<rparr>
       in focus_window (Some w) s2)"

definition handle_move :: "f64 \<times> f64 \<Rightarrow> rwl \<Rightarrow> rwl" where
  "handle_move p s = (case (grabbed_window s, grab_start s, grab_geom s) of
     (Some w, Some start, Some g) \<Rightarrow>
       let dx = f_as_i32 (f_sub (fst p) (fst start)); dy = f_as_i32 (f_sub (snd p) (snd start))
       in map_activating w (i32 (loc_x g + dx), i32 (loc_y g + dy)) s
   | _ \<Rightarrow> s)"

section \<open>Resizing\<close>

definition cfact_lo :: f64 where "cfact_lo = f_lit (1 / 4)"
definition cfact_hi :: f64 where "cfact_hi = f_lit 4"

definition new_cfact :: "f64 \<Rightarrow> int \<Rightarrow> f64 \<Rightarrow> f64" where
  "new_cfact base orig_len delta =
     f_clamp (f_div (f_mul base (f_add (f_of_i32 orig_len) delta)) (f_of_i32 orig_len))
       cfact_lo cfact_hi"

definition apply_cfact :: "wid \<Rightarrow> int \<Rightarrow> f64 \<Rightarrow> rwl \<Rightarrow> rwl" where
  "apply_cfact w orig_len delta s =
     (if f_le (f_of_i32 orig_len) (f_lit 0) then s
      else mod_state w
        (cfact_update (\<lambda>_. new_cfact (unwrap_or (grab_cfact s) (f_lit 1)) orig_len delta)) s)"

text \<open>The master split follows the pointer over a work area of the given length.\<close>

definition drag_mfact :: "f64 option \<Rightarrow> f64 \<Rightarrow> f64 \<Rightarrow> monitor \<Rightarrow> monitor" where
  "drag_mfact base area d m =
     (if f_lt (f_lit 0) area
      then m\<lparr>mfact := f_clamp (f_add (unwrap_or base (mfact m)) (f_div d area)) mfact_lo mfact_hi\<rparr>
      else m)"

text \<open>The boundary right of column \<open>k\<close> moves; both columns keep a minimal share.\<close>

definition drag_columns :: "f64 list \<Rightarrow> nat \<Rightarrow> f64 \<Rightarrow> f64 list" where
  "drag_columns snap k amt =
     (let left = snap ! k; right = snap ! Suc k;
          both = f_add left right;
          min_frac = f_min (f_lit (5 / 100)) (f_div both (f_lit 2));
          delta = f_clamp amt (f_sub min_frac left) (f_sub right min_frac);
          new_left = f_add left delta; new_right = f_sub both new_left
      in snap[k := new_left, Suc k := new_right])"

definition resize_col :: "nat \<Rightarrow> f64 \<Rightarrow> rwl \<Rightarrow> rwl" where
  "resize_col i dx s =
     (let area_w = f_of_i32 (size_w (w_area (monitors s ! i))) in
      if f_le area_w (f_lit 0) then s
      else case (grab_col_idx s, grab_col_facts s) of
        (Some k, Some snap) \<Rightarrow>
          if snap = [] \<or> k + 1 \<ge> length snap then s
          else arrange i (upd_monitor i
                 (\<lambda>m. m\<lparr>col_facts := drag_columns snap k (f_div dx area_w)\<rparr>) s)
      | _ \<Rightarrow> s)"

definition resize_tiled :: "wid \<Rightarrow> nat \<Rightarrow> rect \<Rightarrow> f64 \<Rightarrow> f64 \<Rightarrow> rwl \<Rightarrow> rwl" where
  "resize_tiled w i g dx dy s =
     (let m = monitors s ! i; area_w = f_of_i32 (size_w (w_area m));
          area_h = f_of_i32 (size_h (w_area m));
          horizontal = (\<lambda>s. upd_monitor i (drag_mfact (grab_mfact s) area_w dx) s)
      in case layout_kind_of (cfg s) m of
           Tile \<Rightarrow> arrange i (apply_cfact w (size_h g) dy (horizontal s))
         | CenteredMaster \<Rightarrow> arrange i (apply_cfact w (size_h g) dy (horizontal s))
         | Bstack \<Rightarrow> arrange i (apply_cfact w (size_w g) dx
             (upd_monitor i (drag_mfact (grab_mfact s) area_h dy) s))
         | Col \<Rightarrow> resize_col i dx s
         | Scroll \<Rightarrow> if f_lt (f_lit 0) area_w then arrange i (horizontal s) else s
         | Dwindle \<Rightarrow> if f_lt (f_lit 0) area_w then arrange i (horizontal s) else s
         | Monocle \<Rightarrow> s | LuaLayout \<Rightarrow> s)"

definition handle_resize :: "f64 \<times> f64 \<Rightarrow> rwl \<Rightarrow> rwl" where
  "handle_resize p s = (case (grabbed_window s, grab_start s, grab_geom s) of
     (Some w, Some start, Some g) \<Rightarrow>
       let fx = f_sub (fst p) (fst start); fy = f_sub (snd p) (snd start) in
       if window_is_floating (ws s) w
       then
         let new_w = max (i32 (size_w g + f_as_i32 fx)) 1;
             new_h = max (i32 (size_h g + f_as_i32 fy)) 1
         in if toplevel s w
            then emits [TlPending w [SetSize (Some (new_w, new_h))], TlPendingConfigure w] s else s
       else
         let i = unwrap_or (with_state (ws s) w mon_idx) 0 in
         if i < length (monitors s) then resize_tiled w i g fx fy s else s
   | _ \<Rightarrow> s)"

definition end_grab :: "rwl \<Rightarrow> rwl" where
  "end_grab s =
     (let restore_tiled = (cursor_mode s = CmMove \<and> \<not> grab_was_floating s);
          s1 = (case grabbed_window s of
                  Some w \<Rightarrow> if restore_tiled then mod_state w (is_floating_update (\<lambda>_. False)) s else s
                | None \<Rightarrow> s);
          s2 = s1\<lparr>grabbed_window := None, grab_start := None, grab_geom := None,
                  grab_mfact := None, grab_cfact := None, grab_col_idx := None,
                  grab_col_facts := None, grab_was_floating := False, cursor_mode := CmNormal\<rparr>
      in if restore_tiled then arrange_all s2 else s2)"

end
