(* ===== verification/Input.thy ===== *)
theory Input
  imports Grab
begin

text \<open>
  Key and pointer events (\<^verbatim>\<open>src/handlers/input.rs\<close>): the key filter, key repeat,
  the tap of the modifier key, button bindings and focus under the pointer. An event
  carries what the toolkit computed from the keymap: the symbols with and without
  modifiers, the character, and the modifiers held before and after it.
\<close>

section \<open>Modifiers and bindings\<close>

record modifiers =
  md_logo :: bool
  md_ctrl :: bool
  md_shift :: bool
  md_alt :: bool

definition mods_to_bits :: "modifiers \<Rightarrow> u32" where
  "mods_to_bits m =
     (let b0 = 0 :: u32;
          b1 = (if md_logo m then b0 OR MODKEY else b0);
          b2 = (if md_ctrl m then b1 OR shl1 2 else b1);
          b3 = (if md_shift m then b2 OR shl1 0 else b2)
      in if md_alt m then b3 OR shl1 3 else b3)"

definition clean_mask :: "u32 \<Rightarrow> u32" where
  "clean_mask m = m"

definition focused_app_id :: "rwl \<Rightarrow> string option" where
  "focused_app_id s = (case focused_window s of
     Some w \<Rightarrow> unwrap_or (with_state (ws s) w last_appid) None | None \<Rightarrow> None)"

definition app_id_matches :: "bool \<Rightarrow> string option \<Rightarrow> string option \<Rightarrow> bool" where
  "app_id_matches app_specific bound focused = (case (bound, focused) of
     (Some i, Some f) \<Rightarrow> app_specific \<and> str_contains f i
   | (None, _) \<Rightarrow> \<not> app_specific
   | _ \<Rightarrow> False)"

definition bind_matches ::
  "u32 \<Rightarrow> string option \<Rightarrow> (key_bind \<Rightarrow> bool) \<Rightarrow> bool \<Rightarrow> u32 \<Rightarrow> key_bind \<Rightarrow> bool" where
  "bind_matches msk focused extra app_specific ksym b \<longleftrightarrow>
     kb_keysym b = ksym \<and> clean_mask (kb_mods b) = msk \<and> extra b \<and>
     app_id_matches app_specific (kb_app_id b) focused"

definition match_pass ::
  "key_bind list \<Rightarrow> u32 \<Rightarrow> u32 \<Rightarrow> u32 \<Rightarrow> string option \<Rightarrow> (key_bind \<Rightarrow> bool) \<Rightarrow> bool
     \<Rightarrow> key_bind option" where
  "match_pass keys modified base msk focused extra app_specific =
     or_else (List.find (bind_matches msk focused extra app_specific modified) keys)
       (if base \<noteq> modified
        then List.find (bind_matches msk focused extra app_specific base) keys else None)"

definition match_keybind ::
  "key_bind list \<Rightarrow> u32 \<Rightarrow> u32 \<Rightarrow> u32 \<Rightarrow> string option \<Rightarrow> (key_bind \<Rightarrow> bool) \<Rightarrow> key_bind option" where
  "match_keybind keys modified base mod_bits focused extra =
     (let msk = clean_mask mod_bits in
      or_else (match_pass keys modified base msk focused extra True)
        (match_pass keys modified base msk focused extra False))"

section \<open>The key filter\<close>

record key_event =
  ke_code :: u32
  ke_pressed :: bool
  ke_sym :: u32
  ke_base :: u32
  ke_char :: "nat option"
  ke_mods_before :: modifiers
  ke_mods :: modifiers

datatype filter_result = Forward | Intercept action

definition is_arrow :: "u32 \<Rightarrow> bool" where
  "is_arrow k \<longleftrightarrow> k = 0xff51 \<or> k = 0xff53 \<or> k = 0xff52 \<or> k = 0xff54"

definition intercept_of :: "filter_result \<Rightarrow> key_bind option \<Rightarrow> filter_result" where
  "intercept_of d b = (case b of Some k \<Rightarrow> Intercept (kb_action k) | None \<Rightarrow> d)"

text \<open>The part of the filter behind the lock and the release: the binding of a press.\<close>

definition press_binding :: "key_event \<Rightarrow> rwl \<Rightarrow> filter_result" where
  "press_binding e s =
     (let keys = c_keys (cfg s); bits = mods_to_bits (ke_mods e) in
      if overview s \<noteq> None
      then if is_arrow (ke_sym e) then Intercept (OverviewNav (ke_sym e))
           else intercept_of (Intercept (OverviewNav (ke_sym e)))
                  (match_keybind keys (ke_sym e) (ke_base e) bits (focused_app_id s) (\<lambda>_. True))
      else if pip s \<noteq> None \<and> ke_sym e = KEY_Escape \<and> clean_mask bits = 0
      then Intercept TogglePip
      else if passthrough s
      then intercept_of Forward
             (match_keybind keys (ke_sym e) (ke_base e) bits None
                (\<lambda>b. kb_action b = TogglePassthrough))
      else intercept_of Forward
             (match_keybind keys (ke_sym e) (ke_base e) bits (focused_app_id s) (\<lambda>_. True)))"

text \<open>The filter: the state it leaves (password fed, remembered press used up) and its verdict.\<close>

definition key_filter :: "key_event \<Rightarrow> rwl \<Rightarrow> rwl \<times> filter_result" where
  "key_filter e s =
     (if native_lock s \<noteq> None
      then (if ke_pressed e then feed_key (ke_sym e) (ke_char e) s else s, Intercept LockConsume)
      else if ke_sym e = 0 then (s, Forward)
      else if \<not> ke_pressed e
      then (if ke_code e \<in> set (intercepted_keys s)
            then (s\<lparr>intercepted_keys := removeAll (ke_code e) (intercepted_keys s)\<rparr>, Intercept Consumed)
            else (s, Forward))
      else if locked s then (s, Forward)
      else (s, press_binding e s))"

section \<open>Repeat and tap\<close>

definition action_should_repeat :: "action \<Rightarrow> bool" where
  "action_should_repeat a = (case a of
     Spawn _ \<Rightarrow> True | SetMfact _ \<Rightarrow> True | KillClient \<Rightarrow> True | _ \<Rightarrow> False)"

text \<open>The timer is the time it fires next and its interval, \<open>1000 / rate\<close> ms.\<close>

definition repeat_interval :: "config \<Rightarrow> nat" where
  "repeat_interval c = max (1000 div nat (c_repeat_rate c)) 1"

definition start_key_repeat :: "action \<Rightarrow> rwl \<Rightarrow> rwl" where
  "start_key_repeat a s =
     (let s0 = s\<lparr>key_repeat_timer := None\<rparr>; delay = nat (c_repeat_delay (cfg s)) in
      if delay = 0 \<or> c_repeat_rate (cfg s) \<le> 0 then s0\<lparr>key_repeat_action := None\<rparr>
      else s0\<lparr>key_repeat_action := Some a, key_repeat_timer := Some (now s + delay, repeat_interval (cfg s))\<rparr>)"

definition key_repeat_fired :: "rwl \<Rightarrow> rwl" where
  "key_repeat_fired s =
     (let s1 = (case key_repeat_action s of Some a \<Rightarrow> dispatch a s | None \<Rightarrow> s)
      in s1\<lparr>key_repeat_timer :=
           map_option (\<lambda>(_, rate_ms). (now s1 + rate_ms, rate_ms)) (key_repeat_timer s1)\<rparr>)"

definition tap_binding :: "config \<Rightarrow> u32 \<Rightarrow> action option" where
  "tap_binding c peak =
     map_option kb_action (List.find (\<lambda>b. kb_keysym b = MOD_TAP_KEYSYM \<and>
       clean_mask (kb_mods b) = clean_mask peak) (c_keys c))"

definition update_mod_tap :: "bool \<Rightarrow> u32 \<Rightarrow> u32 \<Rightarrow> rwl \<Rightarrow> rwl" where
  "update_mod_tap pressed before after s =
     (if pressed
      then
        let newly = after AND NOT before in
        if newly = 0 then s\<lparr>mod_tap := None\<rparr>
        else if newly AND MODKEY \<noteq> 0 then s\<lparr>mod_tap := Some (now s, after)\<rparr>
        else (case mod_tap s of
                Some (_, peak) \<Rightarrow> s\<lparr>mod_tap := Some (now s, peak OR after)\<rparr> | None \<Rightarrow> s)
      else if before AND MODKEY \<noteq> 0 \<and> after AND MODKEY = 0
      then (case mod_tap s of
              None \<Rightarrow> s
            | Some (start, peak) \<Rightarrow>
                let s1 = s\<lparr>mod_tap := None\<rparr> in
                if now s - start \<le> 250
                then (case tap_binding (cfg s1) peak of Some a \<Rightarrow> dispatch a s1 | None \<Rightarrow> s1)
                else s1)
      else s)"

section \<open>A key event\<close>

text \<open>The second component tells whether the client got the event.\<close>

definition process_key_event :: "key_event \<Rightarrow> rwl \<Rightarrow> rwl \<times> bool" where
  "process_key_event e s0 =
     (let s = emit IdleActivity s0 in
      if \<not> has_keyboard s then (s, False)
      else
        let before = mods_to_bits (ke_mods_before e);
            (s1, verdict) = key_filter e s;
            act = (case verdict of Intercept a \<Rightarrow> Some a | Forward \<Rightarrow> None);
            s2 = (if ke_pressed e \<and> act \<noteq> None
                  then s1\<lparr>intercepted_keys := ke_code e # removeAll (ke_code e) (intercepted_keys s1)\<rparr>
                  else s1);
            s3 = (if \<not> ke_pressed e then stop_key_repeat s2 else s2);
            s4 = (case act of
                    None \<Rightarrow> s3
                  | Some a \<Rightarrow>
                      let s' = dispatch a s3 in
                      if action_should_repeat a then start_key_repeat a s' else stop_key_repeat s')
        in (update_mod_tap (ke_pressed e) before (mods_to_bits (ke_mods e)) s4, act = None))"

section \<open>Pointer\<close>

definition sel_layout_is_monocle :: "rwl \<Rightarrow> bool" where
  "sel_layout_is_monocle s = (case sel_monitor s of
     Some m \<Rightarrow> layout_kind_of (cfg s) m = Monocle | None \<Rightarrow> False)"

definition clamp_pointer :: "rwl \<Rightarrow> f64 \<times> f64 \<Rightarrow> f64 \<times> f64" where
  "clamp_pointer s p =
     (if monitors s = [] then p
      else case monitor_bounds s of (min_x, min_y, max_x, max_y) \<Rightarrow>
        (f_clamp (fst p) (f_of_i32 min_x) (f_of_i32 max_x),
         f_clamp (snd p) (f_of_i32 min_y) (f_of_i32 max_y)))"

text \<open>
  The window under the pointer and the surface to route to are the toolkit's answers
  for the new location: \<open>hover\<close>, \<open>surf\<close>.
\<close>

definition route_pointer :: "f64 \<times> f64 \<Rightarrow> surface option \<Rightarrow> rwl \<Rightarrow> rwl" where
  "route_pointer p surf s = emit (PointerMotion p surf) (s\<lparr>pointer := Some p\<rparr>)"

definition focus_follows :: "wid option \<Rightarrow> rwl \<Rightarrow> rwl" where
  "focus_follows hover s =
     (if c_mouse_focus (cfg s) \<and> cursor_mode s = CmNormal \<and> \<not> passthrough s \<and>
         \<not> sel_layout_is_monocle s
      then (case hover of
              Some w \<Rightarrow> if focused_window s \<noteq> Some w then focus_window (Some w) s else s
            | None \<Rightarrow> s)
      else s)"

text \<open>\<open>absolute\<close> events skip the hand-over of hovering to an open overview.\<close>

definition pointer_moved ::
  "bool \<Rightarrow> wid option \<Rightarrow> surface option \<Rightarrow> f64 \<times> f64 \<Rightarrow> rwl \<Rightarrow> rwl" where
  "pointer_moved absolute hover surf loc s0 =
     (let p = clamp_pointer s0 loc;
          s = s0\<lparr>sel_mon := unwrap_or (monitor_at s0 (fst p) (snd p)) (sel_mon s0)\<rparr>
      in if locked s then schedule_render (route_pointer p surf s)
         else if cursor_mode s = CmMove
         then schedule_render (route_pointer p None (handle_move p s))
         else if cursor_mode s = CmResize
         then schedule_render (route_pointer p None (handle_resize p s))
         else if \<not> absolute \<and> overview s \<noteq> None
         then overview_pointer_motion p (route_pointer p None s)
         else schedule_render (route_pointer p surf (focus_follows hover s)))"

definition process_pointer_motion ::
  "wid option \<Rightarrow> surface option \<Rightarrow> f64 \<times> f64 \<Rightarrow> rwl \<Rightarrow> rwl" where
  "process_pointer_motion hover surf delta s = (case pointer s of
     None \<Rightarrow> s
   | Some (x, y) \<Rightarrow>
       pointer_moved False hover surf (f_add x (fst delta), f_add y (snd delta))
         (handle_cursor_activity s))"

text \<open>\<open>pos\<close> is the event's position on an area of the given size.\<close>

definition process_pointer_motion_abs ::
  "wid option \<Rightarrow> surface option \<Rightarrow> (int \<times> int \<Rightarrow> f64 \<times> f64) \<Rightarrow> rwl \<Rightarrow> rwl" where
  "process_pointer_motion_abs hover surf pos s0 = (case pointer s0 of
     None \<Rightarrow> s0
   | Some _ \<Rightarrow>
       let s = handle_cursor_activity s0;
           loc = (case sel_monitor s of
              None \<Rightarrow> pos (1920, 1080)
            | Some m \<Rightarrow> let r = m_area m; a = pos (rect_size r)
                in (f_add (f_of_i32 (loc_x r)) (fst a), f_add (f_of_i32 (loc_y r)) (snd a)))
       in pointer_moved True hover surf loc s)"

definition button_matches :: "u32 \<Rightarrow> u32 \<Rightarrow> string option \<Rightarrow> bool \<Rightarrow> button_bind \<Rightarrow> bool" where
  "button_matches button msk focused app_specific b \<longleftrightarrow>
     bb_button b = button \<and> clean_mask (bb_mods b) = msk \<and>
     app_id_matches app_specific (bb_app_id b) focused"

definition match_button :: "button_bind list \<Rightarrow> u32 \<Rightarrow> u32 \<Rightarrow> string option \<Rightarrow> action option" where
  "match_button bs button mods focused =
     (let msk = clean_mask mods in
      map_option bb_action
        (or_else (List.find (button_matches button msk focused True) bs)
           (List.find (button_matches button msk focused False) bs)))"

definition press_button :: "wid option \<Rightarrow> u32 \<Rightarrow> modifiers \<Rightarrow> rwl \<Rightarrow> rwl \<times> bool" where
  "press_button hover button mods s0 =
     (let s = s0\<lparr>cursor_mode := CmPressed\<rparr> in
      if passthrough s then (s, True)
      else
        let s1 = (case hover of Some w \<Rightarrow> focus_window (Some w) s | None \<Rightarrow> s);
            bits = (if has_keyboard s1 then mods_to_bits mods else 0)
        in case match_button (c_buttons (cfg s1)) button bits (focused_app_id s1) of
             None \<Rightarrow> (s1, True)
           | Some Move \<Rightarrow> (case hover of Some w \<Rightarrow> start_move w s1 | None \<Rightarrow> s1, False)
           | Some Resize \<Rightarrow> (case hover of Some w \<Rightarrow> start_resize w s1 | None \<Rightarrow> s1, False)
           | Some a \<Rightarrow> (dispatch a s1, False))"

definition release_button :: "rwl \<Rightarrow> rwl" where
  "release_button s =
     (if cursor_mode s = CmMove \<or> cursor_mode s = CmResize then end_grab s
      else s\<lparr>cursor_mode := CmNormal\<rparr>)"

definition process_pointer_button ::
  "wid option \<Rightarrow> u32 \<Rightarrow> bool \<Rightarrow> modifiers \<Rightarrow> rwl \<Rightarrow> rwl" where
  "process_pointer_button hover button pressed mods s0 = (case pointer s0 of
     None \<Rightarrow> s0
   | Some loc \<Rightarrow>
       let s = handle_cursor_activity s0 in
       if locked s then emit (PointerButton button pressed) s
       else
         let s1 = s\<lparr>mod_tap := None\<rparr> in
         if overview s1 \<noteq> None
         then (if pressed then overview_pointer_click loc s1 else s1)
         else
           let (s2, pass) = (if pressed then press_button hover button mods s1
                             else (release_button s1, True))
           in if pass then emit (PointerButton button pressed) s2 else s2)"

end
