(* ===== verification/Frame.thy ===== *)
theory Frame
  imports Input
begin

text \<open>
  What the operations leave alone. \<open>core\<close> is the part of the state that decides which
  windows exist, where they are and whether the session is locked. A property of it
  that the few primitive updates keep is kept by the layout pass, by focus changes, by
  every action and by the queue of Lua commands; the locales below prove that once,
  for every such property.
\<close>

named_theorems keep \<open>operations that keep an invariant\<close>

definition core :: "rwl \<Rightarrow> wid list \<times> wid list \<times> space \<times> u32 list list \<times> nat \<times> bool \<times> lock_state option" where
  "core s = (windows s, focus_stack s, space s, tag_history s, length (monitors s), locked s,
     native_lock s)"

section \<open>Properties of the core\<close>

locale state_pred =
  fixes P :: "rwl \<Rightarrow> bool"
begin

text \<open>The control structure of the definitions; a state bound by a \<open>let\<close> is abstracted.\<close>

lemma keep_struct:
  "P x \<Longrightarrow> (\<And>y. P y \<Longrightarrow> P (f y)) \<Longrightarrow> P (Let x f)"
  "(c \<Longrightarrow> P a) \<Longrightarrow> (\<not> c \<Longrightarrow> P b) \<Longrightarrow> P (if c then a else b)"
  "(\<And>u v. p = (u, v) \<Longrightarrow> P (g u v)) \<Longrightarrow> P (case p of (u, v) \<Rightarrow> g u v)"
  "(o1 = None \<Longrightarrow> P a) \<Longrightarrow> (\<And>v. o1 = Some v \<Longrightarrow> P (h v)) \<Longrightarrow> P (case o1 of None \<Rightarrow> a | Some v \<Rightarrow> h v)"
  by (simp_all add: Let_def split: prod.split option.split)

lemma keep_let: "(\<And>y. y = x \<Longrightarrow> P (f y)) \<Longrightarrow> P (Let x f)"
  by (simp add: Let_def)

lemma keep_fold: "(\<And>x s. x \<in> set xs \<Longrightarrow> P s \<Longrightarrow> P (f x s)) \<Longrightarrow> P s \<Longrightarrow> P (fold f xs s)"
  by (induction xs arbitrary: s) auto

end

locale core_invariant = state_pred +
  assumes core: "P s \<Longrightarrow> core s' = core s \<Longrightarrow> P s'"
begin

text \<open>Fields outside the core, and the operations that only change such fields.\<close>

lemma keep_fields [keep]:
  "P s \<Longrightarrow> P (s\<lparr>ws := st\<rparr>)" "P s \<Longrightarrow> P (s\<lparr>clients := cl\<rparr>)" "P s \<Longrightarrow> P (s\<lparr>cfg := c\<rparr>)"
  "P s \<Longrightarrow> P (s\<lparr>gaps_on := b\<rparr>)" "P s \<Longrightarrow> P (s\<lparr>sel_mon := i\<rparr>)" "P s \<Longrightarrow> P (s\<lparr>pointer := pt\<rparr>)"
  "P s \<Longrightarrow> P (s\<lparr>pending_tag_transition := x\<rparr>)" "P s \<Longrightarrow> P (s\<lparr>overview := ov\<rparr>)"
  "P s \<Longrightarrow> P (s\<lparr>pip := pp\<rparr>)" "P s \<Longrightarrow> P (s\<lparr>cursor_mode := cm\<rparr>)"
  "P s \<Longrightarrow> P (s\<lparr>cursor_hidden := b\<rparr>)" "P s \<Longrightarrow> P (s\<lparr>cursor_hide_timer := b\<rparr>)"
  "P s \<Longrightarrow> P (s\<lparr>key_repeat_action := ka\<rparr>)" "P s \<Longrightarrow> P (s\<lparr>key_repeat_timer := kt\<rparr>)"
  "P s \<Longrightarrow> P (s\<lparr>intercepted_keys := ik\<rparr>)" "P s \<Longrightarrow> P (s\<lparr>window_map := wm\<rparr>)"
  "P s \<Longrightarrow> P (s\<lparr>grabbed_window := gw\<rparr>)" "P s \<Longrightarrow> P (s\<lparr>grab_start := gs\<rparr>)"
  "P s \<Longrightarrow> P (s\<lparr>grab_geom := gg\<rparr>)" "P s \<Longrightarrow> P (s\<lparr>grab_mfact := gm\<rparr>)"
  "P s \<Longrightarrow> P (s\<lparr>grab_cfact := gc\<rparr>)" "P s \<Longrightarrow> P (s\<lparr>grab_col_idx := gi\<rparr>)"
  "P s \<Longrightarrow> P (s\<lparr>grab_col_facts := gf\<rparr>)" "P s \<Longrightarrow> P (s\<lparr>grab_was_floating := b\<rparr>)"
  "P s \<Longrightarrow> P (s\<lparr>mod_tap := mt\<rparr>)" "P s \<Longrightarrow> P (s\<lparr>passthrough := b\<rparr>)" "P s \<Longrightarrow> P (s\<lparr>running := b\<rparr>)"
  "P s \<Longrightarrow> P (s\<lparr>initial_warp_done := b\<rparr>)" "P s \<Longrightarrow> P (s\<lparr>startup_done := b\<rparr>)"
  "P s \<Longrightarrow> P (s\<lparr>x11_or_windows := xs\<rparr>)" "P s \<Longrightarrow> P (s\<lparr>hook_queue := q\<rparr>)"
  "P s \<Longrightarrow> P (s\<lparr>monitor_mem := mm\<rparr>)" "P s \<Longrightarrow> P (s\<lparr>lock_surfaces := ls\<rparr>)"
  "P s \<Longrightarrow> P (emit e s)" "P s \<Longrightarrow> P (emits es s)" "P s \<Longrightarrow> P (fire h s)"
  "P s \<Longrightarrow> P (mod_state w f s)" "P s \<Longrightarrow> P (upd_monitor i g s)" "P s \<Longrightarrow> P (upd_sel_monitor g s)"
  "P s \<Longrightarrow> P (update_monitor_bounds s)" "P s \<Longrightarrow> P (s\<lparr>monitors := map g (monitors s)\<rparr>)"
  by (erule core; simp add: core_def emit_def emits_def fire_def mod_state_def upd_monitor_def
      upd_sel_monitor_def update_monitor_bounds_def)+

lemma keep_small [keep]:
  "P s \<Longrightarrow> P (update_work_areas s)" "P s \<Longrightarrow> P (schedule_render s)" "P s \<Longrightarrow> P (print_status s)"
  "P s \<Longrightarrow> P (refresh_pointer_focus s)" "P s \<Longrightarrow> P (update_borders s)"
  "P s \<Longrightarrow> P (mark_slide_outs a b c s)" "P s \<Longrightarrow> P (start_tag_transition a b c s)"
  "P s \<Longrightarrow> P (set_focus f s)" "P s \<Longrightarrow> P (handle_cursor_activity s)"
  "P s \<Longrightarrow> P (stop_key_repeat s)" "P s \<Longrightarrow> P (warp_cursor_to_focused s)"
  "P s \<Longrightarrow> P (release_all_pressed_keys s)" "P s \<Longrightarrow> P (reevaluate_pointer s)"
  "P s \<Longrightarrow> P (reapply_monitor_rules s)" "P s \<Longrightarrow> P (spawn cmd s)" "P s \<Longrightarrow> P (kill_focused s)"
  unfolding update_work_areas_def schedule_render_def print_status_def refresh_pointer_focus_def
    update_borders_def mark_slide_outs_def start_tag_transition_def set_focus_def
    handle_cursor_activity_def stop_key_repeat_def warp_cursor_to_focused_def
    release_all_pressed_keys_def reevaluate_pointer_def reapply_monitor_rules_def spawn_def
    kill_focused_def
  by (intro keep_struct keep_let keep; assumption)+

lemma keep_overview [keep]:
  "P s \<Longrightarrow> P (begin_close sel s)" "P s \<Longrightarrow> P (overview_toggle b s)" "P s \<Longrightarrow> P (force_close s)"
  "P s \<Longrightarrow> P (kill_selected s)" "P s \<Longrightarrow> P (overview_on_window_closed s)"
  "P s \<Longrightarrow> P (move_selected b s)" "P s \<Longrightarrow> P (type_char ch s)" "P s \<Longrightarrow> P (select_best s)"
  "P s \<Longrightarrow> P (overview_handle_key k s)" "P s \<Longrightarrow> P (overview_pointer_motion q s)"
  "P s \<Longrightarrow> P (overview_pointer_click q s)" "P s \<Longrightarrow> P (pip_toggle s)"
  "P s \<Longrightarrow> P (pip_move_corner s)" "P s \<Longrightarrow> P (pip_on_window_closed w s)"
  unfolding begin_close_def overview_toggle_def force_close_def kill_selected_def
    overview_on_window_closed_def move_selected_def type_char_def select_best_def
    overview_handle_key_def overview_pointer_motion_def overview_pointer_click_def
    pip_toggle_def pip_move_corner_def pip_on_window_closed_def
  by (intro keep_struct keep_let keep; assumption)+

end

section \<open>The layout pass\<close>

text \<open>Only placement changes the core: the operations of the plane on managed windows.\<close>

locale layout_invariant = core_invariant +
  fixes W :: "wid set"
  assumes managed: "P s \<Longrightarrow> set (windows s) \<subseteq> W"
    and put: "P s \<Longrightarrow> v \<in> W \<Longrightarrow> P (s\<lparr>space := map_element (space s) v p\<rparr>)"
    and move: "P s \<Longrightarrow> P (s\<lparr>space := relocate_element (space s) v p\<rparr>)"
    and drop: "P s \<Longrightarrow> P (s\<lparr>space := unmap_elem (space s) v\<rparr>)"
begin

lemma keep_map_at [keep]: "P s \<Longrightarrow> v \<in> W \<Longrightarrow> P (map_at v p s)"
  by (simp add: map_at_def put)

lemma keep_steps [keep]:
  "P s \<Longrightarrow> P (x11_set_fullscreen w b s)" "P s \<Longrightarrow> P (save_location w s)"
  "P s \<Longrightarrow> P (hide_elem w s)" "P s \<Longrightarrow> P (send_hidden w s)" "P s \<Longrightarrow> P (sync_scroll i x t s)"
  "P s \<Longrightarrow> P (configure_toplevel w ops b s)" "P s \<Longrightarrow> P (note_x11_focus w b s)"
  "P s \<Longrightarrow> P (dynamic_layout i m s)"
  by (auto simp: x11_set_fullscreen_def save_location_def hide_elem_def send_hidden_def sync_scroll_def
      configure_toplevel_def note_x11_focus_def dynamic_layout_def drop
      intro!: keep split: option.split)

lemma keep_hide_window [keep]: "P s \<Longrightarrow> P (hide_window w s)"
  by (auto simp: hide_window_def intro!: keep)

lemma keep_place_tiled: "P s \<Longrightarrow> fst wg \<in> W \<Longrightarrow> P (place_tiled f m wg s)"
  unfolding place_tiled_def by (intro keep_struct keep_let keep move) auto

lemma keep_place_floating: "P s \<Longrightarrow> w \<in> W \<Longrightarrow> P (place_floating f d sc w s)"
  unfolding place_floating_def by (intro keep_struct keep_let keep)

lemma keep_place_fullscreen: "P s \<Longrightarrow> w \<in> W \<Longrightarrow> P (place_fullscreen f g w s)"
  unfolding place_fullscreen_def by (intro keep_struct keep_let keep)

lemma keep_place_scratch: "P s \<Longrightarrow> w \<in> W \<Longrightarrow> P (place_scratch d w s)"
  by (auto simp: place_scratch_def intro!: keep)

lemma in_class_W: "P s \<Longrightarrow> w \<in> set (in_class ds s t) \<Longrightarrow> w \<in> W"
  using managed by (auto simp: in_class_def)

lemma keep_arrange [keep]:
  assumes s: "P s"
  shows "P (arrange i s)"
  unfolding arrange_def
proof (rule keep_struct(4) [OF s])
  fix m :: monitor
  let ?s1 = "dynamic_layout i (tags m) s"
  have s1: "P ?s1" using s by (rule keep)
  note inW = in_class_W [OF s1]
  show "P (let t = tags m; default_loc = rect_loc (w_area m); fs_geom = m_area m;
           s1 = dynamic_layout i t s;
           hidden = in_class {Hidden} s1 t; tiled = in_class {TiledWin} s1 t;
           floating = in_class {FloatWin, ScratchWin} s1 t;
           fs_windows = in_class {FsWin} s1 t; scratch = in_class {ScratchWin} s1 t;
           s2 = fold hide_window hidden s1;
           focused = focused_on s2 t i;
           s3 = sync_scroll i focused tiled s2;
           m = monitors s3 ! i;
           geoms = layout_arrange (on_arrange_fn s3) (cfg s3) (gaps_on s3) m (cfacts_of (ws s3) tiled);
           monocle = (layout_kind_of (cfg s3) m = Monocle);
           s4 = fold (place_tiled focused monocle) (zip tiled geoms) s3;
           s5 = fold (place_floating focused default_loc scratch) floating s4;
           s6 = fold (place_fullscreen focused fs_geom) fs_windows s5
       in fold (place_scratch default_loc) scratch s6)"
    unfolding Let_def
    by (intro keep_fold keep s1 keep_place_tiled keep_place_floating keep_place_fullscreen
        keep_place_scratch) (auto dest!: set_zip_leftD intro: inW)
qed

lemma keep_arrange_all [keep]: "P s \<Longrightarrow> P (arrange_all s)"
  by (auto simp: arrange_all_def Let_def intro!: keep keep_fold split: option.split)

lemma keep_finalize [keep]: "P s \<Longrightarrow> P (finalize_slide_outs s)"
  by (auto simp: finalize_slide_outs_def finalize_slide_out_def Let_def intro!: keep keep_fold)

lemma keep_titles [keep]: "P s \<Longrightarrow> P (check_toplevel_titles s)"
  by (auto simp: check_toplevel_titles_def Let_def intro!: keep keep_fold split: option.split bool.split)

end

text \<open>Everything of the core but the placement is untouched by the layout pass.\<close>

definition rest :: "rwl \<Rightarrow> wid list \<times> wid list \<times> u32 list list \<times> nat \<times> bool \<times> lock_state option" where
  "rest s = (windows s, focus_stack s, tag_history s, length (monitors s), locked s, native_lock s)"

interpretation rest: layout_invariant "\<lambda>s. rest s = R" "set (fst R)" for R
  by unfold_locales (auto simp: core_def rest_def)

lemma rest_layout [simp]: "rest (arrange i s) = rest s" "rest (arrange_all s) = rest s"
  using rest.keep_arrange rest.keep_arrange_all by blast+

lemma layout_keeps [simp]:
  "windows (arrange i s) = windows s" "windows (arrange_all s) = windows s"
  "focus_stack (arrange i s) = focus_stack s" "focus_stack (arrange_all s) = focus_stack s"
  "locked (arrange i s) = locked s" "locked (arrange_all s) = locked s"
  "native_lock (arrange i s) = native_lock s" "native_lock (arrange_all s) = native_lock s"
  "tag_history (arrange i s) = tag_history s" "tag_history (arrange_all s) = tag_history s"
  "length (monitors (arrange i s)) = length (monitors s)"
  "length (monitors (arrange_all s)) = length (monitors s)"
  using rest_layout(1) [of i s] rest_layout(2) [of s] by (simp_all add: rest_def del: rest_layout)

section \<open>Focus, actions and the Lua queue\<close>

definition known :: "rwl \<Rightarrow> wid set" where
  "known s = set (windows s) \<union> set (focus_stack s)"

text \<open>
  What an action may do to the core: focus a window the compositor knows, drop windows
  from the focus order, promote a window, record tags in the history, start the locker.
\<close>

locale action_invariant = core_invariant +
  assumes put: "P s \<Longrightarrow> v \<in> set (windows s) \<Longrightarrow> P (s\<lparr>space := map_element (space s) v p\<rparr>)"
    and move: "P s \<Longrightarrow> P (s\<lparr>space := relocate_element (space s) v p\<rparr>)"
    and drop: "P s \<Longrightarrow> P (s\<lparr>space := unmap_elem (space s) v\<rparr>)"
    and raise: "P s \<Longrightarrow> v \<in> known s \<Longrightarrow> P (s\<lparr>focus_stack := raise_focus v (focus_stack s)\<rparr>)"
    and unfocus: "P s \<Longrightarrow> P (s\<lparr>focus_stack := filter q (focus_stack s)\<rparr>)"
    and promote: "P s \<Longrightarrow> k < length (windows s) \<Longrightarrow> P (s\<lparr>windows := rotate_prefix k (windows s)\<rparr>)"
    and push: "P s \<Longrightarrow> P (s\<lparr>tag_history := update_at i (push_history t) (tag_history s)\<rparr>)"
    and prune: "P s \<Longrightarrow> P (s\<lparr>tag_history := update_at i (filter r) (tag_history s)\<rparr>)"
    and lock_start: "P s \<Longrightarrow> P (native_lock_start s)"

sublocale action_invariant \<subseteq> lay: layout_invariant "\<lambda>s. P s \<and> set (windows s) = X" X for X
  by unfold_locales (auto intro: core put move drop simp: core_def)

context action_invariant
begin

lemma keep_layout [keep]:
  "P s \<Longrightarrow> P (arrange i s)" "P s \<Longrightarrow> P (arrange_all s)" "P s \<Longrightarrow> P (finalize_slide_outs s)"
  "P s \<Longrightarrow> P (check_toplevel_titles s)" "P s \<Longrightarrow> P (hide_elem w s)"
  using lay.keep_arrange [of s "set (windows s)" i] lay.keep_arrange_all [of s "set (windows s)"]
    lay.keep_finalize [of s "set (windows s)"] lay.keep_titles [of s "set (windows s)"]
  by (simp_all add: hide_elem_def drop)

lemma focused_window_known: "focused_window s = Some v \<Longrightarrow> v \<in> known s"
  by (auto simp: focused_window_def known_def dest: find_SomeD)

lemma keep_focus_changed [keep]: "P s \<Longrightarrow> P (focus_changed_to prev s)"
  unfolding focus_changed_to_def by (intro keep_struct keep_let keep; assumption)

lemma keep_focus_window:
  assumes "P s" "\<And>v. w = Some v \<Longrightarrow> v \<in> known s"
  shows "P (focus_window w s)"
  unfolding focus_window_def
  by (intro keep_struct keep_let keep raise; (assumption | simp add: assms))

lemma keep_refocus [keep]: "P s \<Longrightarrow> P (refocus s)"
  unfolding refocus_def by (rule keep_focus_window) (auto dest: focused_window_known)

lemma keep_history [keep]: "P s \<Longrightarrow> P (update_tag_history i t s)"
  unfolding update_tag_history_def by (intro keep_struct keep push)

text \<open>The actions.\<close>

lemma keep_promote [keep]: "P s \<Longrightarrow> P (promote_window w s)"
proof -
  assume s: "P s"
  have "P (focus_window (Some w) (s\<lparr>windows := rotate_prefix k (windows s)\<rparr>))"
    if "position (\<lambda>v. v = w) (windows s) = Some k" for k
    using position_Some [OF that] s
    by (intro keep_focus_window promote) (auto simp: known_def rotate_prefix_def)
  then show ?thesis unfolding promote_window_def using s by (intro keep_struct keep)
qed

lemma keep_zoom [keep]: "P s \<Longrightarrow> P (zoom s)"
  unfolding zoom_def by (intro keep_struct keep; assumption)

lemma focus_cycle_lt:
  "0 < n \<Longrightarrow> focus_cycle cur dir n < n"
  by (simp add: focus_cycle_def split: option.split)

lemma keep_focus_step [keep]: "P s \<Longrightarrow> P (focus_stack_step dir s)"
proof -
  assume "P s"
  moreover have "xs ! focus_cycle cur dir (length xs) \<in> known s"
    if "xs = filter (on_sel_mon s) (windows s)" "xs \<noteq> []" for xs cur
    using nth_mem [OF focus_cycle_lt, of xs cur dir] that by (auto simp: known_def)
  ultimately show ?thesis
    unfolding focus_stack_step_def by (intro keep_struct keep_let keep_focus_window) auto
qed

lemma keep_toggles [keep]:
  "P s \<Longrightarrow> P (inc_nmaster d s)" "P s \<Longrightarrow> P (set_mfact f s)"
  "P s \<Longrightarrow> P (toggle_focused_floating s)" "P s \<Longrightarrow> P (toggle_focused_fullscreen s)"
  "P s \<Longrightarrow> P (do_set_layout i s)" "P s \<Longrightarrow> P (do_cycle_layout s)" "P s \<Longrightarrow> P (do_reset_layout s)"
  "P s \<Longrightarrow> P (do_reload s)"
  unfolding inc_nmaster_def set_mfact_def toggle_focused_floating_def
    toggle_focused_fullscreen_def do_set_layout_def do_cycle_layout_def do_reset_layout_def
    do_reload_def
  by (intro keep_struct keep_let keep; assumption)+

lemma keep_views [keep]:
  "P s \<Longrightarrow> P (sel_view t s)" "P s \<Longrightarrow> P (slide_to a b c s)" "P s \<Longrightarrow> P (do_view t s)"
  "P s \<Longrightarrow> P (do_view_prev s)" "P s \<Longrightarrow> P (do_view_next_occ dir s)" "P s \<Longrightarrow> P (do_toggle_view t s)"
  "P s \<Longrightarrow> P (view_tag_spawn t s)" "P s \<Longrightarrow> P (do_tag t s)" "P s \<Longrightarrow> P (do_toggle_tag t s)"
  unfolding sel_view_def slide_to_def do_view_def do_view_prev_def do_view_next_occ_def
    do_toggle_view_def view_tag_spawn_def do_tag_def do_toggle_tag_def
  by (intro keep_struct keep_let keep; assumption)+

text \<open>The window an operation focuses comes from the focus order or the window list.\<close>

lemma find_known:
  "List.find p (focus_stack s) = Some v \<Longrightarrow> v \<in> known s"
  "List.find p (windows s) = Some v \<Longrightarrow> v \<in> known s"
  "Some v = List.find p (focus_stack s) \<Longrightarrow> v \<in> known s"
  by (auto simp: known_def dest: find_SomeD dest!: sym [of "Some v"])

lemma known_simps [simp]:
  "known (mod_state w f s) = known s" "known (s\<lparr>ws := st\<rparr>) = known s"
  "known (s\<lparr>sel_mon := i\<rparr>) = known s" "known (upd_monitor i g s) = known s"
  "known (arrange_all s) = known s" "known (s\<lparr>space := sp\<rparr>) = known s"
  by (simp_all add: known_def mod_state_def upd_monitor_def)

lemma keep_monitors [keep]:
  "P s \<Longrightarrow> P (focus_mon dir s)" "P s \<Longrightarrow> P (tag_mon dir s)" "P s \<Longrightarrow> P (focus_urgent s)"
proof -
  assume s: "P s"
  show "P (focus_mon dir s)" unfolding focus_mon_def
    by (intro keep_struct keep_let keep_focus_window keep s) (auto dest: find_known)
  show "P (tag_mon dir s)" unfolding tag_mon_def Let_def
    by (intro keep_struct keep keep_focus_window s) (auto dest: focused_window_known)
  show "P (focus_urgent s)" unfolding focus_urgent_def Let_def
    by (intro keep_struct keep keep_focus_window s)
      (auto simp: or_else_def split: option.splits dest: find_known)
qed

lemma keep_hide_scratch [keep]: "P s \<Longrightarrow> P (hide_scratch w s)"
proof -
  assume s: "P s"
  have "P (s\<lparr>ws := st, focus_stack := filter q (focus_stack s)\<rparr>)" for st q
    using unfocus [OF keep_fields(1) [OF s, of st], of q] by simp
  then show ?thesis unfolding hide_scratch_def Let_def
    by (intro keep_focus_window) (auto simp: known_def dest!: sym [of "Some _"] dest: find_SomeD)
qed

lemma keep_show_scratch: "P s \<Longrightarrow> w \<in> known s \<Longrightarrow> P (show_scratch w s)"
  unfolding show_scratch_def Let_def by (intro keep_focus_window keep) auto

lemma keep_scratch [keep]:
  "P s \<Longrightarrow> P (after_scratch s)" "P s \<Longrightarrow> P (toggle_scratch c s)"
  "P s \<Longrightarrow> P (focus_or_toggle_scratch c s)" "P s \<Longrightarrow> P (focus_or_toggle_matching_scratch c s)"
proof -
  show *: "P s \<Longrightarrow> P (after_scratch s)" for s
    unfolding after_scratch_def by (intro keep)
  assume s: "P s"
  show "P (toggle_scratch c s)" unfolding toggle_scratch_def
    by (intro keep_struct keep * keep_show_scratch s) (auto simp: find_scratch_def dest: find_known)
  show "P (focus_or_toggle_scratch c s)" unfolding focus_or_toggle_scratch_def
    by (intro keep_struct keep * keep_show_scratch s) (auto simp: find_scratch_def dest: find_known)
  show "P (focus_or_toggle_matching_scratch c s)"
    unfolding focus_or_toggle_matching_scratch_def Let_def
    by (intro keep_struct keep * keep_show_scratch s) (auto dest: find_known)
qed

lemma keep_run_action [keep]: "P s \<Longrightarrow> P (run_action a s)"
  unfolding run_action_def
  by (cases a; simp only: action.case; intro keep_struct keep lock_start; assumption)

lemma keep_guard:
  assumes "P s"
  shows "overview_guard a s = Pass s' \<Longrightarrow> P s'" "overview_guard a s = Done s' \<Longrightarrow> P s'"
  using assms keep_overview(3,4) [of s]
  by (auto simp: overview_guard_def split: if_splits action.splits)

lemma keep_gate: "P s \<Longrightarrow> (\<And>s'. P s' \<Longrightarrow> P (f s')) \<Longrightarrow>
  P (case overview_guard a s of Pass s' \<Rightarrow> f s' | Done s' \<Rightarrow> s')"
  by (auto dest: keep_guard split: overview_gate.split)

lemma keep_events [keep]:
  "P s \<Longrightarrow> P (tag_events tb s)" "P s \<Longrightarrow> P (layout_events lb s)"
  unfolding tag_events_def layout_events_def by (intro keep_struct keep; assumption)+

lemma keep_dispatch_in [keep]: "P s \<Longrightarrow> P (dispatch_in a s)"
  unfolding dispatch_in_def
  by (intro keep_gate; (assumption | (cases a; simp only: action.case; intro keep_struct keep_let keep)))

lemma keep_hook_cmd [keep]: "P s \<Longrightarrow> P (apply_hook_cmd c s)"
  unfolding apply_hook_cmd_def retag_def move_to_monitor_def
  by (cases c; simp only: hook_cmd.case; intro keep_struct keep_let keep keep_focus_window)
    (auto simp: managed_def known_def)

lemma keep_drain [keep]: "P s \<Longrightarrow> P (drain s)"
proof -
  have "P s \<Longrightarrow> P (drain_rounds n s)" for n
    by (induction n arbitrary: s) (simp_all add: keep_fold keep_hook_cmd keep_fields)
  then show "P s \<Longrightarrow> P (drain s)" by (simp add: drain_def)
qed

lemma keep_dispatch [keep]: "P s \<Longrightarrow> P (dispatch a s)"
  unfolding dispatch_def
  by (auto dest: keep_guard intro!: keep split: overview_gate.split action.split)

text \<open>What follows a closed window.\<close>

lemma keep_auto_back [keep]: "P s \<Longrightarrow> P (auto_back i t r s)"
  unfolding auto_back_def by (intro keep_struct keep_let keep prune; assumption)

lemma keep_on_unmap: "P s \<Longrightarrow> on_unmap w s = (s', r) \<Longrightarrow> P s'"
  unfolding on_unmap_def restore_terminal_def drop_links_def Let_def split_def
  by (auto intro!: keep split: option.splits if_splits)

lemma keep_close_window: "P s \<Longrightarrow> close_window w b s = (s', r) \<Longrightarrow> P s'"
  unfolding close_window_def Let_def
  by (erule keep_on_unmap [rotated]) (intro keep_struct keep)

end

end
