(* ===== verification/Status.thy ===== *)
theory Status
  imports Arrange
begin

text \<open>
  The status text of \<^verbatim>\<open>src/ipc.rs\<close>: seven lines per monitor, and its delivery to the
  clients that subscribed to it. Texts are strings of bytes.
\<close>

section \<open>Lines\<close>

abbreviation LF :: char where "LF \<equiv> CHR 0x0A"

text \<open>\<open>str::lines\<close>: a line ends with a line feed, which a carriage return may precede.\<close>

fun split_inclusive :: "string \<Rightarrow> string list" where
  "split_inclusive [] = []"
| "split_inclusive (c # cs) =
     (if c = LF then [c] # split_inclusive cs
      else case split_inclusive cs of [] \<Rightarrow> [[c]] | l # ls \<Rightarrow> (c # l) # ls)"

definition strip_last :: "char \<Rightarrow> string \<Rightarrow> string" where
  "strip_last c l = (if l \<noteq> [] \<and> last l = c then butlast l else l)"

definition chomp :: "string \<Rightarrow> string" where
  "chomp l = (if l \<noteq> [] \<and> last l = LF then strip_last (CHR 0x0D) (butlast l) else l)"

definition str_lines :: "string \<Rightarrow> string list" where
  "str_lines s = map chomp (split_inclusive s)"

definition keep_lines :: "string \<Rightarrow> string \<Rightarrow> string" where
  "keep_lines name txt = concat (map (\<lambda>l. l @ [LF]) (filter (prefix name) (str_lines txt)))"

section \<open>The status\<close>

text \<open>The occupied and the urgent tags of every monitor, in one pass over the windows.\<close>

definition per_mon_tags :: "rwl \<Rightarrow> (u32 \<times> u32) list" where
  "per_mon_tags s = fold (\<lambda>w acc.
     case with_state (ws s) w (\<lambda>x. (mon_idx x, ws_tags x, is_urgent x)) of
       Some (i, t, urgent) \<Rightarrow>
         if i < length (monitors s)
         then update_at i (\<lambda>(occ, urg). (occ OR t, if urgent then urg OR t else urg)) acc
         else acc
     | None \<Rightarrow> acc) (windows s) (replicate (length (monitors s)) (0, 0))"

text \<open>The first window of the focus order that each monitor shows.\<close>

definition focused_per_mon :: "rwl \<Rightarrow> wid option list" where
  "focused_per_mon s = fold (\<lambda>w acc.
     case with_state (ws s) w mon_idx of
       Some i \<Rightarrow>
         if i < length (monitors s) \<and> acc ! i = None \<and>
            window_visible_on (ws s) w (tags (monitors s ! i))
         then acc[i := Some w] else acc
     | None \<Rightarrow> acc) (focus_stack s) (replicate (length (monitors s)) None)"

definition focused_facts :: "rwl \<Rightarrow> wid option \<Rightarrow> string \<times> string \<times> u32 \<times> nat \<times> nat" where
  "focused_facts s f = (case f of
     None \<Rightarrow> ([], [], 0, 0, 0)
   | Some w \<Rightarrow> unwrap_or (with_state (ws s) w (\<lambda>x.
       (unwrap_or (last_title x) [], unwrap_or (last_appid x) [], ws_tags x,
        of_bool (is_fullscreen x), of_bool (is_floating x)))) ([], [], 0, 0, 0))"

definition show_u32 :: "u32 \<Rightarrow> string" where
  "show_u32 w = show_nat (unat w)"

definition title_line :: "rwl \<Rightarrow> string \<Rightarrow> string \<Rightarrow> string" where
  "title_line s name title = (case config_error s of
     Some err \<Rightarrow> name @ '' title_error '' @ err
   | None \<Rightarrow> name @ '' title '' @ title)"

definition status_lines :: "rwl \<Rightarrow> nat \<Rightarrow> monitor \<Rightarrow> u32 \<times> u32 \<Rightarrow> wid option \<Rightarrow> string list" where
  "status_lines s i m bits f =
     (let name = out_name (mon_output m);
          (title, appid, ftags, fs, fl) = focused_facts s f
      in [title_line s name title,
          name @ '' appid '' @ appid,
          name @ '' fullscreen '' @ show_nat fs,
          name @ '' floating '' @ show_nat fl,
          name @ '' selmon '' @ show_nat (of_bool (i = sel_mon s)),
          name @ '' tags '' @ show_u32 (fst bits AND tag_mask (cfg s)) @ '' '' @ show_u32 (tags m) @ '' '' @
            show_u32 ftags @ '' '' @ show_u32 (snd bits AND tag_mask (cfg s)),
          name @ '' layout '' @ layout_symbol (cfg s) m])"

definition write_lines :: "string list \<Rightarrow> string" where
  "write_lines ls = concat (map (\<lambda>l. l @ [LF]) ls)"

definition format_status :: "rwl \<Rightarrow> string" where
  "format_status s = concat (map (\<lambda>(i, m).
     write_lines (status_lines s i m (per_mon_tags s ! i) (focused_per_mon s ! i)))
     (enumerate 0 (monitors s)))"

section \<open>Subscribers\<close>

text \<open>
  The open connections of the socket: subscribers of the status with their output
  filter, watchers of events with the kinds they want, and what was written to each. A
  write is \<open>accepted\<close> or fails because the client has gone.
\<close>

record server =
  subscribers :: "(nat \<times> string option) list"
  watchers :: "(nat \<times> string list option) list"
  status_out :: string
  wire :: "(nat \<times> string) list"

definition no_server :: server where
  "no_server = \<lparr>subscribers = [], watchers = [], status_out = [], wire = []\<rparr>"

definition filtered :: "string option \<Rightarrow> string \<Rightarrow> string" where
  "filtered f txt = (case f of None \<Rightarrow> txt | Some name \<Rightarrow> keep_lines name txt)"

definition write_all :: "(nat \<Rightarrow> string \<Rightarrow> bool) \<Rightarrow> nat \<Rightarrow> string \<Rightarrow> server \<Rightarrow> server" where
  "write_all accepts c out sv = (if accepts c out then sv\<lparr>wire := wire sv @ [(c, out)]\<rparr> else sv)"

definition broadcast_to_subscribers :: "(nat \<Rightarrow> string \<Rightarrow> bool) \<Rightarrow> string \<Rightarrow> server \<Rightarrow> server" where
  "broadcast_to_subscribers accepts txt sv =
     fold (\<lambda>(c, f) sv. let out = filtered f txt in
         if out = [] then sv\<lparr>subscribers := subscribers sv @ [(c, f)]\<rparr>
         else if accepts c out
         then (write_all accepts c out sv)\<lparr>subscribers := subscribers sv @ [(c, f)]\<rparr>
         else sv)
       (subscribers sv) (sv\<lparr>subscribers := []\<rparr>)"

definition print_status_to :: "(nat \<Rightarrow> string \<Rightarrow> bool) \<Rightarrow> rwl \<Rightarrow> server \<Rightarrow> server" where
  "print_status_to accepts s sv =
     (let buf = format_status s
      in broadcast_to_subscribers accepts buf (sv\<lparr>status_out := status_out sv @ buf\<rparr>))"

end
