(* ===== verification/Event_Lines.thy ===== *)
theory Event_Lines
  imports Status
begin

text \<open>
  The JSON texts of \<^verbatim>\<open>src/features/integration/ipc/event.rs\<close>: the list of windows, one line
  per event, and their delivery to the watchers.
\<close>

section \<open>Texts\<close>

abbreviation QT :: char where "QT \<equiv> CHR 0x22"
abbreviation BSL :: char where "BSL \<equiv> CHR 0x5C"

definition hex_digit :: "nat \<Rightarrow> char" where
  "hex_digit d = (if d < 10 then char_of (48 + d) else char_of (87 + d))"

definition esc_char :: "char \<Rightarrow> string" where
  "esc_char c =
     (if c = QT then [BSL, QT] else if c = BSL then [BSL, BSL]
      else if c = LF then [BSL, CHR ''n''] else if c = CHR 0x0D then [BSL, CHR ''r'']
      else if c = CHR 0x09 then [BSL, CHR ''t'']
      else let b = of_char c :: nat in
        if b < 32 then [BSL, CHR ''u'', CHR ''0'', CHR ''0'', hex_digit (b div 16), hex_digit (b mod 16)]
        else [c])"

definition esc :: "string \<Rightarrow> string" where
  "esc s = concat (map esc_char s)"

definition quoted :: "string \<Rightarrow> string" where
  "quoted t = QT # t @ [QT]"

definition field :: "string \<Rightarrow> string \<Rightarrow> string" where
  "field k v = quoted k @ '':'' @ v"

definition show_bool :: "bool \<Rightarrow> string" where
  "show_bool b = (if b then ''true'' else ''false'')"

definition window_obj :: "rwl \<Rightarrow> wid \<Rightarrow> wid option \<Rightarrow> string" where
  "window_obj s w focused =
     (let (appid, title, t, mon, floating, fullscreen) =
            unwrap_or (with_state (ws s) w (\<lambda>x. (unwrap_or (last_appid x) [], unwrap_or (last_title x) [],
              ws_tags x, mon_idx x, is_floating x, is_fullscreen x))) ([], [], 0, 0, False, False);
          is_focused = (focused = Some w);
          (x, y, gw, gh) = (case geometry_of s w of
             None \<Rightarrow> (0, 0, 0, 0) | Some g \<Rightarrow> (loc_x g, loc_y g, size_w g, size_h g))
      in ''{'' @ field ''app_id'' (quoted (esc appid)) @ '','' @ field ''title'' (quoted (esc title)) @ '','' @
         field ''tags'' (show_u32 t) @ '','' @ field ''monitor'' (show_nat mon) @ '','' @
         field ''floating'' (show_bool floating) @ '','' @ field ''fullscreen'' (show_bool fullscreen) @ '','' @
         field ''focused'' (show_bool is_focused) @ '','' @ field ''x'' (show_int x) @ '','' @
         field ''y'' (show_int y) @ '','' @ field ''w'' (show_int gw) @ '','' @ field ''h'' (show_int gh) @ ''}'')"

fun objects_from :: "rwl \<Rightarrow> wid option \<Rightarrow> nat \<Rightarrow> wid list \<Rightarrow> string" where
  "objects_from s f i [] = []"
| "objects_from s f i (w # us) =
     (if i > 0 then '','' else []) @ window_obj s w f @ objects_from s f (Suc i) us"

definition clients_json :: "rwl \<Rightarrow> string" where
  "clients_json s = ''['' @ objects_from s (focused_window s) 0 (windows s) @ '']'' @ [LF]"

definition layout_name :: "rwl \<Rightarrow> nat \<Rightarrow> string" where
  "layout_name s i = (case get_at (c_layouts (cfg s)) i of
     None \<Rightarrow> [] | Some l \<Rightarrow> layout_kind_name (ld_kind l))"

definition occupied_by :: "rwl \<Rightarrow> nat \<Rightarrow> u32" where
  "occupied_by s i = fold (\<lambda>w acc. case with_state (ws s) w (\<lambda>x. (mon_idx x, ws_tags x)) of
     Some (mi, t) \<Rightarrow> if mi = i then acc OR t else acc | None \<Rightarrow> acc) (windows s) 0"

section \<open>Delivery\<close>

definition fan_out :: "(nat \<Rightarrow> string \<Rightarrow> bool) \<Rightarrow> string \<Rightarrow> string \<Rightarrow> server \<Rightarrow> server" where
  "fan_out accepts kind line sv =
     (let buf = line @ [LF] in
      fold (\<lambda>(c, f) sv.
         if (case f of None \<Rightarrow> True | Some kinds \<Rightarrow> kind \<in> set kinds)
         then if accepts c buf
              then (write_all accepts c buf sv)\<lparr>watchers := watchers sv @ [(c, f)]\<rparr> else sv
         else sv\<lparr>watchers := watchers sv @ [(c, f)]\<rparr>)
       (watchers sv) (sv\<lparr>watchers := []\<rparr>))"

definition window_line :: "rwl \<Rightarrow> string \<Rightarrow> wid \<Rightarrow> string" where
  "window_line s kind w = ''{'' @ field ''event'' (quoted kind) @ '','' @
     field ''window'' (window_obj s w (focused_window s)) @ ''}''"

definition event_window :: "rwl \<Rightarrow> string \<Rightarrow> wid \<Rightarrow> string" where
  "event_window s act w = ''{'' @ field ''event'' (quoted ''window'') @ '','' @
     field ''action'' (quoted act) @ '','' @ field ''window'' (window_obj s w (focused_window s)) @ ''}''"

definition event_title :: "rwl \<Rightarrow> wid \<Rightarrow> string" where
  "event_title s w = window_line s ''title'' w"

definition event_focus :: "rwl \<Rightarrow> wid option \<Rightarrow> string" where
  "event_focus s f = ''{'' @ field ''event'' (quoted ''focus'') @ '','' @
     field ''window'' (case f of None \<Rightarrow> ''null'' | Some w \<Rightarrow> window_obj s w (Some w)) @ ''}''"

definition event_tag :: "rwl \<Rightarrow> nat \<Rightarrow> string option" where
  "event_tag s i = map_option (\<lambda>m. ''{'' @ field ''event'' (quoted ''tag'') @ '','' @
     field ''monitor'' (show_nat i) @ '','' @ field ''selected'' (show_u32 (tags m)) @ '','' @
     field ''occupied'' (show_u32 (occupied_by s i AND tag_mask (cfg s))) @ ''}'') (get_at (monitors s) i)"

definition event_layout :: "rwl \<Rightarrow> nat \<Rightarrow> nat \<Rightarrow> nat \<Rightarrow> string" where
  "event_layout s i old new = ''{'' @ field ''event'' (quoted ''layout'') @ '','' @
     field ''monitor'' (show_nat i) @ '','' @ field ''old'' (quoted (esc (layout_name s old))) @ '','' @
     field ''new'' (quoted (esc (layout_name s new))) @ ''}''"

definition event_fullscreen :: "rwl \<Rightarrow> wid \<Rightarrow> string" where
  "event_fullscreen s w = window_line s ''fullscreen'' w"

definition event_monitor :: "string \<Rightarrow> string \<Rightarrow> string" where
  "event_monitor act name = ''{'' @ field ''event'' (quoted ''monitor'') @ '','' @
     field ''action'' (quoted act) @ '','' @ field ''name'' (quoted (esc name)) @ ''}''"

definition event_urgency :: "rwl \<Rightarrow> wid \<Rightarrow> string" where
  "event_urgency s w = window_line s ''urgency'' w"

text \<open>The kind and the line of an event, and its emission when somebody watches.\<close>

definition event_line :: "rwl \<Rightarrow> ipc_event \<Rightarrow> (string \<times> string) option" where
  "event_line s e = (case e of
     EvWindow act w \<Rightarrow> Some (''window'', event_window s act w)
   | EvTitle w \<Rightarrow> Some (''title'', event_title s w)
   | EvFocus f \<Rightarrow> Some (''focus'', event_focus s f)
   | EvTag i \<Rightarrow> map_option (\<lambda>l. (''tag'', l)) (event_tag s i)
   | EvLayout i old new \<Rightarrow> Some (''layout'', event_layout s i old new)
   | EvFullscreen w \<Rightarrow> Some (''fullscreen'', event_fullscreen s w)
   | EvMonitor act name \<Rightarrow> Some (''monitor'', event_monitor act name)
   | EvUrgency w \<Rightarrow> Some (''urgency'', event_urgency s w))"

definition emit_event :: "(nat \<Rightarrow> string \<Rightarrow> bool) \<Rightarrow> rwl \<Rightarrow> ipc_event \<Rightarrow> server \<Rightarrow> server" where
  "emit_event accepts s e sv =
     (if watchers sv = [] then sv
      else case event_line s e of
        None \<Rightarrow> sv | Some (kind, line) \<Rightarrow> fan_out accepts kind line sv)"

end
