(* ===== verification/Wallpaper.thy ===== *)
theory Wallpaper
  imports Float64 Prelude
begin

text \<open>
  Wallpapers (\<^verbatim>\<open>src/features/shell/wallpaper.rs\<close>): which image a monitor shows, the cache of
  decoded images with the background decoder, and where the image is drawn. Reading and
  decoding a file is a parameter \<open>img\<close>: the size of the image at a path, if it can be read.
\<close>

section \<open>Modes and selection\<close>

datatype wallpaper_mode = Fill | Fit | Stretch | Center

definition parse_mode :: "string \<Rightarrow> wallpaper_mode option" where
  "parse_mode s =
     (if s = ''fill'' then Some Fill else if s = ''fit'' then Some Fit
      else if s = ''stretch'' then Some Stretch else if s = ''center'' then Some Center else None)"

definition mode_name :: "wallpaper_mode \<Rightarrow> string" where
  "mode_name m = (case m of Fill \<Rightarrow> ''fill'' | Fit \<Rightarrow> ''fit'' | Stretch \<Rightarrow> ''stretch'' | Center \<Rightarrow> ''center'')"

lemma parse_mode_name [simp]: "parse_mode (mode_name m) = Some m"
  by (cases m) (simp_all add: parse_mode_def mode_name_def)

text \<open>The configured wallpapers, and the decoder's state with its running threads.\<close>

record wall_conf =
  wc_default :: "string option"
  wc_tags :: "string option list"
  wc_mode :: wallpaper_mode

record walls =
  wl_override :: "(string option \<times> wallpaper_mode) option"
  wl_cache :: "(string \<times> int \<times> int) list"
  wl_failed :: "string list"
  wl_pending :: "string list"
  wl_ready :: bool
  wl_threads :: "string list"

definition set_override :: "wall_conf \<Rightarrow> string option \<Rightarrow> wallpaper_mode option \<Rightarrow> walls \<Rightarrow> walls" where
  "set_override c path mode w =
     (let cur_mode = (case wl_override w of None \<Rightarrow> wc_mode c | Some s \<Rightarrow> snd s)
      in w\<lparr>wl_override := Some (path, case mode of None \<Rightarrow> cur_mode | Some m \<Rightarrow> m)\<rparr>)"

text \<open>The lowest visible tag with an entry of its own, scanned over at most 32 entries.\<close>

fun tag_entry :: "u32 \<Rightarrow> nat \<Rightarrow> string option list \<Rightarrow> string option" where
  "tag_entry t i [] = None"
| "tag_entry t i (e # es) =
     (case e of Some path \<Rightarrow> if t AND shl1 i \<noteq> 0 then Some path else tag_entry t (Suc i) es
      | None \<Rightarrow> tag_entry t (Suc i) es)"

definition effective_paper :: "wall_conf \<Rightarrow> u32 \<Rightarrow> walls \<Rightarrow> string option \<times> wallpaper_mode" where
  "effective_paper c t w = (case wl_override w of
     Some s \<Rightarrow> s
   | None \<Rightarrow> (case tag_entry t 0 (take 32 (wc_tags c)) of
       Some path \<Rightarrow> (Some path, wc_mode c) | None \<Rightarrow> (wc_default c, wc_mode c)))"

definition configured_paths :: "wall_conf \<Rightarrow> string list" where
  "configured_paths c = map the (filter (\<lambda>e. e \<noteq> None) (wc_tags c)) @
     (case wc_default c of Some p \<Rightarrow> [p] | None \<Rightarrow> [])"

section \<open>The decoder\<close>

definition CACHE_CAP :: nat where "CACHE_CAP = 6"

definition is_cached :: "walls \<Rightarrow> string \<Rightarrow> bool" where
  "is_cached w path \<longleftrightarrow> list_ex (\<lambda>l. fst l = path) (wl_cache w)"

definition cache_push :: "string \<times> int \<times> int \<Rightarrow> walls \<Rightarrow> walls" where
  "cache_push l w = w\<lparr>wl_cache :=
     (if length (wl_cache w) \<ge> CACHE_CAP then tl (wl_cache w) else wl_cache w) @ [l]\<rparr>"

definition request_decode :: "string \<Rightarrow> walls \<Rightarrow> walls" where
  "request_decode path w =
     (if is_cached w path \<or> path \<in> set (wl_pending w) \<or> path \<in> set (wl_failed w) then w
      else if \<not> wl_ready w then w
      else w\<lparr>wl_pending := wl_pending w @ [path], wl_threads := wl_threads w @ [path]\<rparr>)"

definition preload_configured :: "wall_conf \<Rightarrow> walls \<Rightarrow> walls" where
  "preload_configured c w = fold request_decode (configured_paths c) w"

definition on_reload :: "wall_conf \<Rightarrow> walls \<Rightarrow> walls" where
  "on_reload c w = preload_configured c (w\<lparr>wl_failed := []\<rparr>)"

text \<open>A result of a background thread arrives on the render thread.\<close>

definition decoded :: "string \<Rightarrow> int \<times> int \<Rightarrow> walls \<Rightarrow> walls" where
  "decoded path sz w =
     (let w1 = w\<lparr>wl_pending := filter (\<lambda>x. x \<noteq> path) (wl_pending w)\<rparr>
      in if is_cached w1 path then w1 else cache_push (path, sz) w1)"

text \<open>A thread ends: a readable image is sent back, for any other nothing is.\<close>

definition thread_ends :: "(string \<Rightarrow> (int \<times> int) option) \<Rightarrow> string \<Rightarrow> walls \<Rightarrow> walls" where
  "thread_ends img path w =
     (let w1 = w\<lparr>wl_threads := remove1 path (wl_threads w)\<rparr>
      in case img path of Some sz \<Rightarrow> decoded path sz w1 | None \<Rightarrow> w1)"

section \<open>Drawing\<close>

definition paper_size :: "f64 \<Rightarrow> f64 \<Rightarrow> f64 \<Rightarrow> int \<times> int" where
  "paper_size scale pw ph = (f_round_i32 (f_div pw scale), f_round_i32 (f_div ph scale))"

record placement =
  pl_loc :: "f64 \<times> f64"
  pl_src :: "(f64 \<times> f64 \<times> f64 \<times> f64) option"
  pl_dst :: "int \<times> int"

definition half :: "f64 \<Rightarrow> f64" where
  "half x = f_div x (f_lit 2)"

definition place_paper :: "wallpaper_mode \<Rightarrow> f64 \<Rightarrow> f64 \<Rightarrow> f64 \<Rightarrow> f64 \<Rightarrow> f64 \<Rightarrow> placement" where
  "place_paper mode scale ow oh iw ih = (case mode of
     Stretch \<Rightarrow> \<lparr>pl_loc = (f_lit 0, f_lit 0), pl_src = None, pl_dst = paper_size scale ow oh\<rparr>
   | Fill \<Rightarrow>
       let out_aspect = f_div ow oh;
           src = (if f_lt out_aspect (f_div iw ih)
                  then let sw = f_mul ih out_aspect in (half (f_sub iw sw), f_lit 0, sw, ih)
                  else let sh = f_div iw out_aspect in (f_lit 0, half (f_sub ih sh), iw, sh))
       in \<lparr>pl_loc = (f_lit 0, f_lit 0), pl_src = Some src, pl_dst = paper_size scale ow oh\<rparr>
   | Fit \<Rightarrow>
       let k = f_min (f_div ow iw) (f_div oh ih); dw = f_mul iw k; dh = f_mul ih k
       in \<lparr>pl_loc = (half (f_sub ow dw), half (f_sub oh dh)), pl_src = None,
           pl_dst = paper_size scale dw dh\<rparr>
   | Center \<Rightarrow> \<lparr>pl_loc = (half (f_sub ow iw), half (f_sub oh ih)), pl_src = None,
       pl_dst = paper_size scale iw ih\<rparr>)"

text \<open>The element of an output, decoding on first use.\<close>

definition paper_elements :: "(string \<Rightarrow> (int \<times> int) option) \<Rightarrow> wall_conf \<Rightarrow> (int \<times> int) option \<Rightarrow> f64 \<Rightarrow> u32 \<Rightarrow>
    walls \<Rightarrow> (string \<times> placement) option \<times> walls" where
  "paper_elements img c out_mode scale t w =
     (case effective_paper c t w of
        (None, _) \<Rightarrow> (None, w)
      | (Some path, mode) \<Rightarrow> (case out_mode of
          None \<Rightarrow> (None, w)
        | Some (ow, oh) \<Rightarrow>
            if ow \<le> 0 \<or> oh \<le> 0 \<or> f_le scale (f_lit 0) then (None, w)
            else
              let (missing, w1) =
                (if is_cached w path then (False, w)
                 else if path \<in> set (wl_failed w) then (True, w)
                 else case img path of
                    None \<Rightarrow> (True, w\<lparr>wl_failed := wl_failed w @ [path]\<rparr>)
                  | Some sz \<Rightarrow> (False, cache_push (path, sz) w))
              in if missing then (None, w1)
                 else (case List.find (\<lambda>l. fst l = path) (wl_cache w1) of
                    None \<Rightarrow> (None, w1)
                  | Some (p, iw, ih) \<Rightarrow>
                      if iw \<le> 0 \<or> ih \<le> 0 then (None, w1)
                      else (Some (path, place_paper mode scale (f_of_i32 ow) (f_of_i32 oh) (f_of_i32 iw) (f_of_i32 ih)),
                            w1))))"

section \<open>Laws\<close>

text \<open>The cache stays small, no image is in it twice, and no image is decoded twice at once.\<close>

definition wf_walls :: "walls \<Rightarrow> bool" where
  "wf_walls w \<longleftrightarrow> length (wl_cache w) \<le> CACHE_CAP \<and> distinct (map fst (wl_cache w)) \<and>
     distinct (wl_pending w) \<and> distinct (wl_threads w) \<and> set (wl_threads w) \<subseteq> set (wl_pending w)"

lemma walls_push: "wf_walls w \<Longrightarrow> \<not> is_cached w (fst l) \<Longrightarrow> wf_walls (cache_push l w)"
  by (cases "wl_cache w")
    (auto simp: wf_walls_def cache_push_def is_cached_def list_ex_iff CACHE_CAP_def)

lemma wf_request: "wf_walls w \<Longrightarrow> wf_walls (request_decode p w)"
  by (auto simp: wf_walls_def request_decode_def)

inductive wall_step :: "walls \<Rightarrow> walls \<Rightarrow> bool" where
  "wall_step w (set_override c path mode w)"
| "wall_step w (request_decode path w)"
| "wall_step w (preload_configured c w)"
| "wall_step w (on_reload c w)"
| "path \<in> set (wl_threads w) \<Longrightarrow> wall_step w (thread_ends img path w)"
| "wall_step w (snd (paper_elements img c om scale t w))"

lemma walls_fields [simp]:
  "wf_walls (w\<lparr>wl_override := ov\<rparr>) = wf_walls w" "wf_walls (w\<lparr>wl_failed := f\<rparr>) = wf_walls w"
  by (simp_all add: wf_walls_def)

lemma wf_preload: "wf_walls w \<Longrightarrow> wf_walls (preload_configured c w)"
proof -
  have "wf_walls w \<Longrightarrow> wf_walls (fold request_decode ps w)" for ps
    by (induction ps arbitrary: w) (simp_all add: wf_request)
  then show "wf_walls w \<Longrightarrow> wf_walls (preload_configured c w)" by (simp add: preload_configured_def)
qed

lemma wf_thread: "wf_walls w \<Longrightarrow> path \<in> set (wl_threads w) \<Longrightarrow> wf_walls (thread_ends img path w)"
proof -
  assume w: "wf_walls w" "path \<in> set (wl_threads w)"
  let ?w = "w\<lparr>wl_threads := remove1 path (wl_threads w)\<rparr>"
  have wt: "wf_walls ?w" "path \<notin> set (wl_threads ?w)" using w by (auto simp: wf_walls_def)
  then have "wf_walls (?w\<lparr>wl_pending := filter (\<lambda>x. x \<noteq> path) (wl_pending ?w)\<rparr>)"
    by (auto simp: wf_walls_def)
  with wt show ?thesis
    by (auto simp: thread_ends_def decoded_def Let_def split: option.split intro: walls_push)
qed

lemma wf_elements: "wf_walls w \<Longrightarrow> wf_walls (snd (paper_elements img c om scale t w))"
  by (auto simp: paper_elements_def Let_def walls_push split: option.split prod.split)


text \<open>A background decode that fails leaves the path pending for good: although a reload
  forgets the failures so that a repaired file is tried again, no thread is started.\<close>

lemma failed_preload_is_never_retried:
  assumes "wf_walls w" "path \<in> set (wl_threads w)" "img path = None"
  defines "w' \<equiv> thread_ends img path w"
  shows "path \<notin> set (wl_threads (on_reload c w'))"
proof -
  have step: "path \<in> set (wl_pending (request_decode a w)) \<and> path \<notin> set (wl_threads (request_decode a w))"
    if "path \<in> set (wl_pending w) \<and> path \<notin> set (wl_threads w)" for a w
    using that by (auto simp: request_decode_def)
  have "path \<in> set (wl_pending (fold request_decode ps w)) \<and> path \<notin> set (wl_threads (fold request_decode ps w))"
    if "path \<in> set (wl_pending w) \<and> path \<notin> set (wl_threads w)" for ps w
    using that by (induction ps arbitrary: w) (simp_all add: step)
  moreover have "path \<in> set (wl_pending w') \<and> path \<notin> set (wl_threads w')"
    using assms(1-3) by (auto simp: w'_def thread_ends_def wf_walls_def)
  ultimately show ?thesis by (simp add: on_reload_def preload_configured_def)
qed

section \<open>Instances\<close>

definition no_walls :: walls where
  "no_walls = \<lparr>wl_override = None, wl_cache = [], wl_failed = [], wl_pending = [], wl_ready = True, wl_threads = []\<rparr>"


lemma failed_preload_is_never_retried_witness:
  "''a'' \<notin> set (wl_threads (on_reload \<lparr>wc_default = Some ''a'', wc_tags = [], wc_mode = Fill\<rparr>
     (thread_ends (\<lambda>_. None) ''a'' (request_decode ''a'' no_walls))))"
  using failed_preload_is_never_retried [of "request_decode ''a'' no_walls" "''a''" "\<lambda>_. None"]
  by (simp add: wf_walls_def request_decode_def no_walls_def is_cached_def)

end
