(* ===== verification/Socket.thy ===== *)
theory Socket
  imports Actions Event_Lines Wallpaper
begin

text \<open>
  The command socket: the requests \<^verbatim>\<open>rwl msg\<close> sends and what the compositor does with each
  (\<^verbatim>\<open>src/features/integration/ipc/server.rs\<close> and \<^verbatim>\<open>mod.rs\<close>). A connection is a number; what
  is written to it is appended to the server's wire.
\<close>

section \<open>Reading arguments\<close>

definition parse_u32 :: "string \<Rightarrow> u32 option" where
  "parse_u32 t = map_option of_nat (parse_unsigned 4294967295 t)"

definition parse_usize :: "string \<Rightarrow> nat option" where
  "parse_usize = parse_unsigned 18446744073709551615"

text \<open>\<open>parse::<f64>()\<close>: a decimal number with an optional exponent, correctly rounded, or one of
  the words for infinity and not-a-number in any case.\<close>

definition dec_digit :: "char \<Rightarrow> bool" where
  "dec_digit c \<longleftrightarrow> digit c \<noteq> None"

definition power10 :: "int \<Rightarrow> rat" where
  "power10 e = (if 0 \<le> e then 10 ^ nat e else 1 / 10 ^ nat (- e))"

definition parse_exponent :: "string \<Rightarrow> int option" where
  "parse_exponent t = (case t of
     [] \<Rightarrow> None
   | c # cs \<Rightarrow> if c = CHR ''-'' then map_option (\<lambda>n. - int n) (parse_nat cs)
              else if c = CHR ''+'' then map_option int (parse_nat cs)
              else map_option int (parse_nat t))"

definition parse_decimal :: "string \<Rightarrow> rat option" where
  "parse_decimal t =
     (let ip = takeWhile dec_digit t; r1 = dropWhile dec_digit t;
          (fp, r2) = (case r1 of
             c # cs \<Rightarrow> if c = CHR ''.'' then (takeWhile dec_digit cs, dropWhile dec_digit cs) else ([], r1)
           | [] \<Rightarrow> ([], []))
      in case parse_nat (ip @ fp) of
           None \<Rightarrow> None
         | Some n \<Rightarrow>
             let m = rat_of_nat n / 10 ^ length fp in
             (case r2 of
                [] \<Rightarrow> Some m
              | c # cs \<Rightarrow> if c = CHR ''e'' \<or> c = CHR ''E''
                  then map_option (\<lambda>e. m * power10 e) (parse_exponent cs) else None))"

definition parse_f64 :: "string \<Rightarrow> f64 option" where
  "parse_f64 t =
     (let neg = prefix ''-'' t; body = (if prefix ''-'' t \<or> prefix ''+'' t then tl t else t);
          low = to_ascii_lowercase body
      in if low = ''nan'' then Some FNaN
         else if low = ''inf'' \<or> low = ''infinity'' then Some (FInf neg)
         else map_option (\<lambda>q. rnd (if neg then - q else q)) (parse_decimal body))"

definition first_arg :: "(string \<Rightarrow> 'a option) \<Rightarrow> string list \<Rightarrow> 'a option" where
  "first_arg f args = (case args of [] \<Rightarrow> None | a # _ \<Rightarrow> f a)"

section \<open>Commands of one output or all\<close>

definition find_monitor_idx :: "rwl \<Rightarrow> string \<Rightarrow> nat option" where
  "find_monitor_idx s name =
     (if name = ''selected'' then Some (sel_mon s)
      else position (\<lambda>m. out_name (mon_output m) = name) (monitors s))"

definition view_output :: "u32 \<Rightarrow> nat \<Rightarrow> rwl \<Rightarrow> rwl" where
  "view_output raw i s =
     (let mask = raw AND tag_mask (cfg s) in
      if mask = 0 then s
      else
        let s1 = (if i = sel_mon s then update_tag_history i mask s else s);
            old = tags_at s1 i; ow = output_width s1 i;
            s2 = upd_monitor i (\<lambda>m. view (cfg s1) m mask) s1;
            s3 = mark_slide_outs old mask ow s2
        in s3\<lparr>pending_tag_transition := Some (old, mask, ow)\<rparr>)"

definition toggleview_output :: "u32 \<Rightarrow> nat \<Rightarrow> rwl \<Rightarrow> rwl" where
  "toggleview_output raw i s =
     (let new = (case get_at (monitors s) i of
           Some m \<Rightarrow> (tags m XOR raw) AND tag_mask (cfg s) | None \<Rightarrow> 0)
      in if new \<noteq> 0
         then let s1 = (if i = sel_mon s then update_tag_history i new s else s)
              in upd_monitor i (\<lambda>m. toggle_view (cfg s1) m raw) s1
         else s)"

definition setlayout_output :: "nat \<Rightarrow> nat \<Rightarrow> rwl \<Rightarrow> rwl" where
  "setlayout_output li i s = upd_monitor i (\<lambda>m. set_layout (cfg s) m li) s"

definition on_output :: "string \<Rightarrow> string \<Rightarrow> nat \<Rightarrow> rwl \<Rightarrow> rwl" where
  "on_output cmd val i s =
     (if cmd = ''view'' then (case parse_u32 val of Some t \<Rightarrow> view_output t i s | None \<Rightarrow> s)
      else if cmd = ''toggleview'' then (case parse_u32 val of Some t \<Rightarrow> toggleview_output t i s | None \<Rightarrow> s)
      else if cmd = ''setlayout'' then (case parse_usize val of Some li \<Rightarrow> setlayout_output li i s | None \<Rightarrow> s)
      else s)"

definition output_command :: "string \<Rightarrow> string list \<Rightarrow> rwl \<Rightarrow> rwl" where
  "output_command cmd args s =
     (let (mon_name, val) = (case args of
            a # b # _ \<Rightarrow> (a, b) | [a] \<Rightarrow> (''selected'', a) | [] \<Rightarrow> (''selected'', []));
          indices = (if mon_name = ''all'' then [0..<length (monitors s)]
                     else case find_monitor_idx s mon_name of Some i \<Rightarrow> [i] | None \<Rightarrow> []);
          affects_sel = (sel_mon s \<in> set indices);
          s1 = arrange_all (fold (on_output cmd val) indices s);
          s2 = (if affects_sel then refocus s1 else s1)
      in if cmd = ''view'' \<or> cmd = ''toggleview''
         then fold (\<lambda>i. emit (Ipc (EvTag i))) indices s2 else s2)"

section \<open>Queries and actions\<close>

definition info_reply :: "rwl \<Rightarrow> string option \<Rightarrow> wid \<Rightarrow> string option" where
  "info_reply s fld w =
     (let (title, appid, t, fs, fl) = focused_facts s (Some w) in
      case fld of
        None \<Rightarrow> Some (''title: '' @ title @ [LF] @ ''class: '' @ appid @ [LF] @ ''tags: '' @ show_u32 t @ [LF] @
           ''fullscreen: '' @ show_nat fs @ [LF] @ ''floating: '' @ show_nat fl @ [LF])
      | Some f \<Rightarrow>
          if f = ''title'' then Some (title @ [LF])
          else if f = ''class'' \<or> f = ''appid'' then Some (appid @ [LF])
          else if f = ''tags'' then Some (show_u32 t @ [LF])
          else if f = ''fullscreen'' then Some (show_nat fs @ [LF])
          else if f = ''floating'' then Some (show_nat fl @ [LF])
          else None)"

definition query_reply :: "string \<Rightarrow> string list \<Rightarrow> rwl \<Rightarrow> string option" where
  "query_reply cmd args s =
     (let arg = first_arg Some args in
      if cmd = ''status'' then Some (filtered arg (format_status s))
      else if cmd = ''clients'' then Some (clients_json s)
      else case focused_window s of None \<Rightarrow> None | Some w \<Rightarrow> info_reply s arg w)"

text \<open>The commands that run an action, with their arguments.\<close>

definition socket_action :: "string \<Rightarrow> string list \<Rightarrow> action option" where
  "socket_action cmd args =
     (if cmd = ''tag'' then map_option Tag (first_arg parse_u32 args)
      else if cmd = ''toggletag'' then map_option ToggleTag (first_arg parse_u32 args)
      else if cmd = ''focusstack'' then map_option FocusStack (first_arg parse_i32 args)
      else if cmd = ''incnmaster'' then map_option IncNmaster (first_arg parse_i32 args)
      else if cmd = ''setmfact'' then map_option SetMfact (first_arg parse_f64 args)
      else if cmd = ''viewnextocctag'' then map_option ViewNextOccTag (first_arg parse_i32 args)
      else if cmd = ''focusmon'' then map_option FocusMon (first_arg parse_i32 args)
      else if cmd = ''tagmon'' then map_option TagMon (first_arg parse_i32 args)
      else if cmd = ''chvt'' then map_option Chvt (first_arg parse_u32 args)
      else if cmd = ''viewtag_spawn'' then map_option ViewTagSpawn (first_arg parse_u32 args)
      else if cmd = ''spawn'' then (if args \<noteq> [] then Some (Spawn args) else None)
      else if cmd = ''cyclelayout'' then Some CycleLayout
      else if cmd = ''zoom'' then Some Zoom
      else if cmd = ''viewprev'' then Some ViewPrev
      else if cmd = ''killclient'' then Some KillClient
      else if cmd = ''togglefloating'' then Some ToggleFloating
      else if cmd = ''togglefullscreen'' then Some ToggleFullscreen
      else if cmd = ''togglepassthrough'' then Some TogglePassthrough
      else if cmd = ''reloadconfig'' then Some ReloadConfig
      else if cmd = ''quit'' then Some Quit
      else if cmd = ''togglebar'' then Some ToggleBar
      else if cmd = ''barprompt'' then Some BarPrompt
      else if cmd = ''togglegaps'' then Some ToggleGaps
      else if cmd = ''lock'' then Some Lock
      else None)"

text \<open>After a resume: the devices are opened anew outside, keys are released, the cursor shown.\<close>

definition ipc_resume :: "rwl \<Rightarrow> rwl" where
  "ipc_resume s = handle_cursor_activity ((release_all_pressed_keys s)\<lparr>cursor_hidden := False\<rparr>)"

definition wallpaper_command :: "string list \<Rightarrow> rwl \<Rightarrow> rwl" where
  "wallpaper_command args s = (case args of
     [] \<Rightarrow> s
   | path # opts \<Rightarrow>
       if path \<in> {''off'', ''none'', ''clear''} then schedule_render (emit (SetWallpaper None None) s)
       else schedule_render (emit (SetWallpaper (Some path)
              (map_option mode_name (first_arg parse_mode opts))) s))"

section \<open>Connections\<close>

definition WM_COMMANDS :: "string list" where
  "WM_COMMANDS = [''status'', ''clients'', ''info'', ''subscribe'', ''watch'', ''focusurgent'', ''resume'',
     ''view'', ''toggleview'', ''setlayout'', ''wallpaper'', ''tag'', ''toggletag'', ''focusstack'', ''incnmaster'',
     ''setmfact'', ''viewnextocctag'', ''focusmon'', ''tagmon'', ''chvt'', ''viewtag_spawn'', ''spawn'', ''cyclelayout'',
     ''zoom'', ''viewprev'', ''killclient'', ''togglefloating'', ''togglefullscreen'', ''togglepassthrough'',
     ''reloadconfig'', ''quit'', ''togglebar'', ''barprompt'', ''togglegaps'', ''lock'']"

definition cmd_dispatch :: "(nat \<Rightarrow> string \<Rightarrow> bool) \<Rightarrow> nat \<Rightarrow> string \<Rightarrow> rwl \<times> server \<Rightarrow> rwl \<times> server" where
  "cmd_dispatch accepts conn line st = (case (split_ws line, st) of
     ([], _) \<Rightarrow> st
   | (cmd # args, (s, sv)) \<Rightarrow>
       if cmd \<in> {''status'', ''clients'', ''info''}
       then (case query_reply cmd args s of None \<Rightarrow> st | Some out \<Rightarrow> (s, write_all accepts conn out sv))
       else if cmd \<in> {''view'', ''toggleview'', ''setlayout''} then (output_command cmd args s, sv)
       else if cmd = ''resume'' then (ipc_resume s, sv)
       else if cmd = ''focusurgent'' then (focus_urgent s, sv)
       else if cmd = ''wallpaper'' then (wallpaper_command args s, sv)
       else case socket_action cmd args of Some a \<Rightarrow> (dispatch a s, sv) | None \<Rightarrow> st)"

text \<open>\<open>split([',', ' '])\<close>.\<close>

fun split_list :: "string \<Rightarrow> string list" where
  "split_list [] = [[]]"
| "split_list (c # cs) =
     (if c = CHR '','' \<or> c = CHR '' '' then [] # split_list cs
      else case split_list cs of [] \<Rightarrow> [[c]] | w # us \<Rightarrow> (c # w) # us)"

text \<open>
  A connection: \<open>input\<close> is what could be read from it, at most 65,536 bytes, if that is a
  valid text.
\<close>

definition cmd_handle :: "(nat \<Rightarrow> string \<Rightarrow> bool) \<Rightarrow> nat \<Rightarrow> string option \<Rightarrow> rwl \<times> server \<Rightarrow> rwl \<times> server" where
  "cmd_handle accepts conn input st = (case input of
     None \<Rightarrow> st
   | Some buf \<Rightarrow>
       let line = trim buf; (s, sv) = st in
       if line = ''subscribe'' \<or> prefix ''subscribe '' line
       then let r = trim (drop 9 line); f = (if r = [] then None else Some r);
                out = filtered f (format_status s)
            in (s, (write_all accepts conn out sv)\<lparr>subscribers := subscribers sv @ [(conn, f)]\<rparr>)
       else if line = ''watch'' \<or> prefix ''watch '' line
       then let r = trim (drop 5 line);
                f = (if r = [] then None else Some (filter (\<lambda>k. k \<noteq> []) (split_list r)))
            in (s, sv\<lparr>watchers := watchers sv @ [(conn, f)]\<rparr>)
       else cmd_dispatch accepts conn line st)"

section \<open>The client\<close>

text \<open>What \<^verbatim>\<open>rwl msg\<close> sends for its arguments, and whether it waits for an answer.\<close>

fun join_words :: "string list \<Rightarrow> string" where
  "join_words [] = []"
| "join_words [w] = w"
| "join_words (w # v # us) = w @ '' '' @ join_words (v # us)"

datatype request = Send string | Query string | Stream string | Usage

definition run_wm :: "string list \<Rightarrow> request" where
  "run_wm args = (let cmd = hd args in
     if cmd \<in> {''status'', ''info'', ''clients''} then Query (join_words args)
     else if cmd = ''subscribe'' then
       Stream (case args of _ # a # _ \<Rightarrow> ''subscribe '' @ a | _ \<Rightarrow> ''subscribe'')
     else if cmd = ''watch'' then
       Stream (if length args \<ge> 2 then ''watch '' @ join_words (tl args) else ''watch'')
     else if cmd \<in> {''view'', ''toggleview'', ''setlayout''} then Send (join_words args)
     else if cmd \<in> {''tag'', ''toggletag'', ''focusstack'', ''focusmon'', ''tagmon'', ''viewnextocctag'', ''incnmaster'',
        ''setmfact'', ''chvt'', ''viewtag_spawn'', ''spawn'', ''wallpaper''} \<and> length args \<ge> 2
     then Send (join_words args)
     else if cmd \<in> {''cyclelayout'', ''zoom'', ''viewprev'', ''killclient'', ''togglefloating'', ''togglefullscreen'',
        ''togglepassthrough'', ''reloadconfig'', ''focusurgent'', ''resume'', ''quit'', ''togglebar'', ''barprompt'',
        ''togglegaps'', ''lock''} then Send cmd
     else Usage)"

end
