(* ===== verification/Events.thy ===== *)
theory Events
  imports Frame Socket
begin

text \<open>
  The compositor as a state machine: one constructor per callback of the event loop, with
  what the toolkit hands to it, from the empty state that \<open>Rwl::new\<close> of
  \<^verbatim>\<open>src/state.rs\<close> builds. The invariants of the whole program are about runs.
\<close>

section \<open>The start\<close>

text \<open>
  The fields of the outside world (configuration, clock, Lua functions, clients and so
  on) are those of \<open>world\<close>; the rest is \<open>Rwl::new\<close>.
\<close>

definition rwl_new :: "rwl \<Rightarrow> rwl" where
  "rwl_new world = world\<lparr>ws := Map.empty, space := [], has_keyboard := False, pointer := None,
     pointer_grabbed := False, cursor_mode := CmNormal, cursor_hidden := False,
     cursor_hide_timer := False, key_repeat_action := None, key_repeat_timer := None,
     intercepted_keys := [], monitors := [], sel_mon := 0, tag_history := [],
     monitor_mem := Map.empty, monitor_bounds := (0, 0, 0, 0), windows := [],
     focus_stack := [], window_map := Map.empty, grabbed_window := None, grab_start := None,
     grab_geom := None, grab_mfact := None, grab_cfact := None, grab_col_idx := None,
     grab_col_facts := None, grab_was_floating := False, lock_surfaces := [], locked := False,
     native_lock := None, overview := None, mod_tap := None, pip := None,
     passthrough := False, running := True, initial_warp_done := False, startup_done := False,
     pending_tag_transition := None, x11_or_windows := [], hook_queue := [], hook_count := 0,
     trace := []\<rparr>"

section \<open>Events\<close>

datatype event =
  Key key_event
| Motion "wid option" "surface option" "f64 \<times> f64"
| MotionAbs "wid option" "surface option" "int \<times> int \<Rightarrow> f64 \<times> f64"
| Button "wid option" u32 bool modifiers
| KeyRepeat | CursorHide
| NewToplevel wid surface
| ToplevelDestroyed surface
| Commit surface bool "nat option" rect "surface option"
| FullscreenRequest surface bool
| ParentChanged surface
| ActivationRequest surface
| MapX11 wid | MapX11Or wid | UnmapX11 wid | PropertyX11 wid
| ConfigureX11 wid "int option" "int option" "u32 option" "u32 option"
| NotifyX11 wid point | DisconnectX11
| OutputAdded woutput | OutputRemoved woutput
| AuthResult bool | LockAnim | LockFlashEnd
| SessionLock | SessionUnlock | LockSurface surface "woutput option"
| Frame "nat \<Rightarrow> bool" "wstate \<Rightarrow> f64" bool
| TitlePoll | DrainHooks
| Command action
| Request "string option"
| InputReady
| World rwl

text \<open>
  A frame advances the overview and the slides and ends the finished slides.
\<close>

definition frame :: "(nat \<Rightarrow> bool) \<Rightarrow> (wstate \<Rightarrow> f64) \<Rightarrow> bool \<Rightarrow> rwl \<Rightarrow> rwl" where
  "frame over eased overview_over s =
     finalize_slide_outs (fst (advance_tag_transitions over eased
       (fst (overview_advance overview_over s))))"

text \<open>The outside moves on: its fields are taken from another state.\<close>

definition adopt :: "rwl \<Rightarrow> rwl \<Rightarrow> rwl" where
  "adopt w s = s\<lparr>now := now w, on_arrange_fn := on_arrange_fn w,
     window_rule_fn := window_rule_fn w, lua_on := lua_on w, layer_zone := layer_zone w,
     parent_pid := parent_pid w, out_mode := out_mode w, config_file := config_file w,
     config_error := config_error w, env_user := env_user w, env_logname := env_logname w,
     clients := clients w, pointer_grabbed := pointer_grabbed w\<rparr>"

fun handle :: "event \<Rightarrow> rwl \<Rightarrow> rwl" where
  "handle (Key e) s = fst (process_key_event e s)"
| "handle (Motion hover surf d) s = process_pointer_motion hover surf d s"
| "handle (MotionAbs hover surf p) s = process_pointer_motion_abs hover surf p s"
| "handle (Button hover b pressed mods) s = process_pointer_button hover b pressed mods s"
| "handle KeyRepeat s = key_repeat_fired s"
| "handle CursorHide s = cursor_hide_fired s"
| "handle (NewToplevel w surf) s = new_toplevel w surf s"
| "handle (ToplevelDestroyed surf) s = toplevel_destroyed surf s"
| "handle (Commit surf sent lm zone kbd) s = commit surf sent lm zone kbd s"
| "handle (FullscreenRequest surf b) s = request_fullscreen surf b s"
| "handle (ParentChanged surf) s = parent_changed surf s"
| "handle (ActivationRequest surf) s = request_activation surf s"
| "handle (MapX11 w) s = map_x11_window w s"
| "handle (MapX11Or w) s = map_x11_override_redirect w s"
| "handle (UnmapX11 w) s = unmap_x11_window w s"
| "handle (PropertyX11 w) s = x11_property_notify w s"
| "handle (ConfigureX11 w rx ry rw rh) s = x11_configure_request w rx ry rw rh s"
| "handle (NotifyX11 w p) s = x11_configure_notify w p s"
| "handle DisconnectX11 s = x11_disconnected s"
| "handle (OutputAdded out) s = output_added out s"
| "handle (OutputRemoved out) s = output_removed out s"
| "handle (AuthResult ok) s = on_auth_result ok s"
| "handle LockAnim s = anim_tick s"
| "handle LockFlashEnd s = flash_end s"
| "handle SessionLock s = session_lock s"
| "handle SessionUnlock s = session_unlock s"
| "handle (LockSurface surf out) s = new_lock_surface surf out s"
| "handle (Frame over eased ov) s = frame over eased ov s"
| "handle TitlePoll s = check_toplevel_titles s"
| "handle DrainHooks s = drain s"
| "handle (Command a) s = dispatch a s"
| "handle (Request input) s = fst (cmd_handle (\<lambda>_ _. True) 0 input (s, no_server))"
| "handle InputReady s = s\<lparr>has_keyboard := True, pointer := Some (f_lit 0, f_lit 0)\<rparr>"
| "handle (World w) s = adopt w s"

text \<open>A new window is a new object.\<close>

fun enabled :: "event \<Rightarrow> rwl \<Rightarrow> bool" where
  "enabled (NewToplevel w surf) s = (w \<notin> known s)"
| "enabled (MapX11 w) s = (w \<notin> known s)"
| "enabled _ s = True"

inductive run :: "rwl \<Rightarrow> event list \<Rightarrow> rwl \<Rightarrow> bool" where
  start: "run s [] s"
| step: "run s es t \<Longrightarrow> enabled e t \<Longrightarrow> run s (es @ [e]) (handle e t)"

inductive_cases run_NilE: "run s [] t"
inductive_cases run_snocE: "run s (es @ [e]) t"

section \<open>Invariants of the event loop\<close>

text \<open>
  What an event may do to the core beyond an action. The answer of the password check is
  left out when it is positive: it is the one event that opens the built-in lock.
\<close>

locale event_invariant = action_invariant +
  assumes put_any: "P s \<Longrightarrow> P (s\<lparr>space := map_element (space s) v p\<rparr>)"
    and raise_any: "P s \<Longrightarrow> P (s\<lparr>focus_stack := raise_focus v (focus_stack s)\<rparr>)"
    and add_focus: "P s \<Longrightarrow> P (s\<lparr>focus_stack := w # filter (\<lambda>v. v \<noteq> w) (focus_stack s)\<rparr>)"
    and add_window: "P s \<Longrightarrow> w \<notin> known s \<Longrightarrow> P (s\<lparr>windows := w # windows s\<rparr>)"
    and forget: "P s \<Longrightarrow> P (s\<lparr>windows := filter q (windows s)\<rparr>)"
    and add_monitor: "P s \<Longrightarrow> P (s\<lparr>monitors := monitors s @ [m], tag_history := tag_history s @ [[]]\<rparr>)"
    and remove_monitor: "P s \<Longrightarrow> i < length (monitors s) \<Longrightarrow>
      P (s\<lparr>monitors := remove_at i (monitors s),
           tag_history := (if i < length (tag_history s) then remove_at i (tag_history s)
                           else tag_history s)\<rparr>)"
    and feed: "P s \<Longrightarrow> P (feed_key k c s)"
    and anim: "P s \<Longrightarrow> P (anim_tick s)"
    and flash: "P s \<Longrightarrow> P (flash_end s)"
    and refused: "P s \<Longrightarrow> P (on_auth_result False s)"
    and ext_lock: "P s \<Longrightarrow> P (session_lock s)"
    and ext_unlock: "P s \<Longrightarrow> P (session_unlock s)"
begin

lemma keep_focus [keep]: "P s \<Longrightarrow> P (focus_window w s)"
  unfolding focus_window_def by (intro keep_struct keep_let keep raise_any; assumption)

lemma keep_map [keep]: "P s \<Longrightarrow> P (map_at w p s)"
  by (simp add: map_at_def put_any)

lemma map_element_activating_fst:
  "map_element_activating sp w p = (a, b) \<Longrightarrow> a = map_element sp w p"
  by (auto simp: map_element_activating_def map_element_def split: prod.splits)

lemma keep_map_activating [keep]: "P s \<Longrightarrow> P (map_activating w p s)"
  unfolding map_activating_def Let_def
  by (intro keep_struct keep) (auto dest!: map_element_activating_fst simp: put_any)

text \<open>Windows come and go.\<close>

lemma keep_arrange_for_new [keep]: "P s \<Longrightarrow> P (arrange_for_new w prev s)"
  unfolding arrange_for_new_def by (intro keep_struct keep_let keep; assumption)

lemma known_map_activating [simp]: "known (map_activating w p s) = known s"
  by (auto simp: map_activating_def known_def emits_def split: prod.split)

lemma keep_new_window:
  assumes "P s" "w \<notin> known s"
  shows "P (s\<lparr>windows := w # windows s, window_map := wm\<rparr>)"
  using keep_fields(16) [OF add_window [OF assms], of wm] by simp

lemma keep_new_toplevel: "P s \<Longrightarrow> w \<notin> known s \<Longrightarrow> P (new_toplevel w surf s)"
  unfolding new_toplevel_def Let_def split_def
  by (intro keep add_focus keep_new_window) auto

lemma keep_unlisted:
  assumes s: "P s"
  shows "P (s\<lparr>window_map := wm, windows := filter p (windows s), focus_stack := filter q (focus_stack s)\<rparr>)"
    and "P (s\<lparr>windows := filter p (windows s), focus_stack := filter q (focus_stack s)\<rparr>)"
proof -
  have wm: "P (s\<lparr>window_map := wm\<rparr>)" using s by (rule keep)
  have *: "P (t\<lparr>windows := filter p (windows t), focus_stack := filter q (focus_stack t)\<rparr>)" if t: "P t" for t
    using unfocus [OF forget [OF t, of p], of q] by simp
  from * [OF wm] * [OF s]
  show "P (s\<lparr>window_map := wm, windows := filter p (windows s), focus_stack := filter q (focus_stack s)\<rparr>)"
    "P (s\<lparr>windows := filter p (windows s), focus_stack := filter q (focus_stack s)\<rparr>)"
    by simp_all
qed

lemma keep_forget [keep]: "P s \<Longrightarrow> P (forget_surface surf s)"
  by (simp add: forget_surface_def keep_unlisted)

lemma keep_destroyed [keep]: "P s \<Longrightarrow> P (toplevel_destroyed surf s)"
proof -
  assume s: "P s"
  let ?s1 = "forget_surface surf s"
  have 1: "P s2" if "(case window_map s surf of Some w \<Rightarrow> close_window w b ?s1 | None \<Rightarrow> (?s1, None)) = (s2, r)"
    for b s2 r
    using that keep_forget [OF s] by (auto split: option.splits dest: keep_close_window)
  show ?thesis unfolding toplevel_destroyed_def Let_def
    by (intro keep_struct(2-3) keep; rule 1)
qed

text \<open>Commits and requests.\<close>

lemma keep_rules [keep]:
  "P s \<Longrightarrow> P (apply_rules w s)" "P s \<Longrightarrow> P (try_swallow w s)"
  unfolding apply_rules_def place_with_parent_def override_no_swallow_def jump_to_rule_tag_def
    try_swallow_def do_swallow_def
  by (intro keep_struct keep_let keep; assumption)+

lemma keep_commit_steps [keep]:
  "P s \<Longrightarrow> P (commit_border w s)" "P s \<Longrightarrow> P (first_commit w s)" "P s \<Longrightarrow> P (commit_rules w b s)"
  "P s \<Longrightarrow> P (first_buffer w s)" "P s \<Longrightarrow> P (commit_buffer w s)" "P s \<Longrightarrow> P (commit_center w s)"
  "P s \<Longrightarrow> P (commit_names w s)" "P s \<Longrightarrow> P (update_layer_focus f s)" "P s \<Longrightarrow> P (commit_layer i z f s)"
  unfolding commit_border_def first_commit_def commit_rules_def first_buffer_def commit_buffer_def
    commit_center_def commit_names_def update_layer_focus_def commit_layer_def
  by (intro keep_struct keep_let keep; assumption)+

lemma keep_requests [keep]:
  "P s \<Longrightarrow> P (commit surf b lm z f s)" "P s \<Longrightarrow> P (request_fullscreen surf b s)"
  "P s \<Longrightarrow> P (parent_changed surf s)" "P s \<Longrightarrow> P (request_activation surf s)"
  unfolding commit_def commit_toplevel_def request_fullscreen_def parent_changed_def
    request_activation_def
  by (intro keep_struct keep_let keep; assumption)+

text \<open>X11 windows.\<close>

lemma keep_x11 [keep]:
  "P s \<Longrightarrow> P (center_x11 w s)" "P s \<Longrightarrow> P (map_x11_override_redirect w s)"
  "P s \<Longrightarrow> P (x11_property_notify w s)" "P s \<Longrightarrow> P (x11_configure_request w rx ry rw rh s)"
  "P s \<Longrightarrow> P (x11_configure_notify w p s)"
  unfolding center_x11_def map_x11_override_redirect_def x11_property_notify_def
    x11_configure_request_def x11_configure_notify_def
  by (intro keep_struct keep_let keep; assumption)+

lemma keep_dismiss [keep]: "P s \<Longrightarrow> P (dismiss_x11_popups s)"
  unfolding dismiss_x11_popups_def by (intro keep_struct keep keep_fold; assumption)

lemma keep_map_x11: "P s \<Longrightarrow> w \<notin> known s \<Longrightarrow> P (map_x11_window w s)"
  unfolding map_x11_window_def Let_def split_def
  by (intro keep_struct keep keep_new_window) auto

lemma keep_unmap_x11 [keep]: "P s \<Longrightarrow> P (unmap_x11_window w s)"
  unfolding unmap_x11_window_def by (intro keep_struct keep_let keep keep_unlisted; assumption)

lemma keep_disconnect [keep]: "P s \<Longrightarrow> P (x11_disconnected s)"
  unfolding x11_disconnected_def
  by (intro keep_struct keep_let keep keep_fold keep_unlisted; assumption)

text \<open>Outputs.\<close>

lemma keep_output_added [keep]: "P s \<Longrightarrow> P (output_added out s)"
proof -
  assume s: "P s"
  have "P (s\<lparr>monitors := monitors s @ [m], tag_history := tag_history s @ [[]], monitor_mem := mm\<rparr>)"
    for m mm
    using keep_fields(32) [OF add_monitor [OF s, of m], of mm] by simp
  then show ?thesis unfolding output_added_def hooks_startup_def
    by (intro keep_let keep_struct keep; simp only:)
qed

lemma keep_output_removed [keep]: "P s \<Longrightarrow> P (output_removed out s)"
proof -
  assume s: "P s"
  have "P (remove_monitor out i s)" if "monitor_for_output s out = Some i" for i
  proof -
    have i: "i < length (monitors s)"
      using that position_Some by (fastforce simp: monitor_for_output_def)
    show ?thesis unfolding remove_monitor_def Let_def
      by (intro keep; rule core [OF remove_monitor [OF s i]])
        (simp add: core_def update_monitor_bounds_def)
  qed
  then show ?thesis unfolding output_removed_def by (intro keep keep_struct s)
qed

text \<open>Grabs and input.\<close>

lemma keep_grabs [keep]:
  "P s \<Longrightarrow> P (start_move w s)" "P s \<Longrightarrow> P (grab_snapshot w s)" "P s \<Longrightarrow> P (start_resize w s)"
  "P s \<Longrightarrow> P (handle_move p s)" "P s \<Longrightarrow> P (end_grab s)" "P s \<Longrightarrow> P (apply_cfact w n d s)"
  "P s \<Longrightarrow> P (resize_col i f s)"
  unfolding start_move_def grab_snapshot_def start_resize_def handle_move_def end_grab_def
    apply_cfact_def resize_col_def
  by (intro keep_struct keep_let keep; assumption)+

lemma keep_resize [keep]: "P s \<Longrightarrow> P (resize_tiled w i g dx dy s)" "P s \<Longrightarrow> P (handle_resize p s)"
proof -
  show *: "P s \<Longrightarrow> P (resize_tiled w i g dx dy s)" for s w i g dx dy
    unfolding resize_tiled_def Let_def
    by (cases "layout_kind_of (cfg s) (monitors s ! i)"; simp only: layout_kind.case;
        intro keep_struct keep; assumption)
  show "P s \<Longrightarrow> P (handle_resize p s)"
    unfolding handle_resize_def by (intro keep_struct keep_let keep *; assumption)
qed

lemma keep_keys [keep]:
  "P s \<Longrightarrow> P (start_key_repeat a s)" "P s \<Longrightarrow> P (key_repeat_fired s)" "P s \<Longrightarrow> P (update_mod_tap b x y s)"
  unfolding start_key_repeat_def key_repeat_fired_def update_mod_tap_def
  by (intro keep_struct keep_let keep; assumption)+

lemma keep_filter: "P s \<Longrightarrow> key_filter e s = (s', v) \<Longrightarrow> P s'"
  unfolding key_filter_def by (auto intro!: keep feed split: if_splits)

lemma keep_key_event [keep]: "P s \<Longrightarrow> P (fst (process_key_event e s))"
proof -
  assume "P s"
  then have 1: "P s1" if "key_filter e (emit IdleActivity s) = (s1, v)" for s1 v
    using that keep_filter keep by metis
  show ?thesis
    using \<open>P s\<close> 1
    by (auto simp: process_key_event_def Let_def intro!: keep split: prod.split option.split)
qed

lemma keep_pointer [keep]:
  "P s \<Longrightarrow> P (route_pointer p f s)" "P s \<Longrightarrow> P (focus_follows h s)"
  "P s \<Longrightarrow> P (pointer_moved b h f p s)" "P s \<Longrightarrow> P (process_pointer_motion h f d s)"
  "P s \<Longrightarrow> P (process_pointer_motion_abs h f q s)" "P s \<Longrightarrow> P (release_button s)"
  unfolding route_pointer_def focus_follows_def pointer_moved_def process_pointer_motion_def
    process_pointer_motion_abs_def release_button_def
  by (intro keep_struct keep_let keep; assumption)+

lemma keep_press: "P s \<Longrightarrow> press_button h b m s = (s', v) \<Longrightarrow> P s'"
  unfolding press_button_def Let_def
  by (auto intro!: keep split: if_splits option.splits action.splits)

lemma keep_button [keep]: "P s \<Longrightarrow> P (process_pointer_button h b d m s)"
  unfolding process_pointer_button_def Let_def
  by (intro keep_struct keep) (auto intro!: keep elim!: keep_press [rotated] split: if_splits)

text \<open>Frames and the outside.\<close>

lemma keep_frame [keep]: "P s \<Longrightarrow> P (frame over eased b s)"
proof -
  have fc: "P s \<Longrightarrow> P (finish_close s)" for s
    unfolding finish_close_def
    by (intro keep_struct keep_let keep) (auto intro!: keep split: option.split selection.split)
  have oa: "P s \<Longrightarrow> P (fst (overview_advance b s))" for s
    by (auto simp: overview_advance_def intro!: fc split: option.split)
  have "P s \<Longrightarrow> P (fst (advance_tag_transitions over eased s))" for s
    by (auto simp: advance_tag_transitions_def intro!: keep)
  then show "P s \<Longrightarrow> P (frame over eased b s)"
    by (simp add: frame_def oa keep)
qed

lemma keep_outside [keep]:
  "P s \<Longrightarrow> P (adopt w s)" "P s \<Longrightarrow> P (cursor_hide_fired s)" "P s \<Longrightarrow> P (new_lock_surface f out s)"
  "P s \<Longrightarrow> P (s\<lparr>has_keyboard := b, pointer := p\<rparr>)"
  by (erule core; simp add: core_def adopt_def cursor_hide_fired_def new_lock_surface_def
      schedule_render_def emit_def set_focus_def split: option.split list.split)+

text \<open>Requests of the command socket.\<close>

lemma keep_outputs [keep]:
  "P s \<Longrightarrow> P (view_output t i s)" "P s \<Longrightarrow> P (toggleview_output t i s)" "P s \<Longrightarrow> P (setlayout_output l i s)"
  "P s \<Longrightarrow> P (ipc_resume s)" "P s \<Longrightarrow> P (wallpaper_command args s)"
  unfolding view_output_def toggleview_output_def setlayout_output_def ipc_resume_def wallpaper_command_def
  by (auto simp: Let_def intro!: keep split: option.split list.split)

lemma keep_output_command [keep]: "P s \<Longrightarrow> P (output_command cmd args s)"
proof -
  have "P s \<Longrightarrow> P (on_output cmd val i s)" for val i s
    unfolding on_output_def by (intro keep_struct keep)
  then show "P s \<Longrightarrow> P (output_command cmd args s)"
    unfolding output_command_def by (intro keep_struct keep_let keep keep_fold)
qed

lemma keep_request [keep]: "P s \<Longrightarrow> P (fst (cmd_handle accepts c input (s, sv)))"
  by (auto simp: cmd_handle_def cmd_dispatch_def Let_def intro!: keep split: option.split list.split)

text \<open>Every event, and so every run.\<close>

lemma keep_handle:
  assumes "P s" "enabled e s" "e \<noteq> AuthResult True"
  shows "P (handle e s)"
  using assms
  by (cases e)
    (auto intro: keep keep_new_toplevel keep_map_x11 refused anim flash ext_lock ext_unlock
      simp del: layout_keeps)

lemma keep_run:
  assumes "run s es t" "P s" "AuthResult True \<notin> set es"
  shows "P t"
  using assms by (induction rule: run.induct) (auto intro: keep_handle)

lemma keep_any_run:
  assumes "run s es t" "P s" "\<And>s. P s \<Longrightarrow> P (on_auth_result True s)"
  shows "P t"
  using assms
proof (induction rule: run.induct)
  case (step s es t e)
  then show ?case by (cases "e = AuthResult True") (auto intro: keep_handle)
qed

end

end
