(* ===== verification/Invariants.thy ===== *)
theory Invariants
  imports Events
begin

text \<open>
  The invariants of the program: the shape of the window lists, of the plane and of the
  tag histories, the state of the locker, and what no action can do to the windows. Each
  is an interpretation of a locale of \<open>Frame\<close> or \<open>Events\<close>.
\<close>

section \<open>The shape of the state\<close>

definition wf_history :: "u32 list \<Rightarrow> bool" where
  "wf_history h \<longleftrightarrow> distinct h \<and> length h \<le> 16"

definition wf_core :: "rwl \<Rightarrow> bool" where
  "wf_core s \<longleftrightarrow> distinct (windows s) \<and> distinct (focus_stack s) \<and> wf_space (space s) \<and>
     length (tag_history s) = length (monitors s) \<and> list_all wf_history (tag_history s)"

lemma raise_focus_eq: "distinct st \<Longrightarrow> raise_focus w st = w # filter (\<lambda>v. v \<noteq> w) st"
proof (cases "position (\<lambda>v. v = w) st")
  case None
  then have "\<forall>v \<in> set st. v \<noteq> w" by (simp add: position_None)
  then have "filter (\<lambda>v. v \<noteq> w) st = st" by (simp add: filter_id_conv)
  with None show ?thesis by (simp add: raise_focus_def)
next
  case (Some k)
  assume d: "distinct st"
  from position_Some [OF Some] have k: "k < length st" "st ! k = w" by auto
  then have st: "st = take k st @ w # drop (Suc k) st" using id_take_nth_drop by blast
  with d have "w \<notin> set (take k st)" "w \<notin> set (drop (Suc k) st)"
    by (metis distinct_append not_distinct_conv_prefix, metis distinct.simps(2) distinct_append)
  then have "filter (\<lambda>v. v \<noteq> w) (take k st) = take k st"
    "filter (\<lambda>v. v \<noteq> w) (drop (Suc k) st) = drop (Suc k) st"
    by (auto intro!: filter_True)
  then have f: "filter (\<lambda>v. v \<noteq> w) (take k st @ w # drop (Suc k) st) = take k st @ drop (Suc k) st"
    by simp
  have "filter (\<lambda>v. v \<noteq> w) st = take k st @ drop (Suc k) st"
    by (subst st) (rule f)
  with Some k show ?thesis by (simp add: raise_focus_def rotate_prefix_def)
qed

lemma set_raise_focus: "set (raise_focus w st) = insert w (set st)"
proof (cases "position (\<lambda>v. v = w) st")
  case (Some k)
  then have "k < length st" "w \<in> set st" using position_Some by (fastforce, fastforce)
  with Some show ?thesis by (auto simp: raise_focus_def set_rotate_prefix)
qed (simp add: raise_focus_def)

lemma wf_push: "wf_history h \<Longrightarrow> wf_history (push_history t h)"
  by (auto simp: wf_history_def push_history_def Let_def distinct_tl
      dest: order_trans [OF length_filter_le])

lemma wf_prune: "wf_history h \<Longrightarrow> wf_history (filter r h)"
  by (auto simp: wf_history_def dest: order_trans [OF length_filter_le])

lemma list_all_update_at:
  "list_all p xs \<Longrightarrow> (\<And>x. p x \<Longrightarrow> p (f x)) \<Longrightarrow> list_all p (update_at i f xs)"
  by (auto simp: list_all_length nth_update_at)

lemma list_all_remove_at: "list_all p xs \<Longrightarrow> list_all p (remove_at i xs)"
  using set_remove_at by (fastforce simp: list_all_iff)

lemma wf_core_cong: "wf_core s \<Longrightarrow> core s' = core s \<Longrightarrow> wf_core s'"
  by (simp add: wf_core_def core_def)

text \<open>The operations of the locks touch nothing else of the core.\<close>

definition shape :: "rwl \<Rightarrow> wid list \<times> wid list \<times> space \<times> u32 list list \<times> nat" where
  "shape s = (windows s, focus_stack s, space s, tag_history s, length (monitors s))"

lemma shape_lock [simp]:
  "shape (native_lock_start s) = shape s" "shape (feed_key k c s) = shape s"
  "shape (anim_tick s) = shape s" "shape (flash_end s) = shape s"
  "shape (on_auth_result b s) = shape s" "shape (session_lock s) = shape s"
  "shape (session_unlock s) = shape s"
  by (auto simp: shape_def native_lock_start_def feed_key_def anim_tick_def flash_end_def
      on_auth_result_def native_unlock_def session_lock_def session_unlock_def fire_def
      set_focus_def emit_def emits_def release_all_pressed_keys_def reevaluate_pointer_def
      stop_key_repeat_def schedule_render_def Let_def split: option.split prod.split)

lemma wf_core_shape: "wf_core s \<Longrightarrow> shape s' = shape s \<Longrightarrow> wf_core s'"
  by (simp add: wf_core_def shape_def)

interpretation wf: event_invariant wf_core
proof
  show "wf_core s \<Longrightarrow> core s' = core s \<Longrightarrow> wf_core s'" for s s' by (rule wf_core_cong)
next
  fix s :: rwl and v :: wid and p :: point and q t i m r
  assume wf: "wf_core s"
  show "wf_core (s\<lparr>space := map_element (space s) v p\<rparr>)"
    "wf_core (s\<lparr>space := relocate_element (space s) v p\<rparr>)"
    "wf_core (s\<lparr>space := unmap_elem (space s) v\<rparr>)"
    "wf_core (s\<lparr>focus_stack := raise_focus v (focus_stack s)\<rparr>)"
    "wf_core (s\<lparr>focus_stack := v # filter (\<lambda>u. u \<noteq> v) (focus_stack s)\<rparr>)"
    "wf_core (s\<lparr>focus_stack := filter q (focus_stack s)\<rparr>)"
    "wf_core (s\<lparr>windows := filter q (windows s)\<rparr>)"
    "wf_core (s\<lparr>monitors := monitors s @ [m], tag_history := tag_history s @ [[]]\<rparr>)"
    using wf by (auto simp: wf_core_def raise_focus_eq wf_history_def)
  show "wf_core (s\<lparr>space := map_element (space s) v p\<rparr>)"
    "wf_core (s\<lparr>focus_stack := raise_focus v (focus_stack s)\<rparr>)"
    using wf by (auto simp: wf_core_def raise_focus_eq)
  show "wf_core (s\<lparr>tag_history := update_at i (push_history t) (tag_history s)\<rparr>)"
    "wf_core (s\<lparr>tag_history := update_at i (filter r) (tag_history s)\<rparr>)"
    using wf by (auto simp: wf_core_def intro!: list_all_update_at wf_push wf_prune)
  show "wf_core (s\<lparr>windows := rotate_prefix i (windows s)\<rparr>)" if "i < length (windows s)"
    using wf that by (simp add: wf_core_def distinct_rotate_prefix)
  show "wf_core (s\<lparr>windows := v # windows s\<rparr>)" if "v \<notin> known s"
    using wf that by (simp add: wf_core_def known_def)
  show "wf_core (s\<lparr>monitors := remove_at i (monitors s),
      tag_history := (if i < length (tag_history s) then remove_at i (tag_history s)
                      else tag_history s)\<rparr>)" if "i < length (monitors s)"
    using wf that by (simp add: wf_core_def length_remove_at list_all_remove_at)
qed (erule wf_core_shape, simp)+

lemma wf_core_new: "wf_core (rwl_new world)"
  by (simp add: wf_core_def rwl_new_def)

section \<open>The built-in lock\<close>

text \<open>
  The locker only exists while the session is locked; its buffer stays small, is empty
  during a check and every phase it waits in has the timer that ends it.
\<close>

definition lk_ok :: "lock_state \<Rightarrow> bool" where
  "lk_ok l \<longleftrightarrow> byte_len (lk_password l) \<le> 1027 \<and>
     (lk_phase l = Authenticating \<longrightarrow> lk_password l = [] \<and> lk_anim_timer l) \<and>
     (lk_auth_started l \<noteq> None \<longleftrightarrow> lk_phase l = Authenticating) \<and>
     (lk_phase l = Failed \<longrightarrow> lk_flash_timer l)"

definition wf_lock :: "rwl \<Rightarrow> bool" where
  "wf_lock s \<longleftrightarrow> (case native_lock s of None \<Rightarrow> True | Some l \<Rightarrow> locked s \<and> lk_ok l)"

definition lk_core :: "rwl \<Rightarrow> bool \<times> lock_state option" where
  "lk_core s = (locked s, native_lock s)"

lemma byte_len_simps [simp]:
  "byte_len [] = 0" "byte_len (a @ b) = byte_len a + byte_len b" "byte_len (c # a) = utf8_len c + byte_len a"
  by (simp_all add: byte_len_def)

lemma utf8_len_le: "utf8_len c \<le> 4"
  by (simp add: utf8_len_def)

lemma byte_len_butlast: "byte_len (butlast cs) \<le> byte_len cs"
  by (induction cs) auto

text \<open>What a key leaves of the locker is well formed, once the animation is started.\<close>

lemma lk_key_ok:
  assumes "lk_ok l"
  shows "lk_ok (let l1 = fst (lk_key t k c l) in
    if lk_phase l1 = Authenticating \<and> \<not> lk_anim_timer l1 then start_auth_animation l1 else l1)"
proof -
  have "byte_len (lk_password (lk_push ch l)) \<le> 1027" for ch
    using assms utf8_len_le [of ch] by (simp add: lk_push_def lk_ok_def PASSWORD_CAP_def)
  then show ?thesis
    using assms order_trans [OF byte_len_butlast, of "lk_password l" 1027]
    by (auto simp: lk_key_def lk_submit_def lk_clear_def lk_backspace_def lk_ok_def Let_def
        start_auth_animation_def lk_push_def split: option.split)
qed

lemma native_lock_feed:
  "native_lock (feed_key k c s) = map_option (\<lambda>l. let l1 = fst (lk_key (now s) k c l) in
     if lk_phase l1 = Authenticating \<and> \<not> lk_anim_timer l1 then start_auth_animation l1 else l1)
     (native_lock s)"
  "locked (feed_key k c s) = locked s"
  by (auto simp: feed_key_def schedule_render_def emit_def emits_def Let_def split: option.split prod.split)

lemma native_lock_start_cases:
  "native_lock_start s = s \<or>
   locked (native_lock_start s) \<and>
     (\<exists>l. native_lock (native_lock_start s) = Some l \<and> lk_phase l = Typing \<and> lk_password l = [] \<and>
          lk_auth_started l = None)"
proof (cases "locked s \<or> native_lock s \<noteq> None")
  case False
  have "lk_core (reevaluate_pointer (set_focus f t)) = lk_core t" for f t
    by (simp add: lk_core_def reevaluate_pointer_def set_focus_def emit_def split: option.split)
  with False show ?thesis
    by (simp add: native_lock_start_def fire_def stop_key_repeat_def schedule_render_def emit_def
        Let_def lk_core_def)
qed (simp add: native_lock_start_def)

lemma lock_events:
  "lk_core (anim_tick s) = (locked s, map_option (\<lambda>l. if lk_phase l = Authenticating
     then l\<lparr>lk_generation := bump (lk_generation l)\<rparr> else l\<lparr>lk_anim_timer := False\<rparr>) (native_lock s))"
  "lk_core (flash_end s) = (locked s, map_option (\<lambda>l. let l1 = l\<lparr>lk_flash_timer := False\<rparr> in
     if lk_phase l1 = Failed then l1\<lparr>lk_phase := Typing, lk_generation := bump (lk_generation l1)\<rparr>
     else l1) (native_lock s))"
  "lk_core (on_auth_result False s) = (locked s, map_option (\<lambda>l. l\<lparr>lk_password := [],
     lk_phase := Failed, lk_auth_started := None, lk_generation := bump (lk_generation l),
     lk_flash_timer := True\<rparr>) (native_lock s))"
  "lk_core (on_auth_result True s) = (False, None)"
  "lk_core (session_lock s) = (if native_lock s = None then (True, None) else lk_core s)"
  "lk_core (session_unlock s) = (if native_lock s = None then (False, None) else lk_core s)"
  by (auto simp: lk_core_def anim_tick_def flash_end_def on_auth_result_def native_unlock_def
      session_lock_def session_unlock_def fire_def set_focus_def emit_def Let_def
      release_all_pressed_keys_def reevaluate_pointer_def schedule_render_def split: option.split)

lemma lk_ok_timers:
  assumes "lk_ok l"
  shows "lk_phase l = Authenticating \<Longrightarrow> lk_ok (l\<lparr>lk_generation := g\<rparr>)"
    "lk_phase l \<noteq> Authenticating \<Longrightarrow> lk_ok (l\<lparr>lk_anim_timer := False\<rparr>)"
    "lk_phase l \<noteq> Failed \<Longrightarrow> lk_ok (l\<lparr>lk_flash_timer := False\<rparr>)"
    "lk_phase l = Failed \<Longrightarrow>
       lk_ok (l\<lparr>lk_flash_timer := False, lk_phase := Typing, lk_generation := g\<rparr>)"
    "lk_ok (l\<lparr>lk_password := [], lk_phase := Failed, lk_auth_started := None,
       lk_generation := g, lk_flash_timer := True\<rparr>)"
  using assms by (auto simp: lk_ok_def)

lemma wf_lock_core: "wf_lock s \<longleftrightarrow> (case lk_core s of (b, None) \<Rightarrow> True | (b, Some l) \<Rightarrow> b \<and> lk_ok l)"
  by (simp add: wf_lock_def lk_core_def split: option.split)

interpretation lock: event_invariant wf_lock
proof
  fix s
  assume wf: "wf_lock s"
  show "wf_lock (native_lock_start s)"
    using native_lock_start_cases [of s]
  proof
    assume "native_lock_start s = s"
    with wf show ?thesis by simp
  qed (auto simp: wf_lock_def lk_ok_def)
  show "wf_lock (feed_key k c s)" for k c
    using wf by (auto simp: wf_lock_def native_lock_feed lk_key_ok split: option.splits)
  show "wf_lock (anim_tick s)" "wf_lock (flash_end s)" "wf_lock (on_auth_result False s)"
    "wf_lock (session_lock s)" "wf_lock (session_unlock s)"
    using wf unfolding wf_lock_core lock_events
    by (cases "native_lock s"; clarsimp simp: lk_core_def Let_def lk_ok_timers)+
qed (simp_all add: wf_lock_core lk_core_def core_def)

lemma wf_lock_new: "wf_lock (rwl_new world)"
  by (simp add: wf_lock_def rwl_new_def)

text \<open>Locked by the built-in locker: no event but its own answer opens it.\<close>

definition natively_locked :: "rwl \<Rightarrow> bool" where
  "natively_locked s \<longleftrightarrow> locked s \<and> native_lock s \<noteq> None"

interpretation nat_lock: event_invariant natively_locked
proof
  fix s
  assume l: "natively_locked s"
  show "natively_locked (native_lock_start s)"
    using l by (simp add: natively_locked_def native_lock_start_def)
  show "natively_locked (feed_key k c s)" for k c
    using l by (simp add: natively_locked_def native_lock_feed)
  show "natively_locked (anim_tick s)" "natively_locked (flash_end s)"
    "natively_locked (on_auth_result False s)" "natively_locked (session_lock s)"
    "natively_locked (session_unlock s)"
    using l lock_events [of s] by (auto simp: natively_locked_def lk_core_def)
qed (auto simp: natively_locked_def core_def)

section \<open>Windows under actions\<close>

interpretation population: action_invariant
  "\<lambda>s. (mset (windows s), length (monitors s)) = M" for M
proof
  show "(mset (windows (native_lock_start s)), length (monitors (native_lock_start s))) = M"
    if "(mset (windows s), length (monitors s)) = M" for s
    using that shape_lock(1) [of s] by (simp add: shape_def)
qed (auto simp: core_def mset_rotate_prefix)

text \<open>A window that is in no list stays out of all of them.\<close>

definition gone :: "wid \<Rightarrow> rwl \<Rightarrow> bool" where
  "gone w s \<longleftrightarrow> w \<notin> known s \<and> w \<notin> set (elements (space s))"

lemma map_fst_update_at: "map fst (update_at i (\<lambda>e. (fst e, p)) sp) = map fst sp"
  by (simp add: update_at_def map_update) (metis length_map list_update_id nth_map)

lemma elements_ops:
  "set (elements (map_element sp v p)) \<subseteq> insert v (set (elements sp))"
  "set (elements (relocate_element sp v p)) \<subseteq> set (elements sp)"
  "set (elements (unmap_elem sp v)) \<subseteq> set (elements sp)"
proof -
  show 1: "set (elements (unmap_elem sp v)) \<subseteq> set (elements sp)" for sp v
    by (auto simp: unmap_elem_def elements_def split: option.split dest: subsetD [OF set_remove_at])
  show "set (elements (map_element sp v p)) \<subseteq> insert v (set (elements sp))"
    using 1 [of sp v] by (auto simp: map_element_eq elements_def)
  show "set (elements (relocate_element sp v p)) \<subseteq> set (elements sp)"
    unfolding elements_def relocate_element_def
    by (cases "elem_pos sp v") (simp_all add: map_fst_update_at del: set_map)
qed

interpretation gone: action_invariant "gone w" for w
proof
  fix s v p and k :: nat
  assume g: "gone w s"
  then have w: "w \<notin> known s" "w \<notin> set (elements (space s))" by (auto simp: gone_def)
  show "gone w (s\<lparr>space := map_element (space s) v p\<rparr>)" if "v \<in> set (windows s)"
    using w that elements_ops(1) [of "space s" v p] by (auto simp: gone_def known_def)
  show "gone w (s\<lparr>space := relocate_element (space s) v p\<rparr>)"
    "gone w (s\<lparr>space := unmap_elem (space s) v\<rparr>)"
    using w elements_ops(2) [of "space s" v p] elements_ops(3) [of "space s" v]
    by (auto simp: gone_def known_def)
  show "gone w (s\<lparr>focus_stack := raise_focus v (focus_stack s)\<rparr>)" if "v \<in> known s"
    using w that by (auto simp: gone_def known_def set_raise_focus)
  show "gone w (native_lock_start s)"
    using w shape_lock(1) [of s] by (simp add: gone_def known_def shape_def)
  show "gone w (s\<lparr>windows := rotate_prefix k (windows s)\<rparr>)" if "k < length (windows s)"
    using w that by (simp add: gone_def known_def set_rotate_prefix)
qed (auto simp: gone_def known_def core_def)

end
