(* ===== verification/Reachable.thy ===== *)
theory Reachable
  imports Invariants
begin

text \<open>
  The properties of whole runs of the compositor, and what actions and closing windows
  cannot do: interpretations of the locales of \<open>Frame\<close> and \<open>Events\<close>, read off for runs from
  the empty state.
\<close>

section \<open>Runs from the start\<close>

text \<open>C4: from the empty state, whatever the devices, clients, outputs, lockers and Lua
  callbacks do and in whatever order, no window is listed, focusable or placed twice,
  each monitor has a tag history, and a history holds at most sixteen different views.\<close>

theorem reachable_wf_core:
  assumes "run (rwl_new world) es s"
  shows "distinct (windows s) \<and> distinct (focus_stack s) \<and> distinct (elements (space s)) \<and>
    length (tag_history s) = length (monitors s) \<and>
    (\<forall>h \<in> set (tag_history s). distinct h \<and> length h \<le> 16)"
proof -
  have "wf_core (on_auth_result True t)" if "wf_core t" for t
    using that by (rule wf_core_shape) simp
  then have "wf_core s" using wf.keep_any_run [OF assms wf_core_new] by blast
  then show ?thesis by (auto simp: wf_core_def wf_space_def elements_def wf_history_def list_all_iff)
qed

text \<open>C13: in every run the built-in locker exists only while the session is locked, its
  password buffer holds at most 1,027 bytes and is empty during a check, a check is being
  waited for exactly in that phase, and the red flash always has the timer that ends it.\<close>

theorem reachable_lock_state:
  assumes "run (rwl_new world) es s" "native_lock s = Some l"
  shows "locked s \<and> byte_len (lk_password l) \<le> 1027 \<and>
    (lk_phase l = Authenticating \<longrightarrow> lk_password l = [] \<and> lk_anim_timer l) \<and>
    (lk_auth_started l \<noteq> None \<longleftrightarrow> lk_phase l = Authenticating) \<and>
    (lk_phase l = Failed \<longrightarrow> lk_flash_timer l)"
proof -
  have "wf_lock (on_auth_result True t)" if "wf_lock t" for t
    using lock_events(4) [of t] by (simp add: wf_lock_core)
  then have "wf_lock s" using lock.keep_any_run [OF assms(1) wf_lock_new] by blast
  with assms(2) show ?thesis by (simp add: wf_lock_def lk_ok_def)
qed

text \<open>C1: a session locked by the built-in locker stays locked, with the locker alive,
  through every sequence of events that holds no positive answer of the password check:
  no key, hook, action, external locker or device change opens it; and while it is locked
  no key reaches a client.\<close>

theorem only_the_password_unlocks:
  assumes "run s es t" "locked s" "native_lock s \<noteq> None" "AuthResult True \<notin> set es"
  shows "locked t \<and> native_lock t \<noteq> None \<and> \<not> snd (process_key_event e t)"
proof -
  have "natively_locked t"
    using nat_lock.keep_run [OF assms(1) _ assms(4)] assms(2,3) by (simp add: natively_locked_def)
  then show ?thesis
    by (auto simp: natively_locked_def process_key_event_def key_filter_def Let_def emit_def
        split: prod.split)
qed

section \<open>Actions and closing windows\<close>

text \<open>C17: no action, not even with the Lua commands it queues and drains, creates or
  loses a window or a monitor: the windows are permuted at most.\<close>

theorem dispatch_keeps_windows:
  "mset (windows (dispatch a s)) = mset (windows s) \<and>
   length (monitors (dispatch a s)) = length (monitors s)"
  using population.keep_dispatch [of s "(mset (windows s), length (monitors s))" a] by simp

lemma on_unmap_restored:
  "on_unmap w s = (s', Some t) \<Longrightarrow> t \<in> known s'"
proof -
  assume u: "on_unmap w s = (s', Some t)"
  then have "t \<in> set (windows s)"
    by (auto simp: on_unmap_def swallowed_by_def Let_def split: option.splits if_splits)
  moreover have "windows s' = windows s"
    using u by (auto simp: on_unmap_def restore_terminal_def drop_links_def mod_state_def Let_def split_def
        split: option.splits if_splits)
  ultimately show ?thesis by (simp add: known_def)
qed

lemma tile_master_known: "tile_master_window s = Some v \<Longrightarrow> v \<in> known s"
  by (auto simp: tile_master_window_def known_def split: option.splits if_splits dest: find_SomeD)

lemma gone_close:
  assumes "w \<notin> known s" "wf_space (space s)" "close_window w b s = (s', r)"
  shows "gone w s'"
proof -
  let ?s1 = "pip_on_window_closed w s"
  have s1: "known ?s1 = known s" "space ?s1 = space s"
    by (auto simp: pip_on_window_closed_def known_def schedule_render_def emit_def split: option.split)
  define h where "h = hide_elem w ?s1"
  have "gone w h"
    using assms(1,2) s1 by (simp add: h_def gone_def known_def hide_elem_def elements_unmap)
  then show ?thesis
    using assms(3) unfolding close_window_def Let_def h_def [symmetric]
    by (elim gone.keep_on_unmap [rotated]) (intro gone.keep_struct keep; assumption)
qed

text \<open>C3: once a toplevel's surface is destroyed the window is in no list, not in the
  focus order and not on the plane, although in between the view may switch, the Lua
  hooks run with their queue drained, a swallowed terminal returns, and the focus moves.\<close>

theorem destroyed_toplevel_is_gone:
  assumes "wf_space (space s)" "window_map s surf = Some w" "toplevel s w"
    "cl_surface (clients s w) = Some surf"
  shows "w \<notin> set (windows (toplevel_destroyed surf s)) \<and>
    w \<notin> set (focus_stack (toplevel_destroyed surf s)) \<and>
    w \<notin> set (elements (space (toplevel_destroyed surf s)))"
proof -
  let ?s1 = "forget_surface surf s"
  have k: "w \<notin> known ?s1" "wf_space (space ?s1)"
    using assms by (auto simp: forget_surface_def known_def not_of_surface_def)
  have fw: "gone w (focus_window (or_else r top) s2)"
    if "close_window w b ?s1 = (s2, r)" "\<And>v. top = Some v \<Longrightarrow> v \<in> known s2" for b s2 r top
  proof (rule gone.keep_focus_window [OF gone_close [OF k that(1)]])
    fix v assume "or_else r top = Some v"
    moreover have "r = Some v \<Longrightarrow> v \<in> known s2"
      using that(1) on_unmap_restored by (auto simp: close_window_def Let_def)
    ultimately show "v \<in> known s2" using that(2) by (auto simp: or_else_def split: option.splits)
  qed
  have "gone w (toplevel_destroyed surf s)"
    unfolding toplevel_destroyed_def Let_def assms(2) option.case
    by (intro gone.keep_struct keep fw;
        (assumption | auto simp: or_else_def gone.focused_window_known tile_master_known
          split: option.splits if_splits dest: gone.focused_window_known))
  then show ?thesis by (simp add: gone_def known_def)
qed

section \<open>Instances\<close>

abbreviation begun :: rwl where "begun \<equiv> rwl_new idle"

lemma begun_simps [simp]:
  "windows begun = []" "focus_stack begun = []" "space begun = []" "monitors begun = []" "locked begun = False"
  "native_lock begun = None" "overview begun = None" "sel_mon begun = 0" "pointer begun = None"
  "has_keyboard begun = False" "sel_monitor begun = None"
  by (simp_all add: rwl_new_def sel_monitor_def get_at_def)

lemma begun_locked: "locked (native_lock_start begun)" "native_lock (native_lock_start begun) \<noteq> None"
  by (simp_all add: native_lock_start_def fire_def stop_key_repeat_def schedule_render_def emit_def
     set_focus_def reevaluate_pointer_def Let_def)

lemma reachable_wf_core_witness:
  "distinct (windows (new_toplevel 5 1 (begun\<lparr>has_keyboard := True, pointer := Some (f_lit 0, f_lit 0)\<rparr>)))"
proof -
  have "enabled (NewToplevel 5 1) (handle InputReady begun)"
    by (simp add: known_def elements_def)
  from run.step [OF run.step [OF run.start] this] show ?thesis
    using reachable_wf_core [of idle "[InputReady, NewToplevel 5 1]"] by simp
qed

lemma lock_begun: "handle (Command Lock) begun = native_lock_start begun"
  by (simp add: dispatch_def dispatch_in_def overview_guard_def run_action_def Let_def tag_events_def layout_events_def)

lemma reachable_lock_state_witness:
  "\<exists>l. native_lock (handle (Command Lock) begun) = Some l \<and> byte_len (lk_password l) \<le> 1027"
proof -
  have "run begun [Command Lock] (handle (Command Lock) begun)"
    using run.step [OF run.start, of "Command Lock" begun] by simp
  then show ?thesis
    using reachable_lock_state [of idle "[Command Lock]"] begun_locked(2)
    unfolding lock_begun by fastforce
qed

lemma only_the_password_unlocks_witness:
  "locked (session_unlock (native_lock_start begun))"
proof -
  show ?thesis
    using begun_locked only_the_password_unlocks [OF run.step [OF run.start, of SessionUnlock]] by simp
qed

lemma destroyed_toplevel_is_gone_witness:
  "5 \<notin> set (focus_stack (toplevel_destroyed 1 (idle\<lparr>windows := [5], focus_stack := [5], window_map := [1 \<mapsto> 5],
     clients := (\<lambda>_. idle_client\<lparr>cl_surface := Some 1\<rparr>)\<rparr>)))"
  using destroyed_toplevel_is_gone [of "idle\<lparr>windows := [5], focus_stack := [5], window_map := [1 \<mapsto> 5],
     clients := (\<lambda>_. idle_client\<lparr>cl_surface := Some 1\<rparr>)\<rparr>" 1 5]
  by (simp add: wf_space_def toplevel_def elements_def)
end
