(* ===== verification/Stability.thy ===== *)
theory Stability
  imports Frame
begin

text \<open>
  What the layout pass and the animations cannot change: the facts that decide where a
  window is shown (\<open>meta_of\<close>), the tags and areas of the monitors, and every field of the
  state outside placement. So a layout pass never moves the focus.
\<close>

section \<open>The stable part\<close>

text \<open>A window's state without bookkeeping of placement, drawing and animation.\<close>

definition meta_of :: "wstate \<Rightarrow> wstate" where
  "meta_of x = x\<lparr>saved_loc := None, pending_geom := None, border_counter := 0,
     last_focused := False, border_color := 0, is_urgent := False, slide_offset_x := f_lit 0,
     slide_from_x := f_lit 0, slide_start := None, slide_to_x := f_lit 0, slide_out := False\<rparr>"

lemma meta_of_simps [simp]:
  "meta_of (x\<lparr>saved_loc := l\<rparr>) = meta_of x" "meta_of (x\<lparr>pending_geom := g\<rparr>) = meta_of x"
  "meta_of (x\<lparr>border_counter := n\<rparr>) = meta_of x" "meta_of (x\<lparr>last_focused := b\<rparr>) = meta_of x"
  "meta_of (x\<lparr>border_color := c\<rparr>) = meta_of x" "meta_of (x\<lparr>is_urgent := b\<rparr>) = meta_of x"
  "meta_of (x\<lparr>slide_offset_x := f\<rparr>) = meta_of x" "meta_of (x\<lparr>slide_from_x := f\<rparr>) = meta_of x"
  "meta_of (x\<lparr>slide_start := t\<rparr>) = meta_of x" "meta_of (x\<lparr>slide_to_x := f\<rparr>) = meta_of x"
  "meta_of (x\<lparr>slide_out := b\<rparr>) = meta_of x"
  by (simp_all add: meta_of_def)

lemma meta_slides [simp]:
  "meta_of (mark_slide_out t f x) = meta_of x" "meta_of (start_slide_in t f x) = meta_of x"
  by (simp_all add: mark_slide_out_def start_slide_in_def)

definition meta :: "rwl \<Rightarrow> wid \<Rightarrow> wstate" where
  "meta s w = meta_of (state_of (cfg s) (ws s) w)"

text \<open>The fields outside, the clients' facts and the monitors' views.\<close>

definition outer :: "rwl \<Rightarrow> rwl" where
  "outer s = s\<lparr>ws := Map.empty, space := [], monitors := [], trace := [],
     pending_tag_transition := None, clients := (\<lambda>_. idle_client)\<rparr>"

definition mon_view :: "monitor \<Rightarrow> (u32 \<times> u32) \<times> nat \<times> woutput \<times> rect" where
  "mon_view m = (tagset m, sel_tags m, mon_output m, m_area m)"

definition stable :: "rwl \<Rightarrow> rwl \<times> (wid \<Rightarrow> client) \<times> (wid \<Rightarrow> wstate) \<times>
    ((u32 \<times> u32) \<times> nat \<times> woutput \<times> rect) list" where
  "stable s = (outer s, \<lambda>w. (clients s w)\<lparr>cl_x11_fullscreen := False\<rparr>, meta s, map mon_view (monitors s))"

lemma state_of_mut [simp]:
  "state_of c (with_state_mut c st w f) v = (if v = w then f (state_of c st w) else state_of c st v)"
  by (simp add: store.look_change)

section \<open>Stable steps\<close>

text \<open>Updates of bookkeeping, alone and over a list of windows.\<close>

lemma stable_ws:
  "(\<And>w. meta_of (state_of (cfg s) st w) = meta_of (state_of (cfg s) (ws s) w)) \<Longrightarrow>
   stable (s\<lparr>ws := st\<rparr>) = stable s"
  by (auto simp: stable_def outer_def meta_def fun_eq_iff)

lemma meta_fold:
  assumes "\<And>w st v. meta_of (state_of c (f w st) v) = meta_of (state_of c st v)"
  shows "meta_of (state_of c (fold f us st) v) = meta_of (state_of c st v)"
  by (induction us arbitrary: st) (simp_all add: assms)

lemma stable_mod_state: "(\<And>x. meta_of (f x) = meta_of x) \<Longrightarrow> stable (mod_state w f s) = stable s"
  unfolding mod_state_def by (rule stable_ws) simp

lemma stable_monitors:
  "map mon_view ms = map mon_view (monitors s) \<Longrightarrow> stable (s\<lparr>monitors := ms\<rparr>) = stable s"
  by (simp add: stable_def outer_def meta_def [abs_def])

lemma map_update_at: "(\<And>x. g (f x) = g x) \<Longrightarrow> map g (update_at i f xs) = map g xs"
  by (simp add: update_at_def map_update) (metis length_map list_update_id nth_map)

lemma stable_steps [simp]:
  "stable (emit e s) = stable s" "stable (emits es s) = stable s"
  "stable (s\<lparr>space := sp\<rparr>) = stable s" "stable (x11_set_fullscreen w b s) = stable s"
  "stable (configure_toplevel w ops b s) = stable s" "stable (send_hidden w s) = stable s"
  "stable (hide_elem w s) = stable s" "stable (map_at w p s) = stable s"
  "stable (s\<lparr>pending_tag_transition := x\<rparr>) = stable s"
  by (auto simp: stable_def outer_def meta_def emit_def emits_def x11_set_fullscreen_def
      configure_toplevel_def send_hidden_def hide_elem_def map_at_def fun_eq_iff)

lemma stable_moves [simp]:
  "stable (save_location w s) = stable s" "stable (note_x11_focus w b s) = stable s"
  by (auto simp: save_location_def note_x11_focus_def intro!: stable_mod_state split: option.split)

lemma stable_hide [simp]: "stable (hide_window w s) = stable s"
  by (simp add: hide_window_def)

lemma mon_view_layout [simp]:
  "mon_view (set_monitor_layout c m i) = mon_view m" "mon_view (apply_dynamic c m t n) = mon_view m"
  "mon_view (pertag_apply c m t) = mon_view m"
proof -
  show *: "mon_view (set_monitor_layout c m i) = mon_view m" for i
    by (simp add: set_monitor_layout_def mon_view_def Let_def)
  show "mon_view (apply_dynamic c m t n) = mon_view m"
    using apply_dynamic_cases [of c m t n] * by auto
  show "mon_view (pertag_apply c m t) = mon_view m"
    using pertag_apply_cases [of c m t] * by auto
qed

lemma stable_dynamic [simp]: "stable (dynamic_layout i t s) = stable s"
  by (auto simp: dynamic_layout_def upd_monitor_def intro!: stable_monitors map_update_at)

lemma stable_sync [simp]: "stable (sync_scroll i f us s) = stable s"
  by (auto simp: sync_scroll_def upd_monitor_def mon_view_def intro!: stable_monitors map_update_at)

lemma stable_let: "(\<And>y. y = x \<Longrightarrow> stable (f y) = R) \<Longrightarrow> stable (Let x f) = R"
  by (simp add: Let_def)

lemma stable_place [simp]:
  "stable (place_tiled f b wr s) = stable s" "stable (place_floating f d sc w s) = stable s"
  "stable (place_fullscreen f r w s) = stable s" "stable (place_scratch d w s) = stable s"
  by (auto simp: place_tiled_def place_floating_def place_fullscreen_def place_scratch_def Let_def
      stable_mod_state split: prod.split option.split)

lemma stable_fold: "(\<And>x s. stable (f x s) = stable s) \<Longrightarrow> stable (fold f xs s) = stable s"
  by (induction xs arbitrary: s) auto

lemma stable_arrange [simp]: "stable (arrange i s) = stable s"
  by (simp add: arrange_def Let_def stable_fold split: option.split)

lemma stable_slides [simp]:
  "stable (mark_slide_outs a b c s) = stable s" "stable (start_tag_transition a b c s) = stable s"
  by (auto simp: mark_slide_outs_def start_tag_transition_def Let_def intro!: stable_ws meta_fold)

lemma stable_small [simp]:
  "stable (update_work_areas s) = stable s" "stable (schedule_render s) = stable s"
  "stable (print_status s) = stable s" "stable (refresh_pointer_focus s) = stable s"
  "stable (set_focus f s) = stable s" "stable (update_borders s) = stable s"
  by (auto simp: update_work_areas_def schedule_render_def print_status_def update_borders_def
      refresh_pointer_focus_def set_focus_def mon_view_def o_def Let_def
      intro!: stable_monitors stable_ws meta_fold split: option.split)

lemma stable_arrange_all [simp]: "stable (arrange_all s) = stable s"
  by (simp add: arrange_all_def Let_def stable_fold split: option.split)

lemma stable_urgent [simp]: "stable (mod_state w (is_urgent_update g) s) = stable s"
  by (rule stable_mod_state) (simp add: meta_of_def)

section \<open>What is stable\<close>

lemma outer_fields:
  "cfg (outer s) = cfg s" "gaps_on (outer s) = gaps_on s" "now (outer s) = now s"
  "lua_on (outer s) = lua_on s" "out_mode (outer s) = out_mode s"
  "has_keyboard (outer s) = has_keyboard s" "pointer (outer s) = pointer s"
  "sel_mon (outer s) = sel_mon s" "tag_history (outer s) = tag_history s"
  "monitor_mem (outer s) = monitor_mem s" "windows (outer s) = windows s"
  "focus_stack (outer s) = focus_stack s" "window_map (outer s) = window_map s"
  "locked (outer s) = locked s" "native_lock (outer s) = native_lock s"
  "overview (outer s) = overview s" "pip (outer s) = pip s"
  "startup_done (outer s) = startup_done s" "config_error (outer s) = config_error s"
  "initial_warp_done (outer s) = initial_warp_done s" "on_arrange_fn (outer s) = on_arrange_fn s"
  by (simp_all add: outer_def)

lemma stableD:
  assumes "stable s' = stable s"
  shows "cfg s' = cfg s" "gaps_on s' = gaps_on s" "now s' = now s" "lua_on s' = lua_on s"
    "out_mode s' = out_mode s" "has_keyboard s' = has_keyboard s" "pointer s' = pointer s"
    "sel_mon s' = sel_mon s" "tag_history s' = tag_history s" "monitor_mem s' = monitor_mem s"
    "windows s' = windows s" "focus_stack s' = focus_stack s" "window_map s' = window_map s"
    "locked s' = locked s" "native_lock s' = native_lock s" "overview s' = overview s"
    "pip s' = pip s" "startup_done s' = startup_done s" "config_error s' = config_error s"
    "initial_warp_done s' = initial_warp_done s" "on_arrange_fn s' = on_arrange_fn s"
    "meta s' = meta s" "map mon_view (monitors s') = map mon_view (monitors s)"
    "\<And>w. cl_surface (clients s' w) = cl_surface (clients s w)"
proof -
  have o: "outer s' = outer s" using assms by (simp add: stable_def)
  show "cfg s' = cfg s" "gaps_on s' = gaps_on s" "now s' = now s" "lua_on s' = lua_on s"
    "out_mode s' = out_mode s" "has_keyboard s' = has_keyboard s" "pointer s' = pointer s"
    "sel_mon s' = sel_mon s" "tag_history s' = tag_history s" "monitor_mem s' = monitor_mem s"
    "windows s' = windows s" "focus_stack s' = focus_stack s" "window_map s' = window_map s"
    "locked s' = locked s" "native_lock s' = native_lock s" "overview s' = overview s"
    "pip s' = pip s" "startup_done s' = startup_done s" "config_error s' = config_error s"
    "initial_warp_done s' = initial_warp_done s" "on_arrange_fn s' = on_arrange_fn s"
    using arg_cong [OF o, of cfg] arg_cong [OF o, of gaps_on] arg_cong [OF o, of now]
      arg_cong [OF o, of lua_on] arg_cong [OF o, of out_mode] arg_cong [OF o, of has_keyboard]
      arg_cong [OF o, of pointer] arg_cong [OF o, of sel_mon] arg_cong [OF o, of tag_history]
      arg_cong [OF o, of monitor_mem] arg_cong [OF o, of windows]
      arg_cong [OF o, of focus_stack] arg_cong [OF o, of window_map] arg_cong [OF o, of locked]
      arg_cong [OF o, of native_lock] arg_cong [OF o, of overview] arg_cong [OF o, of pip]
      arg_cong [OF o, of startup_done] arg_cong [OF o, of config_error]
      arg_cong [OF o, of initial_warp_done] arg_cong [OF o, of on_arrange_fn]
    unfolding outer_fields by - assumption+
  show "meta s' = meta s" "map mon_view (monitors s') = map mon_view (monitors s)"
    using assms by (simp_all add: stable_def)
  have "(clients s' w)\<lparr>cl_x11_fullscreen := False\<rparr> = (clients s w)\<lparr>cl_x11_fullscreen := False\<rparr>" for w
    using assms by (simp add: stable_def fun_eq_iff)
  from arg_cong [OF this, of cl_surface]
  show "cl_surface (clients s' w) = cl_surface (clients s w)" for w by simp
qed

text \<open>The queries behind focus and display read the stable part only.\<close>

lemma meta_queries:
  "shown_on (ws s) t i w \<longleftrightarrow> ws_tags (meta s w) AND t \<noteq> 0 \<and> mon_idx (meta s w) = i"
  "window_tags (ws s) w = ws_tags (meta s w)"
  "window_is_floating (ws s) w = is_floating (meta s w)"
  "window_is_fullscreen (ws s) w = is_fullscreen (meta s w)"
  "unwrap_or (with_state (ws s) w mon_idx) 0 = mon_idx (meta s w)"
  by (cases "ws s w"; simp add: meta_def state_of_def meta_of_def wstate_new_def shown_on_def
      with_state_def window_tags_def window_is_floating_def window_is_fullscreen_def)+

lemma view_queries:
  assumes "map mon_view ms = map mon_view ms'"
  shows "map tags ms = map tags ms'" "map mon_output ms = map mon_output ms'"
    "map m_area ms = map m_area ms'" "length ms = length ms'"
proof -
  have "map tags ms = map (\<lambda>v. sel2 (fst v) (fst (snd v))) (map mon_view ms)" for ms
    by (simp add: mon_view_def tags_def o_def)
  then show "map tags ms = map tags ms'" by (simp only: assms)
  have "map mon_output ms = map (\<lambda>v. fst (snd (snd v))) (map mon_view ms)" for ms
    by (simp add: mon_view_def o_def)
  then show "map mon_output ms = map mon_output ms'" by (simp only: assms)
  have "map m_area ms = map (\<lambda>v. snd (snd (snd v))) (map mon_view ms)" for ms
    by (simp add: mon_view_def o_def)
  then show "map m_area ms = map m_area ms'" by (simp only: assms)
  show "length ms = length ms'" using assms map_eq_imp_length_eq by blast
qed

lemma stable_queries:
  assumes "stable s' = stable s"
  shows "shown_on (ws s') = shown_on (ws s)" "window_tags (ws s') = window_tags (ws s)"
    "sel_tags_of s' = sel_tags_of s" "focused_window s' = focused_window s"
    "map tags (monitors s') = map tags (monitors s)" "length (monitors s') = length (monitors s)"
    "map mon_output (monitors s') = map mon_output (monitors s)"
    "map m_area (monitors s') = map m_area (monitors s)"
    "tags_at s' = tags_at s" "window_is_floating (ws s') = window_is_floating (ws s)"
    "window_is_fullscreen (ws s') = window_is_fullscreen (ws s)" "focused_on s' = focused_on s"
proof -
  note d = stableD [OF assms] and v = view_queries [OF stableD(23) [OF assms]]
  show sh: "shown_on (ws s') = shown_on (ws s)" "window_tags (ws s') = window_tags (ws s)"
    "window_is_floating (ws s') = window_is_floating (ws s)"
    "window_is_fullscreen (ws s') = window_is_fullscreen (ws s)"
    by (simp_all add: fun_eq_iff meta_queries d)
  show "focused_on s' = focused_on s" by (simp add: fun_eq_iff focused_on_def sh d)
  show "map tags (monitors s') = map tags (monitors s)" "length (monitors s') = length (monitors s)"
    "map mon_output (monitors s') = map mon_output (monitors s)"
    "map m_area (monitors s') = map m_area (monitors s)" using v by simp_all
  have "tags_at t i = (if i < length (monitors t) then map tags (monitors t) ! i else 0)" for t i
    by (simp add: tags_at_def get_at_def)
  then show ta: "tags_at s' = tags_at s" by (simp add: fun_eq_iff v)
  have "sel_tags_of t = tags_at t (sel_mon t)" for t
    by (simp add: sel_tags_of_def sel_monitor_def tags_at_def)
  then show st: "sel_tags_of s' = sel_tags_of s" by (simp add: ta d)
  show "focused_window s' = focused_window s" by (simp add: focused_window_def sh st d)
qed

end
