(* ===== verification/Layout_Tiling.thy ===== *)
theory Layout_Tiling
  imports Layout
begin

text \<open>
  Which layouts tile: under \<open>fits\<close> (a sane work area, borders and gaps that leave
  room) and as long as no window has been squeezed to the one-pixel minimum, the
  windows of the tile, col, dwindle, bstack and centred-master layouts lie inside the
  work area and do not overlap. The locale \<open>tiled_layout\<close> states the contract on top
  of \<open>layout_algo\<close>. The scroll layout keeps the focused column on screen instead.
\<close>

section \<open>Transposition\<close>

text \<open>Rows are columns with the axes swapped.\<close>

definition tr :: "rect \<Rightarrow> rect" where
  "tr r = mk_rect (loc_y r) (loc_x r) (size_h r) (size_w r)"

lemma tr_mk [simp]: "tr (mk_rect x y w h) = mk_rect y x h w"
  by (simp add: tr_def)

lemma tr_sel [simp]: "loc_x (tr r) = loc_y r" "loc_y (tr r) = loc_x r"
  "size_w (tr r) = size_h r" "size_h (tr r) = size_w r"
  by (simp_all add: tr_def)

lemma tr_tr [simp]: "tr (tr r) = r"
  by (cases r) (simp add: tr_def mk_rect_def)

lemma tr_inset: "tr (inset bw x y w h) = inset bw y x h w"
  by (simp add: inset_def)

lemma tr_inside [simp]: "inside (tr a) (tr b) = inside a b"
  by (auto simp: inside_def)

lemma tr_apart [simp]: "apart (tr a) (tr b) = apart a b"
  by (auto simp: apart_def)

lemma tr_wf [simp]: "wf_rect (tr r) = wf_rect r"
  by (auto simp: wf_rect_def)

lemma row_cells_tr: "row_cells gp bw x0 y h off ws = map tr (column_cells gp bw x0 y h off ws)"
  by (induction ws arbitrary: off) (simp_all add: tr_inset)

lemma row_tr: "row gp bw area cf h y = map tr (column gp bw (tr area) cf h y)"
  by (simp add: row_def column_def Let_def row_cells_tr)

lemma sorted_wrt_tr [simp]: "sorted_wrt apart (map tr rs) = sorted_wrt apart rs"
  by (simp add: sorted_wrt_map)

section \<open>Cells that are not squeezed\<close>

definition roomy :: "rect \<Rightarrow> bool" where
  "roomy r \<longleftrightarrow> 1 < size_w r \<and> 1 < size_h r"

lemma tr_roomy [simp]: "roomy (tr r) = roomy r"
  by (auto simp: roomy_def)

definition bw_ok :: "int \<Rightarrow> bool" where
  "bw_ok bw \<longleftrightarrow> 0 \<le> bw \<and> bw < 1073741824"

lemma unsqueezed:
  assumes "bw_ok bw" "0 \<le> w" "w < 2147483648" "1 < max (i32 (w - 2 * bw)) 1"
  shows "max (i32 (w - 2 * bw)) 1 = w - 2 * bw" "1 < w - 2 * bw"
proof -
  have "i32 (w - 2 * bw) = w - 2 * bw" using assms by (intro i32_id) (auto simp: bw_ok_def)
  with assms show "max (i32 (w - 2 * bw)) 1 = w - 2 * bw" "1 < w - 2 * bw" by auto
qed

text \<open>An unsqueezed window lies in its cell.\<close>

lemma inset_inside:
  assumes "wf_rect (mk_rect x y w h)" "bw_ok bw" "roomy (inset bw x y w h)"
  shows "inside (inset bw x y w h) (mk_rect x y w h)" "1 < w" "1 < h"
proof -
  have sizes: "w < 2147483648 + 2147483648" "h < 2147483648 + 2147483648"
    and pos: "0 \<le> w" "0 \<le> h" "x + w < 2147483648" "y + h < 2147483648" "in_i32 x" "in_i32 y"
    using assms(1) by (auto simp: wf_rect_def in_i32_def)
  have r: "1 < max (i32 (w - 2 * bw)) 1" "1 < max (i32 (h - 2 * bw)) 1"
    using assms(3) by (simp_all add: roomy_def inset_def)
  have fit: "max (i32 (s - 2 * bw)) 1 \<le> s - 2 * bw \<and> 1 < s - 2 * bw"
    if "0 \<le> s" "s < 4294967296" "1 < max (i32 (s - 2 * bw)) 1" for s
  proof (cases "s - 2 * bw < 2147483648")
    case True
    with that assms(2) have "i32 (s - 2 * bw) = s - 2 * bw"
      by (intro i32_id) (auto simp: bw_ok_def)
    with that show ?thesis by auto
  next
    case False
    then show ?thesis using i32_bounds [of "s - 2 * bw"] by auto
  qed
  have f: "max (i32 (w - 2 * bw)) 1 \<le> w - 2 * bw" "max (i32 (h - 2 * bw)) 1 \<le> h - 2 * bw"
    "1 < w - 2 * bw" "1 < h - 2 * bw" using fit [OF _ _ r(1)] fit [OF _ _ r(2)] pos sizes by auto
  then have "i32 (x + bw) = x + bw" "i32 (y + bw) = y + bw"
    using pos assms(2) by (auto simp: bw_ok_def in_i32_def intro!: i32_id)
  with f show "inside (inset bw x y w h) (mk_rect x y w h)" "1 < w" "1 < h"
    using assms(2) by (auto simp: inside_def inset_def bw_ok_def)
qed

section \<open>Columns and rows\<close>

lemma inside_region:
  "inside r (mk_rect x y w h) \<Longrightarrow> x' \<le> x \<Longrightarrow> y' \<le> y \<Longrightarrow> x + w \<le> x' + w' \<Longrightarrow> y + h \<le> y' + h' \<Longrightarrow>
   inside r (mk_rect x' y' w' h')"
  by (auto simp: inside_def)

lemma column_cells_sep:
  assumes "0 \<le> gp" "bw_ok bw" "in_i32 y0" "in_i32 x" "0 \<le> w" "x + w < 2147483648"
    "y0 + h < 2147483648" "h < 2147483648" "\<forall>s \<in> set hs. 0 \<le> s" "0 \<le> off" "hs \<noteq> []"
    "off + sum_list hs + (int (length hs) - 1) * gp = h"
    "\<forall>r \<in> set (column_cells gp bw y0 x w off hs). roomy r"
  shows "(\<forall>r \<in> set (column_cells gp bw y0 x w off hs). inside r (mk_rect x (y0 + off) w (h - off))) \<and>
    sorted_wrt apart (column_cells gp bw y0 x w off hs)"
  using assms(9-13)
proof (induction hs arbitrary: off)
  case (Cons s hs)
  let ?cell = "inset bw x (y0 + off) w s"
  have rest: "0 \<le> sum_list hs" "0 \<le> int (length hs) * gp" using Cons.prems(1) assms(1)
    by (auto intro: sum_list_nonneg)
  have hdr: "off + s + sum_list hs + int (length hs) * gp = h"
    using Cons.prems(4) by simp
  have s0: "0 \<le> s" using Cons.prems(1) by simp
  have sh: "off + s \<le> h" using hdr rest by linarith
  have wf: "wf_rect (mk_rect x (y0 + off) w s)"
    using assms(3-7) Cons.prems(2) s0 sh by (auto simp: wf_rect_def in_i32_def)
  have cell: "inside ?cell (mk_rect x (y0 + off) w s)"
    using wf assms(2) Cons.prems(5) by (intro inset_inside) auto
  show ?case
  proof (cases "hs = []")
    case True
    with hdr have "h - off = s" by simp
    with True cell show ?thesis by simp
  next
    case False
    then have "gp \<le> int (length hs) * gp" using assms(1)
      by (cases hs) (auto simp: mult_le_cancel_right1)
    then have lt: "off + s + gp \<le> h" using hdr rest by linarith
    then have off': "i32 (off + s + gp) = off + s + gp"
      using assms(1,8) Cons.prems(1,2) by (intro i32_id) auto
    have IH: "(\<forall>r \<in> set (column_cells gp bw y0 x w (off + s + gp) hs).
          inside r (mk_rect x (y0 + (off + s + gp)) w (h - (off + s + gp)))) \<and>
        sorted_wrt apart (column_cells gp bw y0 x w (off + s + gp) hs)"
      using Cons.prems assms(1) False off' hdr by (intro Cons.IH) (auto simp: algebra_simps)
    have "apart (mk_rect x (y0 + off) w s) (mk_rect x (y0 + (off + s + gp)) w (h - (off + s + gp)))"
      using assms(1) by (simp add: apart_def)
    moreover have "inside r (mk_rect x (y0 + off) w (h - off))"
      if "inside r (mk_rect x (y0 + (off + s + gp)) w (h - (off + s + gp)))" for r
      using assms(1) Cons.prems(1) by (intro inside_region [OF that]) auto
    moreover have "inside ?cell (mk_rect x (y0 + off) w (h - off))"
      using lt assms(1) by (intro inside_region [OF cell]) auto
    ultimately show ?thesis using IH False off' cell
      by (auto intro: apart_inside)
  qed
qed simp

text \<open>The part of \<open>area\<close> between \<open>x\<close> and \<open>x + w\<close>.\<close>

definition strip :: "rect \<Rightarrow> int \<Rightarrow> int \<Rightarrow> rect" where
  "strip area x w = mk_rect x (loc_y area) w (size_h area)"

lemma column_sep:
  assumes "wf_rect area" "size_h area < 2147483648" "0 \<le> gp" "bw_ok bw" "in_i32 x" "0 \<le> w"
    "x + w < 2147483648" "\<forall>f \<in> set cf. weight_ok f"
    "int (length cf) < 2147483648" "(int (length cf) - 1) * gp \<le> size_h area"
    "\<forall>r \<in> set (column gp bw area cf w x). roomy r"
  shows "(\<forall>r \<in> set (column gp bw area cf w x). inside r (strip area x w)) \<and>
    sorted_wrt apart (column gp bw area cf w x)"
proof (cases "cf = []")
  case False
  let ?g = "(int (length cf) - 1) * gp"
  let ?tot = "size_h area - ?g"
  have g: "0 \<le> ?g" using False assms(3) by (cases cf) auto
  have "i32 ?g = ?g" "usize_as_i32 (length cf) = int (length cf)" "i32 ?tot = ?tot"
    using g assms by (auto simp: usize_as_i32_id intro!: i32_id)
  with False have eq: "column gp bw area cf w x =
      column_cells gp bw (loc_y area) x w 0 (weighted_spans ?tot cf)"
    by (simp add: column_def)
  have sp: "length (weighted_spans ?tot cf) = length cf"
    "\<forall>s \<in> set (weighted_spans ?tot cf). 0 \<le> s" "sum_list (weighted_spans ?tot cf) = ?tot"
    using spans_from_partition [of cf 0 ?tot] False assms g
    by (auto simp: weighted_spans_def length_spans_from)
  then have "weighted_spans ?tot cf \<noteq> []" using False by (metis length_0_conv)
  then show ?thesis
    using column_cells_sep [of gp bw "loc_y area" x w "size_h area" "weighted_spans ?tot cf" 0]
      assms sp by (auto simp: eq strip_def wf_rect_def)
qed (simp add: column_def)

lemma column_roomy_width:
  assumes "cf \<noteq> []" "\<forall>r \<in> set (column gp bw area cf w x). roomy r" "bw_ok bw" "0 \<le> w" "w < 2147483648"
  shows "1 < w"
proof -
  let ?hs = "weighted_spans (i32 (size_h area - i32 ((usize_as_i32 (length cf) - 1) * gp))) cf"
  have "?hs \<noteq> []" using assms(1) by (cases cf) (simp_all add: weighted_spans_def Let_def)
  then obtain s hs where s: "?hs = s # hs" by (cases ?hs) auto
  with assms(1,2) have "roomy (inset bw x (loc_y area + 0) w s)" by (simp add: column_def Let_def)
  then have "1 < max (i32 (w - 2 * bw)) 1" by (simp add: roomy_def inset_def)
  from unsqueezed(2) [OF assms(3-5) this] assms(3) show ?thesis by (simp add: bw_ok_def)
qed

section \<open>The contract\<close>

definition fits :: "config \<Rightarrow> bool \<Rightarrow> monitor \<Rightarrow> f64 list \<Rightarrow> bool" where
  "fits c g m cf \<longleftrightarrow> cf \<noteq> [] \<and> (\<forall>f \<in> set cf. weight_ok f) \<and> wf_rect (w_area m) \<and>
     uint (c_border_px c) < 536870912 \<and>
     (int (length cf) + 2) * gap_px c g (length cf) < size_w (w_area m) \<and>
     (int (length cf) + 2) * gap_px c g (length cf) < size_h (w_area m) \<and>
     int (length cf) * size_w (w_area m) < 1073741824 \<and>
     int (length cf) * size_h (w_area m) < 1073741824 \<and>
     (\<forall>f \<in> set (col_facts m). \<exists>q. f = Fin q \<and> 0 \<le> q \<and> q \<le> 1)"

locale tiled_layout = layout_algo arr "\<lambda>_. True" for arr +
  fixes fit :: "monitor \<Rightarrow> f64 list \<Rightarrow> bool"
  assumes sep: "fit m cf \<Longrightarrow> \<forall>r \<in> set (arr m cf). roomy r \<Longrightarrow>
    (\<forall>r \<in> set (arr m cf). inside r (w_area m)) \<and> sorted_wrt apart (arr m cf)"
    and fit_wf: "fit m cf \<Longrightarrow> wf_rect (w_area m)"
begin

lemma in_area: "fit m cf \<Longrightarrow> \<forall>r \<in> set (arr m cf). roomy r \<Longrightarrow> r \<in> set (arr m cf) \<Longrightarrow>
  inside r (w_area m)"
  using sep by blast

lemma wf: "fit m cf \<Longrightarrow> \<forall>r \<in> set (arr m cf). roomy r \<Longrightarrow> r \<in> set (arr m cf) \<Longrightarrow> wf_rect r"
  using in_area [of m cf r] fit_wf [of m cf] nonempty [of r m cf]
  by (auto simp: wf_rect_def inside_def in_i32_def)

text \<open>No point of the screen belongs to two windows.\<close>

lemma no_overlap:
  assumes "fit m cf" "\<forall>r \<in> set (arr m cf). roomy r" "i < length cf" "j < length cf" "i \<noteq> j"
    "contains (arr m cf ! i) p"
  shows "\<not> contains (arr m cf ! j) p"
proof -
  have "apart (arr m cf ! i) (arr m cf ! j)"
    using sep [OF assms(1,2)] assms(3-5) by (intro sorted_wrt_apart_nth) (auto simp: len)
  moreover have "wf_rect (arr m cf ! i)" "wf_rect (arr m cf ! j)"
    using wf [OF assms(1,2)] assms(3,4) by (auto simp: len)
  ultimately show ?thesis using apart_no_common_point assms(6) by blast
qed

end

text \<open>The work area less the outer gaps, when the monitor fits.\<close>

lemma fits_area:
  assumes "fits c g m cf" "n = length cf" "gp = gap_px c g n" "A = outer_area gp (w_area m)"
  shows "A = mk_rect (loc_x (w_area m) + gp) (loc_y (w_area m) + gp)
      (size_w (w_area m) - 2 * gp) (size_h (w_area m) - 2 * gp)"
    "wf_rect A" "inside A (w_area m)" "0 \<le> gp" "bw_ok (border_w c n)"
    "int n * gp < size_w A" "int n * gp < size_h A" "int n < 2147483648"
    "size_w A < 2147483648" "size_h A < 2147483648"
    "int n * size_w A < 1073741824" "border_w c n < 536870912"
proof -
  let ?r = "w_area m"
  have f: "0 < n" "wf_rect ?r" "uint (c_border_px c) < 536870912"
    "(int n + 2) * gp < size_w ?r" "(int n + 2) * gp < size_h ?r"
    "int n * size_w ?r < 1073741824" "int n * size_h ?r < 1073741824"
    using assms(1-3) by (auto simp: fits_def)
  show gp: "0 \<le> gp" using assms(3) by (simp add: gap_px_def effective_nonneg)
  have w: "in_i32 (loc_x ?r)" "in_i32 (loc_y ?r)" "loc_x ?r + size_w ?r < 2147483648"
    "loc_y ?r + size_h ?r < 2147483648" using f(2) by (auto simp: wf_rect_def)
  have n1: "0 \<le> int n * gp" using f(1) gp by simp
  have split: "(int n + 2) * gp = int n * gp + 2 * gp" by (simp add: algebra_simps)
  have big: "s \<le> int n * s" if "0 \<le> s" for s using that f(1) by (simp add: mult_le_cancel_right1)
  have sw: "2 * gp < size_w ?r" "2 * gp < size_h ?r" using f(4,5) split n1 by linarith+
  have lt: "size_w ?r < 2147483648" "size_h ?r < 2147483648"
    using big [of "size_w ?r"] big [of "size_h ?r"] sw gp f(6,7) by linarith+
  have "i32 (loc_x ?r + gp) = loc_x ?r + gp" "i32 (loc_y ?r + gp) = loc_y ?r + gp"
    "i32 (size_w ?r - 2 * gp) = size_w ?r - 2 * gp" "i32 (size_h ?r - 2 * gp) = size_h ?r - 2 * gp"
    using w sw gp lt by (auto simp: in_i32_def intro!: i32_id)
  with sw show A: "A = mk_rect (loc_x ?r + gp) (loc_y ?r + gp)
      (size_w ?r - 2 * gp) (size_h ?r - 2 * gp)" by (simp add: assms(4) outer_area_def)
  show "wf_rect A" "inside A ?r" using A w sw gp by (auto simp: wf_rect_def inside_def in_i32_def)
  show "int n * gp < size_w A" "int n * gp < size_h A" using A f(4,5) split by auto
  show "size_w A < 2147483648" "size_h A < 2147483648" using A lt gp by auto
  have "int n * size_w A \<le> int n * size_w ?r" using A gp by (auto intro!: mult_left_mono)
  with f(6) show "int n * size_w A < 1073741824" by auto
  have "int n \<le> int n * size_w ?r" using sw gp by (simp add: mult_le_cancel_left1)
  with f(6) show "int n < 2147483648" by linarith
  have "i32 (uint (c_border_px c)) = uint (c_border_px c)"
    using f(3) by (intro i32_id) (auto intro: order_trans [OF _ uint_ge_0])
  then show "bw_ok (border_w c n)" "border_w c n < 536870912"
    using f(3) by (simp_all add: bw_ok_def border_w_def u32_as_i32_def)
qed

lemma gap_count_le:
  assumes "k \<le> n" "0 \<le> gp" "int n * gp \<le> s"
  shows "(int k - 1) * gp \<le> s"
proof -
  have "(int k - 1) * gp \<le> int n * gp" using assms by (intro mult_right_mono) auto
  with assms(3) show ?thesis by simp
qed

lemma share_bounds:
  assumes "0 \<le> n" "n \<le> 2147483647"
  shows "0 \<le> share n (f_clamp x mfact_lo mfact_hi)" "share n (f_clamp x mfact_lo mfact_hi) \<le> n"
  using scaled_px [OF assms] by (auto simp: share_def)

section \<open>Tile\<close>

lemma two_strips:
  assumes "inside (strip A (loc_x A) mw) A" "inside (strip A sx sw) A" "loc_x A + mw \<le> sx"
    "\<forall>r \<in> set ms. inside r (strip A (loc_x A) mw)" "sorted_wrt apart ms"
    "\<forall>r \<in> set ss. inside r (strip A sx sw)" "sorted_wrt apart ss"
  shows "(\<forall>r \<in> set (ms @ ss). inside r A) \<and> sorted_wrt apart (ms @ ss)"
proof -
  have "apart (strip A (loc_x A) mw) (strip A sx sw)" using assms(3) by (simp add: apart_def strip_def)
  then have "sorted_wrt apart (ms @ ss)"
    using assms(4-7) by (intro sorted_wrt_apart_append) auto
  with assms show ?thesis by (auto intro: inside_trans)
qed

text \<open>A first column of width \<open>mw\<close> and, past a gap, a second one with the rest.\<close>

lemma split_columns:
  assumes "wf_rect A" "size_h A < 2147483648" "size_w A < 2147483648" "0 \<le> gp" "bw_ok bw"
    "\<forall>f \<in> set cf \<union> set cs. weight_ok f" "cs \<noteq> []"
    "int (length cf) < 2147483648" "(int (length cf) - 1) * gp \<le> size_h A"
    "int (length cs) < 2147483648" "(int (length cs) - 1) * gp \<le> size_h A"
    "0 \<le> mw" "mw \<le> size_w A - gp"
    "\<forall>r \<in> set (column gp bw A cf mw (loc_x A) @
       column gp bw A cs (max (i32 (size_w A - mw - gp)) 1) (i32 (loc_x A + mw + gp))). roomy r"
  shows "(\<forall>r \<in> set (column gp bw A cf mw (loc_x A) @
       column gp bw A cs (max (i32 (size_w A - mw - gp)) 1) (i32 (loc_x A + mw + gp))). inside r A) \<and>
    sorted_wrt apart (column gp bw A cf mw (loc_x A) @
       column gp bw A cs (max (i32 (size_w A - mw - gp)) 1) (i32 (loc_x A + mw + gp)))"
proof -
  let ?sw = "max (i32 (size_w A - mw - gp)) 1" and ?sx = "i32 (loc_x A + mw + gp)"
  have x: "in_i32 (loc_x A)" "loc_x A + size_w A < 2147483648" using assms(1) by (auto simp: wf_rect_def)
  have sw: "i32 (size_w A - mw - gp) = size_w A - mw - gp" using assms(3,4,12,13) by (intro i32_id) auto
  have sx: "?sx = loc_x A + mw + gp" using assms(4,12,13) x by (intro i32_id) (auto simp: in_i32_def)
  have "1 < ?sw" using assms(14) assms(3,4,12) sw
    by (intro column_roomy_width [OF assms(7) _ assms(5)]) auto
  with sw have w: "?sw = size_w A - mw - gp" by simp
  have ins: "inside (strip A (loc_x A) mw) A" "inside (strip A ?sx ?sw) A"
    using assms(4,12,13) sx w by (auto simp: inside_def strip_def)
  have inx: "in_i32 ?sx" by (rule in_i32_i32)
  have inx2: "?sx + ?sw < 2147483648" using sx w x by auto
  show ?thesis
    using column_sep [OF assms(1,2,4,5) x(1) assms(12), of cf] assms(4,6,8-14) x
      column_sep [OF assms(1,2,4,5) inx, of ?sw cs] inx2 sx
    by (intro two_strips [OF ins]) auto
qed

lemma one_column:
  assumes "wf_rect A" "size_h A < 2147483648" "0 \<le> gp" "bw_ok bw"
    "\<forall>f \<in> set cf. weight_ok f" "int (length cf) < 2147483648"
    "(int (length cf) - 1) * gp \<le> size_h A" "\<forall>r \<in> set (column gp bw A cf (size_w A) (loc_x A)). roomy r"
  shows "(\<forall>r \<in> set (column gp bw A cf (size_w A) (loc_x A)). inside r A) \<and>
    sorted_wrt apart (column gp bw A cf (size_w A) (loc_x A))"
proof -
  have "strip A (loc_x A) (size_w A) = A" by (cases A) (simp add: strip_def mk_rect_def)
  with column_sep [OF assms(1-4) _ _ _ assms(5-8)] assms(1) show ?thesis by (auto simp: wf_rect_def)
qed

lemma tile_sep:
  assumes f: "fits c g m cf" and r: "\<forall>r \<in> set (tile_arrange c g m cf). roomy r"
  shows "(\<forall>r \<in> set (tile_arrange c g m cf). inside r (w_area m)) \<and>
    sorted_wrt apart (tile_arrange c g m cf)"
proof -
  define n where "n = length cf"
  define gp where "gp = gap_px c g n"
  define A where "A = outer_area gp (w_area m)"
  define k where "k = min n (nat (max (nmaster m) 0))"
  define mf where "mf = f_clamp (mfact m) mfact_lo mfact_hi"
  note a = fits_area [OF f n_def gp_def A_def]
  have wts: "\<forall>x \<in> set cf. weight_ok x" using f by (simp add: fits_def)
  then have wts': "\<forall>x \<in> set (take k cf). weight_ok x" "\<forall>x \<in> set (drop k cf). weight_ok x"
    by (auto dest: in_set_takeD in_set_dropD)
  have gaps: "(int j - 1) * gp \<le> size_h A" if "j \<le> n" for j
    using gap_count_le [OF that a(4)] a(7) by simp
  have "(\<forall>r \<in> set (tile_arrange c g m cf). inside r A) \<and> sorted_wrt apart (tile_arrange c g m cf)"
  proof (cases "n - nat (max (nmaster m) 0) > 0")
    case True
    then have k: "k < n" by (simp add: k_def)
    then have "1 * gp \<le> int n * gp" using a(4) by (intro mult_right_mono) auto
    with a(6) have gA: "gp \<le> size_w A" by simp
    have "i32 (size_w A - gp) = size_w A - gp" using a(4,9) gA by (intro i32_id) auto
    moreover have "0 \<le> share (size_w A - gp) mf" "share (size_w A - gp) mf \<le> size_w A - gp"
      unfolding mf_def using a(4,9) gA by (intro share_bounds; simp)+
    moreover have eq: "tile_arrange c g m cf =
        column gp (border_w c n) A (take k cf) (share (i32 (size_w A - gp)) mf) (loc_x A) @
        column gp (border_w c n) A (drop k cf)
          (max (i32 (size_w A - share (i32 (size_w A - gp)) mf - gp)) 1)
          (i32 (loc_x A + share (i32 (size_w A - gp)) mf + gp))"
      using True
      by (simp add: tile_arrange_def tile_split_def Let_def n_def gp_def A_def k_def mf_def)
    ultimately show ?thesis
      using split_columns [OF a(2,10,9,4,5), of "take k cf" "drop k cf" "share (size_w A - gp) mf"]
        wts' gaps [of k] gaps [of "n - k"] a(8) k r by (auto simp: n_def)
  next
    case False
    then have "k = n" by (simp add: k_def)
    then have "tile_arrange c g m cf = column gp (border_w c n) A cf (size_w A) (loc_x A)"
      using False
      by (simp add: tile_arrange_def tile_split_def Let_def n_def gp_def A_def k_def column_def)
    with one_column [OF a(2,10,4,5) wts] a(8) gaps [of n] r show ?thesis by (simp add: n_def)
  qed
  with a(3) show ?thesis by (blast intro: inside_trans)
qed

interpretation tile: tiled_layout "tile_arrange c g" "fits c g" for c g
  by unfold_locales (rule tile_sep, assumption+, simp add: fits_def)

section \<open>Bottom stack\<close>

lemma map_tr_sep:
  "(\<forall>r \<in> set (map tr rs). inside r A) \<and> sorted_wrt apart (map tr rs) \<longleftrightarrow>
   (\<forall>r \<in> set rs. inside r (tr A)) \<and> sorted_wrt apart rs"
  by (metis (no_types, lifting) imageE image_eqI list.set_map sorted_wrt_tr tr_inside tr_tr)

lemma map_tr_roomy: "(\<forall>r \<in> set (map tr rs). roomy r) \<longleftrightarrow> (\<forall>r \<in> set rs. roomy r)"
  by simp

lemma two_cells_sep:
  assumes "wf_rect A" "size_w A < 2147483648" "0 \<le> gp" "bw_ok bw" "0 \<le> mw" "mw \<le> size_w A - gp"
    "\<forall>r \<in> set [inset bw (loc_x A) (loc_y A) mw (size_h A),
       inset bw (i32 (loc_x A + mw + gp)) (loc_y A) (max (i32 (size_w A - mw - gp)) 1) (size_h A)]. roomy r"
  shows "(\<forall>r \<in> set [inset bw (loc_x A) (loc_y A) mw (size_h A),
       inset bw (i32 (loc_x A + mw + gp)) (loc_y A) (max (i32 (size_w A - mw - gp)) 1) (size_h A)]. inside r A) \<and>
    sorted_wrt apart [inset bw (loc_x A) (loc_y A) mw (size_h A),
       inset bw (i32 (loc_x A + mw + gp)) (loc_y A) (max (i32 (size_w A - mw - gp)) 1) (size_h A)]"
proof -
  let ?sw = "max (i32 (size_w A - mw - gp)) 1" and ?sx = "i32 (loc_x A + mw + gp)"
  have x: "in_i32 (loc_x A)" "in_i32 (loc_y A)" "loc_x A + size_w A < 2147483648"
    "0 \<le> size_h A" "loc_y A + size_h A < 2147483648" using assms(1) by (auto simp: wf_rect_def)
  have sw: "i32 (size_w A - mw - gp) = size_w A - mw - gp" using assms(2,3,5,6) by (intro i32_id) auto
  have sx: "?sx = loc_x A + mw + gp" using assms(3,5,6) x by (intro i32_id) (auto simp: in_i32_def)
  have "1 < max (i32 (?sw - 2 * bw)) 1" using assms(7) by (simp add: roomy_def inset_def)
  from unsqueezed(2) [OF assms(4) _ _ this] have "1 < ?sw - 2 * bw" using assms(2,3,5) sw by simp
  then have "1 < ?sw" using assms(4) unfolding bw_ok_def by linarith
  with sw have w: "?sw = size_w A - mw - gp" by simp
  have c: "inside (inset bw (loc_x A) (loc_y A) mw (size_h A)) (strip A (loc_x A) mw)"
    "inside (inset bw ?sx (loc_y A) ?sw (size_h A)) (strip A ?sx ?sw)"
    unfolding strip_def using x sx w assms(3-7) in_i32_i32 [of "loc_x A + mw + gp"]
    by (intro inset_inside; auto simp: wf_rect_def)+
  have "inside (strip A (loc_x A) mw) A" "inside (strip A ?sx ?sw) A" "loc_x A + mw \<le> ?sx"
    using assms(3,5,6) sx w by (auto simp: inside_def strip_def)
  from two_strips [OF this, of "[inset bw (loc_x A) (loc_y A) mw (size_h A)]"
      "[inset bw ?sx (loc_y A) ?sw (size_h A)]"] c
  show ?thesis by simp
qed

lemma bstack_sep:
  assumes f: "fits c g m cf" and r: "\<forall>r \<in> set (bstack_arrange c g m cf). roomy r"
  shows "(\<forall>r \<in> set (bstack_arrange c g m cf). inside r (w_area m)) \<and>
    sorted_wrt apart (bstack_arrange c g m cf)"
proof -
  define n where "n = length cf"
  define gp where "gp = gap_px c g n"
  define A where "A = outer_area gp (w_area m)"
  define k where "k = min n (nat (max (nmaster m) 0))"
  define mf where "mf = f_clamp (mfact m) mfact_lo mfact_hi"
  note a = fits_area [OF f n_def gp_def A_def]
  have wts: "\<forall>x \<in> set cf. weight_ok x" using f by (simp add: fits_def)
  then have wts': "\<forall>x \<in> set (take k cf). weight_ok x" "\<forall>x \<in> set (drop k cf). weight_ok x"
    by (auto dest: in_set_takeD in_set_dropD)
  have gaps: "(int j - 1) * gp \<le> size_w A" if "j \<le> n" for j
    using gap_count_le [OF that a(4)] a(6) by simp
  have one: "1 * gp \<le> int n * gp" if "0 < n" using a(4) that by (intro mult_right_mono) auto
  have sh: "i32 (s - gp) = s - gp \<and> 0 \<le> share (s - gp) mf \<and> share (s - gp) mf \<le> s - gp"
    if "gp \<le> s" "s < 2147483648" for s
    unfolding mf_def using that a(4) share_bounds [of "s - gp" "mfact m"] i32_id [of "s - gp"] by simp
  note unf = bstack_arrange_def bstack_split_def Let_def n_def gp_def A_def k_def mf_def
  have "(\<forall>r \<in> set (bstack_arrange c g m cf). inside r A) \<and> sorted_wrt apart (bstack_arrange c g m cf)"
  proof (cases "n - nat (max (nmaster m) 0) > 0")
    case True
    then have k: "k < n" by (simp add: k_def)
    with one a(6,7) have gA: "gp \<le> size_w A" "gp \<le> size_h A" by auto
    show ?thesis
    proof (cases "n = 2")
      case two: True
      then have "bstack_arrange c g m cf =
          [inset (border_w c n) (loc_x A) (loc_y A) (share (i32 (size_w A - gp)) mf) (size_h A),
           inset (border_w c n) (i32 (loc_x A + share (i32 (size_w A - gp)) mf + gp)) (loc_y A)
             (max (i32 (size_w A - share (i32 (size_w A - gp)) mf - gp)) 1) (size_h A)]"
        using True by (simp add: unf)
      with two_cells_sep [OF a(2,9,4,5), of "share (size_w A - gp) mf"] sh [OF gA(1) a(9)] r
      show ?thesis by simp
    next
      case False
      let ?rs = "column gp (border_w c n) (tr A) (take k cf) (share (i32 (size_h A - gp)) mf) (loc_y A) @
        column gp (border_w c n) (tr A) (drop k cf)
          (max (i32 (size_h A - share (i32 (size_h A - gp)) mf - gp)) 1)
          (i32 (loc_y A + share (i32 (size_h A - gp)) mf + gp))"
      have eq: "bstack_arrange c g m cf = map tr ?rs"
        using True False by (simp add: unf row_tr)
      have "\<forall>r \<in> set ?rs. roomy r" using r unfolding eq map_tr_roomy by simp
      then have "(\<forall>r \<in> set ?rs. inside r (tr A)) \<and> sorted_wrt apart ?rs"
        using split_columns [of "tr A" gp "border_w c n" "take k cf" "drop k cf" "share (size_h A - gp) mf"]
          sh [OF gA(2) a(10)] a(2,4,5,8-10) wts' gaps [of k] gaps [of "n - k"] k by (auto simp: n_def)
      then show ?thesis unfolding eq map_tr_sep .
    qed
  next
    case False
    then have nm: "length cf - nat (max (nmaster m) 0) = 0"
      "min (length cf) (nat (max (nmaster m) 0)) = length cf"
      "(nat (max (nmaster m) 0) < length cf) = False" by (auto simp: n_def)
    have eq: "bstack_arrange c g m cf =
        map tr (column gp (border_w c n) (tr A) cf (size_h A) (loc_y A))"
      by (simp add: bstack_arrange_def bstack_split_def Let_def n_def gp_def A_def nm row_tr column_def)
    have "\<forall>r \<in> set (column gp (border_w c n) (tr A) cf (size_w (tr A)) (loc_x (tr A))). roomy r"
      using r unfolding eq map_tr_roomy by simp
    with one_column [of "tr A" gp "border_w c n" cf] a(2,4,5,8,9) wts gaps [of n]
    show ?thesis unfolding eq map_tr_sep by (simp add: n_def)
  qed
  with a(3) show ?thesis by (blast intro: inside_trans)
qed

interpretation bstack: tiled_layout "bstack_arrange c g" "fits c g" for c g
  by unfold_locales (rule bstack_sep, assumption+, simp add: fits_def)

section \<open>Dwindle\<close>

definition ratio_ok :: "f64 \<Rightarrow> bool" where
  "ratio_ok q \<longleftrightarrow> (\<forall>n. 0 \<le> n \<longrightarrow> n \<le> 2147483647 \<longrightarrow> 0 \<le> share n q \<and> share n q \<le> n)"

lemma ratio_half: "ratio_ok (f_lit (1 / 2))"
proof -
  have "f_lit (1 / 2) = Fin (1 / 2)" by code_simp
  then show ?thesis using f_mul_frac [of _ "1 / 2"] by (simp add: ratio_ok_def share_def)
qed

lemma ratio_mfact: "ratio_ok (f_clamp x mfact_lo mfact_hi)"
  using share_bounds by (simp add: ratio_ok_def)

text \<open>What one split leaves: the first part and the gap fit when the rest is not clamped.\<close>

lemma split_one:
  assumes "ratio_ok q" "0 \<le> gp" "gp < 2147483648" "1 \<le> w" "w < 2147483648"
    "v = max (share (max (i32 (w - gp)) 1) q) 1" "w' = max (i32 (w - v - gp)) 1"
  shows "1 \<le> v" "v \<le> w" "1 \<le> w'" "w' < 2147483648" "1 < w' \<Longrightarrow> w' = w - v - gp"
proof -
  have "i32 (w - gp) = w - gp" using assms by (intro i32_id) auto
  then have "share (max (i32 (w - gp)) 1) q \<le> max (i32 (w - gp)) 1" "max (i32 (w - gp)) 1 \<le> w"
    using assms(1,2,4,5) by (auto simp: ratio_ok_def)
  then show v: "1 \<le> v" "v \<le> w" using assms(4,6) by auto
  have "i32 (w - v - gp) = w - v - gp" using v assms by (intro i32_id) auto
  then have "w' = max (w - v - gp) 1" by (simp only: assms(7))
  then show "1 \<le> w'" "w' < 2147483648" "1 < w' \<Longrightarrow> w' = w - v - gp"
    using assms(2,5) v(1) by linarith+
qed

text \<open>One iteration, with the part it takes and the part it leaves named.\<close>

lemma dwindle_even:
  assumes "i mod 2 = 0" "v = max (share (max (i32 (rw - gp)) 1) (if i = 0 then mf else f_lit (1 / 2))) 1"
  shows "dwindle_cells gp bw mf (Suc k) i rx ry rw rh = inset bw rx ry v rh #
    dwindle_cells gp bw mf k (Suc i) (i32 (rx + v + gp)) ry (max (i32 (rw - v - gp)) 1) rh"
  unfolding assms(2) by (simp only: dwindle_cells.simps Let_def if_P [OF assms(1)])

lemma dwindle_odd:
  assumes "i mod 2 \<noteq> 0" "v = max (share (max (i32 (rh - gp)) 1) (f_lit (1 / 2))) 1"
  shows "dwindle_cells gp bw mf (Suc k) i rx ry rw rh = inset bw rx ry rw v #
    dwindle_cells gp bw mf k (Suc i) rx (i32 (ry + v + gp)) rw (max (i32 (rh - v - gp)) 1)"
  unfolding assms(2) by (simp only: dwindle_cells.simps Let_def if_not_P [OF assms(1)])

lemma dwindle_roomy:
  assumes "ratio_ok mf" "0 \<le> gp" "gp < 2147483648" "bw_ok bw"
  shows "1 \<le> rw \<Longrightarrow> rw < 2147483648 \<Longrightarrow> 1 \<le> rh \<Longrightarrow> rh < 2147483648 \<Longrightarrow>
    \<forall>r \<in> set (dwindle_cells gp bw mf k i rx ry rw rh). roomy r \<Longrightarrow> 1 < rw \<and> 1 < rh"
proof (induction k arbitrary: i rx ry rw rh)
  case 0
  then have "1 < max (i32 (rw - 2 * bw)) 1" "1 < max (i32 (rh - 2 * bw)) 1"
    by (simp_all add: roomy_def inset_def)
  then have "1 < rw - 2 * bw" "1 < rh - 2 * bw"
    using 0(1-4) by (intro unsqueezed(2) [OF assms(4)]; linarith)+
  with assms(4) show ?case unfolding bw_ok_def by linarith
next
  case (Suc k)
  have q: "ratio_ok (if i = 0 then mf else f_lit (1 / 2))" using assms(1) ratio_half by simp
  show ?case
  proof (cases "i mod 2 = 0")
    case True
    define v where "v = max (share (max (i32 (rw - gp)) 1) (if i = 0 then mf else f_lit (1 / 2))) 1"
    define w where "w = max (i32 (rw - v - gp)) 1"
    note s = split_one [OF q assms(2,3) Suc.prems(1,2) v_def w_def]
    have "\<forall>r \<in> set (dwindle_cells gp bw mf k (Suc i) (i32 (rx + v + gp)) ry w rh). roomy r"
      using Suc.prems(5) unfolding dwindle_even [OF True v_def] w_def by simp
    from Suc.IH [OF s(3,4) Suc.prems(3,4) this] s(1,2,5) assms(2) show ?thesis by linarith
  next
    case False
    define v where "v = max (share (max (i32 (rh - gp)) 1) (f_lit (1 / 2))) 1"
    define h where "h = max (i32 (rh - v - gp)) 1"
    note s = split_one [OF ratio_half assms(2,3) Suc.prems(3,4) v_def h_def]
    have "\<forall>r \<in> set (dwindle_cells gp bw mf k (Suc i) rx (i32 (ry + v + gp)) rw h). roomy r"
      using Suc.prems(5) unfolding dwindle_odd [OF False v_def] h_def by simp
    from Suc.IH [OF Suc.prems(1,2) s(3,4) this] s(1,2,5) assms(2) show ?thesis by linarith
  qed
qed

lemma dwindle_cells_sep:
  assumes "ratio_ok mf" "0 \<le> gp" "gp < 2147483648" "bw_ok bw"
  shows "wf_rect (mk_rect rx ry rw rh) \<Longrightarrow> 1 \<le> rw \<Longrightarrow> rw < 2147483648 \<Longrightarrow> 1 \<le> rh \<Longrightarrow> rh < 2147483648 \<Longrightarrow>
    \<forall>r \<in> set (dwindle_cells gp bw mf k i rx ry rw rh). roomy r \<Longrightarrow>
    (\<forall>r \<in> set (dwindle_cells gp bw mf k i rx ry rw rh). inside r (mk_rect rx ry rw rh)) \<and>
    sorted_wrt apart (dwindle_cells gp bw mf k i rx ry rw rh)"
proof (induction k arbitrary: i rx ry rw rh)
  case 0
  then show ?case using inset_inside [OF 0(1) assms(4)] by simp
next
  case (Suc k)
  have q: "ratio_ok (if i = 0 then mf else f_lit (1 / 2))" using assms(1) ratio_half by simp
  have R: "in_i32 rx" "in_i32 ry" "rx + rw < 2147483648" "ry + rh < 2147483648"
    using Suc.prems(1) by (auto simp: wf_rect_def)
  show ?case
  proof (cases "i mod 2 = 0")
    case True
    define v where "v = max (share (max (i32 (rw - gp)) 1) (if i = 0 then mf else f_lit (1 / 2))) 1"
    note eq = dwindle_even [OF True v_def]
    note s = split_one [OF q assms(2,3) Suc.prems(2,3) v_def refl]
    let ?cs = "dwindle_cells gp bw mf k (Suc i) (i32 (rx + v + gp)) ry (max (i32 (rw - v - gp)) 1) rh"
    have rm: "roomy (inset bw rx ry v rh)" "\<forall>r \<in> set ?cs. roomy r"
      using Suc.prems(6) unfolding eq by simp_all
    have w1: "1 < max (i32 (rw - v - gp)) 1"
      using dwindle_roomy [OF assms s(3,4) Suc.prems(4,5) rm(2)] by simp
    have w: "max (i32 (rw - v - gp)) 1 = rw - v - gp" "1 < rw - v - gp"
      using s(5) [OF w1] w1 by linarith+
    have x: "i32 (rx + v + gp) = rx + v + gp"
      using R s(1) w(2) assms(2) by (intro i32_id) (auto simp: in_i32_def)
    have wf: "wf_rect (mk_rect (rx + v + gp) ry (rw - v - gp) rh)" "wf_rect (mk_rect rx ry v rh)"
      using Suc.prems(4) R s(1) w(2) assms(2) by (auto simp: wf_rect_def in_i32_def)
    have IH: "(\<forall>r \<in> set ?cs. inside r (mk_rect (rx + v + gp) ry (rw - v - gp) rh)) \<and> sorted_wrt apart ?cs"
      using Suc.IH [OF wf(1) _ _ Suc.prems(4,5)] rm(2) w s(4) unfolding x by simp
    have "inside (inset bw rx ry v rh) (mk_rect rx ry v rh)" by (rule inset_inside [OF wf(2) assms(4) rm(1)])
    moreover have "apart (mk_rect rx ry v rh) (mk_rect (rx + v + gp) ry (rw - v - gp) rh)"
      "inside (mk_rect rx ry v rh) (mk_rect rx ry rw rh)"
      "inside (mk_rect (rx + v + gp) ry (rw - v - gp) rh) (mk_rect rx ry rw rh)"
      using assms(2) s(1,2) by (auto simp: apart_def inside_def)
    ultimately show ?thesis using IH unfolding eq
      by (auto intro: apart_inside elim: inside_trans)
  next
    case False
    define v where "v = max (share (max (i32 (rh - gp)) 1) (f_lit (1 / 2))) 1"
    note eq = dwindle_odd [OF False v_def]
    note s = split_one [OF ratio_half assms(2,3) Suc.prems(4,5) v_def refl]
    let ?cs = "dwindle_cells gp bw mf k (Suc i) rx (i32 (ry + v + gp)) rw (max (i32 (rh - v - gp)) 1)"
    have rm: "roomy (inset bw rx ry rw v)" "\<forall>r \<in> set ?cs. roomy r"
      using Suc.prems(6) unfolding eq by simp_all
    have w1: "1 < max (i32 (rh - v - gp)) 1"
      using dwindle_roomy [OF assms Suc.prems(2,3) s(3,4) rm(2)] by simp
    have w: "max (i32 (rh - v - gp)) 1 = rh - v - gp" "1 < rh - v - gp"
      using s(5) [OF w1] w1 by linarith+
    have x: "i32 (ry + v + gp) = ry + v + gp"
      using R s(1) w(2) assms(2) by (intro i32_id) (auto simp: in_i32_def)
    have wf: "wf_rect (mk_rect rx (ry + v + gp) rw (rh - v - gp))" "wf_rect (mk_rect rx ry rw v)"
      using Suc.prems(2) R s(1) w(2) assms(2) by (auto simp: wf_rect_def in_i32_def)
    have IH: "(\<forall>r \<in> set ?cs. inside r (mk_rect rx (ry + v + gp) rw (rh - v - gp))) \<and> sorted_wrt apart ?cs"
      using Suc.IH [OF wf(1) Suc.prems(2,3)] rm(2) w s(4) unfolding x by simp
    have "inside (inset bw rx ry rw v) (mk_rect rx ry rw v)" by (rule inset_inside [OF wf(2) assms(4) rm(1)])
    moreover have "apart (mk_rect rx ry rw v) (mk_rect rx (ry + v + gp) rw (rh - v - gp))"
      "inside (mk_rect rx ry rw v) (mk_rect rx ry rw rh)"
      "inside (mk_rect rx (ry + v + gp) rw (rh - v - gp)) (mk_rect rx ry rw rh)"
      using assms(2) s(1,2) by (auto simp: apart_def inside_def)
    ultimately show ?thesis using IH unfolding eq
      by (auto intro: apart_inside elim: inside_trans)
  qed
qed

lemma dwindle_sep:
  assumes f: "fits c g m cf" and r: "\<forall>r \<in> set (dwindle_arrange c g m cf). roomy r"
  shows "(\<forall>r \<in> set (dwindle_arrange c g m cf). inside r (w_area m)) \<and>
    sorted_wrt apart (dwindle_arrange c g m cf)"
proof -
  define n where "n = length cf"
  define gp where "gp = gap_px c g n"
  define A where "A = outer_area gp (w_area m)"
  note a = fits_area [OF f n_def gp_def A_def]
  have n: "0 < n" using f by (simp add: fits_def n_def)
  then have "1 * gp \<le> int n * gp" using a(4) by (intro mult_right_mono) auto
  then have gp: "gp < 2147483648" and A: "1 \<le> size_w A" "1 \<le> size_h A" using a(4,6,7,9) by linarith+
  have "(\<forall>r \<in> set (dwindle_arrange c g m cf). inside r A) \<and> sorted_wrt apart (dwindle_arrange c g m cf)"
  proof (cases "n = 1")
    case True
    then have "dwindle_arrange c g m cf = [A]"
      by (simp add: dwindle_arrange_def Let_def n_def gp_def A_def)
    then show ?thesis by simp
  next
    case False
    have eq: "dwindle_arrange c g m cf = dwindle_cells gp (border_w c n)
        (f_clamp (mfact m) mfact_lo mfact_hi) (n - 1) 0 (loc_x A) (loc_y A) (size_w A) (size_h A)"
      using False n by (simp add: dwindle_arrange_def Let_def n_def gp_def A_def)
    have mkA: "mk_rect (loc_x A) (loc_y A) (size_w A) (size_h A) = A" by (cases A) (simp add: mk_rect_def)
    show ?thesis using dwindle_cells_sep [OF ratio_mfact [of "mfact m"] a(4) gp a(5), where rx = "loc_x A" and ry = "loc_y A" and rw = "size_w A" and rh = "size_h A"
        and k = "n - 1" and i = 0] a(2,9,10) A r unfolding eq mkA by simp
  qed
  with a(3) show ?thesis by (blast intro: inside_trans)
qed

interpretation dwindle: tiled_layout "dwindle_arrange c g" "fits c g" for c g
  by unfold_locales (rule dwindle_sep, assumption+, simp add: fits_def)

section \<open>Col\<close>

lemma col_cells_inset:
  "col_cells gp bw A u (max (i32 (size_h A - 2 * bw)) 1) off (q # fs) =
   (let v = (if fs = [] then i32 (u - off) else share u q)
    in inset bw (loc_x A + off) (loc_y A) v (size_h A) #
       col_cells gp bw A u (max (i32 (size_h A - 2 * bw)) 1) (i32 (off + v + (if fs \<noteq> [] then gp else 0))) fs)"
  by (simp add: inset_def Let_def)

lemma col_cells_sep:
  assumes "wf_rect A" "0 \<le> gp" "0 \<le> u" "u \<le> size_w A" "size_w A < 1073741824" "size_h A < 2147483648"
    "0 \<le> bw" "bw < 536870912" "H = max (i32 (size_h A - 2 * bw)) 1"
  shows "\<forall>f \<in> set fs. 0 \<le> share u f \<and> share u f \<le> u \<Longrightarrow> fs \<noteq> [] \<Longrightarrow> 0 \<le> off \<Longrightarrow>
    off + (int (length fs) - 1) * (u + gp) < 1073741824 \<Longrightarrow>
    \<forall>r \<in> set (col_cells gp bw A u H off fs). roomy r \<Longrightarrow>
    off < u \<and> (\<forall>r \<in> set (col_cells gp bw A u H off fs). inside r (strip A (loc_x A + off) (u - off))) \<and>
    sorted_wrt apart (col_cells gp bw A u H off fs) \<and>
    loc_x (last (col_cells gp bw A u H off fs)) + size_w (last (col_cells gp bw A u H off fs)) + bw = loc_x A + u"
proof (induction fs arbitrary: off)
  case (Cons q fs)
  have A: "in_i32 (loc_x A)" "in_i32 (loc_y A)" "loc_x A + size_w A < 2147483648" "0 \<le> size_h A"
    "loc_y A + size_h A < 2147483648" using assms(1) by (auto simp: wf_rect_def)
  have bw: "bw_ok bw" using assms(7,8) by (simp add: bw_ok_def)
  have cell: "inside (inset bw (loc_x A + off) (loc_y A) v (size_h A)) (strip A (loc_x A + off) v)"
    if "0 \<le> v" "off + v \<le> u" "roomy (inset bw (loc_x A + off) (loc_y A) v (size_h A))" for v
    unfolding strip_def using that A assms(4) Cons.prems(3) bw
    by (intro inset_inside) (auto simp: wf_rect_def in_i32_def)
  show ?case
  proof (cases "fs = []")
    case True
    have off: "off < 1073741824" using Cons.prems(4) True by simp
    then have u: "i32 (u - off) = u - off" using assms(3-5) Cons.prems(3) by (intro i32_id) auto
    have eq: "col_cells gp bw A u H off (q # fs) = [inset bw (loc_x A + off) (loc_y A) (u - off) (size_h A)]"
      unfolding assms(9) col_cells_inset Let_def using True u by simp
    then have rm: "roomy (inset bw (loc_x A + off) (loc_y A) (u - off) (size_h A))" using Cons.prems(5) by simp
    have i: "i32 (u - off - 2 * bw) = u - off - 2 * bw"
      using assms off Cons.prems(3) by (intro i32_id) auto
    moreover have "1 < max (i32 (u - off - 2 * bw)) 1" using rm by (simp add: roomy_def inset_def)
    ultimately have big: "1 < u - off - 2 * bw" by linarith
    then have "off < u" using assms(7) by simp
    moreover have "i32 (loc_x A + off + bw) = loc_x A + off + bw"
      using A(1,3) big assms(4,7) Cons.prems(3) by (intro i32_id) (auto simp: in_i32_def)
    ultimately show ?thesis using cell [OF _ _ rm] eq i big by (simp add: inset_def)
  next
    case False
    define v where "v = share u q"
    have v: "0 \<le> v" "v \<le> u" using Cons.prems(1) by (auto simp: v_def)
    let ?off = "off + v + gp"
    have n: "(int (length (q # fs)) - 1) * (u + gp) = (u + gp) + (int (length fs) - 1) * (u + gp)"
      by (simp add: algebra_simps)
    have pos: "0 \<le> (int (length fs) - 1) * (u + gp)" using False assms(2,3) by (cases fs) auto
    have b: "?off + (int (length fs) - 1) * (u + gp) < 1073741824"
      using Cons.prems(4) n v(2) by linarith
    then have i: "i32 ?off = ?off" using Cons.prems(3) v(1) assms(2) pos by (intro i32_id) auto
    let ?cs = "col_cells gp bw A u H ?off fs"
    have eq: "col_cells gp bw A u H off (q # fs) = inset bw (loc_x A + off) (loc_y A) v (size_h A) # ?cs"
      unfolding assms(9) col_cells_inset Let_def v_def [symmetric] using False i by simp
    have IH: "?off < u \<and> (\<forall>r \<in> set ?cs. inside r (strip A (loc_x A + ?off) (u - ?off))) \<and> sorted_wrt apart ?cs \<and>
        loc_x (last ?cs) + size_w (last ?cs) + bw = loc_x A + u"
      using Cons.prems(1,3,5) False v(1) assms(2) b unfolding eq by (intro Cons.IH) auto
    then have c: "inside (inset bw (loc_x A + off) (loc_y A) v (size_h A)) (strip A (loc_x A + off) v)"
      using Cons.prems(5) v(1) assms(2) unfolding eq by (intro cell) auto
    have "apart (strip A (loc_x A + off) v) (strip A (loc_x A + ?off) (u - ?off))"
      "inside (strip A (loc_x A + off) v) (strip A (loc_x A + off) (u - off))"
      "inside (strip A (loc_x A + ?off) (u - ?off)) (strip A (loc_x A + off) (u - off))"
      using assms(2) v(1) IH by (auto simp: apart_def inside_def strip_def)
    moreover have "?cs \<noteq> []" using False by (cases fs) (simp_all add: Let_def)
    ultimately show ?thesis using IH c v(1) assms(2) unfolding eq
      by (auto intro: apart_inside elim: inside_trans)
  qed
qed simp

lemma share_frac: "0 \<le> u \<Longrightarrow> u \<le> 2147483647 \<Longrightarrow> 0 \<le> q \<Longrightarrow> q \<le> 1 \<Longrightarrow> 0 \<le> share u (Fin q) \<and> share u (Fin q) \<le> u"
  using f_mul_frac [of u q] by (simp add: share_def)

lemma one_over_n:
  assumes "0 < n" "int n < 2147483648"
  shows "\<exists>q. f_div (f_lit 1) (f_of_usize n) = Fin q \<and> 0 \<le> q \<and> q \<le> 1"
proof -
  have "f_lit 1 = Fin 1" using rnd_int [of 1] by (simp add: f_lit_def)
  moreover have "f_of_usize n = Fin (of_int (int n))"
    using rnd_int [of "int n"] assms(2) by (simp add: f_of_usize_def)
  moreover have "0 \<le> (1 / of_int (int n) :: rat)" "1 / of_int (int n) \<le> (1 :: rat)" using assms(1) by simp_all
  moreover from this have "rnd (1 / of_int (int n)) = Fin (rndr (1 / of_int (int n)))"
    by (intro rnd_Fin) simp
  ultimately show ?thesis using assms(1) rn.nonneg rn.pos_le_one by simp
qed

lemma col_sep_edge:
  assumes f: "fits c g m cf" and r: "\<forall>r \<in> set (col_arrange c g m cf). roomy r"
  shows "(\<forall>r \<in> set (col_arrange c g m cf). inside r (w_area m)) \<and>
    sorted_wrt apart (col_arrange c g m cf) \<and>
    loc_x (last (col_arrange c g m cf)) + size_w (last (col_arrange c g m cf)) + border_w c (length cf) =
      loc_x (w_area m) + size_w (w_area m) - int (length cf) * gap_px c g (length cf)"
proof -
  define n where "n = length cf"
  define gp where "gp = gap_px c g n"
  define A where "A = outer_area gp (w_area m)"
  define u where "u = size_w A - (int n - 1) * gp"
  define fs where "fs = (if length (col_facts m) = n then col_facts m
    else replicate n (f_div (f_lit 1) (f_of_usize n)))"
  note a = fits_area [OF f n_def gp_def A_def]
  have n: "0 < n" using f by (simp add: fits_def n_def)
  have g0: "0 \<le> (int n - 1) * gp" using n a(4) by simp
  have ng: "(int n - 1) * gp \<le> int n * gp" using a(4) by (intro mult_right_mono) auto
  have u: "1 \<le> u" "u \<le> size_w A" using ng g0 a(6) by (auto simp: u_def)
  have sA: "size_w A < 1073741824"
  proof -
    have "1 * size_w A \<le> int n * size_w A" using n u by (intro mult_right_mono) auto
    with a(11) show ?thesis by simp
  qed
  have fr: "\<exists>q. x = Fin q \<and> 0 \<le> q \<and> q \<le> 1" if "x \<in> set fs" for x
    using that f one_over_n [OF n a(8)] by (auto simp: fs_def fits_def split: if_splits)
  have sh: "\<forall>x \<in> set fs. 0 \<le> share u x \<and> share u x \<le> u"
    using fr share_frac [of u] u sA by fastforce
  have len: "length fs = n" by (simp add: fs_def)
  have "(int n - 1) * (u + gp) \<le> int n * size_w A"
  proof (cases "n = 1")
    case False
    then have "1 * gp \<le> (int n - 1) * gp" using n a(4) by (intro mult_right_mono) auto
    then have "u + gp \<le> size_w A" by (simp add: u_def)
    then have "(int n - 1) * (u + gp) \<le> (int n - 1) * size_w A" using n by (intro mult_left_mono) auto
    also have "\<dots> \<le> int n * size_w A" using u by (intro mult_right_mono) auto
    finally show ?thesis .
  qed (use u in simp)
  with a(11) have bound: "0 + (int (length fs) - 1) * (u + gp) < 1073741824" by (simp add: len)
  have i: "i32 ((int n - 1) * gp) = (int n - 1) * gp" "i32 u = u"
    using g0 u sA unfolding u_def by (intro i32_id; simp)+
  have eq: "col_arrange c g m cf =
      col_cells gp (border_w c n) A u (max (i32 (size_h A - 2 * border_w c n)) 1) 0 fs"
    using n i u a(8)
    by (simp add: col_arrange_def Let_def usize_as_i32_id flip: n_def gp_def A_def fs_def)
      (simp add: u_def max_def)
  have "(\<forall>r \<in> set (col_arrange c g m cf). inside r (strip A (loc_x A + 0) (u - 0))) \<and>
      sorted_wrt apart (col_arrange c g m cf) \<and>
      loc_x (last (col_arrange c g m cf)) + size_w (last (col_arrange c g m cf)) + border_w c n = loc_x A + u"
    using col_cells_sep [OF a(2,4) _ u(2) sA a(10) _ a(12) refl sh _ _ bound] u(1) a(5) r len n
    unfolding eq by (auto simp: bw_ok_def)
  moreover have "inside (strip A (loc_x A + 0) (u - 0)) A" using u by (auto simp: inside_def strip_def)
  moreover have "loc_x A + u = loc_x (w_area m) + size_w (w_area m) - int n * gp"
    unfolding u_def a(1) by (simp add: algebra_simps)
  ultimately show ?thesis using a(3) unfolding n_def gp_def by (auto intro: inside_trans)
qed

lemma col_sep:
  assumes "fits c g m cf" "\<forall>r \<in> set (col_arrange c g m cf). roomy r"
  shows "(\<forall>r \<in> set (col_arrange c g m cf). inside r (w_area m)) \<and>
    sorted_wrt apart (col_arrange c g m cf)"
  using col_sep_edge [OF assms] by blast

interpretation col: tiled_layout "col_arrange c g" "fits c g" for c g
  by unfold_locales (rule col_sep, assumption+, simp add: fits_def)

section \<open>Centred master\<close>

lemma interleaved_sep:
  assumes "length ms = k" "length rs = (n - k + 1) div 2" "length ls = (n - k) div 2" "k \<le> n"
    "sorted_wrt apart ms" "sorted_wrt apart rs" "sorted_wrt apart ls"
    "\<forall>a \<in> set ms. \<forall>b \<in> set rs \<union> set ls. apart a b" "\<forall>a \<in> set rs. \<forall>b \<in> set ls. apart a b"
    "i < j" "j < n"
  shows "apart (interleaved k ms rs ls i) (interleaved k ms rs ls j)"
proof -
  have idx: "even (x - k) \<Longrightarrow> (x - k) div 2 < length rs" "odd (x - k) \<Longrightarrow> (x - k) div 2 < length ls"
    if "\<not> x < k" "x < n" for x using that assms(2,3) by presburger+
  have lt: "(i - k) div 2 < (j - k) div 2" if "\<not> i < k" "even (i - k) = even (j - k)"
    using that assms(10) by presburger
  show ?thesis
  proof (cases "i < k")
    case True
    show ?thesis
    proof (cases "j < k")
      case True
      then show ?thesis using \<open>i < k\<close> assms(1,5,10) by (simp add: interleaved_def sorted_wrt_nth_less)
    next
      case False
      then show ?thesis using True assms(1,8,11) idx [of j] by (auto simp: interleaved_def)
    qed
  next
    case False
    then have "\<not> j < k" using assms(10) by simp
    with False show ?thesis using idx [of i] idx [of j] lt assms(6,7,9,10,11)
      by (auto simp: interleaved_def intro: apart_sym sorted_wrt_nth_less)
  qed
qed

lemma interleaved_covers:
  assumes "length ms = k" "length rs = (n - k + 1) div 2" "length ls = (n - k) div 2" "k \<le> n"
    "x \<in> set ms \<union> set rs \<union> set ls"
  shows "\<exists>i < n. interleaved k ms rs ls i = x"
proof -
  consider j where "j < length ms" "ms ! j = x" | j where "j < length rs" "rs ! j = x"
    | j where "j < length ls" "ls ! j = x" using assms(5) by (auto simp: in_set_conv_nth)
  then show ?thesis
  proof cases
    case 1
    with assms show ?thesis by (intro exI [of _ j]) (auto simp: interleaved_def)
  next
    case 2
    with assms show ?thesis by (intro exI [of _ "k + 2 * j"]) (auto simp: interleaved_def)
  next
    case 3
    with assms show ?thesis by (intro exI [of _ "k + 2 * j + 1"]) (auto simp: interleaved_def)
  qed
qed

text \<open>Three columns that keep to three separate strips of the area.\<close>

definition in_strip :: "rect list \<Rightarrow> rect \<Rightarrow> bool" where
  "in_strip rs s \<longleftrightarrow> (\<forall>r \<in> set rs. inside r s) \<and> sorted_wrt apart rs"

lemma centered_sep_cols:
  assumes "centered_cols c g m cf = (k, ms, rs, ls)"
    "in_strip ms sm" "in_strip rs sr" "in_strip ls sl"
    "inside sm A" "inside sr A" "inside sl A"
    "ms = [] \<or> rs = [] \<or> apart sm sr" "ms = [] \<or> ls = [] \<or> apart sm sl"
    "rs = [] \<or> ls = [] \<or> apart sr sl"
  shows "(\<forall>r \<in> set (centered_arrange c g m cf). inside r A) \<and>
    sorted_wrt apart (centered_arrange c g m cf)"
proof -
  note cols = centered_arrange_cols [OF assms(1)]
  have cross: "\<forall>a \<in> set ms. \<forall>b \<in> set rs \<union> set ls. apart a b" "\<forall>a \<in> set rs. \<forall>b \<in> set ls. apart a b"
    using assms(2-4,8-10) by (auto simp: in_strip_def intro: apart_inside)
  have "apart (centered_arrange c g m cf ! i) (centered_arrange c g m cf ! j)"
    if "i < j" "j < length cf" for i j
    using interleaved_sep [OF cols(3-5) _ _ _ _ cross that] assms(2-4) that cols(2,6)
    by (simp add: in_strip_def)
  then have "sorted_wrt apart (centered_arrange c g m cf)"
    by (simp add: sorted_wrt_iff_nth_less cols(1))
  moreover have "\<forall>r \<in> set (centered_arrange c g m cf). inside r A"
    using centered_set [OF assms(1)] assms(2-7) unfolding in_strip_def by (blast intro: inside_trans)
  ultimately show ?thesis by simp
qed

lemma in_strip_Nil [simp]: "in_strip [] s"
  by (simp add: in_strip_def)

text \<open>The horizontal geometry of the three columns, case by case.\<close>

lemma centered_split_geometry:
  assumes "centered_split gp A mf k sc = (mx, mw, lx, lw, rx, rw)" "ratio_ok mf" "0 \<le> gp"
    "in_i32 (loc_x A)" "loc_x A + size_w A < 2147483648" "1 \<le> size_w A" "size_w A < 1073741824"
    "int (k + sc) * gp < size_w A" "0 < k + sc"
    "1 \<le> sc \<Longrightarrow> 1 < rw" "2 \<le> sc \<Longrightarrow> 1 < lw"
  shows "0 < k \<Longrightarrow> 0 \<le> mw \<and> loc_x A \<le> mx \<and> mx + mw \<le> loc_x A + size_w A"
    "1 \<le> sc \<Longrightarrow> loc_x A \<le> rx \<and> rx + rw \<le> loc_x A + size_w A"
    "2 \<le> sc \<Longrightarrow> loc_x A \<le> lx \<and> lx + lw \<le> loc_x A + size_w A"
    "0 < k \<Longrightarrow> 1 \<le> sc \<Longrightarrow> mx + mw \<le> rx"
    "0 < k \<Longrightarrow> 2 \<le> sc \<Longrightarrow> lx + lw \<le> mx"
    "2 \<le> sc \<Longrightarrow> lx + lw \<le> rx"
proof -
  have ax: "- 2147483648 \<le> loc_x A" using assms(4) by (simp add: in_i32_def)
  have many: "j * gp < size_w A" if "j \<le> int (k + sc)" for j
    using mult_right_mono [OF that assms(3)] assms(8) by simp
  consider "sc = 0" | "sc = 1" "0 < k" | "sc = 1" "k = 0" | "2 \<le> sc" "0 < k" | "2 \<le> sc" "k = 0"
    by linarith
  then have "(0 < k \<longrightarrow> 0 \<le> mw \<and> loc_x A \<le> mx \<and> mx + mw \<le> loc_x A + size_w A) \<and>
    (1 \<le> sc \<longrightarrow> loc_x A \<le> rx \<and> rx + rw \<le> loc_x A + size_w A) \<and>
    (2 \<le> sc \<longrightarrow> loc_x A \<le> lx \<and> lx + lw \<le> loc_x A + size_w A) \<and>
    (0 < k \<longrightarrow> 1 \<le> sc \<longrightarrow> mx + mw \<le> rx) \<and>
    (0 < k \<longrightarrow> 2 \<le> sc \<longrightarrow> lx + lw \<le> mx) \<and> (2 \<le> sc \<longrightarrow> lx + lw \<le> rx)"
  proof cases
    case 1
    with assms(1,6) show ?thesis by (auto simp: centered_split_def Let_def)
  next
    case 2
    have g: "gp < size_w A" using many [of 1] 2 by simp
    then have s: "i32 (size_w A - gp) = size_w A - gp" using assms(3,7) by (intro i32_id) auto
    have m: "mw = share (size_w A - gp) mf" "mx = loc_x A"
      "rw = max (i32 (size_w A - mw - gp)) 1" "rx = i32 (loc_x A + mw + gp)"
      using assms(1) 2 s by (auto simp: centered_split_def Let_def)
    have b: "0 \<le> mw" "mw \<le> size_w A - gp"
      using assms(2,3,7) g unfolding m(1) ratio_ok_def by auto
    have "i32 (size_w A - mw - gp) = size_w A - mw - gp" using b assms(3,7) by (intro i32_id) auto
    then have "rw = size_w A - mw - gp" using assms(10) 2 m(3) by linarith
    moreover have "rx = loc_x A + mw + gp" unfolding m(4) using b assms(3,5) ax by (intro i32_id) auto
    ultimately show ?thesis using 2 m(2) b assms(3) by auto
  next
    case 3
    have m: "rw = max (i32 (size_w A)) 1" "rx = i32 (loc_x A)"
      using assms(1) 3 by (auto simp: centered_split_def Let_def)
    have "i32 (size_w A) = size_w A" "i32 (loc_x A) = loc_x A" using assms(4,6,7) by (auto intro: i32_id)
    with m 3 assms(6) show ?thesis by simp
  next
    case 4
    have g: "2 * gp < size_w A" using many [of 2] 4 by simp
    then have s: "i32 (size_w A - 2 * gp) = size_w A - 2 * gp" using assms(3,7) by (intro i32_id) auto
    define side where "side = max (i32 (size_w A - 2 * gp - mw)) 2"
    have m: "mw = share (size_w A - 2 * gp) mf" "lw = tdiv side 2" "rw = i32 (side - lw)"
      "lx = loc_x A" "mx = i32 (loc_x A + lw + gp)" "rx = i32 (mx + mw + gp)"
      using assms(1) 4 s by (auto simp: centered_split_def Let_def side_def)
    have b: "0 \<le> mw" "mw \<le> size_w A - 2 * gp"
      using assms(2,3,7) g unfolding m(1) ratio_ok_def by auto
    have "i32 (size_w A - 2 * gp - mw) = size_w A - 2 * gp - mw" using b assms(3,7) by (intro i32_id) auto
    then have sd: "side = max (size_w A - 2 * gp - mw) 2" by (simp add: side_def)
    have l: "lw = side div 2" unfolding m(2) sd by (rule tdiv_pos) auto
    with assms(11) 4 have "2 < side" by linarith
    with sd have side: "side = size_w A - 2 * gp - mw" by linarith
    have lw: "0 \<le> lw" "lw \<le> side" using l \<open>2 < side\<close> by linarith+
    have "rw = side - lw" unfolding m(3) using lw side b assms(3,7) by (intro i32_id) auto
    moreover have mx: "mx = loc_x A + lw + gp"
      unfolding m(5) using lw side b assms(3,5) ax by (intro i32_id) auto
    moreover have "rx = mx + mw + gp"
      unfolding m(6) using mx lw side b assms(3,5) ax by (intro i32_id) auto
    ultimately show ?thesis using 4 m(4) b assms(3) lw side by auto
  next
    case 5
    have g: "gp < size_w A" using many [of 1] 5 by simp
    then have s: "i32 (size_w A - gp) = size_w A - gp" using assms(3,7) by (intro i32_id) auto
    have m: "lw = tdiv (size_w A - gp) 2" "rw = max (i32 (size_w A - gp - lw)) 1"
      "lx = loc_x A" "rx = i32 (loc_x A + lw + gp)"
      using assms(1) 5 s by (auto simp: centered_split_def Let_def)
    have l: "lw = (size_w A - gp) div 2" unfolding m(1) using g by (intro tdiv_pos) auto
    then have lw: "0 \<le> lw" "lw \<le> size_w A - gp" using g by linarith+
    have "i32 (size_w A - gp - lw) = size_w A - gp - lw" using lw assms(3,7) by (intro i32_id) auto
    then have "rw = size_w A - gp - lw" using assms(10) 5 m(2) by linarith
    moreover have "rx = loc_x A + lw + gp" unfolding m(4) using lw assms(3,5) ax by (intro i32_id) auto
    ultimately show ?thesis using 5 m(3) lw assms(3) by auto
  qed
  then show "0 < k \<Longrightarrow> 0 \<le> mw \<and> loc_x A \<le> mx \<and> mx + mw \<le> loc_x A + size_w A"
    "1 \<le> sc \<Longrightarrow> loc_x A \<le> rx \<and> rx + rw \<le> loc_x A + size_w A"
    "2 \<le> sc \<Longrightarrow> loc_x A \<le> lx \<and> lx + lw \<le> loc_x A + size_w A"
    "0 < k \<Longrightarrow> 1 \<le> sc \<Longrightarrow> mx + mw \<le> rx"
    "0 < k \<Longrightarrow> 2 \<le> sc \<Longrightarrow> lx + lw \<le> mx"
    "2 \<le> sc \<Longrightarrow> lx + lw \<le> rx" by blast+
qed

lemma centered_split_widths:
  assumes "centered_split gp A mf k sc = (mx, mw, lx, lw, rx, rw)" "0 \<le> gp" "size_w A < 1073741824"
    "gp \<le> size_w A"
  shows "1 \<le> sc \<Longrightarrow> 0 \<le> rw \<and> rw < 2147483648 \<and> in_i32 rx"
    "2 \<le> sc \<Longrightarrow> 0 \<le> lw \<and> lw < 2147483648"
proof -
  have b: "i32 x < 2147483648" for x by (rule i32_bounds)
  have h: "tdiv s 2 = s div 2 \<and> 0 \<le> s div 2 \<and> s div 2 < 2147483648" if "0 \<le> s" "s < 2147483648" for s
    using that by (auto intro: tdiv_pos)
  have side: "0 \<le> max (i32 x) 2" "max (i32 x) 2 < 2147483648" for x using b [of x] by auto
  have r: "0 \<le> i32 (max (i32 x) 2 - tdiv (max (i32 x) 2) 2)" for x
  proof -
    let ?s = "max (i32 x) 2"
    have "i32 (?s - ?s div 2) = ?s - ?s div 2" using side [of x] by (intro i32_id) linarith+
    then show ?thesis using h [OF side] side [of x] by simp
  qed
  have g: "i32 (size_w A - gp) = size_w A - gp" using assms(2-4) by (intro i32_id) auto
  consider "sc = 0" | "sc = 1" | "2 \<le> sc" "0 < k" | "2 \<le> sc" "k = 0" by linarith
  then have "(1 \<le> sc \<longrightarrow> 0 \<le> rw \<and> rw < 2147483648 \<and> in_i32 rx) \<and>
      (2 \<le> sc \<longrightarrow> 0 \<le> lw \<and> lw < 2147483648)"
  proof cases
    case 2
    with assms(1) b show ?thesis by (auto simp: centered_split_def Let_def)
  next
    case 3
    define side where "side = max (i32 (size_w A - 2 * gp - share (i32 (size_w A - 2 * gp)) mf)) 2"
    have "rw = i32 (side - tdiv side 2)" "lw = tdiv side 2" "\<exists>x. rx = i32 x"
      using 3 assms(1) by (auto simp: centered_split_def Let_def side_def)
    moreover have "0 \<le> side" "side < 2147483648" using side by (simp_all add: side_def)
    ultimately show ?thesis using b r [of "size_w A - 2 * gp - share (i32 (size_w A - 2 * gp)) mf"]
        h [of side] by (auto simp: side_def)
  next
    case 4
    have "rw = max (i32 (size_w A - gp - lw)) 1" "lw = tdiv (size_w A - gp) 2" "\<exists>x. rx = i32 x"
      using 4 assms(1) g by (auto simp: centered_split_def Let_def)
    moreover have "0 \<le> max (i32 x) 1" "max (i32 x) 1 < 2147483648" for x using b [of x] by auto
    ultimately show ?thesis using h [of "size_w A - gp"] assms(2-4) by auto
  qed simp
  then show "1 \<le> sc \<Longrightarrow> 0 \<le> rw \<and> rw < 2147483648 \<and> in_i32 rx"
    "2 \<le> sc \<Longrightarrow> 0 \<le> lw \<and> lw < 2147483648" by blast+
qed

lemma centered_sep:
  assumes f: "fits c g m cf" and r: "\<forall>r \<in> set (centered_arrange c g m cf). roomy r"
  shows "(\<forall>r \<in> set (centered_arrange c g m cf). inside r (w_area m)) \<and>
    sorted_wrt apart (centered_arrange c g m cf)"
proof -
  define n where "n = length cf"
  define gp where "gp = gap_px c g n"
  define bw where "bw = border_w c n"
  define A where "A = outer_area gp (w_area m)"
  define sc where "sc = n - min n (nat (max (nmaster m) 0))"
  note a = fits_area [OF f n_def gp_def A_def, folded bw_def]
  obtain k ms rs ls where cc: "centered_cols c g m cf = (k, ms, rs, ls)" by (metis prod_cases4)
  note cols = centered_arrange_cols [OF cc]
  obtain mx mw lx lw rx rw where sp:
    "centered_split gp A (f_clamp (mfact m) mfact_lo mfact_hi) k sc = (mx, mw, lx, lw, rx, rw)"
    by (metis prod_cases6)
  let ?rcf = "map (\<lambda>j. cf ! (k + 2 * j)) [0..<(sc + 1) div 2]"
  let ?lcf = "map (\<lambda>j. cf ! (k + 2 * j + 1)) [0..<sc div 2]"
  have k: "k = min n (nat (max (nmaster m) 0))" "k + sc = n" using cols(2) by (auto simp: n_def sc_def)
  have sck: "n - k = sc" by (simp add: k(1) sc_def)
  have c: "ms = column gp bw A (take k cf) mw mx" "rs = column gp bw A ?rcf rw rx"
    "ls = column gp bw A ?lcf lw lx"
    using cc sp unfolding centered_cols_def Let_def
    by (auto simp: sck simp flip: n_def gp_def A_def bw_def k(1))
  have n: "0 < n" using f by (simp add: fits_def n_def)
  have A: "in_i32 (loc_x A)" "loc_x A + size_w A < 2147483648" using a(2) by (auto simp: wf_rect_def)
  have "1 * gp \<le> int n * gp" using n a(4) by (intro mult_right_mono) auto
  then have gA: "1 \<le> size_w A" "gp \<le> size_w A" using a(4,6) by linarith+
  have sA: "size_w A < 1073741824"
  proof -
    have "1 * size_w A \<le> int n * size_w A" using n gA by (intro mult_right_mono) auto
    with a(11) show ?thesis by simp
  qed
  have rm: "\<forall>x \<in> set ms. roomy x" "\<forall>x \<in> set rs. roomy x" "\<forall>x \<in> set ls. roomy x"
    using r interleaved_covers [OF cols(3-5)] cols(1,2,6) by (metis UnI1 UnI2 min.cobounded1 nth_mem)+
  note w = centered_split_widths [OF sp a(4) sA gA(2)]
  have nonempty: "1 \<le> sc \<Longrightarrow> ?rcf \<noteq> []" "2 \<le> sc \<Longrightarrow> ?lcf \<noteq> []"
    by (simp_all add: div_greater_zero_iff)
  have widths: "1 \<le> sc \<Longrightarrow> 1 < rw" "2 \<le> sc \<Longrightarrow> 1 < lw"
    using column_roomy_width [OF nonempty(1) rm(2) [unfolded c] a(5)]
      column_roomy_width [OF nonempty(2) rm(3) [unfolded c] a(5)] w by blast+
  note geo = centered_split_geometry [OF sp ratio_mfact a(4) A gA(1) sA _ _ widths, unfolded k(2), OF a(6) n]
  have wts: "\<forall>x \<in> set cf. weight_ok x" using f by (simp add: fits_def)
  have wts': "\<forall>x \<in> set (take k cf). weight_ok x" "\<forall>x \<in> set ?rcf. weight_ok x" "\<forall>x \<in> set ?lcf. weight_ok x"
    using wts k(2) by (auto simp: n_def dest: in_set_takeD intro!: bspec [OF wts] nth_mem)
  have col: "in_strip (column gp bw A l w x) (strip A x w)"
    if "loc_x A \<le> x" "x + w \<le> loc_x A + size_w A" "0 \<le> w" "length l \<le> n" "\<forall>x \<in> set l. weight_ok x"
      "\<forall>r \<in> set (column gp bw A l w x). roomy r" for l w x
    using column_sep [OF a(2,10,4,5) _ that(3) _ that(5) _ _ that(6)] that gap_count_le [OF that(4) a(4)]
      a(7,8) A by (simp add: in_strip_def in_i32_def)
  have ins: "inside (strip A x w) A" if "loc_x A \<le> x" "x + w \<le> loc_x A + size_w A" for x w
    using that by (simp add: inside_def strip_def)
  have ap: "apart (strip A x w) (strip A x' w')" if "x + w \<le> x' \<or> x' + w' \<le> x" for x w x' w'
    using that by (auto simp: apart_def strip_def)
  have emp: "k = 0 \<Longrightarrow> ms = []" "sc = 0 \<Longrightarrow> rs = []" "sc < 2 \<Longrightarrow> ls = []" by (simp_all add: c column_def)
  let ?sm = "if 0 < k then strip A mx mw else A" and ?sr = "if 1 \<le> sc then strip A rx rw else A"
    and ?sl = "if 2 \<le> sc then strip A lx lw else A"
  have "(\<forall>r \<in> set (centered_arrange c g m cf). inside r A) \<and> sorted_wrt apart (centered_arrange c g m cf)"
  proof (rule centered_sep_cols [OF cc, of ?sm ?sr ?sl])
    show "in_strip ms ?sm" using geo(1) emp(1) rm(1) wts'(1) k by (auto simp: c n_def intro!: col)
    show "in_strip rs ?sr" using geo(2) emp(2) rm(2) wts'(2) k w(1) by (auto simp: c intro!: col)
    show "in_strip ls ?sl" using geo(3) emp(3) rm(3) wts'(3) k w(2) by (auto simp: c intro!: col)
    show "inside ?sm A" "inside ?sr A" "inside ?sl A" using geo(1-3) by (auto intro: ins)
    show "ms = [] \<or> rs = [] \<or> apart ?sm ?sr" using geo(4) emp by (cases "0 < k"; cases "1 \<le> sc") (auto intro: ap)
    show "ms = [] \<or> ls = [] \<or> apart ?sm ?sl" using geo(5) emp by (cases "0 < k"; cases "2 \<le> sc") (auto intro: ap)
    show "rs = [] \<or> ls = [] \<or> apart ?sr ?sl" using geo(6) emp by (cases "2 \<le> sc") (auto intro: ap)
  qed
  with a(3) show ?thesis by (blast intro: inside_trans)
qed

interpretation centered: tiled_layout "centered_arrange c g" "fits c g" for c g
  by unfold_locales (rule centered_sep, assumption+, simp add: fits_def)

section \<open>The properties\<close>

text \<open>Each layout is its interpretation of \<open>tiled_layout\<close>.\<close>

lemma tiling_separates:
  assumes "fits c g m cf" "layout_kind_of c m \<in> {Tile, Col, Dwindle, Bstack, CenteredMaster}"
    "\<forall>r \<in> set (layout_arrange f c g m cf). roomy r"
  shows "(\<forall>r \<in> set (layout_arrange f c g m cf). inside r (w_area m)) \<and>
    (\<forall>i < length cf. \<forall>j < length cf. i \<noteq> j \<longrightarrow>
       \<not> (contains (layout_arrange f c g m cf ! i) p \<and> contains (layout_arrange f c g m cf ! j) p))"
proof -
  have "cf \<noteq> []" using assms(1) by (simp add: fits_def)
  with assms(2,3) show ?thesis
    using tile.in_area [OF assms(1)] tile.no_overlap [OF assms(1), of _ _ p]
      col.in_area [OF assms(1)] col.no_overlap [OF assms(1), of _ _ p]
      dwindle.in_area [OF assms(1)] dwindle.no_overlap [OF assms(1), of _ _ p]
      bstack.in_area [OF assms(1)] bstack.no_overlap [OF assms(1), of _ _ p]
      centered.in_area [OF assms(1)] centered.no_overlap [OF assms(1), of _ _ p]
    unfolding layout_arrange_def by (elim insertE emptyE) (simp; blast)+
qed

text \<open>C11: with the tile, col, dwindle, bstack or centred-master layout, and as long as
  no window has been squeezed to the one-pixel minimum, every window lies inside the
  monitor's work area and no point of the screen belongs to two windows, whatever the
  master count, the master factor, the window factors, the gaps and the borders.\<close>

theorem tiled_windows_do_not_overlap:
  assumes "fits c g m cf" "layout_kind_of c m \<in> {Tile, Col, Dwindle, Bstack, CenteredMaster}"
    "\<forall>r \<in> set (layout_arrange f c g m cf). roomy r"
  shows "(\<forall>r \<in> set (layout_arrange f c g m cf). inside r (w_area m)) \<and>
    (\<forall>i < length cf. \<forall>j < length cf. i \<noteq> j \<longrightarrow>
       \<not> (contains (layout_arrange f c g m cf ! i) p \<and> contains (layout_arrange f c g m cf ! j) p))"
  by (rule tiling_separates [OF assms])

text \<open>With the scroll layout the focused window is always on screen: its column
  lies inside the work area wherever the focus is and however many windows there are.\<close>

theorem scroll_focus_on_screen:
  assumes f: "fits c g m cf" and j: "j = min (scroll_col m) (length cf - 1)"
    and r: "roomy (scroll_arrange c g m cf ! j)"
  shows "inside (scroll_arrange c g m cf ! j) (w_area m)"
proof -
  define n where "n = length cf"
  define gp where "gp = gap_px c g n"
  define A where "A = outer_area gp (w_area m)"
  define cw where "cw = max (share (size_w A) (f_clamp (mfact m) mfact_lo mfact_hi)) 1"
  define so where "so = scroll_offset gp (size_w A) cw n (scroll_col m)"
  note a = fits_area [OF f n_def gp_def A_def]
  have n: "0 < n" using f by (simp add: fits_def n_def)
  have A: "in_i32 (loc_x A)" "in_i32 (loc_y A)" "loc_x A + size_w A < 2147483648" "0 \<le> size_h A"
    "loc_y A + size_h A < 2147483648" using a(2) by (auto simp: wf_rect_def)
  have "0 \<le> int n * gp" using a(4) by simp
  then have w1: "1 \<le> size_w A" using a(6) by linarith
  show ?thesis
  proof (cases "n = 1")
    case True
    then have "scroll_arrange c g m cf = [A]"
      by (simp add: scroll_arrange_def Let_def n_def gp_def A_def)
    with a(3) j True show ?thesis by (simp add: n_def)
  next
    case False
    have cw: "1 \<le> cw" "cw \<le> size_w A" using share_bounds [of "size_w A" "mfact m"] w1 a(9) by (auto simp: cw_def)
    have j': "int j \<le> int n - 1" "j < n" using j n by (auto simp: n_def)
    have le: "int j * (cw + gp) \<le> (int n - 1) * (cw + gp)"
      using j'(1) cw(1) a(4) by (intro mult_right_mono) auto
    have tot: "cw * int n + gp * (int n - 1) = (int n - 1) * (cw + gp) + cw" by (simp add: algebra_simps)
    have sA: "size_w A < 1073741824"
    proof -
      have "1 * size_w A \<le> int n * size_w A" using n w1 by (intro mult_right_mono) auto
      with a(11) show ?thesis by simp
    qed
    have "(int n - 1) * gp \<le> int n * gp" using a(4) by (intro mult_right_mono) auto
    moreover have "cw * int n \<le> size_w A * int n" using cw(2) by (intro mult_right_mono) auto
    ultimately have tb: "cw * int n + gp * (int n - 1) < 2147483648" using sA a(6,11)
      by (simp add: mult.commute)
    have tp: "0 \<le> int j * (cw + gp)" using cw(1) a(4) by simp
    define left where "left = int j * (cw + gp)"
    define tot_w where "tot_w = cw * int n + gp * (int n - 1)"
    have l: "0 \<le> left" "left + cw \<le> tot_w" "tot_w < 2147483648"
      using le tot tb tp by (auto simp: left_def tot_w_def)
    have us: "usize_as_i32 n = int n" "usize_as_i32 (min (scroll_col m) (n - 1)) = int j"
      using a(8) j' j by (auto simp: n_def intro: usize_as_i32_id)
    have e: "i32 tot_w = tot_w" "i32 left = left"
      "tdiv cw 2 = cw div 2" "tdiv (size_w A) 2 = size_w A div 2"
      "i32 (left + cw div 2 - size_w A div 2) = left + cw div 2 - size_w A div 2"
      "i32 (tot_w - size_w A) = tot_w - size_w A"
      using l cw a(9) by (auto intro!: i32_id tdiv_pos)
    have so: "so = clamp_int (left + cw div 2 - size_w A div 2) 0 (max (tot_w - size_w A) 0)"
      using e us by (simp add: so_def scroll_offset_def Let_def left_def tot_w_def)
    have "0 \<le> left - so \<and> left - so + cw \<le> size_w A"
      unfolding so clamp_int_def using l cw by (simp add: max_def) linarith
    moreover have eq: "scroll_arrange c g m cf ! j =
        inset (border_w c n) (i32 (loc_x A + left - so)) (loc_y A) cw (size_h A)"
      using False n j' e(2)
      by (simp add: scroll_arrange_def Let_def n_def [symmetric] gp_def [symmetric] A_def [symmetric]
          cw_def [symmetric] so_def [symmetric] left_def)
    moreover have i: "i32 (loc_x A + left - so) = loc_x A + left - so"
      using calculation(1) A w1 cw(1) by (intro i32_id) (auto simp: in_i32_def)
    ultimately have b: "0 \<le> left - so" "left - so + cw \<le> size_w A"
      "roomy (inset (border_w c n) (loc_x A + left - so) (loc_y A) cw (size_h A))"
      "scroll_arrange c g m cf ! j = inset (border_w c n) (loc_x A + left - so) (loc_y A) cw (size_h A)"
      using r by simp_all
    have "wf_rect (mk_rect (loc_x A + left - so) (loc_y A) cw (size_h A))"
      using b(1,2) A cw(1) by (auto simp: wf_rect_def in_i32_def)
    from inset_inside(1) [OF this a(5) b(3)]
    have "inside (scroll_arrange c g m cf ! j)
        (mk_rect (loc_x A + left - so) (loc_y A) cw (size_h A))" by (simp only: b(4))
    moreover have "inside (mk_rect (loc_x A + left - so) (loc_y A) cw (size_h A)) A"
      using b(1,2) by (auto simp: inside_def)
    ultimately show ?thesis using a(3) by (blast intro: inside_trans)
  qed
qed

text \<open>The col layout does not fill the work area: the last column subtracts the
  inner gaps a second time, so its right edge, border included, stops the width of one
  gap per window short of the work area's, where one outer gap would be due.\<close>

lemma col_last_column_stops_short:
  assumes "fits c g m cf" "layout_kind_of c m = Col"
    "\<forall>r \<in> set (layout_arrange f c g m cf). roomy r"
  shows "loc_x (last (layout_arrange f c g m cf)) + size_w (last (layout_arrange f c g m cf)) +
      border_w c (length cf) =
    loc_x (w_area m) + size_w (w_area m) - int (length cf) * gap_px c g (length cf)"
proof -
  have "layout_arrange f c g m cf = col_arrange c g m cf"
    using assms(1,2) by (simp add: layout_arrange_def fits_def)
  with col_sep_edge [OF assms(1)] assms(3) show ?thesis by simp
qed

lemma column_cells_x: "r \<in> set (column_cells gp bw y0 x w off hs) \<Longrightarrow> loc_x r = i32 (x + bw)"
  by (induction hs arbitrary: off) (auto simp: inset_def)

lemma column_x: "r \<in> set (column gp bw A cf w x) \<Longrightarrow> loc_x r = i32 (x + bw)"
  by (auto simp: column_def Let_def split: if_splits dest: column_cells_x)

text \<open>With no master window the tile layout still sets the master column aside:
  every window starts to the right of it and its share of the screen stays empty.\<close>

lemma tile_without_master_wastes_the_column:
  assumes f: "fits c g m cf" and k: "layout_kind_of c m = Tile" "nmaster m \<le> 0"
    and gp: "gp = gap_px c g (length cf)"
    and mw: "mw = share (size_w (w_area m) - 3 * gp) (f_clamp (mfact m) mfact_lo mfact_hi)"
    and rm: "\<forall>r \<in> set (layout_arrange h c g m cf). roomy r"
    and r: "r \<in> set (layout_arrange h c g m cf)"
  shows "loc_x r = loc_x (w_area m) + gp + mw + gp + border_w c (length cf)"
proof -
  define A where "A = outer_area gp (w_area m)"
  note a = fits_area [OF f refl gp A_def]
  have n: "cf \<noteq> []" using f by (simp add: fits_def)
  then have "1 * gp \<le> int (length cf) * gp" using a(4) by (intro mult_right_mono) (auto simp: Suc_le_eq)
  with a(6) have gA: "gp \<le> size_w A" by simp
  have w3: "size_w A - gp = size_w (w_area m) - 3 * gp" unfolding a(1) by simp
  have s: "i32 (size_w A - gp) = size_w A - gp" using a(4,9) gA by (intro i32_id) auto
  then have m: "mw = share (i32 (size_w A - gp)) (f_clamp (mfact m) mfact_lo mfact_hi)"
    by (simp only: mw w3)
  have b: "0 \<le> mw" "mw \<le> size_w A - gp"
    using share_bounds [of "size_w A - gp" "mfact m"] a(4,9) gA unfolding m s by auto
  have eq: "layout_arrange h c g m cf = tile_arrange c g m cf" using k(1) n by (simp add: layout_arrange_def)
  define x where "x = loc_x A + mw + gp + border_w c (length cf)"
  have "loc_x r = i32 (i32 (loc_x A + mw + gp) + border_w c (length cf))"
    using r k(2) n unfolding eq by (auto simp: tile_arrange_def tile_split_def Let_def column_def m
      gp [symmetric] A_def [symmetric] split: if_splits dest!: column_cells_x)
  then have lx: "loc_x r = i32 x" by (simp add: x_def)
  have "inside r (w_area m)" using tile_sep [OF f] rm r unfolding eq by blast
  then have ge: "loc_x (w_area m) \<le> i32 x" using big_def tile.nonempty lx by (simp add: inside_def)
  have sw: "size_w (w_area m) < 1073741824"
  proof -
    have "0 \<le> size_w (w_area m)" using f by (simp add: fits_def wf_rect_def)
    then have "1 * size_w (w_area m) \<le> int (length cf) * size_w (w_area m)"
      using n by (intro mult_right_mono) (auto simp: Suc_le_eq)
    with f show ?thesis by (simp add: fits_def)
  qed
  have x: "- 2147483648 \<le> x" "x < 2684354560" "x - loc_x (w_area m) < 2147483648" "loc_x (w_area m) \<le> x"
    using a(2,5,12) b a(4) sw unfolding x_def a(1) by (auto simp: wf_rect_def in_i32_def bw_ok_def)
  have "i32 x = x"
  proof (rule ccontr)
    assume "i32 x \<noteq> x"
    with x(1) have "2147483648 \<le> x" using i32_id [of x] by linarith
    then have "i32 x = x - 4294967296"
      using i32_cong [of x "x - 4294967296"] i32_id [of "x - 4294967296"] x(2) by simp
    with ge x show False by linarith
  qed
  with lx show ?thesis unfolding x_def a(1) by simp
qed

section \<open>Instances\<close>

definition gap_conf :: config where
  "gap_conf = conf0\<lparr>c_gaps_px := 10, c_border_px := 2\<rparr>"

definition wide_mon :: "nat \<Rightarrow> monitor" where
  "wide_mon k = mon0\<lparr>w_area := mk_rect 0 0 1000 600, lt := (k, k), scroll_col := 1\<rparr>"

lemma wide_mon_sel [simp]: "w_area (wide_mon k) = mk_rect 0 0 1000 600" "scroll_col (wide_mon k) = 1"
  "col_facts (wide_mon k) = []"
  by (simp_all add: wide_mon_def monitor_new_def Let_def)

abbreviation two :: "f64 list" where
  "two \<equiv> [Fin 1, Fin 1]"

lemma fits_two: "fits gap_conf True (wide_mon k) two"
proof -
  have "weight_ok (Fin 1)" by (code_simp; simp)
  moreover have "gap_px gap_conf True 2 = 10" "uint (c_border_px gap_conf) = 2" by code_simp+
  ultimately show ?thesis by (simp add: fits_def wf_rect_def in_i32_def eval_nat_numeral)
qed

lemma tile_two: "layout_arrange None gap_conf True (wide_mon 0) two =
    [mk_rect 12 12 530 576, mk_rect 556 12 432 576]"
  by code_simp

lemma col_two: "layout_arrange None gap_conf True (wide_mon 2) two =
    [mk_rect 12 12 481 576, mk_rect 507 12 471 576]"
  by code_simp

lemma no_master_two: "layout_arrange None gap_conf True ((wide_mon 0)\<lparr>nmaster := 0\<rparr>) two =
    [mk_rect 556 12 432 281, mk_rect 556 307 432 281]"
  by code_simp

lemma scroll_two: "scroll_arrange gap_conf True (wide_mon 3) two ! 1 = mk_rect 453 12 535 576"
  by code_simp

lemmas two_arranged = tile_two col_two no_master_two scroll_two

lemma kinds_of: "layout_kind_of gap_conf (wide_mon 0) = Tile" "layout_kind_of gap_conf (wide_mon 2) = Col"
  by code_simp+

lemma arrange_one_rect_each_witness:
  "map fst (zip [7, 8 :: nat] (layout_arrange None gap_conf True (wide_mon 0) two)) = [7, 8]"
  using arrange_one_rect_each [of "[7, 8 :: nat]" two "wide_mon 0" None gap_conf True] by simp

lemma tiled_windows_do_not_overlap_witness:
  "inside (mk_rect 556 12 432 576) (mk_rect 0 0 1000 600)"
  using tiled_windows_do_not_overlap [OF fits_two, of 0 None "(0, 0)"]
  by (simp add: kinds_of two_arranged roomy_def)

lemma scroll_focus_on_screen_witness: "inside (mk_rect 453 12 535 576) (mk_rect 0 0 1000 600)"
  using scroll_focus_on_screen [OF fits_two, of 1 3] two_arranged(4) by (simp add: roomy_def)

lemma length_two: "length two = 2"
  by simp

lemma col_last_column_stops_short_witness: "507 + 471 + border_w gap_conf 2 = (1000 - 2 * 10 :: int)"
proof -
  have "gap_px gap_conf True 2 = 10" by code_simp
  then show ?thesis
    using col_last_column_stops_short [OF fits_two kinds_of(2), of None, unfolded length_two]
    by (simp add: two_arranged roomy_def)
qed

lemma tile_without_master_witness: "(556 :: int) = 0 + 10 + 534 + 10 + border_w gap_conf 2"
proof -
  have g: "gap_px gap_conf True 2 = 10" "layout_kind_of gap_conf ((wide_mon 0)\<lparr>nmaster := 0\<rparr>) = Tile"
    "share 970 (f_clamp (mfact ((wide_mon 0)\<lparr>nmaster := 0\<rparr>)) mfact_lo mfact_hi) = 534" by code_simp+
  have "fits gap_conf True ((wide_mon 0)\<lparr>nmaster := 0\<rparr>) two"
    using fits_two [of 0] by (simp add: fits_def)
  from tile_without_master_wastes_the_column [OF this g(2) _ refl refl,
      where h = None and r = "mk_rect 556 12 432 281", unfolded length_two] g
  show ?thesis by (simp add: two_arranged roomy_def)
qed

end
