(* ===== verification/Placement.thy ===== *)
theory Placement
  imports Stability Layout_Tiling
begin

text \<open>
  What the layout pass does with the windows: where each one is placed, remembered and
  told to be. The five loops of \<open>arrange\<close> each change the windows they run over, one at a
  time; \<open>pass\<close> states that once for all of them.
\<close>

section \<open>The spot of a window\<close>

record spot =
  sp_loc :: "point option"
  sp_saved :: "point option"
  sp_pending :: "rect option"
  sp_sliding :: bool
  sp_floating :: bool

definition spot_of :: "rwl \<Rightarrow> wid \<Rightarrow> spot" where
  "spot_of s w = \<lparr>sp_loc = element_location (space s) w,
     sp_saved = unwrap_or (with_state (ws s) w saved_loc) None,
     sp_pending = unwrap_or (with_state (ws s) w pending_geom) None,
     sp_sliding = sliding_out (ws s) w, sp_floating = window_is_floating (ws s) w\<rparr>"

text \<open>A loop of the pass: a step works on one window and turns its spot by \<open>g\<close>.\<close>

locale pass =
  fixes f :: "'x \<Rightarrow> rwl \<Rightarrow> rwl" and key :: "'x \<Rightarrow> wid" and g :: "'x \<Rightarrow> spot \<Rightarrow> spot"
  assumes wf: "wf_space (space s) \<Longrightarrow> wf_space (space (f x s))"
    and turn: "wf_space (space s) \<Longrightarrow>
      spot_of (f x s) v = (if v = key x then g x (spot_of s v) else spot_of s v)"
begin

lemma wf_fold: "wf_space (space s) \<Longrightarrow> wf_space (space (fold f xs s))"
  by (induction xs arbitrary: s) (auto intro: wf)

lemma others: "wf_space (space s) \<Longrightarrow> v \<notin> key ` set xs \<Longrightarrow> spot_of (fold f xs s) v = spot_of s v"
  by (induction xs arbitrary: s) (auto simp: turn wf)

lemma own:
  "wf_space (space s) \<Longrightarrow> distinct (map key xs) \<Longrightarrow> x \<in> set xs \<Longrightarrow>
   spot_of (fold f xs s) (key x) = g x (spot_of s (key x))"
proof (induction xs arbitrary: s)
  case (Cons y xs)
  show ?case
  proof (cases "x = y")
    case True
    with Cons.prems have "key x \<notin> key ` set xs" by auto
    with Cons.prems True show ?thesis by (simp add: others wf turn)
  next
    case False
    with Cons.prems have x: "x \<in> set xs" by simp
    have "key x \<in> set (map key xs)" using x by simp
    with Cons.prems have "key x \<noteq> key y" by (metis distinct.simps(2) list.simps(9))
    with x Cons show ?thesis by (simp add: wf turn)
  qed
qed simp

end

lemma state_of_spot:
  "saved_loc (state_of c st w) = unwrap_or (with_state st w saved_loc) None"
  "pending_geom (state_of c st w) = unwrap_or (with_state st w pending_geom) None"
  "(slide_out (state_of c st w) \<and> (\<exists>t. slide_start (state_of c st w) = Some t)) = sliding_out st w"
  "is_floating (state_of c st w) = window_is_floating st w"
  by (cases "st w"; simp add: state_of_def wstate_new_def with_state_def sliding_out_def
      window_is_floating_def)+

text \<open>Steps that leave the spots alone, and the updates of one window's state.\<close>

lemma spot_of_cong: "space s' = space s \<Longrightarrow> ws s' = ws s \<Longrightarrow> spot_of s' v = spot_of s v"
  by (simp add: spot_of_def)

lemma spot_effects [simp]:
  "spot_of (emit e s) v = spot_of s v" "spot_of (emits es s) v = spot_of s v"
  "spot_of (configure_toplevel w ops b s) v = spot_of s v"
  "spot_of (x11_set_fullscreen w b s) v = spot_of s v"
  "spot_of (send_hidden w s) v = spot_of s v"
  "space (emit e s) = space s" "space (emits es s) = space s"
  "space (configure_toplevel w ops b s) = space s"
  "space (x11_set_fullscreen w b s) = space s" "space (send_hidden w s) = space s"
  "space (mod_state w f s) = space s" "space (note_x11_focus w b s) = space s"
  "space (save_location w s) = space s"
  by (simp_all add: spot_of_def emit_def emits_def configure_toplevel_def x11_set_fullscreen_def
      send_hidden_def mod_state_def note_x11_focus_def save_location_def split: option.split)

lemma spot_mod_state:
  "spot_of (mod_state w f s) v = (if v = w then
     (let x = f (state_of (cfg s) (ws s) w) in
      \<lparr>sp_loc = sp_loc (spot_of s w), sp_saved = saved_loc x, sp_pending = pending_geom x,
       sp_sliding = (slide_out x \<and> slide_start x \<noteq> None), sp_floating = is_floating x\<rparr>)
   else spot_of s v)"
  by (simp add: spot_of_def mod_state_def with_state_def sliding_out_def window_is_floating_def
      Let_def)

lemma spot_note_focus [simp]: "spot_of (note_x11_focus w b s) v = spot_of s v"
  by (simp add: note_x11_focus_def spot_mod_state Let_def)
    (simp add: spot_of_def state_of_spot [of "cfg s"])

lemma spot_pending:
  "(\<And>x. saved_loc (f x) = saved_loc x \<and> pending_geom (f x) = p \<and> slide_out (f x) = slide_out x \<and>
      slide_start (f x) = slide_start x \<and> is_floating (f x) = is_floating x) \<Longrightarrow>
   spot_of (mod_state w f s) v = (if v = w then (spot_of s v)\<lparr>sp_pending := p\<rparr> else spot_of s v)"
  by (simp add: spot_mod_state Let_def)
    (simp add: spot_of_def state_of_spot [of "cfg s"])

lemma spot_space:
  "wf_space (space s) \<Longrightarrow> spot_of (s\<lparr>space := map_element (space s) w p\<rparr>) v =
     (if v = w then (spot_of s v)\<lparr>sp_loc := Some p\<rparr> else spot_of s v)"
  "wf_space (space s) \<Longrightarrow> spot_of (s\<lparr>space := relocate_element (space s) w p\<rparr>) v =
     (if v = w \<and> sp_loc (spot_of s w) \<noteq> None then (spot_of s v)\<lparr>sp_loc := Some p\<rparr> else spot_of s v)"
  "wf_space (space s) \<Longrightarrow> spot_of (s\<lparr>space := unmap_elem (space s) w\<rparr>) v =
     (if v = w then (spot_of s v)\<lparr>sp_loc := None\<rparr> else spot_of s v)"
  by (auto simp: spot_of_def sp.lat_put sp.lat_move sp.lat_drop)

lemma geometry_spot:
  "geometry_of s w = map_option (\<lambda>p. (cl_geometry (clients s w))\<lparr>loc_x := fst p, loc_y := snd p\<rparr>)
     (sp_loc (spot_of s w))"
  by (simp add: geometry_of_def element_geometry_map spot_of_def)

lemma rect_loc_upd [simp]: "rect_loc (r\<lparr>loc_x := a, loc_y := b\<rparr>) = (a, b)"
  by (simp add: rect_loc_def)

section \<open>The loops\<close>

definition hide_spot :: "spot \<Rightarrow> spot" where
  "hide_spot x = (if sp_sliding x then x
     else x\<lparr>sp_loc := None,
            sp_saved := (if sp_floating x \<and> sp_loc x \<noteq> None then sp_loc x else sp_saved x)\<rparr>)"

definition resolve :: "point \<Rightarrow> spot \<Rightarrow> point" where
  "resolve d x = (case sp_loc x of Some p \<Rightarrow> p
     | None \<Rightarrow> (case sp_saved x of Some p \<Rightarrow> p | None \<Rightarrow> d))"

lemma resolve_pending: "resolve d (x\<lparr>sp_pending := p\<rparr>) = resolve d x"
    "resolve d (x\<lparr>sp_pending := p, sp_loc := l\<rparr>) = resolve d (x\<lparr>sp_loc := l\<rparr>)"
  by (simp_all add: resolve_def cong: option.case_cong)

lemma resolve_loc_spot: "resolve_loc s d w = resolve d (spot_of s w)"
  by (cases "ws s w")
    (auto simp: resolve_loc_def resolve_def geometry_spot with_state_def spot_of_def
      split: option.split)

lemma spot_save_location:
  "spot_of (save_location w s) v = (if v = w then (spot_of s v)\<lparr>sp_saved :=
     (if sp_floating (spot_of s v) \<and> sp_loc (spot_of s v) \<noteq> None then sp_loc (spot_of s v)
      else sp_saved (spot_of s v))\<rparr> else spot_of s v)"
proof (cases "window_is_floating (ws s) w \<and> element_location (space s) w \<noteq> None")
  case True
  then obtain a b where "element_location (space s) w = Some (a, b)" by auto
  with True show ?thesis
    by (simp add: save_location_def geometry_of_def element_geometry_map spot_mod_state Let_def)
      (simp add: spot_of_def state_of_spot [of "cfg s"])
next
  case False
  then have "save_location w s = s"
    by (auto simp: save_location_def geometry_of_def element_geometry_map split: option.split)
  with False show ?thesis by (auto simp: spot_of_def)
qed

interpretation hide: pass hide_window "\<lambda>w. w" "\<lambda>_. hide_spot"
proof
  fix s :: rwl and w v :: wid
  assume wf: "wf_space (space s)"
  then show "wf_space (space (hide_window w s))"
    by (auto simp: hide_window_def hide_elem_def)
  have "wf_space (space (save_location w s))" using wf by simp
  from spot_space(3) [OF this, of w]
  have *: "spot_of (hide_elem w (save_location w s)) v =
      (if v = w then (spot_of (save_location w s) v)\<lparr>sp_loc := None\<rparr> else spot_of (save_location w s) v)"
    for v by (simp add: hide_elem_def)
  have sl: "sp_sliding (spot_of s w) = sliding_out (ws s) w" for w by (simp add: spot_of_def)
  show "spot_of (hide_window w s) v = (if v = w then hide_spot (spot_of s v) else spot_of s v)"
    by (auto simp: hide_window_def hide_spot_def * spot_save_location sl)
qed

text \<open>\<open>place_tiled\<close> maps, moves or leaves the window; in every case it ends at its rectangle.\<close>

interpretation tiled: pass "place_tiled f b" fst
  "\<lambda>wr x. x\<lparr>sp_loc := Some (rect_loc (snd wr)), sp_pending := Some (snd wr)\<rparr>" for f b
proof
  fix s :: rwl and wr :: "wid \<times> rect" and v :: wid
  assume wf: "wf_space (space s)"
  obtain w r where wr: "wr = (w, r)" by (cases wr)
  define s1 where "s1 = (case geometry_of s w of
      None \<Rightarrow> map_at w (rect_loc r) s
    | Some g \<Rightarrow> if rect_loc g \<noteq> rect_loc r
        then s\<lparr>space := relocate_element (space s) w (rect_loc r)\<rparr>
        else if f = Some w \<and> b then map_at w (rect_loc r) s else s)"
  have s1: "wf_space (space s1)"
    "spot_of s1 v = (if v = w then (spot_of s v)\<lparr>sp_loc := Some (rect_loc r)\<rparr> else spot_of s v)" for v
    using wf spot_space(1,2) [OF wf, of w "rect_loc r" v]
    by (auto simp: s1_def map_at_def geometry_spot spot_of_def split: option.split)
  obtain F G where
    FG: "place_tiled f b wr s = G (mod_state w F s1)"
    and G: "\<And>t v. space (G t) = space t \<and> spot_of (G t) v = spot_of t v"
    and F: "\<And>x. saved_loc (F x) = saved_loc x \<and> pending_geom (F x) = Some r \<and>
      slide_out (F x) = slide_out x \<and> slide_start (F x) = slide_start x \<and>
      is_floating (F x) = is_floating x"
  proof
    define gf where "gf = unwrap_or (with_state (ws s1) w
      (\<lambda>x. (pending_geom x \<noteq> Some r, last_focused x \<noteq> (f = Some w)))) (True, True)"
    let ?F = "\<lambda>x. x\<lparr>pending_geom := Some r, last_focused := (f = Some w),
      border_counter := (if fst gf \<or> snd gf \<or> geometry_of s w = None
        then Suc (border_counter x) else border_counter x)\<rparr>"
    let ?G = "\<lambda>s2. let s3 = configure_toplevel w
                 ([SetSize (Some (rect_size r))] @
                  map SetState [TiledLeft, TiledRight, TiledTop, TiledBottom] @
                  [UnsetState FullscreenState, activation (f = Some w)]) (geometry_of s w = None) s2
      in if cl_x11 (clients s3 w)
         then
           let s4 = (if cl_x11_fullscreen (clients s3 w) then x11_set_fullscreen w False s3 else s3);
               s5 = (if fst gf \<or> geometry_of s w = None then emit (XConfigure w r) s4 else s4)
           in if snd gf \<or> geometry_of s w = None then emit (XActivated w (f = Some w)) s5 else s5
         else s3"
    show "place_tiled f b wr s = ?G (mod_state w ?F s1)"
      unfolding wr
      by (simp only: place_tiled_def Let_def prod.case split_def fst_conv snd_conv
          s1_def [symmetric] gf_def [symmetric])
    show "space (?G t) = space t \<and> spot_of (?G t) v = spot_of t v" for t v
      by (simp add: Let_def)
    show "saved_loc (?F x) = saved_loc x \<and> pending_geom (?F x) = Some r \<and>
      slide_out (?F x) = slide_out x \<and> slide_start (?F x) = slide_start x \<and>
      is_floating (?F x) = is_floating x" for x by simp
  qed
  show "wf_space (space (place_tiled f b wr s))"
    unfolding FG using s1 by (simp add: G)
  show "spot_of (place_tiled f b wr s) v = (if v = fst wr
      then (spot_of s v)\<lparr>sp_loc := Some (rect_loc (snd wr)), sp_pending := Some (snd wr)\<rparr>
      else spot_of s v)"
    unfolding FG by (simp add: G spot_pending [OF F] s1 wr)
qed

text \<open>Floating windows stay where they are, return where they were, or start at a default.\<close>

interpretation floating: pass "place_floating f d scratch" "\<lambda>w. w"
  "\<lambda>w x. x\<lparr>sp_loc := (if w \<in> set scratch then sp_loc x else Some (resolve d x)),
            sp_pending := None\<rparr>" for f d scratch
proof
  fix s :: rwl and w v :: wid
  assume wf: "wf_space (space s)"
  define s1 where "s1 = (if w \<in> set scratch then s else map_at w (resolve_loc s d w) s)"
  have s1: "wf_space (space s1)"
    "spot_of s1 v = (if v = w then (spot_of s v)\<lparr>sp_loc :=
       (if w \<in> set scratch then sp_loc (spot_of s v) else Some (resolve d (spot_of s v)))\<rparr>
     else spot_of s v)" for v
    using wf spot_space(1) [OF wf, of w "resolve_loc s d w" v]
    by (auto simp: s1_def map_at_def resolve_loc_spot)
  note post = place_floating_def Let_def s1_def [symmetric]
  show "wf_space (space (place_floating f d scratch w s))"
    unfolding post using s1 by simp
  show "spot_of (place_floating f d scratch w s) v = (if v = w
      then (spot_of s v)\<lparr>sp_loc := (if w \<in> set scratch then sp_loc (spot_of s v)
        else Some (resolve d (spot_of s v))), sp_pending := None\<rparr> else spot_of s v)"
    unfolding post by (simp add: spot_pending [where p = None] s1)
qed

interpretation fs: pass "place_fullscreen f r" "\<lambda>w. w"
  "\<lambda>_ x. x\<lparr>sp_loc := Some (rect_loc r), sp_pending := Some r\<rparr>" for f r
proof
  fix s :: rwl and w v :: wid
  assume wf: "wf_space (space s)"
  have s1: "wf_space (space (map_at w (rect_loc r) s))"
    "spot_of (map_at w (rect_loc r) s) v =
       (if v = w then (spot_of s v)\<lparr>sp_loc := Some (rect_loc r)\<rparr> else spot_of s v)" for v
    using wf spot_space(1) [OF wf, of w "rect_loc r" v] by (auto simp: map_at_def)
  show "wf_space (space (place_fullscreen f r w s))"
    unfolding place_fullscreen_def Let_def using s1 by simp
  show "spot_of (place_fullscreen f r w s) v = (if v = w
      then (spot_of s v)\<lparr>sp_loc := Some (rect_loc r), sp_pending := Some r\<rparr> else spot_of s v)"
    unfolding place_fullscreen_def Let_def by (simp add: spot_pending [where p = "Some r"] s1)
qed

interpretation scratch: pass "place_scratch d" "\<lambda>w. w"
  "\<lambda>_ x. x\<lparr>sp_loc := Some (resolve d x)\<rparr>" for d
proof
  fix s :: rwl and w v :: wid
  assume wf: "wf_space (space s)"
  then show "wf_space (space (place_scratch d w s))" by (auto simp: place_scratch_def map_at_def)
  show "spot_of (place_scratch d w s) v = (if v = w
      then (spot_of s v)\<lparr>sp_loc := Some (resolve d (spot_of s v))\<rparr> else spot_of s v)"
    using spot_space(1) [OF wf, of w _ v] by (simp add: place_scratch_def map_at_def resolve_loc_spot)
qed

section \<open>The whole pass\<close>

definition role :: "nat \<Rightarrow> rwl \<Rightarrow> wid \<Rightarrow> display" where
  "role i s w = display_of (ws s) (all_visible (monitors s)) (tags (monitors s ! i)) w"

definition shown_as :: "nat \<Rightarrow> display set \<Rightarrow> rwl \<Rightarrow> wid list" where
  "shown_as i ds s = filter (\<lambda>w. role i s w \<in> ds) (windows s)"

text \<open>The state before the tiled windows are placed, and the rectangles they get.\<close>

definition before_tiling :: "nat \<Rightarrow> rwl \<Rightarrow> rwl" where
  "before_tiling i s =
     (let t = tags (monitors s ! i);
          s2 = fold hide_window (shown_as i {Hidden} s) (dynamic_layout i t s)
      in sync_scroll i (focused_on s2 t i) (shown_as i {TiledWin} s) s2)"

definition tile_rects :: "nat \<Rightarrow> rwl \<Rightarrow> rect list" where
  "tile_rects i s = (let s3 = before_tiling i s in
     layout_arrange (on_arrange_fn s3) (cfg s3) (gaps_on s3) (monitors s3 ! i)
       (cfacts_of (ws s3) (shown_as i {TiledWin} s)))"

definition places :: "nat \<Rightarrow> rwl \<Rightarrow> (wid \<times> rect) list" where
  "places i s = zip (shown_as i {TiledWin} s) (tile_rects i s)"

lemma in_class_dynamic: "in_class ds (dynamic_layout i t s) u = in_class ds s u"
proof -
  have "map tags (monitors (dynamic_layout i t s)) = map tags (monitors s)"
    by (auto simp: dynamic_layout_def upd_monitor_def tags_def frame_simps intro!: map_update_at)
  then show ?thesis
    by (simp add: in_class_def all_visible_def dynamic_layout_def upd_monitor_def)
qed

text \<open>The loops do not change the focus.\<close>

lemma focused_hide: "focused_on (fold hide_window us s) t i = focused_on s t i"
  by (simp add: stable_queries(12) [OF stable_fold])

lemma focused_dynamic: "focused_on (dynamic_layout j u s) t i = focused_on s t i"
  by (simp add: focused_on_def dynamic_layout_def upd_monitor_def)

definition focus_here :: "nat \<Rightarrow> rwl \<Rightarrow> wid option" where
  "focus_here i s = focused_on s (tags (monitors s ! i)) i"

lemma arrange_eq:
  assumes "i < length (monitors s)"
  shows "\<exists>b. arrange i s =
    fold (place_scratch (rect_loc (w_area (monitors s ! i)))) (shown_as i {ScratchWin} s)
     (fold (place_fullscreen (focus_here i s) (m_area (monitors s ! i))) (shown_as i {FsWin} s)
      (fold (place_floating (focus_here i s) (rect_loc (w_area (monitors s ! i)))
           (shown_as i {ScratchWin} s)) (shown_as i {FloatWin, ScratchWin} s)
        (fold (place_tiled (focus_here i s) b) (places i s) (before_tiling i s))))"
proof -
  have cls: "in_class ds s (tags (monitors s ! i)) = shown_as i ds s" for ds
    by (simp add: in_class_def shown_as_def role_def)
  show ?thesis
    using assms unfolding arrange_def places_def tile_rects_def before_tiling_def Let_def
    by (simp add: get_at_def in_class_dynamic cls focused_hide focused_dynamic focus_here_def) blast
qed

lemma distinct_shown: "distinct (windows s) \<Longrightarrow> distinct (shown_as i ds s)"
  by (simp add: shown_as_def)

lemma in_shown [simp]: "w \<in> set (shown_as i ds s) \<longleftrightarrow> w \<in> set (windows s) \<and> role i s w \<in> ds"
  by (auto simp: shown_as_def)

lemma spot_dynamic [simp]: "spot_of (dynamic_layout i t s) w = spot_of s w"
  "space (dynamic_layout i t s) = space s"
  by (simp_all add: dynamic_layout_def upd_monitor_def spot_of_def)

lemma spot_sync [simp]: "spot_of (sync_scroll i f t s) w = spot_of s w"
  "space (sync_scroll i f t s) = space s"
  by (simp_all add: sync_scroll_def upd_monitor_def spot_of_def)

lemma in_places: "wr \<in> set (places i s) \<Longrightarrow> fst wr \<in> set (shown_as i {TiledWin} s)"
  unfolding places_def by (metis prod.collapse set_zip_leftD)

lemma distinct_places: "distinct (windows s) \<Longrightarrow> distinct (map fst (places i s))"
  by (simp add: places_def distinct_shown map_fst_zip_take)

text \<open>The spot every window ends in.\<close>

lemma spot_arrange:
  assumes wf: "wf_space (space s)" "distinct (windows s)" "i < length (monitors s)"
  shows "w \<in> set (windows s) \<Longrightarrow> role i s w = Hidden \<Longrightarrow>
      spot_of (arrange i s) w = hide_spot (spot_of s w)"
    and "(w, r) \<in> set (places i s) \<Longrightarrow> spot_of (arrange i s) w =
      (spot_of s w)\<lparr>sp_loc := Some (rect_loc r), sp_pending := Some r\<rparr>"
    and "w \<in> set (windows s) \<Longrightarrow> role i s w \<in> {FloatWin, ScratchWin} \<Longrightarrow>
      spot_of (arrange i s) w = (spot_of s w)\<lparr>sp_pending := None,
        sp_loc := Some (resolve (rect_loc (w_area (monitors s ! i))) (spot_of s w))\<rparr>"
    and "w \<in> set (windows s) \<Longrightarrow> role i s w = FsWin \<Longrightarrow> spot_of (arrange i s) w =
      (spot_of s w)\<lparr>sp_loc := Some (rect_loc (m_area (monitors s ! i))),
                     sp_pending := Some (m_area (monitors s ! i))\<rparr>"
    and "w \<notin> set (windows s) \<or> role i s w = Skip \<Longrightarrow> spot_of (arrange i s) w = spot_of s w"
proof -
  let ?d = "rect_loc (w_area (monitors s ! i))" and ?sc = "shown_as i {ScratchWin} s"
  obtain f b where a: "arrange i s =
    fold (place_scratch ?d) ?sc
     (fold (place_fullscreen f (m_area (monitors s ! i))) (shown_as i {FsWin} s)
      (fold (place_floating f ?d ?sc) (shown_as i {FloatWin, ScratchWin} s)
        (fold (place_tiled f b) (places i s) (before_tiling i s))))"
    using arrange_eq [OF wf(3)] by blast
  define s1 where "s1 = dynamic_layout i (tags (monitors s ! i)) s"
  define s2 where "s2 = fold hide_window (shown_as i {Hidden} s) s1"
  define s3 where "s3 = before_tiling i s"
  define s4 where "s4 = fold (place_tiled f b) (places i s) s3"
  define s5 where "s5 = fold (place_floating f ?d ?sc) (shown_as i {FloatWin, ScratchWin} s) s4"
  define s6 where "s6 = fold (place_fullscreen f (m_area (monitors s ! i))) (shown_as i {FsWin} s) s5"
  have w1: "wf_space (space s1)" using wf(1) by (simp add: s1_def)
  have w2: "wf_space (space s2)" unfolding s2_def by (rule hide.wf_fold [OF w1])
  have s3: "spot_of s3 w = spot_of s2 w" "wf_space (space s3)" for w
    using w2 by (simp_all add: s3_def before_tiling_def Let_def s2_def s1_def)
  have w4: "wf_space (space s4)" unfolding s4_def by (rule tiled.wf_fold [OF s3(2)])
  have w5: "wf_space (space s5)" unfolding s5_def by (rule floating.wf_fold [OF w4])
  have w6: "wf_space (space s6)" unfolding s6_def by (rule fs.wf_fold [OF w5])
  have fin: "arrange i s = fold (place_scratch ?d) ?sc s6"
    unfolding a s6_def s5_def s4_def s3_def ..
  note d = distinct_shown [OF wf(2), of i]
  have t2: "spot_of s2 w = (if w \<in> set (windows s) \<and> role i s w = Hidden
      then hide_spot (spot_of s w) else spot_of s w)" for w
    using hide.others [OF w1, of w "shown_as i {Hidden} s"] hide.own [OF w1, of "shown_as i {Hidden} s" w] d
    by (simp add: s2_def s1_def)
  have t4: "spot_of s4 w = spot_of s2 w" if "w \<notin> set (windows s) \<or> role i s w \<noteq> TiledWin" for w
  proof -
    have "w \<notin> fst ` set (places i s)" using in_places that by fastforce
    from tiled.others [OF s3(2) this, of f b] s3(1) [of w] show ?thesis by (simp add: s4_def)
  qed
  have t5: "spot_of s5 w = (if w \<in> set (windows s) \<and> role i s w \<in> {FloatWin, ScratchWin}
      then (spot_of s4 w)\<lparr>sp_loc := (if role i s w = ScratchWin then sp_loc (spot_of s4 w)
             else Some (resolve ?d (spot_of s4 w))), sp_pending := None\<rparr>
      else spot_of s4 w)" for w
    using floating.others [OF w4, of w "shown_as i {FloatWin, ScratchWin} s" f ?d ?sc]
      floating.own [OF w4, of "shown_as i {FloatWin, ScratchWin} s" w f ?d ?sc] d
    by (auto simp: s5_def)
  have t6: "spot_of s6 w = (if w \<in> set (windows s) \<and> role i s w = FsWin
      then (spot_of s5 w)\<lparr>sp_loc := Some (rect_loc (m_area (monitors s ! i))),
             sp_pending := Some (m_area (monitors s ! i))\<rparr> else spot_of s5 w)" for w
    using fs.others [OF w5, of w "shown_as i {FsWin} s"] fs.own [OF w5, of "shown_as i {FsWin} s" w] d
    by (simp add: s6_def)
  have t7: "spot_of (arrange i s) w = (if w \<in> set (windows s) \<and> role i s w = ScratchWin
      then (spot_of s6 w)\<lparr>sp_loc := Some (resolve ?d (spot_of s6 w))\<rparr> else spot_of s6 w)" for w
    using scratch.others [OF w6, of w ?sc] scratch.own [OF w6, of ?sc w] d
    by (simp add: fin)
  note t = t7 t6 t5
  show "spot_of (arrange i s) w = hide_spot (spot_of s w)"
    if "w \<in> set (windows s)" "role i s w = Hidden"
    using that by (simp add: t t4 t2)
  show "spot_of (arrange i s) w =
      (spot_of s w)\<lparr>sp_loc := Some (rect_loc r), sp_pending := Some r\<rparr>"
    if wr: "(w, r) \<in> set (places i s)"
  proof -
    from in_places [OF wr] have "w \<in> set (windows s)" "role i s w = TiledWin" by auto
    moreover have "spot_of s4 w = (spot_of s2 w)\<lparr>sp_loc := Some (rect_loc r), sp_pending := Some r\<rparr>"
      using tiled.own [OF s3(2) distinct_places [OF wf(2)] wr, of f b] by (simp add: s4_def s3(1))
    ultimately show ?thesis by (simp add: t t2)
  qed
  show "spot_of (arrange i s) w = (spot_of s w)\<lparr>sp_pending := None,
        sp_loc := Some (resolve ?d (spot_of s w))\<rparr>"
    if "w \<in> set (windows s)" "role i s w \<in> {FloatWin, ScratchWin}"
    using that by (auto simp: t t4 t2 resolve_pending)
  show "spot_of (arrange i s) w =
      (spot_of s w)\<lparr>sp_loc := Some (rect_loc (m_area (monitors s ! i))),
                     sp_pending := Some (m_area (monitors s ! i))\<rparr>"
    if "w \<in> set (windows s)" "role i s w = FsWin"
    using that by (simp add: t t4 t2)
  show "spot_of (arrange i s) w = spot_of s w"
    if "w \<notin> set (windows s) \<or> role i s w = Skip"
    using that by (auto simp: t t4 t2)
qed

section \<open>The calls of the pass\<close>

fun activates :: "effect \<Rightarrow> wid \<Rightarrow> bool" where
  "activates (TlPending w ops) v \<longleftrightarrow> w = v \<and> SetState Activated \<in> set ops"
| "activates (XActivated w b) v \<longleftrightarrow> w = v \<and> b"
| "activates _ v \<longleftrightarrow> False"

definition only_activates :: "wid option \<Rightarrow> effect list \<Rightarrow> bool" where
  "only_activates f es \<longleftrightarrow> (\<forall>e \<in> set es. \<forall>v. activates e v \<longrightarrow> f = Some v)"

definition calls_since :: "effect list \<Rightarrow> wid option \<Rightarrow> rwl \<Rightarrow> bool" where
  "calls_since tr0 f s \<longleftrightarrow> (\<exists>es. trace s = tr0 @ es \<and> only_activates f es)"

interpretation calls: state_pred "calls_since tr0 f" for tr0 f .

lemma calls_emits:
  "calls_since tr0 f s \<Longrightarrow> only_activates f es \<Longrightarrow> calls_since tr0 f (emits es s)"
  "calls_since tr0 f s \<Longrightarrow> only_activates f [e] \<Longrightarrow> calls_since tr0 f (emit e s)"
  by (force simp: calls_since_def emits_def emit_def only_activates_def)+

lemma calls_same: "trace s' = trace s \<Longrightarrow> calls_since tr0 f s \<Longrightarrow> calls_since tr0 f s'"
  by (simp add: calls_since_def)

lemma calls_steps:
  assumes "calls_since tr0 f s"
  shows "calls_since tr0 f (mod_state w g s)" "calls_since tr0 f (map_at w p s)"
    "calls_since tr0 f (s\<lparr>space := sp\<rparr>)" "calls_since tr0 f (save_location w s)"
    "calls_since tr0 f (hide_elem w s)" "calls_since tr0 f (note_x11_focus w b s)"
    "calls_since tr0 f (dynamic_layout i t s)" "calls_since tr0 f (sync_scroll i h us s)"
  using assms
  by (auto simp: calls_since_def mod_state_def map_at_def save_location_def hide_elem_def
      note_x11_focus_def dynamic_layout_def sync_scroll_def upd_monitor_def split: option.split)

lemma only_activates_simps:
  "only_activates f [XFullscreen w b]" "only_activates f [XConfigure w r]"
  "only_activates f [XActivated w (f = Some w)]"
  "only_activates f [TlPending w (UnsetState Activated # untile), TlConfigure w]"
  by (auto simp: only_activates_def untile_def)

lemma calls_configure:
  assumes "calls_since tr0 f s" "ops \<noteq> []" "last ops = activation (f = Some w)"
    "SetState Activated \<notin> set (butlast ops)"
  shows "calls_since tr0 f (configure_toplevel w ops b s)"
proof -
  have "ops = butlast ops @ [activation (f = Some w)]"
    using assms(2,3) by (metis append_butlast_last_id)
  then have "set ops = insert (activation (f = Some w)) (set (butlast ops))"
    by (metis Un_insert_right empty_set list.simps(15) set_append sup_bot.right_neutral)
  with assms(4) have "SetState Activated \<in> set ops \<longleftrightarrow> f = Some w"
    by (auto simp: activation_def)
  then have "only_activates f [TlPending w ops, if b then TlConfigure w else TlPendingConfigure w]"
    by (auto simp: only_activates_def)
  with assms(1) show ?thesis by (simp add: configure_toplevel_def calls_emits)
qed

lemma calls_x11: "calls_since tr0 f s \<Longrightarrow> calls_since tr0 f (x11_set_fullscreen w b s)"
  unfolding x11_set_fullscreen_def
  by (rule calls_emits(2) [OF _ only_activates_simps(1)]) (erule calls_same [rotated], simp)

lemmas calls_rules = calls.keep_struct calls.keep_let calls_steps calls_x11 calls_emits
  only_activates_simps

lemma calls_hide: "calls_since tr0 f s \<Longrightarrow> calls_since tr0 f (hide_window w s)"
  unfolding hide_window_def send_hidden_def by (intro calls_rules)

lemma calls_tiled: "calls_since tr0 f s \<Longrightarrow> calls_since tr0 f (place_tiled f b wr s)"
  unfolding place_tiled_def by (intro calls_rules calls_configure; (assumption | simp add: only_activates_def))

lemma calls_floating: "calls_since tr0 f s \<Longrightarrow> calls_since tr0 f (place_floating f d sc w s)"
  unfolding place_floating_def by (intro calls_rules calls_configure; (assumption | simp add: untile_def only_activates_def))

lemma calls_fullscreen: "calls_since tr0 f s \<Longrightarrow> calls_since tr0 f (place_fullscreen f r w s)"
  unfolding place_fullscreen_def by (intro calls_rules calls_configure; (assumption | simp add: untile_def only_activates_def))

lemma calls_arrange:
  assumes "i < length (monitors s)"
  shows "calls_since (trace s) (focus_here i s) (arrange i s)"
proof -
  have start: "calls_since (trace s) f s" for f by (simp add: calls_since_def only_activates_def)
  have "calls_since (trace s) f (before_tiling i s)" for f
    unfolding before_tiling_def Let_def by (intro calls.keep_fold calls_steps calls_hide start)
  moreover obtain b where "arrange i s =
    fold (place_scratch (rect_loc (w_area (monitors s ! i)))) (shown_as i {ScratchWin} s)
     (fold (place_fullscreen (focus_here i s) (m_area (monitors s ! i))) (shown_as i {FsWin} s)
      (fold (place_floating (focus_here i s) (rect_loc (w_area (monitors s ! i)))
           (shown_as i {ScratchWin} s)) (shown_as i {FloatWin, ScratchWin} s)
        (fold (place_tiled (focus_here i s) b) (places i s) (before_tiling i s))))"
    using arrange_eq [OF assms] by blast
  ultimately show ?thesis
    unfolding place_scratch_def [abs_def]
    by (simp add: calls.keep_fold calls_steps calls_tiled calls_floating calls_fullscreen)
qed

end
