(* ===== verification/Stage.thy ===== *)
theory Stage
  imports Placement
begin

text \<open>
  A small desktop on which the properties of the layout, of focus and of closing
  windows are applied to concrete values: one output, two tiled windows and a
  floating one on its first tag, a fourth window on its second.
\<close>

definition stage_win :: "u32 \<Rightarrow> wstate" where
  "stage_win t = (wstate_new gap_conf)\<lparr>ws_tags := t, rules_applied := True, buffer_mapped := True\<rparr>"

definition stage :: rwl where
  "stage = idle\<lparr>cfg := gap_conf, monitors := [wide_mon 0], tag_history := [[]],
     windows := [11, 12, 13, 14], focus_stack := [13, 11, 12, 14], space := [(13, (40, 50)), (14, (7, 8))],
     ws := [11 \<mapsto> stage_win 1, 12 \<mapsto> stage_win 1, 13 \<mapsto> (stage_win 1)\<lparr>is_floating := True\<rparr>,
            14 \<mapsto> stage_win 2]\<rparr>"

lemma stage_simps [simp]:
  "cfg stage = gap_conf" "gaps_on stage = True" "on_arrange_fn stage = None" "monitors stage = [wide_mon 0]"
  "windows stage = [11, 12, 13, 14]" "focus_stack stage = [13, 11, 12, 14]"
  "space stage = [(13, (40, 50)), (14, (7, 8))]" "clients stage = (\<lambda>_. idle_client)"
  "sel_mon stage = 0" "locked stage = False" "overview stage = None" "native_lock stage = None"
  "ws stage = [11 \<mapsto> stage_win 1, 12 \<mapsto> stage_win 1, 13 \<mapsto> (stage_win 1)\<lparr>is_floating := True\<rparr>, 14 \<mapsto> stage_win 2]"
  by (simp_all add: stage_def idle_def)

lemma stage_win_simps [simp]:
  "ws_tags (stage_win t) = t" "rules_applied (stage_win t)" "\<not> is_floating (stage_win t)"
  "\<not> is_fullscreen (stage_win t)" "\<not> is_swallowed (stage_win t)" "scratch_key (stage_win t) = 0"
  "\<not> slide_out (stage_win t)" "buffer_mapped (stage_win t)" "mon_idx (stage_win t) = 0" "saved_loc (stage_win t) = None"
  by (simp_all add: stage_win_def wstate_new_def)

lemma stage_cfact [simp]: "cfact (stage_win t) = Fin 1"
proof -
  have "cfact (wstate_new gap_conf) = Fin 1" by code_simp
  then show ?thesis by (simp add: stage_win_def)
qed

lemma wide_simps [simp]: "tags (wide_mon 0) = 1" "w_area (wide_mon 0) = mk_rect 0 0 1000 600"
  by code_simp+

lemma dynamic_wide: "apply_dynamic gap_conf (wide_mon 0) 1 n = wide_mon 0"
proof -
  have "pertag_rule_of gap_conf (trailing_zeros 1) = Some (Fixed 0)" by code_simp
  then show ?thesis by (simp add: apply_dynamic_def Let_def)
qed

lemma stage_roles: "role 0 stage 11 = TiledWin" "role 0 stage 12 = TiledWin" "role 0 stage 13 = FloatWin"
   "role 0 stage 14 = Hidden"
  by (simp_all add: role_def display_of_def all_visible_def)

lemma stage_shown: "shown_as 0 {TiledWin} stage = [11, 12]" "shown_as 0 {Hidden} stage = [14]"
  by (simp_all add: shown_as_def stage_roles)

lemma stage_wf [simp]: "wf_space [(13 :: nat, 40, 50), (14, 7, 8)]"
  by (simp add: wf_space_def)

end
