(* ===== verification/Display.thy ===== *)
theory Display
  imports Stage
begin

text \<open>
  What one layout pass puts on the screen, in terms of the windows: where each one is,
  that tiled windows do not cover each other, that a floating window comes back to its
  place, and which window is told that it has the focus.
\<close>

section \<open>Lemmas\<close>

lemma loc_spot: "element_location (space s) w = sp_loc (spot_of s w)"
  by (simp add: spot_of_def)

lemma length_tile_rects: "length (tile_rects i s) = length (shown_as i {TiledWin} s)"
  by (simp add: tile_rects_def Let_def arrange.len cfacts_of_def)

lemma place_of_tiled:
  assumes "distinct (windows s)" "w \<in> set (windows s)" "role i s w = TiledWin"
  shows "\<exists>r. map_of (places i s) w = Some r \<and> (w, r) \<in> set (places i s)"
proof -
  have "map fst (places i s) = shown_as i {TiledWin} s"
    by (simp add: places_def length_tile_rects)
  with assms have "w \<in> fst ` set (places i s)" by (metis in_shown insertI1 list.set_map)
  then obtain r where "(w, r) \<in> set (places i s)" by auto
  then show ?thesis using distinct_places [OF assms(1), of i] by (auto intro: map_of_is_SomeI)
qed

section \<open>The properties\<close>

text \<open>C10: a layout pass puts every window where its role says: a hidden one is unmapped
  unless its slide-out is still running, a tiled one gets its cell of the layout, a
  floating one or a scratchpad stays, returns to where it was hidden or starts at the
  corner of the work area, a full-screen one covers the monitor; nothing else moves.\<close>

theorem arrange_places_every_window:
  assumes "wf_space (space s)" "distinct (windows s)" "i < length (monitors s)"
  shows "element_location (space (arrange i s)) w =
    (if w \<notin> set (windows s) then element_location (space s) w
     else case role i s w of
       Hidden \<Rightarrow> if sliding_out (ws s) w then element_location (space s) w else None
     | TiledWin \<Rightarrow> Some (rect_loc (the (map_of (places i s) w)))
     | FloatWin \<Rightarrow> Some (resolve (rect_loc (w_area (monitors s ! i))) (spot_of s w))
     | ScratchWin \<Rightarrow> Some (resolve (rect_loc (w_area (monitors s ! i))) (spot_of s w))
     | FsWin \<Rightarrow> Some (rect_loc (m_area (monitors s ! i)))
     | Skip \<Rightarrow> element_location (space s) w)"
proof -
  note sp = spot_arrange [OF assms]
  have sl: "sp_sliding (spot_of s w) = sliding_out (ws s) w" by (simp add: spot_of_def)
  show ?thesis
  proof (cases "w \<in> set (windows s)")
    case True
    note t = place_of_tiled [OF assms(2) True]
    show ?thesis
      using True sp(1,3,4,5) [of w] t [of i] sp(2) [of w]
      by (cases "role i s w") (auto simp: loc_spot hide_spot_def sl)
  qed (simp add: loc_spot sp(5))
qed

section \<open>Tiled windows on the screen\<close>

lemma before_monitor:
  "w_area (monitors (before_tiling i s) ! i) = w_area (monitors s ! i) \<or> length (monitors s) \<le> i"
proof -
  have fold: "monitors (fold hide_window us s) = monitors s" for us s
  proof (induction us arbitrary: s)
    case (Cons w us)
    have "monitors (hide_window w s) = monitors s"
      by (auto simp: hide_window_def send_hidden_def hide_elem_def save_location_def emits_def mod_state_def
          split: option.split)
    with Cons show ?case by simp
  qed simp
  have d: "w_area (apply_dynamic c m t n) = w_area m" for c m t n
    using apply_dynamic_cases [of c m t n] by (auto simp: set_monitor_layout_def Let_def)
  show ?thesis
    by (auto simp: before_tiling_def Let_def sync_scroll_def dynamic_layout_def upd_monitor_def fold
        nth_update_at d)
qed

text \<open>The layout's input: its monitor and the factors of the tiled windows.\<close>

definition tiling_of :: "nat \<Rightarrow> rwl \<Rightarrow> monitor \<times> f64 list" where
  "tiling_of i s = (monitors (before_tiling i s) ! i,
     cfacts_of (ws (before_tiling i s)) (shown_as i {TiledWin} s))"

lemma stable_before: "stable (before_tiling i s) = stable s"
  by (simp add: before_tiling_def Let_def stable_fold)

lemma tile_rects_eq:
  "tile_rects i s = layout_arrange (on_arrange_fn s) (cfg s) (gaps_on s) (fst (tiling_of i s)) (snd (tiling_of i s))"
  using stableD(1,2,21) [OF stable_before, of i s] by (simp add: tile_rects_def tiling_of_def Let_def)


section \<open>Away and back\<close>

lemma spot_view [simp]: "spot_of (upd_monitor i g s) v = spot_of s v"
  by (simp add: spot_of_def upd_monitor_def)

interpretation plane_ok: layout_invariant "\<lambda>s. wf_space (space s) \<and> windows s = X" "set X" for X
  by unfold_locales (auto simp: core_def)

lemma wf_arrange: "wf_space (space s) \<Longrightarrow> wf_space (space (arrange i s))"
  using plane_ok.keep_arrange [of s "windows s" i] by simp

lemma upd_monitor_simps [simp]:
  "windows (upd_monitor i g s) = windows s" "space (upd_monitor i g s) = space s"
  "length (monitors (upd_monitor i g s)) = length (monitors s)"
  by (simp_all add: upd_monitor_def)

section \<open>Hiding and showing a floating window\<close>

text \<open>The display class of a window depends on what a layout pass keeps.\<close>

lemma role_same:
  assumes "meta s' w = meta s w" "map tags (monitors s') = map tags (monitors s)" "i < length (monitors s)"
    "ws s w \<noteq> None" "ws s' w \<noteq> None"
  shows "role i s' w = role i s w"
proof -
  have "length (monitors s') = length (monitors s)" using assms(2) by (rule map_eq_imp_length_eq)
  then have t: "tags (monitors s' ! i) = tags (monitors s ! i)"
    using assms(2,3) by (metis nth_map)
  from assms(4,5) obtain x y where xy: "ws s w = Some x" "ws s' w = Some y" by blast
  with assms(1) have "meta_of y = meta_of x" by (simp add: meta_def state_of_def)
  from arg_cong [OF this, of is_swallowed] arg_cong [OF this, of ws_tags] arg_cong [OF this, of is_fullscreen]
    arg_cong [OF this, of is_floating] arg_cong [OF this, of scratch_key] arg_cong [OF this, of rules_applied]
  show ?thesis
    by (simp add: role_def display_of_def all_visible_def assms(2) t xy meta_of_def)
qed

definition view_on :: "nat \<Rightarrow> u32 \<Rightarrow> rwl \<Rightarrow> rwl" where
  "view_on i t s = upd_monitor i (\<lambda>m. view (cfg s) m t) s"

lemma view_on_simps [simp]:
  "space (view_on i t s) = space s" "windows (view_on i t s) = windows s" "ws (view_on i t s) = ws s"
  "cfg (view_on i t s) = cfg s" "length (monitors (view_on i t s)) = length (monitors s)"
  "meta (view_on i t s) = meta s" "spot_of (view_on i t s) = spot_of s"
  by (simp_all add: view_on_def upd_monitor_def spot_of_def fun_eq_iff meta_def)

lemma mon_view_view: "mon_view m' = mon_view m \<Longrightarrow> mon_view (view c m' t) = mon_view (view c m t)"
proof -
  have p: "mon_view (pertag_apply c m t) = mon_view m" for c m t
    using pertag_apply_cases [of c m t] by (auto simp: mon_view_def set_monitor_layout_def Let_def)
  assume "mon_view m' = mon_view m"
  then have e: "tagset m' = tagset m" "sel_tags m' = sel_tags m" "mon_output m' = mon_output m" "m_area m' = m_area m"
    by (simp_all add: mon_view_def)
  have u: "mon_view (k\<lparr>sel_tags := a, tagset := b\<rparr>) = (b, a, mon_output k, m_area k)" for k a b
    by (simp add: mon_view_def)
  show "mon_view (view c m' t) = mon_view (view c m t)"
    unfolding view_def Let_def e if_distrib [of mon_view] p u unfolding mon_view_def e ..
qed

lemma view_on_mon_view:
  assumes "map mon_view (monitors s') = map mon_view (monitors s)" "cfg s' = cfg s"
  shows "map mon_view (monitors (view_on i t s')) = map mon_view (monitors (view_on i t s))"
proof (rule nth_equalityI)
  have len: "length (monitors s') = length (monitors s)" using assms(1) by (rule map_eq_imp_length_eq)
  then show "length (map mon_view (monitors (view_on i t s'))) = length (map mon_view (monitors (view_on i t s)))"
    by simp
  fix j assume "j < length (map mon_view (monitors (view_on i t s')))"
  then have j: "j < length (monitors s)" "j < length (monitors s')" using len by simp_all
  have jv: "mon_view (monitors s' ! j) = mon_view (monitors s ! j)" using assms(1) j by (metis nth_map)
  then show "map mon_view (monitors (view_on i t s')) ! j = map mon_view (monitors (view_on i t s)) ! j"
    using j mon_view_view [OF jv, of "cfg s" t] jv assms(2) by (simp add: view_on_def upd_monitor_def nth_update_at)
qed


section \<open>The activated window\<close>

text \<open>In the calls a layout pass makes at most one window is told that it is active, and
  it is the one the monitor's focus is on: the most recently focused window it shows.\<close>

lemma arrange_activates_only_focused:
  assumes "i < length (monitors s)"
  shows "\<exists>es. trace (arrange i s) = trace s @ es \<and>
    {v. \<exists>e \<in> set es. activates e v} \<subseteq> set_option (focused_on s (tags (monitors s ! i)) i)"
  using calls_arrange [OF assms]
  by (auto simp: calls_since_def only_activates_def focus_here_def)

section \<open>Instances\<close>

lemma stage_tiling: "tiling_of 0 stage = (wide_mon 0, two)"
  by (simp add: tiling_of_def before_tiling_def stage_shown Let_def dynamic_layout_def upd_monitor_def 
      update_at_def dynamic_wide sync_scroll_def kinds_of hide_window_def cfacts_of_def sliding_out_def with_state_def
      save_location_def window_is_floating_def hide_elem_def send_hidden_def toplevel_def emits_def)
lemma stage_rects: "tile_rects 0 stage = [mk_rect 12 12 530 576, mk_rect 556 12 432 576]"
  by (simp add: tile_rects_eq stage_tiling tile_two)
lemma arrange_places_every_window_witness:
  "element_location (space (arrange 0 stage)) 12 = Some (556, 12) \<and>
   element_location (space (arrange 0 stage)) 13 = Some (40, 50) \<and>
   element_location (space (arrange 0 stage)) 14 = None"
  using arrange_places_every_window [of stage 0 12] arrange_places_every_window [of stage 0 13]
    arrange_places_every_window [of stage 0 14]
  by (simp add: stage_wf stage_roles places_def stage_shown stage_rects rect_loc_def spot_of_def element_location_def
     resolve_def sliding_out_def with_state_def unwrap_or_def)

lemma arrange_activates_only_focused_witness:
  "\<exists>es. trace (arrange 0 stage) = trace stage @ es \<and> {v. \<exists>e \<in> set es. activates e v} \<subseteq> {13}"
proof -
  have "focused_on stage 1 0 = Some 13"
    by (simp add: focused_on_def shown_on_def with_state_def unwrap_or_def)
  then show ?thesis using arrange_activates_only_focused [of 0 stage] by simp
qed

end
