(* ===== verification/Focus_Laws.thy ===== *)
theory Focus_Laws
  imports Invariants Stage
begin

text \<open>
  Focus and the window stack: what focusing a window does, that stepping through the
  stack visits every window, and what zooming promotes.
\<close>

section \<open>What focusing changes\<close>

definition sight :: "rwl \<Rightarrow> (wid \<Rightarrow> wstate) \<times> ((u32 \<times> u32) \<times> nat \<times> woutput \<times> rect) list \<times>
    wid list \<times> wid list \<times> config \<times> bool" where
  "sight s = (meta s, map mon_view (monitors s), windows s, focus_stack s, cfg s, locked s)"

lemma sight_stable: "stable s' = stable s \<Longrightarrow> sight s' = sight s \<and> sel_mon s' = sel_mon s"
  using stableD [of s' s] by (simp only: sight_def)

lemma mon_of_steps [simp]: "mon_of (fire h s) w = mon_of s w" "mon_of (emit e s) w = mon_of s w"
  by (cases w; simp add: mon_of_def fire_def emit_def)+

lemma sight_steps [simp]:
  "sight (fire h s) = sight s" "sel_mon (fire h s) = sel_mon s"
  "sight (emit e s) = sight s" "sel_mon (emit e s) = sel_mon s"
  "sight (s\<lparr>sel_mon := i\<rparr>) = sight s" "sight (arrange i s) = sight s" "sight (arrange_all s) = sight s"
  "sel_mon (arrange i s) = sel_mon s" "sel_mon (arrange_all s) = sel_mon s"
  by (simp_all add: sight_stable [OF stable_arrange] sight_stable [OF stable_arrange_all])
    (simp_all add: sight_def fire_def emit_def meta_def [abs_def])

lemma sight_changed:
  "sight (focus_changed_to prev s) = sight s"
  "sel_mon (focus_changed_to prev s) =
     (case mon_of s (first_of (focus_stack s)) of Some i \<Rightarrow> i | None \<Rightarrow> sel_mon s)"
proof -
  have f: "focus_stack (fire h t) = focus_stack t" "focus_stack (emit e t) = focus_stack t" for h e t
    by (simp_all add: fire_def emit_def)
  show "sight (focus_changed_to prev s) = sight s"
    "sel_mon (focus_changed_to prev s) =
     (case mon_of s (first_of (focus_stack s)) of Some i \<Rightarrow> i | None \<Rightarrow> sel_mon s)"
    by (auto simp: focus_changed_to_def print_status_def schedule_render_def Let_def f
        split: option.split)
qed

lemma first_raised [simp]: "first_of (raise_focus w st) = Some w"
proof (cases "position (\<lambda>v. v = w) st")
  case (Some k)
  then have "st ! k = w" using position_Some by fastforce
  with Some show ?thesis by (simp add: raise_focus_def rotate_prefix_def first_of_def)
qed (simp add: raise_focus_def first_of_def)

lemma focus_window_sight:
  assumes "\<not> locked s"
  shows "sight (focus_window (Some w) s) = sight (s\<lparr>focus_stack := raise_focus w (focus_stack s)\<rparr>)"
    and "sel_mon (focus_window (Some w) s) =
      (if first_of (focus_stack s) = Some w then sel_mon s else mon_idx (meta s w))"
proof -
  define s1 where "s1 = mod_state w (is_urgent_update (\<lambda>_. False))
    (s\<lparr>focus_stack := raise_focus w (focus_stack s)\<rparr>)"
  define s3 where "s3 = update_borders (set_focus (cl_surface (clients s w)) s1)"
  have st: "stable s3 = stable (s\<lparr>focus_stack := raise_focus w (focus_stack s)\<rparr>)"
    by (simp add: s3_def s1_def)
  have fs: "focus_stack s3 = raise_focus w (focus_stack s)" using stableD(12) [OF st] by simp
  have "\<not> locked s1" using assms by (simp add: s1_def mod_state_def)
  then have eq: "focus_window (Some w) s =
      (if first_of (focus_stack s) \<noteq> Some w then focus_changed_to (first_of (focus_stack s)) s3 else s3)"
    by (auto simp: focus_window_def s1_def [symmetric] s3_def [symmetric] Let_def fs)
  have "ws s1 w \<noteq> None" by (simp add: s1_def mod_state_def)
  moreover have "dom (ws s1) \<subseteq> dom (ws s3)"
  proof -
    have "dom (ws s1) \<subseteq> dom (ws (set_focus f s1))" for f
      by (simp add: set_focus_def emit_def)
    then show ?thesis
      unfolding s3_def update_borders_def Let_def by (simp add: subset_insertI le_supI2)
  qed
  ultimately obtain x where x: "ws s3 w = Some x" by auto
  then have "mon_idx (meta s3 w) = mon_idx x"
    by (simp add: meta_def state_of_def meta_of_def)
  moreover have "meta s3 w = meta s w" using stableD(22) [OF st] by (simp add: meta_def)
  ultimately have m: "mon_of s3 (Some w) = Some (mon_idx (meta s w))"
    using x by (simp add: mon_of_def)
  show "sight (focus_window (Some w) s) = sight (s\<lparr>focus_stack := raise_focus w (focus_stack s)\<rparr>)"
    using sight_stable [OF st] by (simp add: eq sight_changed)
  show "sel_mon (focus_window (Some w) s) =
      (if first_of (focus_stack s) = Some w then sel_mon s else mon_idx (meta s w))"
    using sight_stable [OF st] by (auto simp: eq sight_changed fs m)
qed

lemma sightD:
  assumes "sight s' = sight s"
  shows "meta s' = meta s" "windows s' = windows s" "focus_stack s' = focus_stack s"
    "cfg s' = cfg s" "locked s' = locked s" "tags_at s' = tags_at s"
    "length (monitors s') = length (monitors s)"
proof -
  from assms have v: "map mon_view (monitors s') = map mon_view (monitors s)"
    and r: "meta s' = meta s" "windows s' = windows s" "focus_stack s' = focus_stack s"
    "cfg s' = cfg s" "locked s' = locked s"
    by (simp_all add: sight_def)
  from r show "meta s' = meta s" "windows s' = windows s" "focus_stack s' = focus_stack s"
    "cfg s' = cfg s" "locked s' = locked s" by simp_all
  have "tags_at t i = (if i < length (monitors t) then map tags (monitors t) ! i else 0)" for t i
    by (simp add: tags_at_def get_at_def)
  then show "tags_at s' = tags_at s" by (simp add: fun_eq_iff view_queries [OF v])
  show "length (monitors s') = length (monitors s)" by (rule view_queries(4) [OF v])
qed

lemma sel_tags_at: "sel_tags_of s = tags_at s (sel_mon s)"
  by (simp add: sel_tags_of_def sel_monitor_def tags_at_def)

text \<open>The window is where the focus is looked for, and first in the order.\<close>

lemma focus_window_focused:
  assumes "\<not> locked s" "shown_on (ws s) (tags_at s i) i w"
    "first_of (focus_stack s) \<noteq> Some w \<or> sel_mon s = i"
  shows "focused_window (focus_window (Some w) s) = Some w" "sel_mon (focus_window (Some w) s) = i"
    "sel_tags_of (focus_window (Some w) s) = tags_at s i"
proof -
  let ?s = "focus_window (Some w) s"
  note d = sightD [OF focus_window_sight(1) [OF assms(1), of w]]
  have m: "meta ?s = meta s" "tags_at ?s = tags_at s"
    using d by (simp_all add: meta_def [abs_def] tags_at_def [abs_def])
  have sh: "shown_on (ws ?s) t j v = shown_on (ws s) t j v" for t j v
    by (simp add: meta_queries m)
  have fs: "first_of (focus_stack ?s) = Some w" by (simp add: d)
  show i: "sel_mon ?s = i"
    using assms(2,3) by (auto simp: focus_window_sight(2) [OF assms(1)] meta_queries)
  show t: "sel_tags_of ?s = tags_at s i" by (simp add: sel_tags_at m i)
  from fs obtain st where "focus_stack ?s = w # st" by (auto simp: first_of_def split: list.splits)
  then show "focused_window ?s = Some w"
    using assms(2) by (simp add: focused_window_def i t sh)
qed

section \<open>Focusing and stepping\<close>


text \<open>One step through the stack of a monitor's windows.\<close>

definition step_by :: "int \<Rightarrow> nat \<Rightarrow> nat" where
  "step_by dir n = (if dir > 0 then 1 else n - 1)"

lemma focus_cycle_Some: "0 < n \<Longrightarrow> focus_cycle (Some p) dir n = (p + step_by dir n) mod n"
  by (simp add: focus_cycle_def step_by_def)

lemma position_nth: "distinct xs \<Longrightarrow> p < length xs \<Longrightarrow> position (\<lambda>v. v = xs ! p) xs = Some p"
proof -
  assume d: "distinct xs" "p < length xs"
  then have "xs ! p \<in> set xs" by simp
  then obtain k where k: "position (\<lambda>v. v = xs ! p) xs = Some k"
    by (cases "position (\<lambda>v. v = xs ! p) xs") (auto simp: position_None)
  with position_Some [OF k] d show ?thesis by (metis nth_eq_iff_index_eq)
qed

lemma focus_step:
  assumes "\<not> locked s" "distinct (windows s)" "xs = filter (on_sel_mon s) (windows s)"
    "p < length xs" "focused_window s = Some (xs ! p)"
  shows "focused_window (focus_stack_step dir s) = Some (xs ! ((p + step_by dir (length xs)) mod length xs)) \<and>
    filter (on_sel_mon (focus_stack_step dir s)) (windows (focus_stack_step dir s)) = xs \<and>
    \<not> locked (focus_stack_step dir s) \<and> windows (focus_stack_step dir s) = windows s"
proof -
  define q where "q = (p + step_by dir (length xs)) mod length xs"
  have n: "0 < length xs" using assms(4) by (rule le_less_trans [OF le0])
  then have q: "q < length xs" by (simp add: q_def)
  have "distinct xs" using assms(2,3) by simp
  then have eq: "focus_stack_step dir s = focus_window (Some (xs ! q)) s"
    using n by (simp add: focus_stack_step_def assms(3) [symmetric] assms(5) position_nth assms(4)
        focus_cycle_Some q_def Let_def)
  have "on_sel_mon s (xs ! q)" using nth_mem [OF q] assms(3) by simp
  then have sh: "shown_on (ws s) (tags_at s (sel_mon s)) (sel_mon s) (xs ! q)"
    by (auto simp: on_sel_mon_def shown_on_def unwrap_or_False sel_tags_at)
  note f = focus_window_focused [OF assms(1) sh] and d = sightD [OF focus_window_sight(1) [OF assms(1)]]
  let ?t = "focus_window (Some (xs ! q)) s"
  have "on_sel_mon t v \<longleftrightarrow> ws_tags (meta t v) AND sel_tags_of t \<noteq> 0 \<and> rules_applied (meta t v) \<and>
      mon_idx (meta t v) = sel_mon t" for t v
    by (cases "ws t v") (simp_all add: on_sel_mon_def with_state_def meta_def state_of_def
        meta_of_def wstate_new_def)
  moreover have "meta ?t = meta s" using d(1) [of "xs ! q"] by (simp add: meta_def [abs_def])
  ultimately have "on_sel_mon ?t = on_sel_mon s"
    using f by (simp add: fun_eq_iff sel_tags_at)
  then show ?thesis unfolding eq q_def [symmetric] using f d assms(1,3) by simp
qed

text \<open>C21: stepping the focus through the stack is a rotation of the windows the selected
  monitor shows: after \<open>k\<close> steps forward the focus is \<open>k\<close> places on, cyclically, so every
  window is reached, and \<open>k\<close> steps back from there return to the start.\<close>

theorem focus_steps_cycle:
  assumes "\<not> locked s" "distinct (windows s)" "xs = filter (on_sel_mon s) (windows s)"
    "p < length xs" "focused_window s = Some (xs ! p)"
  shows "focused_window ((focus_stack_step dir ^^ k) s) =
    Some (xs ! ((p + k * (if dir > 0 then 1 else length xs - 1)) mod length xs))"
proof -
  have "focused_window ((focus_stack_step dir ^^ k) s) =
      Some (xs ! ((p + k * step_by dir (length xs)) mod length xs)) \<and>
    filter (on_sel_mon ((focus_stack_step dir ^^ k) s)) (windows ((focus_stack_step dir ^^ k) s)) = xs \<and>
    \<not> locked ((focus_stack_step dir ^^ k) s) \<and> windows ((focus_stack_step dir ^^ k) s) = windows s"
  proof (induction k)
    case (Suc k)
    let ?t = "(focus_stack_step dir ^^ k) s" and ?p = "(p + k * step_by dir (length xs)) mod length xs"
    have p: "?p < length xs" using assms(4) by (intro mod_less_divisor le_less_trans [OF le0])
    have m: "(?p + step_by dir (length xs)) mod length xs =
        (p + Suc k * step_by dir (length xs)) mod length xs"
      by (subst mod_add_left_eq) (simp add: algebra_simps)
    from Suc.IH have t: "\<not> locked ?t" "distinct (windows ?t)" "xs = filter (on_sel_mon ?t) (windows ?t)"
      "focused_window ?t = Some (xs ! ?p)" "windows ?t = windows s"
      using assms(2) by auto
    from focus_step [OF t(1-3) p t(4), of dir] show ?case
      unfolding m t(5) funpow.simps(2) o_apply .
  qed (use assms in simp)
  then show ?thesis by (simp add: step_by_def)
qed

section \<open>Zooming\<close>

lemma zoom_scan_found:
  "zoom_scan cand f b us = (b', r) \<Longrightarrow>
   (b' \<longleftrightarrow> b \<or> filter cand us \<noteq> [] \<and> hd (filter cand us) = f) \<and>
   r = (case filter (\<lambda>w. cand w \<and> w \<noteq> f) us of [] \<Rightarrow> None | c # _ \<Rightarrow> Some c)"
  by (induction us arbitrary: b) (auto split: if_splits)

lemma rotate_prefix_raise: "distinct (us :: wid list) \<Longrightarrow> position (\<lambda>v. v = w) us = Some pos \<Longrightarrow>
   rotate_prefix pos us = w # filter (\<lambda>v. v \<noteq> w) us"
  using raise_focus_eq [of us w] by (simp add: raise_focus_def)
text \<open>Zooming moves one window to the front of the stack, without otherwise changing its
  order, and focuses it: the focused window, or, when that is the master already, the next
  tiled window, so that zooming twice swaps the two.\<close>

theorem zoom_promotes:
  assumes "\<not> locked s" "distinct (windows s)" "focused_window s = Some f" "\<not> window_is_fullscreen (ws s) f"
    "sel_monitor s = Some m" "cands = filter (zoom_candidate s (tags m)) (windows s)"
    "f \<in> set cands" "2 \<le> length cands"
  defines "t \<equiv> (if hd cands = f then cands ! 1 else f)"
  shows "windows (zoom s) = t # filter (\<lambda>w. w \<noteq> t) (windows s) \<and>
    first_of (focus_stack (zoom s)) = Some t"
proof -
  obtain a c cs where cands: "cands = a # c # cs"
    using assms(8) by (cases cands; cases "tl cands") auto
  have d: "distinct cands" using assms(2,6) by simp
  obtain b r where scan: "zoom_scan (zoom_candidate s (tags m)) f False (windows s) = (b, r)" by fastforce
  have other: "filter (\<lambda>w. zoom_candidate s (tags m) w \<and> w \<noteq> f) (windows s) = filter (\<lambda>w. w \<noteq> f) cands"
    by (simp add: assms(6) conj_commute)
  have b: "b \<longleftrightarrow> a = f" and r: "r = Some (if a = f then c else a)"
    using zoom_scan_found [OF scan] d unfolding other by (auto simp: assms(6) [symmetric] cands)
  have t: "(if b then c else f) = t" using b by (auto simp: t_def cands)
  have "t \<in> set cands" using assms(7) by (auto simp: t_def cands)
  then have "t \<in> set (windows s)" by (simp add: assms(6))
  then obtain pos where pos: "position (\<lambda>v. v = t) (windows s) = Some pos"
    by (cases "position (\<lambda>v. v = t) (windows s)") (auto simp: position_None)
  have "\<not> window_is_floating (ws s) f" using assms(6,7) by (simp add: zoom_candidate_def)
  with assms(3-5) scan r b t have "zoom s = promote_window t s"
    by (auto simp: zoom_def)
  moreover let ?s = "s\<lparr>windows := rotate_prefix pos (windows s)\<rparr>"
  have "sight (arrange_all (focus_window (Some t) ?s)) =
      sight (?s\<lparr>focus_stack := raise_focus t (focus_stack ?s)\<rparr>)"
    using focus_window_sight(1) [of ?s t] assms(1) by simp
  from sightD(2,3) [OF this] show ?thesis
    using rotate_prefix_raise [OF assms(2) pos] by (simp add: calculation promote_window_def pos)
qed

lemma zoom_promotes_witness: 
  "windows (zoom (stage\<lparr>focus_stack := [11, 12]\<rparr>)) = [12, 11, 13, 14]"
proof -
  let ?s = "stage\<lparr>focus_stack := [11, 12]\<rparr>"
  have "sel_monitor ?s = Some (wide_mon 0)" by (simp add: sel_monitor_def get_at_def)
  moreover from this have "focused_window ?s = Some 11"
    by (simp add: focused_window_def sel_tags_of_def shown_on_def with_state_def unwrap_or_def)
  moreover have "filter (zoom_candidate ?s 1) (windows ?s) = [11, 12]"
    by (simp add: zoom_candidate_def window_visible_on_def window_tags_def window_is_floating_def with_state_def unwrap_or_def)
  moreover have "\<not> window_is_fullscreen (ws ?s) 11"
    by (simp add: window_is_fullscreen_def with_state_def unwrap_or_def)
  ultimately show ?thesis
    using zoom_promotes [of ?s 11 "wide_mon 0" "[11, 12]"] by simp
qed

section \<open>Instances\<close>

lemma stage_focus: "tags_at stage 0 = 1" "sel_tags_of stage = 1" "focused_window stage = Some 13"
  "filter (on_sel_mon stage) (windows stage) = [11, 12, 13]"
  by (simp_all add: tags_at_def get_at_def sel_tags_of_def sel_monitor_def focused_window_def shown_on_def on_sel_mon_def
     with_state_def unwrap_or_def)


lemma focus_steps_cycle_witness: "focused_window (focus_stack_step 1 (focus_stack_step 1 stage)) = Some 12"
proof -
  note f = focus_steps_cycle [where s = stage and xs = "[11, 12, 13]" and p = 2 and dir = 1 and k = "Suc (Suc 0)"]
  have "([11, 12, 13] :: wid list) ! 2 = 13" by simp
  then show ?thesis using f stage_focus by simp
qed

end
