(* ===== verification/Output_Laws.thy ===== *)
theory Output_Laws
  imports Stability
begin

text \<open>
  Outputs that go and views that empty: the windows of a removed output move to one that
  stays, nothing points past the end of the monitors, and an emptied tag gives way to one
  that holds a window.
\<close>

section \<open>The view after the last window\<close>

text \<open>When the last window of a view goes, the view it switches to always holds a window
  of the monitor, and there is none only when no window of the monitor has a tag.\<close>

theorem back_target_occupied:
  "case back_target s i current from_rule of
     Some t \<Rightarrow> occupied_on s i t
   | None \<Rightarrow> filter (\<lambda>w. unwrap_or (with_state (ws s) w mon_idx) 0 = i \<and> window_tags (ws s) w \<noteq> 0)
              (windows s) = []"
proof -
  have "occupied_on s i (unwrap_or (with_state (ws s) w ws_tags) 0)"
    if "List.find (\<lambda>w. unwrap_or (with_state (ws s) w mon_idx) 0 = i \<and>
      unwrap_or (with_state (ws s) w ws_tags) 0 \<noteq> 0) (windows s) = Some w" for w
    using find_SomeD [OF that] by (cases "ws s w") (auto simp: occupied_on_def list_ex_iff with_state_def intro!: bexI [of _ w])
  then show ?thesis
    by (auto simp: back_target_def or_else_def Let_def window_tags_def find_None_iff filter_empty_conv
        split: option.splits if_splits dest: find_SomeD)
qed

section \<open>Removing an output\<close>

lemma fold_pointwise:
  "(\<And>w st v. f w st v = (if v = w then g (st w) else st v)) \<Longrightarrow> distinct us \<Longrightarrow>
   fold f us st v = (if v \<in> set us then g (st v) else st v)"
  by (induction us arbitrary: st) auto

definition migrated :: "nat \<Rightarrow> nat \<Rightarrow> u32 \<Rightarrow> wstate \<Rightarrow> wstate" where
  "migrated idx target t x = (if mon_idx x = idx
     then x\<lparr>ws_tags := (if ws_tags x \<noteq> 0 then t else 0), mon_idx := target\<rparr> else x)"

lemma migrate_window_apply:
  "migrate_window c idx target t w st v =
     (if v = w then map_option (migrated idx target t) (st w) else st v)"
  by (cases "st w") (auto simp: migrate_window_def migrated_def with_state_def set_window_tags_def state_of_def)

lemma removed_windows:
  assumes "distinct (windows s)" "w \<in> set (windows s)" "ws s w = Some x"
  shows "ws (remove_monitor out idx s) w = Some (shift_mon_idx idx (migrated idx (migration_target s idx)
    (case get_at (monitors s) (migration_target s idx) of Some m \<Rightarrow> tags m | None \<Rightarrow> 1) x))"
proof -
  note m = fold_pointwise [of "\<lambda>w st. migrate_window c idx tg t w st" "map_option (migrated idx tg t)" for c tg t,
      OF migrate_window_apply assms(1)]
  have sh: "fold (\<lambda>w st. with_state_mut c st w f) (windows s) st v =
      (if v \<in> set (windows s) then Some (f (case st v of Some y \<Rightarrow> y | None \<Rightarrow> wstate_new c)) else st v)"
    for c f st v
    by (rule fold_pointwise [OF _ assms(1)]) (simp add: state_of_def)
  show ?thesis
    using assms by (simp add: remove_monitor_def Let_def fire_def emit_def update_monitor_bounds_def sh m)
qed

lemma removed_monitors:
  "monitors (remove_monitor out idx s) = remove_at idx (monitors s)"
  "sel_mon (remove_monitor out idx s) =
     sel_after_removal (length (remove_at idx (monitors s))) (sel_mon s) idx"
  by (simp_all add: remove_monitor_def Let_def fire_def emit_def update_monitor_bounds_def)

definition shift_down :: "nat \<Rightarrow> nat \<Rightarrow> nat" where
  "shift_down idx i = (if i > idx then i - 1 else i)"

lemma nth_shift_down:
  "idx < length xs \<Longrightarrow> i < length xs \<Longrightarrow> i \<noteq> idx \<Longrightarrow>
   shift_down idx i < length (remove_at idx xs) \<and> remove_at idx xs ! shift_down idx i = xs ! i"
  by (auto simp: shift_down_def length_remove_at nth_remove_at)

lemma migration_target_other:
  "idx < length (monitors s) \<Longrightarrow> 1 < length (monitors s) \<Longrightarrow> sel_mon s < length (monitors s) \<Longrightarrow>
   migration_target s idx < length (monitors s) \<and> migration_target s idx \<noteq> idx"
proof -
  assume a: "idx < length (monitors s)" "1 < length (monitors s)" "sel_mon s < length (monitors s)"
  show ?thesis
  proof (cases "sel_mon s = idx")
    case True
    have "(if idx = 0 then 1 else 0) \<in> set [0..<length (monitors s)]" "(if idx = 0 then 1 else 0) \<noteq> idx"
      using a by auto
    then obtain j where "List.find (\<lambda>i. i \<noteq> idx) [0..<length (monitors s)] = Some j"
      by (cases "List.find (\<lambda>i. i \<noteq> idx) [0..<length (monitors s)]") (auto simp: find_None_iff)
    with find_SomeD [OF this] True a show ?thesis by (auto simp: migration_target_def)
  qed (use a in \<open>simp add: migration_target_def\<close>)
qed

text \<open>C16: unplugging one of several outputs leaves every window on an output that stays: the
  windows of the others keep their output and their tags, although its index may shift,
  those of the removed one move to the migration target and take the tags it shows, hidden
  ones staying hidden; and a selection on another output stays there.\<close>

theorem unplugging_moves_windows:
  assumes "monitor_for_output s out = Some idx" "1 < length (monitors s)"
    "sel_mon s < length (monitors s)" "distinct (windows s)" "w \<in> set (windows s)"
    "ws s w = Some x" "mon_idx x < length (monitors s)"
  defines "s' \<equiv> output_removed out s"
    and "tgt \<equiv> (if mon_idx x = idx then migration_target s idx else mon_idx x)"
  shows "mon_idx (meta s' w) < length (monitors s') \<and>
    mon_output (monitors s' ! mon_idx (meta s' w)) = mon_output (monitors s ! tgt) \<and>
    window_tags (ws s') w = (if mon_idx x = idx \<and> ws_tags x \<noteq> 0 then tags (monitors s ! tgt) else ws_tags x) \<and>
    sel_mon s' < length (monitors s') \<and>
    (sel_mon s = idx \<or> mon_output (monitors s' ! sel_mon s') = mon_output (monitors s ! sel_mon s))"
proof -
  let ?r = "remove_monitor out idx s"
  have idx: "idx < length (monitors s)" using assms(1) position_Some by (fastforce simp: monitor_for_output_def)
  note tg = migration_target_other [OF idx assms(2,3)]
  have tgt: "tgt < length (monitors s)" "tgt \<noteq> idx" using tg assms(7) by (auto simp: tgt_def)
  have st: "stable s' = stable ?r" by (simp add: s'_def output_removed_def assms(1))
  note q = stable_queries [OF st] and d = stableD [OF st]
  have wr: "ws ?r w = Some (shift_mon_idx idx (migrated idx (migration_target s idx)
      (tags (monitors s ! migration_target s idx)) x))"
    using removed_windows [OF assms(4-6), of out idx] tg by (simp add: get_at_def)
  then have m: "mon_idx (meta s' w) = shift_down idx tgt"
    "window_tags (ws s') w = (if mon_idx x = idx \<and> ws_tags x \<noteq> 0 then tags (monitors s ! tgt) else ws_tags x)"
    unfolding d(22) q(2)
    by (auto simp: meta_def state_of_def meta_of_def window_tags_def with_state_def shift_mon_idx_def
        migrated_def shift_down_def tgt_def)
  have out: "mon_output (monitors s' ! j) = mon_output (remove_at idx (monitors s) ! j)"
    if "j < length (remove_at idx (monitors s))" for j
    using arg_cong [OF q(7), of "\<lambda>xs. xs ! j"] that q(6) by (simp add: removed_monitors)
  have len: "length (monitors s') = length (remove_at idx (monitors s))"
    using q(6) by (simp add: removed_monitors)
  note sh = nth_shift_down [OF idx tgt]
  have sel: "sel_mon s' = sel_after_removal (length (monitors s) - 1) (sel_mon s) idx"
    using d(8) by (simp add: removed_monitors length_remove_at [OF idx])
  have "sel_mon s' < length (monitors s')"
    using sel assms(2,3) idx by (auto simp: len length_remove_at sel_after_removal_def)
  moreover have "mon_output (monitors s' ! sel_mon s') = mon_output (monitors s ! sel_mon s)"
    if "sel_mon s \<noteq> idx"
  proof -
    have "sel_mon s' = shift_down idx (sel_mon s)"
      using sel that assms(2,3) idx by (auto simp: sel_after_removal_def shift_down_def)
    with nth_shift_down [OF idx assms(3) that] out show ?thesis by simp
  qed
  ultimately show ?thesis using m sh out [of "shift_down idx tgt"] by (auto simp: len)
qed

section \<open>Instances\<close>

text \<open>Two outputs; the window is on the one that goes.\<close>

definition plugged :: rwl where
  "plugged = (let m = monitor_new (default_config [] []) in idle\<lparr>
     monitors := [m \<lparr>out_id = 0, out_name = ''DP-1''\<rparr>, m \<lparr>out_id = 1, out_name = ''DP-2''\<rparr>],
     windows := [5], ws := [5 \<mapsto> (wstate_new (default_config [] []))\<lparr>ws_tags := 4\<rparr>]\<rparr>)"

lemma unplugging_moves_windows_witness:
  "mon_output (monitors (output_removed \<lparr>out_id = 0, out_name = ''DP-1''\<rparr> plugged) !
     mon_idx (meta (output_removed \<lparr>out_id = 0, out_name = ''DP-1''\<rparr> plugged) 5)) =
     \<lparr>out_id = 1, out_name = ''DP-2''\<rparr>"
proof -
  let ?x = "(wstate_new (default_config [] []))\<lparr>ws_tags := 4\<rparr>"
  have f: "monitor_for_output plugged \<lparr>out_id = 0, out_name = ''DP-1''\<rparr> = Some 0"
      "1 < length (monitors plugged)" "sel_mon plugged < length (monitors plugged)"
      "distinct (windows plugged)" "5 \<in> set (windows plugged)" "ws plugged 5 = Some ?x"
      "mon_idx ?x < length (monitors plugged)"
    and t: "migration_target plugged 0 = 1" "mon_idx ?x = 0"
      "mon_output (monitors plugged ! 1) = \<lparr>out_id = 1, out_name = ''DP-2''\<rparr>"
    by (simp_all add: plugged_def monitor_for_output_def monitor_new_def Let_def migration_target_def
        wstate_new_def)
  show ?thesis using unplugging_moves_windows [OF f] by (simp only: t if_True simp_thms)
qed

end
