(* ===== verification/Overview_Laws.thy ===== *)
theory Overview_Laws
  imports Overview Stage
begin

text \<open>
  The overview and the picture in picture: hints identify their windows, typing one
  selects its window, indices stay in range, and the box stays within its margins.
\<close>

section \<open>Hints\<close>

lemma pairs_product:
  "concat (map (\<lambda>a. map (\<lambda>b. [a, b]) ys) xs) = map (\<lambda>(a, b). [a, b]) (List.product xs ys)"
  by (induction xs) (simp_all add: product_concat_map o_def)

lemma hints_ok:
  assumes "distinct (c_hint_keys c)" "c_hint_keys c \<noteq> []"
    "n \<le> length (c_hint_keys c) * length (c_hint_keys c)"
  shows "length (assign_hints c n) = n \<and> distinct (assign_hints c n) \<and>
    (\<exists>k. 0 < k \<and> (\<forall>h \<in> set (assign_hints c n). length h = k))"
proof (cases "n \<le> length (c_hint_keys c)")
  case True
  then have "assign_hints c n = map (\<lambda>a. [a]) (take n (c_hint_keys c))"
    using assms(2) by (simp add: assign_hints_def)
  moreover have "distinct (map (\<lambda>a. [a]) (take n (c_hint_keys c)))"
    using assms(1) by (simp add: distinct_map inj_on_def)
  ultimately show ?thesis using True by auto
next
  case False
  let ?P = "List.product (c_hint_keys c) (c_hint_keys c)"
  have eq: "assign_hints c n = take n (map (\<lambda>(a, b). [a, b]) ?P)"
    using False assms(2) by (simp add: assign_hints_def pairs_product Let_def)
  have "distinct (map (\<lambda>(a, b). [a, b]) ?P)"
    using assms(1) by (auto simp: distinct_map distinct_product inj_on_def)
  then have "distinct (assign_hints c n)" unfolding eq by (rule distinct_take)
  moreover have "length (assign_hints c n) = n" using assms(3) unfolding eq by simp
  moreover have "\<forall>h \<in> set (assign_hints c n). length h = 2"
    unfolding eq by (auto dest!: in_set_takeD)
  ultimately show ?thesis by (metis zero_less_numeral)
qed

text \<open>The cells of an opened overview: one per window, with its hint.\<close>

lemma build_cells_nth:
  assumes "i < length (overview_windows s b t)"
  shows "length (build_cells s b t work) = length (overview_windows s b t)"
    "oc_window (build_cells s b t work ! i) = overview_windows s b t ! i"
    "oc_tag (build_cells s b t work ! i) = window_tags (ws s) (overview_windows s b t ! i)"
    "oc_hint (build_cells s b t work ! i) =
       unwrap_or (get_at (assign_hints (cfg s) (length (overview_windows s b t))) i) []"
  using assms by (auto simp: build_cells_def Let_def nth_enumerate_eq split_def)

lemma build_cells_hints:
  assumes "length (assign_hints (cfg s) (length (overview_windows s b t))) = length (overview_windows s b t)"
  shows "map oc_hint (build_cells s b t work) = assign_hints (cfg s) (length (overview_windows s b t))"
proof (rule nth_equalityI)
  have len: "length (build_cells s b t work) = length (overview_windows s b t)"
    by (simp add: build_cells_def Let_def)
  then show "length (map oc_hint (build_cells s b t work)) =
      length (assign_hints (cfg s) (length (overview_windows s b t)))" using assms by simp
  fix i assume "i < length (map oc_hint (build_cells s b t work))"
  with len have i: "i < length (overview_windows s b t)" by simp
  with len assms show "map oc_hint (build_cells s b t work) ! i =
      assign_hints (cfg s) (length (overview_windows s b t)) ! i"
    by (simp add: build_cells_nth(4) [OF i] get_at_def)
qed

section \<open>Typing\<close>

text \<open>The hints of an overview: distinct and of one length, so none is a prefix of another.\<close>

definition hints_clear :: "overview_state \<Rightarrow> bool" where
  "hints_clear ov \<longleftrightarrow> distinct (map oc_hint (ov_cells ov)) \<and>
     (\<forall>c \<in> set (ov_cells ov). \<forall>d \<in> set (ov_cells ov). length (oc_hint c) = length (oc_hint d))"

lemma hints_clear_typed [simp]: "hints_clear (ov\<lparr>ov_typed := t\<rparr>) = hints_clear ov"
  by (simp add: hints_clear_def)

lemma hints_clear_eq:
  "hints_clear ov \<Longrightarrow> c \<in> set (ov_cells ov) \<Longrightarrow> d \<in> set (ov_cells ov) \<Longrightarrow>
   prefix (oc_hint c) (oc_hint d) \<Longrightarrow> c = d"
  unfolding hints_clear_def distinct_map inj_on_def prefix_def by (metis append_eq_conv_conj take_all_iff order_refl)

definition letter :: "u32 \<Rightarrow> char" where
  "letter k = ascii_lower (char_of (unat k))"

lemma handle_letter:
  assumes "overview s = Some ov" "ov_closing ov = None" "33 \<le> unat k" "unat k \<le> 126"
  shows "overview_handle_key k s = type_char (letter k) s"
proof -
  have "unat (0xff1b :: u32) > 126" "unat (0xff0d :: u32) > 126" "unat (0xff51 :: u32) > 126"
    "unat (0xff52 :: u32) > 126" "unat (0xff53 :: u32) > 126" "unat (0xff54 :: u32) > 126"
    "unat (0xff08 :: u32) > 126" by simp_all
  with assms(4) have "k \<notin> {0xff1b, 0xff0d, 0xff51, 0xff52, 0xff53, 0xff54, 0xff08}" by auto
  with assms show ?thesis by (simp add: overview_handle_key_def letter_def)
qed

lemma type_step:
  assumes ov: "overview s = Some ov" and cl: "hints_clear ov" and c: "c \<in> set (ov_cells ov)"
    and h: "oc_hint c = ov_typed ov @ ch # r"
  shows "overview (type_char ch s) = Some (if r = []
    then ov\<lparr>ov_typed := oc_hint c, ov_closing := Some (SelWindow (oc_window c) (oc_tag c)),
            ov_anim_start := now s\<rparr>
    else ov\<lparr>ov_typed := ov_typed ov @ [ch]\<rparr>)"
proof -
  let ?t = "ov_typed ov @ [ch]"
  have p: "starts_with (oc_hint c) ?t" using h by (simp add: starts_with_def)
  with c have some: "\<not> list_all (\<lambda>cell. \<not> starts_with (oc_hint cell) ?t) (ov_cells ov)"
    by (auto simp: list_all_iff)
  show ?thesis
  proof (cases "r = []")
    case True
    with h have t: "oc_hint c = ?t" by simp
    obtain d where d: "List.find (\<lambda>cell. oc_hint cell = ?t) (ov_cells ov) = Some d"
      using c t by (cases "List.find (\<lambda>cell. oc_hint cell = ?t) (ov_cells ov)") (auto simp: find_None_iff)
    then have "d \<in> set (ov_cells ov)" "oc_hint d = oc_hint c" using t by (auto dest: find_SomeD)
    then have "d = c" using hints_clear_eq [OF cl _ c] by auto
    with True ov some d t show ?thesis
      by (simp add: type_char_def begin_close_def schedule_render_def emit_def)
  next
    case False
    have "oc_hint d \<noteq> ?t" if "d \<in> set (ov_cells ov)" for d
    proof
      assume "oc_hint d = ?t"
      with h have "prefix (oc_hint d) (oc_hint c)" "length (oc_hint d) < length (oc_hint c)"
        using False by simp_all
      with hints_clear_eq [OF cl that c] show False by auto
    qed
    then have "List.find (\<lambda>cell. oc_hint cell = ?t) (ov_cells ov) = None" by (auto simp: find_None_iff)
    with False ov some show ?thesis by (simp add: type_char_def schedule_render_def emit_def)
  qed
qed

lemma type_all:
  "overview s = Some ov \<Longrightarrow> hints_clear ov \<Longrightarrow> ov_closing ov = None \<Longrightarrow> c \<in> set (ov_cells ov) \<Longrightarrow>
   oc_hint c = ov_typed ov @ map letter ks \<Longrightarrow> ks \<noteq> [] \<Longrightarrow> \<forall>k \<in> set ks. 33 \<le> unat k \<and> unat k \<le> 126 \<Longrightarrow>
   map_option ov_closing (overview (fold overview_handle_key ks s)) =
     Some (Some (SelWindow (oc_window c) (oc_tag c)))"
proof (induction ks arbitrary: s ov)
  case (Cons k ks)
  have "overview_handle_key k s = type_char (letter k) s"
    by (rule handle_letter [OF Cons.prems(1,3)]) (use Cons.prems(7) in simp_all)
  moreover note type_step [OF Cons.prems(1,2,4), of "letter k" "map letter ks"]
  ultimately have o: "overview (overview_handle_key k s) = Some (if ks = []
      then ov\<lparr>ov_typed := oc_hint c, ov_closing := Some (SelWindow (oc_window c) (oc_tag c)),
              ov_anim_start := now s\<rparr>
      else ov\<lparr>ov_typed := ov_typed ov @ [letter k]\<rparr>)"
    using Cons.prems(5) by simp
  show ?case
  proof (cases "ks = []")
    case False
    let ?ov = "ov\<lparr>ov_typed := ov_typed ov @ [letter k]\<rparr>"
    have o1: "overview (overview_handle_key k s) = Some ?ov" using o False by (simp only: if_False)
    have ov: "hints_clear ?ov" "ov_closing ?ov = None" "c \<in> set (ov_cells ?ov)"
      using Cons.prems(2-4) by simp_all
    have h: "oc_hint c = ov_typed ?ov @ map letter ks" using Cons.prems(5) by simp
    have "\<forall>k \<in> set ks. 33 \<le> unat k \<and> unat k \<le> 126" using Cons.prems(7) by (meson list.set_intros(2))
    from Cons.IH [OF o1 ov h False this] show ?thesis by (simp only: fold_Cons o_apply)
  next
    case True
    with o show ?thesis by simp
  qed
qed simp

lemma typing_selects_cell:
  assumes "sel_monitor s = Some m" "overview s = None"
    "distinct (c_hint_keys (cfg s))" "c_hint_keys (cfg s) \<noteq> []"
    "length (overview_windows s b (tags m)) \<le> length (c_hint_keys (cfg s)) * length (c_hint_keys (cfg s))"
    "i < length (overview_windows s b (tags m))"
    "assign_hints (cfg s) (length (overview_windows s b (tags m))) ! i = map letter ks"
    "\<forall>k \<in> set ks. 33 \<le> unat k \<and> unat k \<le> 126"
  shows "map_option ov_closing (overview (fold overview_handle_key ks (overview_toggle b s))) =
    Some (Some (SelWindow (overview_windows s b (tags m) ! i)
                  (window_tags (ws s) (overview_windows s b (tags m) ! i))))"
proof -
  let ?wins = "overview_windows s b (tags m)" and ?hs = "assign_hints (cfg s) (length (overview_windows s b (tags m)))"
  define cells where "cells = build_cells s b (tags m) (w_area m)"
  note hk = hints_ok [OF assms(3-5)]
  note nth = build_cells_nth [OF assms(6), of "w_area m", folded cells_def]
  have hs: "map oc_hint cells = ?hs" unfolding cells_def using hk by (intro build_cells_hints) blast
  have i: "i < length cells" using assms(6) nth(1) by simp
  then have ne: "cells \<noteq> []" by auto
  obtain ov where ov: "overview (overview_toggle b s) = Some ov" "ov_cells ov = cells"
    "ov_typed ov = []" "ov_closing ov = None"
    using assms(1,2) ne by (auto simp: overview_toggle_def cells_def Let_def schedule_render_def emit_def)
  have "\<exists>k. \<forall>c \<in> set cells. length (oc_hint c) = k" using hk hs by (metis image_eqI list.set_map)
  with hk hs ov(2) have "hints_clear ov" by (auto simp: hints_clear_def)
  moreover have h: "oc_hint (cells ! i) = map letter ks" using assms(7) hs i by (metis nth_map)
  moreover have "ks \<noteq> []"
  proof
    assume "ks = []"
    then have "[] \<in> set ?hs" using h hs i by (metis list.map(1) list.set_map nth_mem image_eqI)
    with hk show False by fastforce
  qed
  ultimately show ?thesis
    using type_all [OF ov(1), of "cells ! i" ks] ov i assms(8) nth by simp
qed

text \<open>Opening the overview and typing the hint shown on a window selects exactly that
  window, for up to the square of the number of hint keys windows: the overview begins to
  close on it, whichever windows share its first letter.\<close>

lemma typing_a_hint_selects_its_window:
  assumes "sel_monitor s = Some m" "overview s = None"
    "distinct (c_hint_keys (cfg s))" "c_hint_keys (cfg s) \<noteq> []"
    "length (overview_windows s b (tags m)) \<le> length (c_hint_keys (cfg s)) * length (c_hint_keys (cfg s))"
    "i < length (overview_windows s b (tags m))"
    "assign_hints (cfg s) (length (overview_windows s b (tags m))) ! i = map letter ks"
    "\<forall>k \<in> set ks. 33 \<le> unat k \<and> unat k \<le> 126"
  shows "map_option ov_closing (overview (fold overview_handle_key ks (overview_toggle b s))) =
    Some (Some (SelWindow (overview_windows s b (tags m) ! i)
                  (window_tags (ws s) (overview_windows s b (tags m) ! i))))"
  using assms by (rule typing_selects_cell)

section \<open>Indices\<close>

definition wf_ov :: "overview_state \<Rightarrow> bool" where
  "wf_ov ov \<longleftrightarrow> ov_cells ov \<noteq> [] \<and>
     (\<forall>i. ov_selected ov = Some i \<longrightarrow> i < length (ov_cells ov)) \<and>
     (\<forall>i. ov_hovered ov = Some i \<longrightarrow> i < length (ov_cells ov))"

definition wf_overview :: "rwl \<Rightarrow> bool" where
  "wf_overview s \<longleftrightarrow> (case overview s of None \<Rightarrow> True | Some ov \<Rightarrow> wf_ov ov)"

lemma wf_ov_fields [simp]:
  "wf_ov (ov\<lparr>ov_typed := t\<rparr>) = wf_ov ov"
  "wf_ov (ov\<lparr>ov_closing := c, ov_anim_start := a\<rparr>) = wf_ov ov"
  by (simp_all add: wf_ov_def)

lemma wf_overview_simps [simp]:
  "wf_overview (s\<lparr>overview := Some ov\<rparr>) = wf_ov ov" "wf_overview (s\<lparr>overview := None\<rparr>)"
  "wf_overview (emit e s) = wf_overview s" "wf_overview (schedule_render s) = wf_overview s"
  "overview s = Some ov \<Longrightarrow> wf_overview s = wf_ov ov"
  by (simp_all add: wf_overview_def schedule_render_def emit_def)

lemma wf_overview_close [simp]: "wf_overview (begin_close sel s) = wf_overview s"
  by (cases "overview s") (simp_all add: begin_close_def wf_overview_def schedule_render_def emit_def)

lemma overview_dir_lt: "0 < n \<Longrightarrow> overview_dir fwd sel n < n"
  by (simp add: overview_dir_def split: option.split bool.split)

text \<open>The selected and the hovered cell are cells of the grid whatever keys are pressed,
  wherever the pointer goes, and when the overview is opened and closed: no index of the
  overview is ever out of range.\<close>

lemma overview_indices_valid:
  assumes "wf_overview s"
  shows "wf_overview (overview_handle_key k s) \<and> wf_overview (overview_pointer_motion p s) \<and>
    wf_overview (overview_pointer_click p s) \<and> wf_overview (overview_toggle b s) \<and>
    wf_overview (force_close s)"
proof (cases "overview s")
  case None
  have "wf_ov ov" if "ov_cells ov \<noteq> []" "ov_selected ov = None" "ov_hovered ov = None" for ov
    using that by (simp add: wf_ov_def)
  then show ?thesis
    using None assms by (auto simp: overview_handle_key_def overview_pointer_motion_def
        overview_pointer_click_def overview_toggle_def force_close_def Let_def split: option.split)
next
  case (Some ov)
  with assms have ov: "wf_ov ov" by simp
  have type: "wf_overview (type_char c s)" for c
    using Some ov by (auto simp: type_char_def Let_def split: option.split)
  have move: "wf_overview (move_selected fwd s)" for fwd
    using Some ov overview_dir_lt [of "length (ov_cells ov)" fwd]
    by (auto simp: move_selected_def Let_def) (simp add: wf_ov_def)
  have "wf_overview (overview_handle_key k s)"
    using Some ov type move by (auto simp: overview_handle_key_def select_best_def split: option.split)
  moreover have "wf_overview (overview_pointer_motion p s)"
    using Some ov position_Some
    by (fastforce simp: overview_pointer_motion_def Let_def wf_ov_def split: option.split)
  ultimately show ?thesis
    using Some ov by (auto simp: overview_pointer_click_def overview_toggle_def force_close_def split: option.split)
qed

section \<open>The picture-in-picture box\<close>

text \<open>The picture-in-picture box of a window stays within the margins of its output in
  every corner, at most as wide as configured or as fits, whatever the window's aspect
  ratio is and even when the height computation overflows.\<close>

theorem pip_box_within_margins:
  assumes "m = u32_as_i32 (c_pip_margin c)" "0 \<le> m" "2 * m < size_w out" "2 * m < size_h out"
    "- 1073741824 < loc_x out" "loc_x out + size_w out < 1073741824"
    "- 1073741824 < loc_y out" "loc_y out + size_h out < 1073741824"
    "pip_rect c corner out win = Some r"
  shows "inside r (mk_rect (loc_x out + m) (loc_y out + m) (size_w out - 2 * m) (size_h out - 2 * m)) \<and>
    1 \<le> size_w r \<and> 1 \<le> size_h r"
proof -
  define W where "W = size_w out - 2 * m"
  define H where "H = size_h out - 2 * m"
  have WH: "1 \<le> W" "1 \<le> H" using assms(3,4) by (simp_all add: W_def H_def)
  have "W < 2147483648" "H < 2147483648" using assms(2-8) by (simp_all add: W_def H_def)
  moreover have "size_w out - m * 2 = W" "size_h out - m * 2 = H" by (simp_all add: W_def H_def)
  ultimately have mw: "i32 (size_w out - m * 2) = W" "i32 (size_h out - m * 2) = H"
    "max W 1 = W" "max H 1 = H"
    using WH by (simp_all add: i32_id)
  obtain bw bh where b: "pip_box_size c out win = (bw, bh)" by fastforce
  have s: "1 \<le> bw" "bw \<le> W" "1 \<le> bh" "bh \<le> H"
    using b WH by (auto simp: pip_box_size_def Let_def assms(1) [symmetric] mw clamp_i_def
        split: if_splits)
  have r: "r = mk_rect (fst (corner_loc corner out bw bh m)) (snd (corner_loc corner out bw bh m)) bw bh"
    using assms(9) by (auto simp: pip_rect_def b assms(1) Let_def split: if_splits)
  have i: "i32 (loc_x out + m) = loc_x out + m" "i32 (loc_y out + m) = loc_y out + m"
    "i32 (loc_x out + size_w out - m - bw) = loc_x out + size_w out - m - bw"
    "i32 (loc_y out + size_h out - m - bh) = loc_y out + size_h out - m - bh"
    using assms s by (auto simp: W_def H_def intro!: i32_id)
  show ?thesis
    using s by (cases corner) (auto simp: r corner_loc_def i inside_def W_def H_def)
qed

section \<open>Instances\<close>
lemma stage_overview: "overview_windows stage False 1 = [11, 12, 13]"
  by (simp add: overview_windows_def with_state_def unwrap_or_def window_visible_on_def overview_sort_key_def window_tags_def)

lemma typing_a_hint_selects_its_window_witness:
  "map_option ov_closing (overview (overview_handle_key 0x32 (overview_toggle False stage))) =
    Some (Some (SelWindow 12 1))"
proof -
  have "sel_monitor stage = Some (wide_mon 0)" by (simp add: sel_monitor_def get_at_def)
  moreover have "assign_hints gap_conf 3 ! 1 = map letter [0x32]" "c_hint_keys gap_conf = ''123456789''" by code_simp+
  moreover have "assign_hints gap_conf (Suc (Suc (Suc 0))) = assign_hints gap_conf 3" by (simp add: numeral_3_eq_3)
  ultimately show ?thesis
    using typing_a_hint_selects_its_window [of stage "wide_mon 0" False 1 "[0x32]"]
    by (simp add: stage_overview window_tags_def with_state_def unwrap_or_def)
qed

lemma overview_indices_valid_witness: "wf_overview (overview_toggle True stage)"
  using overview_indices_valid [of stage 0 "(Fin 0, Fin 0)" True] by (simp add: wf_overview_def)

lemma pip_box_within_margins_witness: 
  "inside (mk_rect 1416 696 480 360) (mk_rect 24 24 1872 1032)"
proof -
  have m: "c_pip_margin gap_conf = 24" "c_pip_width gap_conf = 480" by code_simp+
  have "pip_rect gap_conf BottomRight (mk_rect 0 0 1920 1080) (800, 600) = Some (mk_rect 1416 696 480 360)"
    by code_simp
  then show ?thesis
    using pip_box_within_margins [where m = 24 and c = gap_conf and out = "mk_rect 0 0 1920 1080" and
        corner = BottomRight and win = "(800, 600)" and r = "mk_rect 1416 696 480 360"]
    by (simp add: m u32_as_i32_def i32_id)
qed

end
