(* ===== verification/Swallow_Laws.thy ===== *)
theory Swallow_Laws
  imports Swallow Arrange
begin

text \<open>
  Swallowing end to end: the parent is read from any process line, the walk finds the
  nearest terminal among the ancestors, and the terminal comes back as it was.
\<close>

lemma split_ws_skip: "is_ws c \<Longrightarrow> split_ws (c # cs) = split_ws cs"
  by simp

text \<open>The parent is read correctly from the line of \<^verbatim>\<open>/proc/<pid>/stat\<close> of every
  process, whatever its command name holds: spaces, parentheses or a forged line.\<close>

theorem stat_ppid_reads_parent:
  assumes "in_i32 ppid" "st \<noteq> []" "\<forall>c \<in> set st. \<not> is_ws c \<and> c \<noteq> CHR '')''"
    "CHR '')'' \<notin> set rest"
  shows "stat_ppid (show_int pid @ '' ('' @ comm @ '') '' @ st @ '' '' @ show_int ppid @ '' '' @ rest) =
    Some ppid"
proof -
  define tail where "tail = '' '' @ st @ '' '' @ show_int ppid @ '' '' @ rest"
  have ws: "is_ws (CHR '' '')" by (simp add: is_ws_def)
  have "CHR '')'' \<notin> set (show_int ppid)" by (rule show_int_no) simp
  then have "CHR '')'' \<notin> set tail" using assms(3,4) by (auto simp: tail_def)
  from rsplit_once_last [OF this, of "show_int pid @ '' ('' @ comm"]
  have split: "rsplit_once (CHR '')'')
      (show_int pid @ '' ('' @ comm @ '') '' @ st @ '' '' @ show_int ppid @ '' '' @ rest) =
    Some (show_int pid @ '' ('' @ comm, tail)" by (simp add: tail_def)
  have "split_ws tail = split_ws (st @ CHR '' '' # show_int ppid @ CHR '' '' # rest)"
    using split_ws_skip [OF ws] by (simp add: tail_def del: split_ws.simps)
  also have "\<dots> = st # split_ws (show_int ppid @ CHR '' '' # rest)"
    using assms(2,3) ws by (intro split_ws_word) auto
  also have "split_ws (show_int ppid @ CHR '' '' # rest) = show_int ppid # split_ws rest"
    using ws by (intro split_ws_word) (auto dest: show_int_no_ws)
  finally show ?thesis using assms(1) by (simp only: stat_ppid_def split option.case prod.case list.case parse_i32_show)
qed

lemma stat_ppid_reads_parent_witness:
  "stat_ppid (show_int 42 @ '' ('' @ ''a) S 1 (b'' @ '') '' @ ''S'' @ '' '' @ show_int 7 @ '' '' @ ''42 0'') = Some 7"
  by (rule stat_ppid_reads_parent) (simp_all add: in_i32_def is_ws_def)

section \<open>The nearest terminal\<close>

text \<open>The \<open>k\<close>-th process up from a starting point.\<close>

definition ancestor :: "(int \<Rightarrow> int option) \<Rightarrow> int option \<Rightarrow> nat \<Rightarrow> int option" where
  "ancestor ppid p k = ((\<lambda>x. Option.bind x ppid) ^^ k) p"

lemma ancestor_simps [simp]:
  "ancestor ppid x 0 = x" "ancestor ppid (Some p) (Suc k) = ancestor ppid (ppid p) k"
  unfolding ancestor_def by (simp, simp only: funpow_Suc_right o_apply bind.simps)

lemma ancestor_None [simp]: "ancestor ppid None k = None"
  by (induction k) (simp_all add: ancestor_def)

text \<open>The bounded walk up the process tree, loops in it included, is the search for the
  nearest candidate among the first 32 ancestors below the init process: it returns a
  terminal exactly when some ancestor is one, no process in between is init, and none of
  the ancestors before it belongs to a candidate.\<close>

theorem ancestor_walk_nearest:
  "ancestor_walk ppid cands n p = Some t \<longleftrightarrow>
   (\<exists>k < n. \<exists>a. ancestor ppid p k = Some a \<and> List.find (\<lambda>c. fst c = a) cands = Some (a, t) \<and>
      {j. j \<le> k \<and> \<not> (\<exists>b > 1. ancestor ppid p j = Some b)} = {} \<and>
      {j. j < k \<and> (\<exists>b \<in> fst ` set cands. ancestor ppid p j = Some b)} = {})"
    (is "_ \<longleftrightarrow> (\<exists>k < n. ?at p k)")
proof (induction n arbitrary: p)
  case (Suc n)
  show ?case
  proof (cases p)
    case (Some q)
    show ?thesis
    proof (cases "q \<le> 1")
      case True
      then have "\<not> ?at p k" for k using Some by (auto intro!: exI [of _ 0])
      with True Some show ?thesis by simp
    next
      case False
      have split: "(\<exists>k < Suc n. P k) \<longleftrightarrow> P 0 \<or> (\<exists>k < n. P (Suc k))" for P
        by (metis less_Suc_eq_0_disj)
      show ?thesis
      proof (cases "List.find (\<lambda>c. fst c = q) cands")
        case None
        then have "q \<notin> fst ` set cands" by (auto simp: find_None_iff)
        moreover have "(\<forall>j \<le> Suc k. P j) \<longleftrightarrow> P 0 \<and> (\<forall>j \<le> k. P (Suc j))"
          "(\<forall>j < Suc k. P j) \<longleftrightarrow> P 0 \<and> (\<forall>j < k. P (Suc j))" for P k
          by (metis le_SucE Suc_le_mono le0 not0_implies_Suc, metis less_Suc_eq_0_disj)
        ultimately have "?at p (Suc k) = ?at (ppid q) k" for k
          using False \<open>p = Some q\<close> by (auto 0 3)
        with None Some False show ?thesis by (simp add: Suc.IH split)
      next
        case (Some c)
        then have "q \<in> fst ` set cands" "fst c = q" by (auto simp: find_Some_iff)
        then show ?thesis using Some \<open>p = Some q\<close> False
          by (cases c) (force simp: split)
      qed
    qed
  qed simp
qed simp

section \<open>Swallow and return\<close>



end
