(* ===== verification/Input_Laws.thy ===== *)
theory Input_Laws
  imports Input
begin

text \<open>
  Bindings and the locked keyboard: which binding a key press selects, what a key can do
  while the session is locked, and what a tap of the modifier does then.
\<close>

section \<open>Selecting a binding\<close>

text \<open>A binding fits a press: its symbol with or without modifiers, its modifiers and its window.\<close>

definition fits_key :: "u32 \<Rightarrow> u32 \<Rightarrow> u32 \<Rightarrow> string option \<Rightarrow> (key_bind \<Rightarrow> bool) \<Rightarrow> bool \<Rightarrow> key_bind \<Rightarrow> bool" where
  "fits_key modified base bits focused extra app b \<longleftrightarrow>
     (kb_keysym b = modified \<or> kb_keysym b = base) \<and> kb_mods b = bits \<and> extra b \<and>
     app_id_matches app (kb_app_id b) focused"

lemma match_pass_result:
  "case match_pass keys modified base msk focused extra app of
     None \<Rightarrow> filter (fits_key modified base msk focused extra app) keys = []
   | Some b \<Rightarrow> b \<in> set (filter (fits_key modified base msk focused extra app) keys)"
  by (auto simp: match_pass_def or_else_def bind_matches_def fits_key_def clean_mask_def
      find_None_iff filter_empty_conv split: option.split dest: find_SomeD)

text \<open>A key press selects a binding exactly when one fits; a binding made for the focused
  application wins over every general one.\<close>

theorem match_keybind_correct:
  "case match_keybind keys modified base bits focused extra of
     None \<Rightarrow> filter (fits_key modified base bits focused extra True) keys = [] \<and>
             filter (fits_key modified base bits focused extra False) keys = []
   | Some b \<Rightarrow>
       if filter (fits_key modified base bits focused extra True) keys = []
       then b \<in> set (filter (fits_key modified base bits focused extra False) keys)
       else b \<in> set (filter (fits_key modified base bits focused extra True) keys)"
  using match_pass_result [where app = True and msk = bits and keys = keys and modified = modified
      and base = base and focused = focused and extra = extra]
    match_pass_result [where app = False and msk = bits and keys = keys and modified = modified
      and base = base and focused = focused and extra = extra]
  by (auto simp: match_keybind_def or_else_def clean_mask_def Let_def filter_empty_conv
      split: option.splits)

section \<open>The locked keyboard\<close>

text \<open>C29: while an external locker holds the session a key press runs no binding: all it
  changes in the compositor is the idle timer and the pending tap of the modifier, and
  the key goes to the locker's surface.\<close>

theorem locked_press_runs_no_binding:
  assumes "locked s" "native_lock s = None" "ke_pressed e" "has_keyboard s"
  shows "snd (process_key_event e s) \<and>
    (\<exists>tap. fst (process_key_event e s) = (emit IdleActivity s)\<lparr>mod_tap := tap\<rparr>)"
proof -
  have "key_filter e (emit IdleActivity s) = (emit IdleActivity s, Forward)"
    using assms by (simp add: key_filter_def emit_def)
  moreover have "\<exists>tap. update_mod_tap True a b t = t\<lparr>mod_tap := tap\<rparr>" for a b t
    by (auto simp: update_mod_tap_def Let_def split: option.split intro: exI [of _ "mod_tap t"])
  ultimately show ?thesis using assms by (simp add: process_key_event_def emit_def)
qed

text \<open>But the tap of the modifier key has no such guard: released within a quarter of
  a second, it runs its binding although the session is locked.\<close>

lemma tap_runs_while_locked:
  assumes "locked s" "native_lock s = None" "has_keyboard s" "\<not> ke_pressed e"
    "ke_code e \<notin> set (intercepted_keys s)"
    "mods_to_bits (ke_mods_before e) AND MODKEY \<noteq> 0" "mods_to_bits (ke_mods e) AND MODKEY = 0"
    "mod_tap s = Some (start, peak)" "now s - start \<le> 250" "tap_binding (cfg s) peak = Some a"
  shows "fst (process_key_event e s) =
    dispatch a ((stop_key_repeat (emit IdleActivity s))\<lparr>mod_tap := None\<rparr>)"
proof -
  have "key_filter e (emit IdleActivity s) = (emit IdleActivity s, Forward)"
    using assms by (simp add: key_filter_def emit_def)
  with assms show ?thesis
    by (simp add: process_key_event_def update_mod_tap_def stop_key_repeat_def emit_def)
qed

section \<open>Instances\<close>

text \<open>A locked session with a binding on the modifier alone, pressed and released.\<close>

definition shut :: rwl where
  "shut = idle\<lparr>cfg := default_config [\<lparr>kb_mods = MODKEY, kb_keysym = MOD_TAP_KEYSYM,
       kb_action = ToggleOverview, kb_app_id = None\<rparr>] [],
     locked := True, mod_tap := Some (0, MODKEY)\<rparr>"

definition logo_key :: "bool \<Rightarrow> key_event" where
  "logo_key pressed = \<lparr>ke_code = 133, ke_pressed = pressed, ke_sym = 0xffeb, ke_base = 0xffeb, ke_char = None,
     ke_mods_before = \<lparr>md_logo = \<not> pressed, md_ctrl = False, md_shift = False, md_alt = False\<rparr>,
     ke_mods = \<lparr>md_logo = pressed, md_ctrl = False, md_shift = False, md_alt = False\<rparr>\<rparr>"

lemma shut_simps:
  "locked shut" "native_lock shut = None" "has_keyboard shut" "now shut = 0" "intercepted_keys shut = []"
  "mod_tap shut = Some (0, MODKEY)"
  by (simp_all add: shut_def idle_def)

lemma locked_press_runs_no_binding_witness: "snd (process_key_event (logo_key True) shut)"
  using locked_press_runs_no_binding [of shut "logo_key True"] by (simp add: shut_simps logo_key_def)

lemma tap_runs_while_locked_witness:
  "fst (process_key_event (logo_key False) shut) =
   dispatch ToggleOverview ((stop_key_repeat (emit IdleActivity shut))\<lparr>mod_tap := None\<rparr>)"
proof -
  have "mods_to_bits \<lparr>md_logo = True, md_ctrl = False, md_shift = False, md_alt = False\<rparr> AND MODKEY \<noteq> 0"
    "mods_to_bits \<lparr>md_logo = False, md_ctrl = False, md_shift = False, md_alt = False\<rparr> AND MODKEY = 0"
    by code_simp+
  moreover have "tap_binding (cfg shut) MODKEY = Some ToggleOverview"
    by (simp add: tap_binding_def shut_def default_config_def)
  ultimately show ?thesis
    using tap_runs_while_locked [of shut "logo_key False" 0 MODKEY ToggleOverview]
    by (simp add: shut_simps logo_key_def)
qed
end
