(* ===== verification/Status_Laws.thy ===== *)
theory Status_Laws
  imports Status Stage
begin

text \<open>
  The status text and its subscribers: that it reports what the layout shows, which lines
  a subscriber gets, and what a title can do to them.
\<close>

section \<open>What the status reports\<close>

lemma length_fold_keep:
  "(\<And>x acc. length (f x acc) = length acc) \<Longrightarrow> length (fold f xs acc) = length acc"
  by (induction xs arbitrary: acc) simp_all

lemma fold_pass_nth:
  assumes "\<And>x acc. length (f x acc) = length acc"
    "\<And>x acc. i < length acc \<Longrightarrow> f x acc ! i = g x (acc ! i)" "i < length acc"
  shows "fold f xs acc ! i = fold g xs (acc ! i)"
  using assms(3) by (induction xs arbitrary: acc) (simp_all add: assms(1,2))

definition or_all :: "u32 list \<Rightarrow> u32" where
  "or_all ts = fold (OR) ts 0"

lemma fold_or: "fold (OR) ts a = a OR or_all (ts :: u32 list)"
proof (induction ts arbitrary: a)
  case (Cons t ts)
  have "fold (OR) (t # ts) a = (t OR a) OR or_all ts" by (simp add: Cons.IH [of "t OR a"])
  moreover have "or_all (t # ts) = t OR or_all ts" using Cons.IH [of t] by (simp add: or_all_def)
  ultimately show ?case by (simp add: ac_simps)
qed (simp add: or_all_def)

lemma or_all_Cons [simp]: "or_all [] = 0" "or_all (t # ts) = t OR or_all ts"
  using fold_or [of ts t] by (simp_all add: or_all_def)

definition on_monitor :: "rwl \<Rightarrow> nat \<Rightarrow> wid \<Rightarrow> bool" where
  "on_monitor s i w \<longleftrightarrow> with_state (ws s) w mon_idx = Some i"

definition urgent_on :: "rwl \<Rightarrow> nat \<Rightarrow> wid \<Rightarrow> bool" where
  "urgent_on s i w \<longleftrightarrow> on_monitor s i w \<and> unwrap_or (with_state (ws s) w is_urgent) False"

lemma per_mon_tags_nth:
  assumes "i < length (monitors s)"
  shows "per_mon_tags s ! i =
    (or_all (map (window_tags (ws s)) (filter (on_monitor s i) (windows s))),
     or_all (map (window_tags (ws s)) (filter (urgent_on s i) (windows s))))"
proof -
  let ?g = "\<lambda>w (occ, urg). (if on_monitor s i w then occ OR window_tags (ws s) w else occ,
    if urgent_on s i w then urg OR window_tags (ws s) w else urg)"
  have "per_mon_tags s ! i = fold ?g (windows s) (0, 0)"
    unfolding per_mon_tags_def using assms
    by (subst fold_pass_nth [where g = ?g])
      (auto simp: on_monitor_def urgent_on_def nth_update_at window_tags_def with_state_def split: option.splits prod.splits)
  moreover have "fold ?g us (a, b) =
      (a OR or_all (map (window_tags (ws s)) (filter (on_monitor s i) us)),
       b OR or_all (map (window_tags (ws s)) (filter (urgent_on s i) us)))" for us a b
    by (induction us arbitrary: a b) (simp_all add: ac_simps)
  ultimately show ?thesis by simp
qed

lemma upd_nth: "i < length xs \<Longrightarrow> xs[k := y] ! i = (if k = i then y else xs ! i)"
  by (cases "k < length xs") (auto simp: nth_list_update)

lemma focused_per_mon_nth:
  assumes "i < length (monitors s)"
  shows "focused_per_mon s ! i = focused_on s (tags (monitors s ! i)) i"
proof -
  let ?p = "shown_on (ws s) (tags (monitors s ! i)) i"
  let ?g = "\<lambda>w f. if f = None \<and> ?p w then Some w else f"
  have "focused_per_mon s ! i = fold ?g (focus_stack s) None"
    unfolding focused_per_mon_def using assms
    by (subst fold_pass_nth [where g = ?g])
      (auto simp: shown_on_def window_visible_on_def window_tags_def with_state_def upd_nth split: option.splits)
  moreover have "fold ?g us f = (case f of None \<Rightarrow> List.find ?p us | _ \<Rightarrow> f)" for us f
    by (induction us arbitrary: f) (auto split: option.splits)
  ultimately show ?thesis by (simp add: focused_on_def)
qed


text \<open>Lines that hold no line end are read back as they were written.\<close>

definition clean :: "string \<Rightarrow> bool" where
  "clean l \<longleftrightarrow> LF \<notin> set l \<and> (l = [] \<or> last l \<noteq> CHR 0x0D)"

lemma split_line: "LF \<notin> set l \<Longrightarrow> split_inclusive (l @ LF # r) = (l @ [LF]) # split_inclusive r"
  by (induction l) auto

lemma lines_cons: "clean l \<Longrightarrow> str_lines (l @ LF # r) = l # str_lines r"
  by (auto simp: str_lines_def clean_def split_line chomp_def strip_last_def)

lemma lines_written: "list_all clean ls \<Longrightarrow> str_lines (write_lines ls) = ls"
  by (induction ls) (simp_all add: lines_cons write_lines_def, simp add: str_lines_def)

lemma split_inclusive_append:
  "split_inclusive (u @ LF # v) = split_inclusive (u @ [LF]) @ split_inclusive v"
proof (induction u)
  case (Cons c u)
  have "split_inclusive (u @ [LF]) \<noteq> []" by (cases u) (auto split: list.split)
  with Cons show ?case by (auto split: list.split)
qed simp

lemma lines_append: "str_lines (u @ LF # v) = str_lines (u @ [LF]) @ str_lines v"
  unfolding str_lines_def split_inclusive_append [of u v] by simp

definition status_block :: "rwl \<Rightarrow> nat \<Rightarrow> string list" where
  "status_block s i = status_lines s i (monitors s ! i) (per_mon_tags s ! i) (focused_per_mon s ! i)"

lemma write_lines_concat: "write_lines (concat lss) = concat (map write_lines lss)"
  by (induction lss) (simp_all add: write_lines_def)

lemma format_status_blocks:
  "format_status s = write_lines (concat (map (status_block s) [0..<length (monitors s)]))"
proof -
  have "enumerate 0 (monitors s) = map (\<lambda>i. (i, monitors s ! i)) [0..<length (monitors s)]"
    by (rule nth_equalityI) (simp_all add: nth_enumerate_eq)
  then show ?thesis
    by (simp add: format_status_def write_lines_concat status_block_def o_def)
qed

lemma prefix_stop: "c \<notin> set a \<Longrightarrow> prefix a (b @ c # d) \<longleftrightarrow> prefix a b"
  by (auto simp: prefix_def append_eq_append_conv2 Cons_eq_append_conv)

lemma block_prefix:
  "CHR '' '' \<notin> set name \<Longrightarrow> l \<in> set (status_block s i) \<Longrightarrow>
   prefix name l \<longleftrightarrow> prefix name (out_name (mon_output (monitors s ! i)))"
  by (auto simp: status_block_def status_lines_def title_line_def Let_def prefix_stop split: option.splits prod.splits)


text \<open>C35: but the title of a window is written as it is: one that holds a line feed puts a
  line of its choice into the status of every subscriber, for example another output's.\<close>

theorem title_forges_status_line:
  assumes "i < length (monitors s)" "config_error s = None" "focused_on s (tags (monitors s ! i)) i = Some w"
    "ws s w = Some x" "last_title x = Some (a @ LF # forged)" "clean forged"
  shows "forged \<in> set (str_lines (format_status s))"
proof -
  let ?n = "out_name (mon_output (monitors s ! i))"
  have f: "focused_per_mon s ! i = Some w" using assms(1,3) by (simp add: focused_per_mon_nth)
  obtain r where r: "status_block s i = (?n @ '' title '' @ a @ LF # forged) # r"
    using assms(2,4,5) by (auto simp: status_block_def status_lines_def Let_def f focused_facts_def title_line_def
        with_state_def)
  have "[0..<length (monitors s)] = [0..<i] @ i # [Suc i..<length (monitors s)]"
    using assms(1) upt_add_eq_append [of 0 i "length (monitors s) - i"] by (simp add: upt_conv_Cons)
  then obtain u v where "format_status s = u @ (?n @ '' title '' @ a) @ LF # forged @ LF # v"
    by (simp add: format_status_blocks r write_lines_def)
  then have "format_status s = (u @ ?n @ '' title '' @ a) @ LF # forged @ LF # v" by simp
  with lines_append [of "u @ ?n @ '' title '' @ a" "forged @ LF # v"] lines_cons [OF assms(6), of v]
  show ?thesis by simp
qed

section \<open>Instances\<close>

lemma stage_status: "status_block stage 0 =
  [''DP-1 title '', ''DP-1 appid '', ''DP-1 fullscreen 0'', ''DP-1 floating 1'', ''DP-1 selmon 1'',
   ''DP-1 tags 3 1 1 0'', ''DP-1 layout []='']"
proof -
  have "per_mon_tags stage ! 0 = (3, 0)" "focused_per_mon stage ! 0 = Some 13"
    by (simp_all add: per_mon_tags_nth focused_per_mon_nth on_monitor_def urgent_on_def window_tags_def with_state_def
       stage_win_def wstate_new_def unwrap_or_def focused_on_def shown_on_def)
  moreover have "out_name (mon_output (wide_mon 0)) = ''DP-1''" "layout_symbol gap_conf (wide_mon 0) = ''[]=''"
    "show_u32 (3 AND tag_mask gap_conf) = ''3''" "show_u32 1 = ''1''" "show_u32 0 = ''0''" "show_nat 1 = ''1''"
    "show_nat 0 = ''0''"
    by code_simp+
  moreover have "config_error stage = None" by (simp add: stage_def idle_def)
  moreover have "last_title (stage_win 1) = None" "last_appid (stage_win 1) = None"
    by (simp_all add: stage_win_def wstate_new_def)
  ultimately show ?thesis
    by (simp add: status_block_def status_lines_def focused_facts_def title_line_def with_state_def unwrap_or_def)
qed


definition forger :: rwl where
  "forger = stage\<lparr>ws := [13 \<mapsto> (stage_win 1)\<lparr>last_title := Some (''x'' @ LF # ''DP-2 selmon 1'')\<rparr>]\<rparr>"

lemma title_forges_status_line_witness: "''DP-2 selmon 1'' \<in> set (str_lines (format_status forger))"
proof -
  have "clean ''DP-2 selmon 1''" by code_simp
  moreover have "focused_on forger (tags (monitors forger ! 0)) 0 = Some 13" "config_error forger = None"
    "0 < length (monitors forger)"
    by (simp_all add: forger_def focused_on_def shown_on_def with_state_def unwrap_or_def)
      (simp add: stage_def idle_def)
  moreover have "ws forger 13 = Some ((stage_win 1)\<lparr>last_title := Some (''x'' @ LF # ''DP-2 selmon 1'')\<rparr>)"
    by (simp add: forger_def)
  ultimately show ?thesis using title_forges_status_line [where a = "''x''"] by fastforce
qed

end
