(* ===== verification/Json.thy ===== *)
theory Json
  imports Event_Lines
begin

text \<open>
  Reading JSON: a reference reader of JSON texts, and that what the compositor writes for
  scripts reads back as the windows and events it stands for.
\<close>

section \<open>A reference reader\<close>

datatype json = JNull | JBool bool | JNum int | JStr string | JArr "json list" | JObj "(string \<times> json) list"

definition hex_value :: "char \<Rightarrow> nat option" where
  "hex_value c = (let n = of_char c :: nat in
     if 48 \<le> n \<and> n \<le> 57 then Some (n - 48) else if 97 \<le> n \<and> n \<le> 102 then Some (n - 87)
     else if 65 \<le> n \<and> n \<le> 70 then Some (n - 55) else None)"

text \<open>A string up to its closing quote; a raw control character is an error.\<close>

fun read_string :: "string \<Rightarrow> (string \<times> string) option" where
  "read_string [] = None"
| "read_string (c # cs) =
     (if c = QT then Some ([], cs)
      else if c = BSL then
        (case cs of
           [] \<Rightarrow> None
         | d # ds \<Rightarrow>
            if d = CHR ''u'' then
              (case ds of
                 a # b # e # f # r \<Rightarrow>
                   if a = CHR ''0'' \<and> b = CHR ''0'' then
                     (case (hex_value e, hex_value f) of
                        (Some h, Some l) \<Rightarrow> map_option (\<lambda>(t, r). (char_of (16 * h + l) # t, r)) (read_string r)
                      | _ \<Rightarrow> None)
                   else None
               | _ \<Rightarrow> None)
            else
              (case map_of [(QT, QT), (BSL, BSL), (CHR ''/'', CHR ''/''), (CHR ''n'', LF), (CHR ''r'', CHR 0x0D),
                   (CHR ''t'', CHR 0x09), (CHR ''b'', CHR 0x08), (CHR ''f'', CHR 0x0C)] d of
                 None \<Rightarrow> None | Some v \<Rightarrow> map_option (\<lambda>(t, r). (v # t, r)) (read_string ds)))
      else if (of_char c :: nat) < 32 then None
      else map_option (\<lambda>(t, r). (c # t, r)) (read_string cs))"

definition is_digit :: "char \<Rightarrow> bool" where
  "is_digit c \<longleftrightarrow> digit c \<noteq> None"

definition read_number :: "string \<Rightarrow> (int \<times> string) option" where
  "read_number s = (case s of
     c # cs \<Rightarrow> if c = CHR ''-''
       then map_option (\<lambda>n. (- int n, dropWhile is_digit cs)) (parse_nat (takeWhile is_digit cs))
       else map_option (\<lambda>n. (int n, dropWhile is_digit s)) (parse_nat (takeWhile is_digit s))
   | [] \<Rightarrow> None)"

text \<open>A word of the grammar, if the text starts with it.\<close>

definition read_word :: "string \<Rightarrow> json \<Rightarrow> string \<Rightarrow> (json \<times> string) option" where
  "read_word w v s = (if prefix w s then Some (v, drop (length w) s) else None)"

fun read_value :: "nat \<Rightarrow> string \<Rightarrow> (json \<times> string) option"
  and read_items :: "nat \<Rightarrow> string \<Rightarrow> (json list \<times> string) option"
  and read_fields :: "nat \<Rightarrow> string \<Rightarrow> ((string \<times> json) list \<times> string) option" where
  "read_value 0 s = None"
| "read_items 0 s = None"
| "read_fields 0 s = None"
| "read_value (Suc n) s = (case s of [] \<Rightarrow> None | c # cs \<Rightarrow>
     if c = QT then map_option (\<lambda>(t, r). (JStr t, r)) (read_string cs)
     else if c = CHR ''['' then
       (if prefix '']'' cs then Some (JArr [], tl cs)
        else map_option (\<lambda>(vs, r). (JArr vs, r)) (read_items n cs))
     else if c = CHR ''{'' then
       (if prefix ''}'' cs then Some (JObj [], tl cs)
        else map_option (\<lambda>(fs, r). (JObj fs, r)) (read_fields n cs))
     else if c = CHR ''t'' then read_word ''true'' (JBool True) s
     else if c = CHR ''f'' then read_word ''false'' (JBool False) s
     else if c = CHR ''n'' then read_word ''null'' JNull s
     else map_option (\<lambda>(i, r). (JNum i, r)) (read_number s))"
| "read_items (Suc n) s = (case read_value n s of
     Some (v, c # r) \<Rightarrow>
       if c = CHR '','' then map_option (\<lambda>(vs, r). (v # vs, r)) (read_items n r)
       else if c = CHR '']'' then Some ([v], r) else None
   | _ \<Rightarrow> None)"
| "read_fields (Suc n) s = (case s of
     q # cs \<Rightarrow> if q = QT then
       (case read_string cs of
          Some (k, d # r) \<Rightarrow> if d = CHR '':'' then
            (case read_value n r of
               Some (v, c # r) \<Rightarrow>
                 if c = CHR '','' then map_option (\<lambda>(fs, r). ((k, v) # fs, r)) (read_fields n r)
                 else if c = CHR ''}'' then Some ([(k, v)], r) else None
             | _ \<Rightarrow> None)
            else None
        | _ \<Rightarrow> None) else None
   | [] \<Rightarrow> None)"

text \<open>A whole text: one value and the line feed that ends it.\<close>

definition read_json :: "string \<Rightarrow> json option" where
  "read_json s = (case read_value (length s) s of
     Some (v, r) \<Rightarrow> if r = [LF] then Some v else None | None \<Rightarrow> None)"

section \<open>The texts of JSON values\<close>

fun json_text :: "json \<Rightarrow> string" and items_text :: "json list \<Rightarrow> string"
  and fields_text :: "(string \<times> json) list \<Rightarrow> string" where
  "json_text JNull = ''null''"
| "json_text (JBool b) = show_bool b"
| "json_text (JNum i) = show_int i"
| "json_text (JStr t) = quoted (esc t)"
| "json_text (JArr vs) = ''['' @ items_text vs @ '']''"
| "json_text (JObj fs) = ''{'' @ fields_text fs @ ''}''"
| "items_text [] = []"
| "items_text (v # vs) = json_text v @ (if vs = [] then [] else '','' @ items_text vs)"
| "fields_text [] = []"
| "fields_text ((k, v) # fs) = field (esc k) (json_text v) @ (if fs = [] then [] else '','' @ fields_text fs)"

lemma hex_digit_value: "d < 16 \<Longrightarrow> hex_value (hex_digit d) = Some d"
  by (simp add: hex_value_def hex_digit_def of_char_of Let_def)

lemma read_esc_char: "read_string (esc_char c @ s) = map_option (\<lambda>(t, r). (c # t, r)) (read_string s)"
proof -
  have "of_char c < (32 :: nat) \<Longrightarrow> of_char c div 16 < (16 :: nat) \<and> of_char c mod 16 < (16 :: nat)" by simp
  moreover have "char_of (16 * (of_char c div 16) + of_char c mod 16 :: nat) = c" by simp
  ultimately show ?thesis by (auto simp: esc_char_def Let_def hex_digit_value)
qed

lemma read_esc: "read_string (esc t @ QT # rest) = Some (t, rest)"
  by (induction t) (simp_all add: esc_def read_esc_char)

text \<open>A number must not run on.\<close>

definition stops :: "string \<Rightarrow> bool" where
  "stops s \<longleftrightarrow> (case s of [] \<Rightarrow> True | c # _ \<Rightarrow> \<not> is_digit c)"

lemma show_nat_run: "stops rest \<Longrightarrow> takeWhile is_digit (show_nat n @ rest) = show_nat n \<and>
   dropWhile is_digit (show_nat n @ rest) = rest"
proof -
  assume s: "stops rest"
  have d: "\<forall>c \<in> set (show_nat n). is_digit c"
    using show_nat_digits digit_digit_char by (fastforce simp: is_digit_def)
  then show ?thesis
    using s by (cases rest) (auto simp: stops_def takeWhile_append dropWhile_append)
qed

lemma read_number_show: "stops rest \<Longrightarrow> read_number (show_int i @ rest) = Some (i, rest)"
proof -
  assume s: "stops rest"
  obtain c cs where c: "show_nat (nat i) = c # cs" "c \<noteq> CHR ''-''" using show_nat_hd by blast
  note r = show_nat_run [OF s]
  show ?thesis
  proof (cases "i < 0")
    case True
    then show ?thesis by (simp add: show_int_def read_number_def r)
  next
    case False
    have "read_number (show_nat (nat i) @ rest) = Some (i, rest)"
      using r [of "nat i"] c(2) False parse_show_nat [of "nat i"] unfolding c(1) read_number_def by simp
    with False show ?thesis by (simp add: show_int_def)
  qed
qed

lemma show_int_first: "\<exists>c cs. show_int i = c # cs \<and> (c = CHR ''-'' \<or> is_digit c)"
proof -
  have "\<exists>c cs. show_nat n = c # cs \<and> is_digit c" for n
  proof (cases "show_nat n")
    case (Cons c cs)
    then obtain d where "d < 10" "c = digit_char d" using show_nat_digits [of c n] by auto
    with Cons show ?thesis by (auto simp: is_digit_def)
  qed simp
  from this [of "nat i"] show ?thesis by (auto simp: show_int_def)
qed

lemma is_digit_code: "is_digit c \<longleftrightarrow> 48 \<le> (of_char c :: nat) \<and> (of_char c :: nat) \<le> 57"
  by (simp add: is_digit_def digit_def Let_def)

lemma read_value_number: "stops rest \<Longrightarrow> read_value (Suc n) (show_int i @ rest) = Some (JNum i, rest)"
proof -
  assume s: "stops rest"
  obtain c cs where c: "show_int i = c # cs" "c = CHR ''-'' \<or> is_digit c" using show_int_first by blast
  from c(2) have "c \<notin> {QT, CHR ''['', CHR ''{'', CHR ''t'', CHR ''f'', CHR ''n''}" by (auto simp: is_digit_code)
  then show ?thesis using read_number_show [OF s, of i] unfolding c(1) by simp
qed

lemma text_first: "\<exists>c cs. json_text v = c # cs \<and> c \<noteq> CHR '']''"
proof (cases v)
  case (JNum i)
  then show ?thesis using show_int_first [of i] by (auto simp: is_digit_code)
qed (auto simp: quoted_def show_bool_def)

lemma read_text:
  "(\<forall>v rest. length (json_text v) < n \<longrightarrow> stops rest \<longrightarrow> read_value n (json_text v @ rest) = Some (v, rest)) \<and>
   (\<forall>vs rest. vs \<noteq> [] \<longrightarrow> length (items_text vs) + 1 < n \<longrightarrow>
      read_items n (items_text vs @ CHR '']'' # rest) = Some (vs, rest)) \<and>
   (\<forall>fs rest. fs \<noteq> [] \<longrightarrow> length (fields_text fs) + 1 < n \<longrightarrow>
      read_fields n (fields_text fs @ CHR ''}'' # rest) = Some (fs, rest))"
proof (induction n)
  case (Suc n)
  then have val: "length (json_text v) < n \<Longrightarrow> stops rest \<Longrightarrow> read_value n (json_text v @ rest) = Some (v, rest)"
    and items: "vs \<noteq> [] \<Longrightarrow> length (items_text vs) + 1 < n \<Longrightarrow>
      read_items n (items_text vs @ CHR '']'' # rest) = Some (vs, rest)"
    and fields: "fs \<noteq> [] \<Longrightarrow> length (fields_text fs) + 1 < n \<Longrightarrow>
      read_fields n (fields_text fs @ CHR ''}'' # rest) = Some (fs, rest)" for v vs fs rest
    by blast+
  have stop: "stops (CHR '','' # r)" "stops (CHR '']'' # r)" "stops (CHR ''}'' # r)" for r
    by (simp_all add: stops_def is_digit_code)
  have "read_value (Suc n) (json_text v @ rest) = Some (v, rest)"
    if l: "length (json_text v) < Suc n" and s: "stops rest" for v rest
  proof (cases v)
    case (JArr vs)
    show ?thesis
    proof (cases vs)
      case (Cons u us)
      obtain c cs where "json_text u = c # cs" "c \<noteq> CHR '']''" using text_first by blast
      with items [of vs rest] l JArr Cons show ?thesis by simp
    qed (simp add: JArr)
  next
    case (JObj fs)
    show ?thesis
    proof (cases fs)
      case (Cons f fs')
      with fields [of fs rest] l JObj show ?thesis by (cases f) (simp add: field_def quoted_def)
    qed (simp add: JObj)
  next
    case (JNum i)
    with read_value_number [OF s] show ?thesis by simp
  qed (use read_esc in \<open>simp_all add: read_word_def show_bool_def quoted_def\<close>)
  moreover have "read_items (Suc n) (items_text vs @ CHR '']'' # rest) = Some (vs, rest)"
    if l: "vs \<noteq> []" "length (items_text vs) + 1 < Suc n" for vs rest
  proof (cases vs)
    case (Cons u us)
    show ?thesis
      using val [OF _ stop(1), of u] val [OF _ stop(2), of u] items [of us rest] l Cons
      by (cases us) simp_all
  qed (use l in simp)
  moreover have "read_fields (Suc n) (fields_text fs @ CHR ''}'' # rest) = Some (fs, rest)"
    if l: "fs \<noteq> []" "length (fields_text fs) + 1 < Suc n" for fs rest
  proof (cases fs)
    case (Cons f fs')
    obtain k u where f: "f = (k, u)" by fastforce
    show ?thesis
      using val [OF _ stop(1), of u] val [OF _ stop(3), of u] fields [of fs' rest] l Cons f
      by (cases fs') (simp_all add: field_def quoted_def read_esc)
  qed (use l in simp)
  ultimately show ?case by blast
qed simp

lemma read_json_text: "read_json (json_text v @ [LF]) = Some v"
proof -
  have "stops [LF]" by (simp add: stops_def is_digit_code)
  then show ?thesis
    using read_text [of "length (json_text v @ [LF])"] by (simp add: read_json_def)
qed

section \<open>What scripts read\<close>

definition window_json :: "rwl \<Rightarrow> wid option \<Rightarrow> wid \<Rightarrow> json" where
  "window_json s f w = JObj
     [(''app_id'', JStr (unwrap_or (unwrap_or (with_state (ws s) w last_appid) None) [])),
      (''title'', JStr (unwrap_or (unwrap_or (with_state (ws s) w last_title) None) [])),
      (''tags'', JNum (uint (window_tags (ws s) w))),
      (''monitor'', JNum (int (unwrap_or (with_state (ws s) w mon_idx) 0))),
      (''floating'', JBool (window_is_floating (ws s) w)),
      (''fullscreen'', JBool (window_is_fullscreen (ws s) w)),
      (''focused'', JBool (f = Some w)),
      (''x'', JNum (case geometry_of s w of None \<Rightarrow> 0 | Some g \<Rightarrow> loc_x g)),
      (''y'', JNum (case geometry_of s w of None \<Rightarrow> 0 | Some g \<Rightarrow> loc_y g)),
      (''w'', JNum (case geometry_of s w of None \<Rightarrow> 0 | Some g \<Rightarrow> size_w g)),
      (''h'', JNum (case geometry_of s w of None \<Rightarrow> 0 | Some g \<Rightarrow> size_h g))]"

lemma esc_names [simp]:
  "esc ''app_id'' = ''app_id''" "esc ''title'' = ''title''" "esc ''tags'' = ''tags''"
  "esc ''monitor'' = ''monitor''" "esc ''floating'' = ''floating''" "esc ''fullscreen'' = ''fullscreen''"
  "esc ''focused'' = ''focused''" "esc ''x'' = ''x''" "esc ''y'' = ''y''" "esc ''w'' = ''w''"
  "esc ''h'' = ''h''" "esc ''event'' = ''event''" "esc ''window'' = ''window''" "esc ''action'' = ''action''"
  "esc ''focus'' = ''focus''" "esc ''tag'' = ''tag''" "esc ''selected'' = ''selected''"
  "esc ''occupied'' = ''occupied''" "esc ''layout'' = ''layout''" "esc ''old'' = ''old''" "esc ''new'' = ''new''"
  "esc ''name'' = ''name''" "esc ''urgency'' = ''urgency''" "esc ''open'' = ''open''" "esc ''close'' = ''close''"
  "esc ''add'' = ''add''" "esc ''remove'' = ''remove''"
  by code_simp+

lemma show_nums [simp]: "show_int (uint t) = show_u32 t" "show_int (int n) = show_nat n"
proof -
  show n: "show_int (int n) = show_nat n" for n by (simp add: show_int_def)
  have "uint t = int (unat t)" by simp
  then show "show_int (uint t) = show_u32 t" by (simp only: n show_u32_def)
qed

lemma show_zero: "show_u32 0 = show_int 0" "show_nat 0 = show_int 0"
  using show_nums(1) [of 0] show_nums(2) [of 0] by simp_all

lemma window_obj_text: "window_obj s w f = json_text (window_json s f w)"
  by (cases "ws s w"; cases "geometry_of s w")
    (simp_all add: window_obj_def window_json_def Let_def with_state_def window_tags_def window_is_floating_def
      window_is_fullscreen_def show_bool_def show_zero)

lemma objects_from_text:
  "objects_from s f i us = (if i > 0 \<and> us \<noteq> [] then '','' else []) @ items_text (map (window_json s f) us)"
  by (induction us arbitrary: i) (simp_all add: window_obj_text)

text \<open>C26: the reply to the clients query is well-formed JSON and reads back as the list of the windows with
  their fields, whatever bytes their titles and application ids hold.\<close>

theorem clients_json_reads_back:
  "read_json (clients_json s) = Some (JArr (map (window_json s (focused_window s)) (windows s)))"
  using read_json_text [of "JArr (map (window_json s (focused_window s)) (windows s))"]
  by (simp add: clients_json_def objects_from_text)

text \<open>The value of an event.\<close>

definition event_json :: "rwl \<Rightarrow> ipc_event \<Rightarrow> (string \<times> (string \<times> json) list) option" where
  "event_json s e = (let obj = window_json s (focused_window s) in case e of
     EvWindow act w \<Rightarrow> Some (''window'', [(''action'', JStr act), (''window'', obj w)])
   | EvTitle w \<Rightarrow> Some (''title'', [(''window'', obj w)])
   | EvFocus f \<Rightarrow> Some (''focus'',
       [(''window'', case f of None \<Rightarrow> JNull | Some w \<Rightarrow> window_json s (Some w) w)])
   | EvTag i \<Rightarrow> map_option (\<lambda>m. (''tag'', [(''monitor'', JNum (int i)), (''selected'', JNum (uint (tags m))),
       (''occupied'', JNum (uint (occupied_by s i AND tag_mask (cfg s))))])) (get_at (monitors s) i)
   | EvLayout i old new \<Rightarrow> Some (''layout'', [(''monitor'', JNum (int i)),
       (''old'', JStr (layout_name s old)), (''new'', JStr (layout_name s new))])
   | EvFullscreen w \<Rightarrow> Some (''fullscreen'', [(''window'', obj w)])
   | EvMonitor act name \<Rightarrow> Some (''monitor'', [(''action'', JStr act), (''name'', JStr name)])
   | EvUrgency w \<Rightarrow> Some (''urgency'', [(''window'', obj w)]))"

text \<open>The actions the sources name.\<close>

definition named_action :: "ipc_event \<Rightarrow> bool" where
  "named_action e \<longleftrightarrow> (case e of
     EvWindow act w \<Rightarrow> act \<in> {''open'', ''close''} | EvMonitor act n \<Rightarrow> act \<in> {''add'', ''remove''} | _ \<Rightarrow> True)"

lemma event_line_text:
  "named_action e \<Longrightarrow> event_line s e =
   map_option (\<lambda>(k, fs). (k, json_text (JObj ((''event'', JStr k) # fs)))) (event_json s e)"
  by (cases e)
    (auto simp: event_line_def event_json_def named_action_def Let_def event_window_def event_title_def
      event_focus_def event_tag_def event_layout_def event_fullscreen_def event_monitor_def event_urgency_def
      window_line_def window_obj_text option.map_comp o_def split: option.splits)

lemma no_line_feed:
  "LF \<notin> set (json_text v)" "LF \<notin> set (items_text vs)" "LF \<notin> set (fields_text fs)"
proof -
  have "hex_digit d \<noteq> LF" if "d < 16" for d
  proof
    assume "hex_digit d = LF"
    then have "of_char (hex_digit d) = (10 :: nat)" by simp
    with that show False by (simp add: hex_digit_def of_char_of split: if_splits)
  qed
  then have "LF \<notin> set (esc_char c)" for c
    by (auto simp: esc_char_def Let_def dest!: sym [of LF])
  then have e: "LF \<notin> set (esc t)" for t by (auto simp: esc_def)
  have n: "LF \<notin> set (show_int i)" for i by (rule show_int_no) simp
  show "LF \<notin> set (json_text v)" "LF \<notin> set (items_text vs)" "LF \<notin> set (fields_text fs)"
    by (induction v and vs and fs rule: json_text_items_text_fields_text.induct)
      (auto simp: e n show_bool_def quoted_def field_def)
qed

text \<open>C30: every event reaches a watcher as one line of well-formed JSON that reads back as the
  event's kind and fields: no title, output name or layout can break a line or a field.\<close>

theorem event_lines_read_back:
  assumes "event_line s e = Some (kind, line)" "named_action e"
  shows "\<exists>fs. event_json s e = Some (kind, fs) \<and> read_json (line @ [LF]) = Some (JObj ((''event'', JStr kind) # fs)) \<and>
    LF \<notin> set line"
proof -
  obtain fs where fs: "event_json s e = Some (kind, fs)" "line = json_text (JObj ((''event'', JStr kind) # fs))"
    using assms event_line_text [OF assms(2), of s] by auto
  then show ?thesis using read_json_text no_line_feed(1) by blast
qed

theorem event_lines_read_back_witness:
  "\<forall>s. read_json (event_monitor ''add'' (''DP'' @ [CHR 0x22, LF]) @ [LF]) =
    Some (JObj [(''event'', JStr ''monitor''), (''action'', JStr ''add''), (''name'', JStr (''DP'' @ [CHR 0x22, LF]))]) \<and>
   event_line s (EvMonitor ''add'' (''DP'' @ [CHR 0x22, LF])) = Some (''monitor'', event_monitor ''add'' (''DP'' @ [CHR 0x22, LF]))"
proof
  fix s
  have l: "event_line s (EvMonitor ''add'' (''DP'' @ [CHR 0x22, LF])) = Some (''monitor'', event_monitor ''add'' (''DP'' @ [CHR 0x22, LF]))"
    by (simp add: event_line_def)
  show "read_json (event_monitor ''add'' (''DP'' @ [CHR 0x22, LF]) @ [LF]) =
    Some (JObj [(''event'', JStr ''monitor''), (''action'', JStr ''add''), (''name'', JStr (''DP'' @ [CHR 0x22, LF]))]) \<and>
    event_line s (EvMonitor ''add'' (''DP'' @ [CHR 0x22, LF])) = Some (''monitor'', event_monitor ''add'' (''DP'' @ [CHR 0x22, LF]))"
    using event_lines_read_back [OF l] l by (simp add: named_action_def event_json_def)
qed

end
