(* ===== verification/Socket_Laws.thy ===== *)
theory Socket_Laws
  imports Socket Stage
begin

text \<open>
  The command socket: what \<^verbatim>\<open>rwl msg\<close> sends is what the compositor runs, requests it does not
  know change nothing, and how the words of a spawned command fare.
\<close>

section \<open>Words\<close>

lemma split_ws_append: "is_ws c \<Longrightarrow> split_ws (w @ c # r) = split_ws w @ split_ws r"
proof (induction w)
  case (Cons d w)
  assume c: "is_ws c"
  show ?case
  proof (cases w)
    case (Cons e es)
    have eq: "split_ws (e # es @ c # r) = split_ws (e # es) @ split_ws r"
      using Cons.IH [OF c] by (simp only: Cons append_Cons)
    have ne: "\<not> is_ws e \<Longrightarrow> split_ws (e # es) \<noteq> []" by (rule split_ws_nonempty)
    show ?thesis
      unfolding Cons append_Cons split_ws.simps(2) [of d] list.case eq
      using ne by (cases "split_ws (e # es)") (auto simp del: split_ws.simps)
  qed (use c in simp)
qed simp

lemma split_ws_blank: "\<forall>c \<in> set v. is_ws c \<Longrightarrow> split_ws (u @ v) = split_ws u"
proof (cases v)
  case (Cons c r)
  assume "\<forall>c \<in> set v. is_ws c"
  moreover have "\<forall>c \<in> set r. is_ws c \<Longrightarrow> split_ws r = []" by (induction r) auto
  ultimately show ?thesis using Cons by (simp add: split_ws_append)
qed simp

lemma split_ws_trim [simp]: "split_ws (trim t) = split_ws t"
proof -
  let ?d = "dropWhile is_ws t"
  have "split_ws ?d = split_ws t" by (induction t) auto
  moreover have "?d = trim t @ rev (takeWhile is_ws (rev ?d))"
    unfolding trim_def by (metis rev_append rev_rev_ident takeWhile_dropWhile_id)
  then have "split_ws ?d = split_ws (trim t)"
    by (metis set_rev set_takeWhileD split_ws_blank)
  ultimately show ?thesis by simp
qed

lemma split_ws_join: "split_ws (join_words us) = concat (map split_ws us)"
  by (induction us rule: join_words.induct) (simp_all add: split_ws_append is_ws_def)

definition word :: "string \<Rightarrow> bool" where
  "word w \<longleftrightarrow> w \<noteq> [] \<and> (\<forall>c \<in> set w. \<not> is_ws c)"

lemma split_ws_of_word: "word w \<Longrightarrow> split_ws w = [w]"
  by (simp add: word_def split_ws_last)

lemma split_ws_of_words: "\<forall>w \<in> set us. word w \<Longrightarrow> split_ws (join_words us) = us"
  unfolding split_ws_join by (induction us) (simp_all add: split_ws_of_word)

lemma word_numbers: "word (show_u32 t)" "word (show_int i)"
  using show_nat_ws show_int_no_ws by (auto simp: word_def show_u32_def)

section \<open>Requests\<close>

text \<open>A request whose first word is no subscription is dispatched on its words.\<close>

lemma not_first:
  assumes "word w" "{a. split_ws buf = w # a} = {}"
  shows "trim buf \<noteq> w" "\<not> prefix (w @ '' '') (trim buf)"
proof -
  show "trim buf \<noteq> w"
    using assms split_ws_trim [of buf] split_ws_of_word [OF assms(1)] by auto
  have w: "split_ws (w @ CHR '' '' # r) = w # split_ws r" for r
    using assms(1) by (simp add: split_ws_append split_ws_of_word is_ws_def)
  show "\<not> prefix (w @ '' '') (trim buf)"
  proof
    assume "prefix (w @ '' '') (trim buf)"
    then obtain r where "trim buf = w @ CHR '' '' # r" by (auto elim: prefixE)
    with split_ws_trim [of buf] w [of r] have "split_ws buf = w # split_ws r" by simp
    with assms(2) show False by blast
  qed
qed

lemma handle_words:
  assumes "{a. split_ws buf = ''subscribe'' # a} = {}" "{a. split_ws buf = ''watch'' # a} = {}"
  shows "cmd_handle accepts c (Some buf) st = cmd_dispatch accepts c (trim buf) st"
proof -
  have w: "word ''subscribe''" "word ''watch''" by code_simp+
  show ?thesis
    using not_first [OF w(1) assms(1)] not_first [OF w(2) assms(2)]
    by (cases st) (simp add: cmd_handle_def Let_def)
qed

text \<open>A request the socket does not know, or that could not be read, changes nothing and is
  not answered.\<close>

theorem unknown_request_ignored:
  assumes "case input of None \<Rightarrow> True | Some buf \<Rightarrow> {w \<in> set (take 1 (split_ws buf)). w \<in> set WM_COMMANDS} = {}"
  shows "cmd_handle accepts c input (s, sv) = (s, sv)"
proof (cases input)
  case (Some buf)
  show ?thesis
  proof (cases "split_ws buf")
    case Nil
    then show ?thesis
      using handle_words [of buf accepts c "(s, sv)"] Some by (simp add: cmd_dispatch_def)
  next
    case (Cons cmd args)
    with assms Some have cmd: "cmd \<notin> set WM_COMMANDS" by auto
    then have "cmd_handle accepts c (Some buf) (s, sv) = cmd_dispatch accepts c (trim buf) (s, sv)"
      using Cons by (intro handle_words) (auto simp: WM_COMMANDS_def)
    with cmd Cons Some show ?thesis
      by (simp add: cmd_dispatch_def WM_COMMANDS_def socket_action_def)
  qed
qed (simp add: cmd_handle_def)

text \<open>Actions a client can name, with the arguments it gives, and when these are words.\<close>

definition message :: "action \<Rightarrow> string list option" where
  "message a = (case a of
     Tag t \<Rightarrow> Some [''tag'', show_u32 t] | ToggleTag t \<Rightarrow> Some [''toggletag'', show_u32 t]
   | FocusStack d \<Rightarrow> Some [''focusstack'', show_int d] | IncNmaster d \<Rightarrow> Some [''incnmaster'', show_int d]
   | ViewNextOccTag d \<Rightarrow> Some [''viewnextocctag'', show_int d] | FocusMon d \<Rightarrow> Some [''focusmon'', show_int d]
   | TagMon d \<Rightarrow> Some [''tagmon'', show_int d] | Chvt n \<Rightarrow> Some [''chvt'', show_u32 n]
   | ViewTagSpawn t \<Rightarrow> Some [''viewtag_spawn'', show_u32 t] | Spawn cmd \<Rightarrow> Some (''spawn'' # cmd)
   | CycleLayout \<Rightarrow> Some [''cyclelayout''] | Zoom \<Rightarrow> Some [''zoom''] | ViewPrev \<Rightarrow> Some [''viewprev'']
   | KillClient \<Rightarrow> Some [''killclient''] | ToggleFloating \<Rightarrow> Some [''togglefloating'']
   | ToggleFullscreen \<Rightarrow> Some [''togglefullscreen''] | TogglePassthrough \<Rightarrow> Some [''togglepassthrough'']
   | ReloadConfig \<Rightarrow> Some [''reloadconfig''] | Quit \<Rightarrow> Some [''quit''] | ToggleBar \<Rightarrow> Some [''togglebar'']
   | BarPrompt \<Rightarrow> Some [''barprompt''] | ToggleGaps \<Rightarrow> Some [''togglegaps''] | Lock \<Rightarrow> Some [''lock'']
   | _ \<Rightarrow> None)"

definition sendable :: "action \<Rightarrow> bool" where
  "sendable a \<longleftrightarrow> (case a of
     Spawn cmd \<Rightarrow> cmd \<noteq> [] \<and> list_all word cmd
   | FocusStack d \<Rightarrow> in_i32 d | IncNmaster d \<Rightarrow> in_i32 d | ViewNextOccTag d \<Rightarrow> in_i32 d
   | FocusMon d \<Rightarrow> in_i32 d | TagMon d \<Rightarrow> in_i32 d | _ \<Rightarrow> True)"

lemma parse_u32_show: "parse_u32 (show_u32 t) = Some t"
proof -
  have "unat t < 2 ^ LENGTH(32)" by (rule unsigned_less)
  then have "unat t \<le> 4294967295" by simp
  then show ?thesis by (simp add: parse_u32_def show_u32_def parse_unsigned_show)
qed

lemma message_action:
  "message a = Some (cmd # args) \<Longrightarrow> sendable a \<Longrightarrow> socket_action cmd args = Some a"
  unfolding message_def sendable_def
  by (cases a; simp only: action.case option.inject option.distinct list.inject; elim conjE; hypsubst;
      simp add: socket_action_def first_arg_def parse_u32_show parse_i32_show)

definition argument_commands :: "string list" where
  "argument_commands = [''tag'', ''toggletag'', ''focusstack'', ''focusmon'', ''tagmon'', ''viewnextocctag'',
     ''incnmaster'', ''chvt'', ''viewtag_spawn'', ''spawn'']"

definition plain_commands :: "string list" where
  "plain_commands = [''cyclelayout'', ''zoom'', ''viewprev'', ''killclient'', ''togglefloating'', ''togglefullscreen'',
     ''togglepassthrough'', ''reloadconfig'', ''quit'', ''togglebar'', ''barprompt'', ''togglegaps'', ''lock'']"

lemma message_shape:
  "message a = Some us \<Longrightarrow> sendable a \<Longrightarrow>
   (\<exists>cmd args. us = cmd # args \<and> cmd \<in> set argument_commands \<and> args \<noteq> [] \<and> list_all word args) \<or>
   (\<exists>cmd. us = [cmd] \<and> cmd \<in> set plain_commands)"
  unfolding message_def sendable_def
  by (cases a; simp only: action.case option.inject option.distinct; hypsubst?;
      simp add: argument_commands_def plain_commands_def word_numbers)

lemma commands_ok:
  "list_all word (argument_commands @ plain_commands)"
  "list_all (\<lambda>c. c \<notin> {''status'', ''clients'', ''info'', ''subscribe'', ''watch'', ''view'', ''toggleview'', ''setlayout'',
     ''resume'', ''focusurgent'', ''wallpaper''}) (argument_commands @ plain_commands)"
  "list_all (\<lambda>c. run_wm [c] = Send c) plain_commands"
  by code_simp+

lemma run_wm_argument: "c \<in> set argument_commands \<Longrightarrow> args \<noteq> [] \<Longrightarrow> run_wm (c # args) = Send (join_words (c # args))"
  by (auto simp: argument_commands_def run_wm_def Let_def Suc_le_eq)

lemma message_words:
  assumes "message a = Some us" "sendable a"
  shows "us \<noteq> []" "\<forall>w \<in> set us. word w" "hd us \<in> set (argument_commands @ plain_commands)"
proof -
  have w: "c \<in> set (argument_commands @ plain_commands) \<Longrightarrow> word c" for c
    using commands_ok(1) unfolding list_all_iff by blast
  from message_shape [OF assms] show "us \<noteq> []" by blast
  from message_shape [OF assms] show h: "hd us \<in> set (argument_commands @ plain_commands)"
    by (elim disjE exE conjE) (simp_all only: list.sel set_append Un_iff simp_thms)
  from message_shape [OF assms] w [OF h] show "\<forall>w \<in> set us. word w"
    by (elim disjE exE conjE) (simp_all add: list_all_iff)
qed

lemma message_first:
  "c \<in> set (argument_commands @ plain_commands) \<Longrightarrow>
   c \<notin> {''status'', ''clients'', ''info'', ''subscribe'', ''watch'', ''view'', ''toggleview'', ''setlayout'',
     ''resume'', ''focusurgent'', ''wallpaper''}"
  using commands_ok(2) unfolding list_all_iff by blast

lemma run_wm_message: "message a = Some us \<Longrightarrow> sendable a \<Longrightarrow> run_wm us = Send (join_words us)"
  using message_shape [of a us] commands_ok(3) run_wm_argument by (auto simp: list_all_iff)

text \<open>C27: what the command-line client sends for an action arrives as that action: the compositor runs it as
  if its key had been pressed, and the connection gets no answer.\<close>

theorem client_message_runs_action:
  assumes "message a = Some us" "sendable a"
  shows "run_wm us = Send (join_words us) \<and>
    cmd_handle accepts c (Some (join_words us)) (s, sv) = (dispatch a s, sv)"
proof -
  note m = message_words [OF assms]
  then obtain cmd args where us: "us = cmd # args" by (cases us) auto
  then have sp: "split_ws (join_words us) = cmd # args" using split_ws_of_words [OF m(2)] by simp
  have f: "cmd \<notin> {''status'', ''clients'', ''info'', ''subscribe'', ''watch'', ''view'', ''toggleview'', ''setlayout'',
     ''resume'', ''focusurgent'', ''wallpaper''}"
    using message_first [OF m(3)] us by simp
  then have "cmd_handle accepts c (Some (join_words us)) (s, sv) =
      cmd_dispatch accepts c (trim (join_words us)) (s, sv)"
    using sp by (intro handle_words) simp_all
  moreover have "cmd_dispatch accepts c (trim (join_words us)) (s, sv) = (dispatch a s, sv)"
    using f message_action [of a cmd args] assms us sp by (simp add: cmd_dispatch_def)
  ultimately show ?thesis using run_wm_message [OF assms] by simp
qed

text \<open>A spawned command loses the limits of its arguments on the way: the client joins
  them with blanks and the compositor splits at every blank.\<close>

lemma spawn_request_splits_arguments:
  assumes "concat (map split_ws args) \<noteq> []"
  shows "cmd_handle accepts c (Some (join_words (''spawn'' # args))) (s, sv) =
    (dispatch (Spawn (concat (map split_ws args))) s, sv)"
proof -
  have "word ''spawn''" by code_simp
  then have sp: "split_ws (join_words (''spawn'' # args)) = ''spawn'' # concat (map split_ws args)"
    by (simp only: split_ws_join list.map concat.simps split_ws_of_word append_Cons append_Nil)
  then have "cmd_handle accepts c (Some (join_words (''spawn'' # args))) (s, sv) =
      cmd_dispatch accepts c (trim (join_words (''spawn'' # args))) (s, sv)"
    by (intro handle_words) auto
  with sp assms show ?thesis by (simp add: cmd_dispatch_def socket_action_def)
qed

section \<open>Instances\<close>

lemma unknown_request_ignored_witness:
  "cmd_handle (\<lambda>_ _. True) 3 (Some ''frobnicate 1'') (stage, no_server) = (stage, no_server)"
proof -
  have "{w \<in> set (take 1 (split_ws ''frobnicate 1'')). w \<in> set WM_COMMANDS} = {}" by code_simp
  then have "case Some ''frobnicate 1'' of None \<Rightarrow> True
    | Some buf \<Rightarrow> {w \<in> set (take 1 (split_ws buf)). w \<in> set WM_COMMANDS} = {}"
    unfolding option.case .
  from unknown_request_ignored [OF this, of "\<lambda>_ _. True" 3 stage no_server] show ?thesis .
qed

lemma client_message_runs_action_witness:
  "cmd_handle (\<lambda>_ _. True) 3 (Some ''focusstack -1'') (stage, no_server) = (dispatch (FocusStack (-1)) stage, no_server)"
proof -
  have m: "message (FocusStack (-1)) = Some [''focusstack'', ''-1'']" "sendable (FocusStack (-1))" by code_simp+
  have "join_words [''focusstack'', ''-1''] = ''focusstack -1''" by code_simp
  with client_message_runs_action [OF m, of "\<lambda>_ _. True" 3 stage no_server] show ?thesis by metis
qed

lemma spawn_request_splits_arguments_witness:
  "cmd_handle (\<lambda>_ _. True) 3 (Some ''spawn sh -c foot -e top'') (stage, no_server) =
   (dispatch (Spawn [''sh'', ''-c'', ''foot'', ''-e'', ''top'']) stage, no_server)"
proof -
  let ?args = "[''sh'', ''-c'', ''foot -e top'']"
  have c: "concat (map split_ws ?args) = [''sh'', ''-c'', ''foot'', ''-e'', ''top'']" by code_simp
  have j: "join_words (''spawn'' # ?args) = ''spawn sh -c foot -e top''" by code_simp
  have "concat (map split_ws ?args) \<noteq> []" unfolding c by (rule list.distinct)
  from spawn_request_splits_arguments [OF this, of "\<lambda>_ _. True" 3 stage no_server]
  show ?thesis unfolding c j .
qed

end
