(* ===== verification/Lua.thy ===== *)
theory Lua
  imports Window Text Wallpaper
begin

text \<open>
  Reading values out of tables of the Lua machine (\<^verbatim>\<open>src/config/lua.rs\<close>). The machine and
  the crate that talks to it are outside the sources: a table is an abstract value of type
  \<open>'t\<close> and the accessors of the crate are the fields of \<open>'t lua\<close>; each answers \<open>None\<close> for
  its error.
\<close>

section \<open>The accessors\<close>

datatype lua_scalar = SInteger int | SNumber f64 | SOther

record 't lua =
  get_table :: "'t \<Rightarrow> string \<Rightarrow> 't option"
  get_string :: "'t \<Rightarrow> string \<Rightarrow> string option"
  get_bool :: "'t \<Rightarrow> string \<Rightarrow> bool option"
  get_scalar :: "'t \<Rightarrow> string \<Rightarrow> lua_scalar option"
  get_opt_string :: "'t \<Rightarrow> string \<Rightarrow> string option option"
  get_rgba :: "'t \<Rightarrow> string \<Rightarrow> u32 \<Rightarrow> u32 option"
  table_at :: "'t \<Rightarrow> nat \<Rightarrow> 't option"
  string_at :: "'t \<Rightarrow> nat \<Rightarrow> string option"
  opt_string_at :: "'t \<Rightarrow> nat \<Rightarrow> string option option"
  value_at :: "'t \<Rightarrow> nat \<Rightarrow> lua_value"
  seq_tables :: "'t \<Rightarrow> 't option list"
  seq_strings :: "'t \<Rightarrow> string option list"
  raw_length :: "'t \<Rightarrow> nat"
  string_pairs :: "'t \<Rightarrow> (string \<times> bool) option list"
  no_pairs :: "'t \<Rightarrow> bool"

section \<open>Scalars\<close>

text \<open>The cast of a float to an unsigned type saturates and takes not-a-number to zero.\<close>

definition sat_unsigned :: "int \<Rightarrow> int \<Rightarrow> int" where
  "sat_unsigned hi k = (if k < 0 then 0 else if k > hi then hi else k)"

definition f_as_unsigned :: "int \<Rightarrow> f64 \<Rightarrow> int" where
  "f_as_unsigned hi x = (case x of
     Fin q \<Rightarrow> sat_unsigned hi (trunc_rat q) | FInf neg \<Rightarrow> (if neg then 0 else hi) | FNaN \<Rightarrow> 0)"

definition in_range :: "int \<Rightarrow> int \<Rightarrow> int \<Rightarrow> int option" where
  "in_range lo hi n = (if lo \<le> n \<and> n \<le> hi then Some n else None)"

definition U32_MAX :: int where "U32_MAX = 4294967295"
definition U64_MAX :: int where "U64_MAX = 18446744073709551615"

definition lua_bool :: "'t lua \<Rightarrow> 't \<Rightarrow> string \<Rightarrow> bool \<Rightarrow> bool" where
  "lua_bool L t key d = unwrap_or (get_bool L t key) d"

definition lua_scalar_as :: "(int \<Rightarrow> 'a option) \<Rightarrow> (f64 \<Rightarrow> 'a) \<Rightarrow> lua_scalar option \<Rightarrow> 'a \<Rightarrow> 'a" where
  "lua_scalar_as of_integer of_number v d = (case v of
     Some (SInteger n) \<Rightarrow> unwrap_or (of_integer n) d | Some (SNumber f) \<Rightarrow> of_number f | _ \<Rightarrow> d)"

definition lua_u32 :: "'t lua \<Rightarrow> 't \<Rightarrow> string \<Rightarrow> u32 \<Rightarrow> u32" where
  "lua_u32 L t key d = lua_scalar_as (\<lambda>n. map_option of_int (in_range 0 U32_MAX n))
     (\<lambda>f. of_int (f_as_unsigned U32_MAX f)) (get_scalar L t key) d"

definition lua_i32 :: "'t lua \<Rightarrow> 't \<Rightarrow> string \<Rightarrow> int \<Rightarrow> int" where
  "lua_i32 L t key d = lua_scalar_as (in_range (- 2147483648) 2147483647) f_as_i32 (get_scalar L t key) d"

definition lua_u64 :: "'t lua \<Rightarrow> 't \<Rightarrow> string \<Rightarrow> nat \<Rightarrow> nat" where
  "lua_u64 L t key d = lua_scalar_as (\<lambda>n. map_option nat (in_range 0 U64_MAX n))
     (\<lambda>f. nat (f_as_unsigned U64_MAX f)) (get_scalar L t key) d"

definition lua_f64 :: "'t lua \<Rightarrow> 't \<Rightarrow> string \<Rightarrow> f64 \<Rightarrow> f64" where
  "lua_f64 L t key d = lua_scalar_as (\<lambda>n. Some (rnd (rat_of_int n))) (\<lambda>f. f) (get_scalar L t key) d"

definition lua_str :: "'t lua \<Rightarrow> 't \<Rightarrow> string \<Rightarrow> string option" where
  "lua_str L t key = get_string L t key"

text \<open>
  A colour is its packed code; the table form, four single-precision components, is packed by
  the accessor \<open>get_rgba\<close>.
\<close>

definition lua_color :: "'t lua \<Rightarrow> 't \<Rightarrow> string \<Rightarrow> u32 \<Rightarrow> u32" where
  "lua_color L t key d =
     (case (case get_scalar L t key of Some (SInteger n) \<Rightarrow> in_range 0 U32_MAX n | _ \<Rightarrow> None) of
        Some n \<Rightarrow> of_int n
      | None \<Rightarrow> unwrap_or (get_rgba L t key d) d)"

text \<open>A name that selects a value of an enumeration, and anything else the default.\<close>

definition lua_enum :: "'t lua \<Rightarrow> 't \<Rightarrow> string \<Rightarrow> (string \<times> 'a) list \<Rightarrow> 'a \<Rightarrow> 'a" where
  "lua_enum L t key names d = (case get_string L t key of
     Some s \<Rightarrow> unwrap_or (map_of names s) d | None \<Rightarrow> d)"

text \<open>The first of two options.\<close>

definition opt_or :: "'a option \<Rightarrow> 'a option \<Rightarrow> 'a option" where
  "opt_or x y = (case x of None \<Rightarrow> y | Some _ \<Rightarrow> x)"

definition some_or_default :: "'a list \<Rightarrow> 'a list \<Rightarrow> 'a list" where
  "some_or_default out d = (if out = [] then d else out)"

section \<open>Lists\<close>

definition lua_str_array :: "'t lua \<Rightarrow> 't \<Rightarrow> string \<Rightarrow> string list" where
  "lua_str_array L t key = (case get_table L t key of
     None \<Rightarrow> [] | Some arr \<Rightarrow> List.map_filter (\<lambda>s. s) (seq_strings L arr))"

text \<open>The strings at the positions of a table.\<close>

definition argv_of :: "'t lua \<Rightarrow> 't \<Rightarrow> string list" where
  "argv_of L t = List.map_filter (string_at L t) [1..<Suc (raw_length L t)]"

definition argv_or_none :: "'t lua \<Rightarrow> 't option \<Rightarrow> string list option" where
  "argv_or_none L t = (case t of
     None \<Rightarrow> None | Some tbl \<Rightarrow> (if argv_of L tbl = [] then None else Some (argv_of L tbl)))"

definition slot_argv :: "'t lua \<Rightarrow> 't \<Rightarrow> nat \<Rightarrow> string list option" where
  "slot_argv L arr i = (case opt_string_at L arr i of
     Some (Some s) \<Rightarrow> Some [s] | _ \<Rightarrow> argv_or_none L (table_at L arr i))"

definition lua_auto_spawn :: "'t lua \<Rightarrow> 't \<Rightarrow> string list option list \<Rightarrow> string list option list" where
  "lua_auto_spawn L g d = (case get_table L g ''auto_spawn'' of
     None \<Rightarrow> d
   | Some arr \<Rightarrow> if raw_length L arr = 0 then d else map (slot_argv L arr) [1..<Suc (raw_length L arr)])"

definition lua_argv :: "'t lua \<Rightarrow> 't \<Rightarrow> string \<Rightarrow> string list option" where
  "lua_argv L t key = (case get_opt_string L t key of
     Some (Some s) \<Rightarrow> Some [s] | _ \<Rightarrow> argv_or_none L (get_table L t key))"

definition lua_startup_cmds :: "'t lua \<Rightarrow> 't \<Rightarrow> string list list" where
  "lua_startup_cmds L g = (case get_table L g ''startup_cmds'' of
     None \<Rightarrow> [] | Some arr \<Rightarrow> List.map_filter (slot_argv L arr) [1..<Suc (raw_length L arr)])"

section \<open>Unknown keys\<close>

definition LUA_BUILTINS :: "string list" where
  "LUA_BUILTINS = [''_G'', ''_VERSION'', ''_ENV'', ''string'', ''table'', ''math'', ''io'', ''os'', ''coroutine'',
     ''package'', ''debug'', ''utf8'', ''print'', ''warn'', ''error'', ''assert'', ''type'', ''tostring'', ''tonumber'',
     ''pairs'', ''ipairs'', ''next'', ''select'', ''unpack'', ''require'', ''load'', ''loadfile'', ''dofile'',
     ''pcall'', ''xpcall'', ''setmetatable'', ''getmetatable'', ''rawget'', ''rawset'', ''rawequal'', ''rawlen'',
     ''collectgarbage'']"

definition TOPLEVEL_KEYS :: "string list" where
  "TOPLEVEL_KEYS = [''tags'', ''rules'', ''layouts'', ''monitor_rules'', ''keys'', ''buttons'', ''auto_spawn'',
     ''startup_cmds'', ''bar_cmd'', ''bar'', ''windows'', ''effects'', ''keyboard'', ''touchpad'', ''mouse'', ''cursor'',
     ''pertag_layouts'', ''wallpaper'', ''overview'', ''pip'', ''swallow'', ''rwl'']"

definition OVERVIEW_KEYS :: "string list" where
  "OVERVIEW_KEYS = [''hint_keys'', ''dim'', ''padding'', ''anim_ms'', ''highlight_color'', ''highlight_px'',
     ''border_color'', ''border_px'']"

definition PIP_KEYS :: "string list" where
  "PIP_KEYS = [''width'', ''margin'', ''border_px'', ''border_color'', ''corner'']"

definition WINDOWS_KEYS :: "string list" where
  "WINDOWS_KEYS = [''follow'', ''border_px'', ''border_color'', ''focus_color'', ''fullscreen_bg'',
     ''auto_back_empty_tag'', ''corner_radius'', ''gaps_px'', ''smart_gaps'']"

definition WALLPAPER_KEYS :: "string list" where
  "WALLPAPER_KEYS = [''tags'', ''mode'', ''default'']"

definition EFFECTS_KEYS :: "string list" where
  "EFFECTS_KEYS = [''fade_in_ms'', ''fade_out_ms'', ''tag_transition'', ''tag_transition_ms'', ''startup_zoom_ms'',
     ''startup_zoom_amount'', ''startup_zoom_direction'']"

definition KEYBOARD_KEYS :: "string list" where
  "KEYBOARD_KEYS = [''xkb_rules'', ''xkb_model'', ''xkb_layout'', ''xkb_variant'', ''xkb_options'', ''numlock'',
     ''capslock'', ''repeat_rate'', ''repeat_delay'']"

definition POINTER_KEYS :: "string list" where
  "POINTER_KEYS = [''tap_to_click'', ''tap_and_drag'', ''drag_lock'', ''natural_scrolling'', ''disable_while_typing'',
     ''left_handed'', ''middle_button_emulation'', ''scroll_method'', ''click_method'', ''accel_profile'',
     ''accel_speed'', ''tap_button_map'', ''scroll_factor'']"

definition CURSOR_KEYS :: "string list" where
  "CURSOR_KEYS = [''mouse_focus'', ''warp_cursor'', ''cursor_timeout'', ''cursor_theme'', ''cursor_size'']"

definition BAR_KEYS :: "string list" where
  "BAR_KEYS = [''font'', ''vertical_padding'', ''buffer_scale'', ''hidden'', ''bottom'', ''hide_vacant'',
     ''status_commands'', ''center_title'', ''active_color_title'', ''active_fg'', ''active_bg'', ''occupied_fg'',
     ''occupied_bg'', ''inactive_fg'', ''inactive_bg'', ''urgent_fg'', ''urgent_bg'', ''middle_bg'',
     ''middle_bg_selected'', ''blocks'', ''blocks_delim'']"

definition TAGS_KEYS :: "string list" where
  "TAGS_KEYS = [''names'', ''number'']"

text \<open>A pair is a key with whether its value is a function.\<close>

definition scan_keys :: "'t lua \<Rightarrow> 't \<Rightarrow> string option \<Rightarrow> string list \<Rightarrow> bool \<Rightarrow> string list" where
  "scan_keys L t pre known skip_builtins =
     List.map_filter (\<lambda>p. case p of
        None \<Rightarrow> None
      | Some (key, is_function) \<Rightarrow>
          if skip_builtins \<and> (key \<in> set LUA_BUILTINS \<or> is_function) then None
          else if key \<in> set known then None
          else Some (case pre of Some q \<Rightarrow> q @ ''.'' @ key | None \<Rightarrow> key)) (string_pairs L t)"

definition scan_block :: "'t lua \<Rightarrow> 't \<Rightarrow> string \<times> string list \<Rightarrow> string list" where
  "scan_block L g = (\<lambda>(name, known). case get_table L g name of
     Some t \<Rightarrow> scan_keys L t (Some name) known False | None \<Rightarrow> [])"

definition collect_unknown_keys :: "'t lua \<Rightarrow> 't \<Rightarrow> string list" where
  "collect_unknown_keys L g = scan_keys L g None TOPLEVEL_KEYS True @
     concat (map (scan_block L g)
       [(''tags'', TAGS_KEYS), (''windows'', WINDOWS_KEYS), (''wallpaper'', WALLPAPER_KEYS), (''effects'', EFFECTS_KEYS),
        (''keyboard'', KEYBOARD_KEYS), (''touchpad'', POINTER_KEYS), (''mouse'', POINTER_KEYS), (''cursor'', CURSOR_KEYS),
        (''bar'', BAR_KEYS), (''overview'', OVERVIEW_KEYS), (''pip'', PIP_KEYS)])"

end
