(* ===== verification/Keybinds.thy ===== *)
theory Keybinds
  imports Lua
begin

text \<open>
  Key and button bindings (\<^verbatim>\<open>src/config/keybinds.rs\<close>): the defaults and their reading from
  the configuration. The key codes are the constants of the xkbcommon package: \<open>KS name\<close> is
  the code \<open>KEY_name\<close>.
\<close>

section \<open>Default bindings\<close>

abbreviation kM :: u32 where "kM \<equiv> MODKEY"
abbreviation kC :: u32 where "kC \<equiv> 4"
abbreviation kS :: u32 where "kS \<equiv> 1"
abbreviation kA :: u32 where "kA \<equiv> 8"

definition kbind :: "u32 \<Rightarrow> u32 \<Rightarrow> action \<Rightarrow> key_bind" where
  "kbind mods keysym act = \<lparr>kb_mods = mods, kb_keysym = keysym, kb_action = act, kb_app_id = None\<rparr>"

definition all_six :: u32 where
  "all_six = shl1 6 - 1"

definition default_scratch :: scratch_cmd where
  "default_scratch = \<lparr>sc_key = 115, sc_cmd = [''foot'', ''-a'', ''scratchpad'',
     ''--override=colors-dark.alpha=1'', ''--override=colors-dark.background=000000'']\<rparr>"

definition default_keys :: "(string \<Rightarrow> u32) \<Rightarrow> key_bind list" where
  "default_keys KS =
    [kbind (kM OR kS) (KS ''Return'') (Spawn [''wmenu-run'', ''-f'', ''12'', ''-N'', ''000000'', ''-S'', ''74438e'']),
     kbind kM (KS ''Return'') (Spawn [''foot'']), kbind kM (KS ''Down'') (FocusStack 1), kbind kM (KS ''Up'') (FocusStack (-1)),
     kbind kM (KS ''Right'') (FocusStack 1), kbind kM (KS ''Left'') (FocusStack (-1)), kbind kM (KS ''i'') (IncNmaster 1),
     kbind kM (KS ''d'') (IncNmaster (-1)), kbind (kM OR kC) (KS ''plus'') (SetMfact (f_neg (f_lit (5 / 100)))),
     kbind (kM OR kC) (KS ''minus'') (SetMfact (f_lit (5 / 100))), kbind (kM OR kS) (KS ''Escape'') (ViewNextOccTag (-1)),
     kbind kM (KS ''Escape'') (ViewNextOccTag 1), kbind kM (KS ''z'') Zoom, kbind kM (KS ''backslash'') ViewPrev,
     kbind kM (KS ''q'') KillClient, kbind kM (KS ''t'') (SetLayout 0), kbind kM (KS ''o'') (SetLayout 1),
     kbind kM (KS ''c'') (SetLayout 2), kbind kM (KS ''n'') (SetLayout 3), kbind kM (KS ''a'') (SetLayout 18446744073709551615),
     kbind kM (KS ''Tab'') CycleLayout, kbind (kM OR kS) (KS ''space'') ToggleFloating, kbind kM (KS ''e'') ToggleFullscreen,
     kbind kM (KS ''0'') (View all_six), kbind (kM OR kS) (KS ''equal'') (Tag all_six), kbind kM (KS ''comma'') (FocusMon (-1)),
     kbind (kM OR kC) (KS ''less'') (TagMon (-1)), kbind (kM OR kC) (KS ''greater'') (TagMon 1),
     kbind kM (KS ''1'') (ViewTagSpawn 1), kbind kM (KS ''2'') (ViewTagSpawn 2), kbind kM (KS ''1'') (View 1),
     kbind (kM OR kC) (KS ''1'') (ToggleView 1), kbind (kM OR kS) (KS ''1'') (Tag 1),
     kbind (kM OR kC OR kS) (KS ''1'') (ToggleTag 1), kbind kM (KS ''2'') (View 2), kbind (kM OR kC) (KS ''2'') (ToggleView 2),
     kbind (kM OR kS) (KS ''2'') (Tag 2), kbind (kM OR kC OR kS) (KS ''2'') (ToggleTag 2), kbind kM (KS ''3'') (View 4),
     kbind (kM OR kC) (KS ''3'') (ToggleView 4), kbind (kM OR kS) (KS ''3'') (Tag 4),
     kbind (kM OR kC OR kS) (KS ''3'') (ToggleTag 4), kbind kM (KS ''4'') (View 8), kbind (kM OR kC) (KS ''4'') (ToggleView 8),
     kbind (kM OR kS) (KS ''4'') (Tag 8), kbind (kM OR kC OR kS) (KS ''4'') (ToggleTag 8), kbind kM (KS ''5'') (View 16),
     kbind (kM OR kC) (KS ''5'') (ToggleView 16), kbind (kM OR kS) (KS ''5'') (Tag 16),
     kbind (kM OR kC OR kS) (KS ''5'') (ToggleTag 16), kbind kM (KS ''6'') (View 32),
     kbind (kM OR kC) (KS ''6'') (ToggleView 32), kbind (kM OR kS) (KS ''6'') (Tag 32),
     kbind (kM OR kC OR kS) (KS ''6'') (ToggleTag 32), kbind kM (KS ''7'') (View 64),
     kbind (kM OR kC) (KS ''7'') (ToggleView 64), kbind (kM OR kS) (KS ''7'') (Tag 64),
     kbind (kM OR kC OR kS) (KS ''7'') (ToggleTag 64), kbind kM (KS ''8'') (View 128),
     kbind (kM OR kC) (KS ''8'') (ToggleView 128), kbind (kM OR kS) (KS ''8'') (Tag 128),
     kbind (kM OR kC OR kS) (KS ''8'') (ToggleTag 128), kbind kM (KS ''9'') (View 256),
     kbind (kM OR kC) (KS ''9'') (ToggleView 256), kbind (kM OR kS) (KS ''9'') (Tag 256),
     kbind (kM OR kC OR kS) (KS ''9'') (ToggleTag 256), kbind kM (KS ''r'') ReloadConfig, kbind kM (KS ''x'') TogglePassthrough,
     kbind (kM OR kS) (KS ''Q'') Quit, kbind (kC OR kA) (KS ''Terminate_Server'') Quit,
     kbind (kC OR kA) (KS ''XF86Switch_VT_1'') (Chvt 1), kbind (kC OR kA) (KS ''XF86Switch_VT_2'') (Chvt 2),
     kbind (kC OR kA) (KS ''XF86Switch_VT_3'') (Chvt 3), kbind (kC OR kA) (KS ''XF86Switch_VT_4'') (Chvt 4),
     kbind (kC OR kA) (KS ''XF86Switch_VT_5'') (Chvt 5), kbind (kC OR kA) (KS ''XF86Switch_VT_6'') (Chvt 6),
     kbind (kC OR kA) (KS ''XF86Switch_VT_7'') (Chvt 7), kbind (kC OR kA) (KS ''XF86Switch_VT_8'') (Chvt 8),
     kbind (kC OR kA) (KS ''XF86Switch_VT_9'') (Chvt 9), kbind (kC OR kA) (KS ''XF86Switch_VT_10'') (Chvt 10),
     kbind (kC OR kA) (KS ''XF86Switch_VT_11'') (Chvt 11), kbind (kC OR kA) (KS ''XF86Switch_VT_12'') (Chvt 12),
     kbind kM (KS ''less'') (ToggleScratch default_scratch), kbind kM (KS ''h'') (FocusOrToggleScratch default_scratch),
     kbind kM (KS ''k'') (FocusOrToggleMatchingScratch default_scratch), kbind kM (KS ''grave'') ToggleOverview,
     kbind (kM OR kS) (KS ''grave'') ToggleOverviewAll, kbind kM MOD_TAP_KEYSYM ToggleOverview, kbind kM (KS ''p'') TogglePip,
     kbind (kM OR kS) (KS ''p'') MovePip, kbind (kM OR kS) (KS ''L'') Lock]"

definition default_buttons :: "button_bind list" where
  "default_buttons =
     [\<lparr>bb_mods = kM, bb_button = 0x110, bb_action = Move, bb_app_id = None\<rparr>,
      \<lparr>bb_mods = kM, bb_button = 0x112, bb_action = ToggleFloating, bb_app_id = None\<rparr>,
      \<lparr>bb_mods = kM, bb_button = 0x111, bb_action = Resize, bb_app_id = None\<rparr>]"

section \<open>Names\<close>

definition mod_bit :: "char \<Rightarrow> u32" where
  "mod_bit c = (if c = CHR ''M'' then kM else if c = CHR ''C'' then kC else if c = CHR ''S'' then kS
     else if c = CHR ''A'' then kA else 0)"

definition parse_mods :: "string \<Rightarrow> u32" where
  "parse_mods s = fold (\<lambda>c bits. bits OR mod_bit c) s 0"

definition NAMED_KEYSYMS :: "string list" where
  "NAMED_KEYSYMS =
    [''Return'', ''BackSpace'', ''Delete'', ''Escape'', ''Tab'', ''Up'', ''Down'', ''Left'', ''Right'', ''Home'',
     ''End'', ''Page_Up'', ''Page_Down'', ''Insert'', ''Print'', ''Pause'', ''F1'', ''F2'', ''F3'', ''F4'', ''F5'',
     ''F6'', ''F7'', ''F8'', ''F9'', ''F10'', ''F11'', ''F12'', ''space'', ''exclam'', ''quotedbl'', ''numbersign'',
     ''dollar'', ''percent'', ''ampersand'', ''apostrophe'', ''parenleft'', ''parenright'', ''asterisk'',
     ''underscore'', ''colon'', ''semicolon'', ''at'', ''bracketleft'', ''bracketright'', ''asciicircum'', ''grave'',
     ''braceleft'', ''bar'', ''braceright'', ''asciitilde'', ''Terminate_Server'', ''XF86Switch_VT_1'',
     ''XF86Switch_VT_2'', ''XF86Switch_VT_3'', ''XF86Switch_VT_4'', ''XF86Switch_VT_5'', ''XF86Switch_VT_6'',
     ''XF86Switch_VT_7'', ''XF86Switch_VT_8'', ''XF86Switch_VT_9'', ''XF86Switch_VT_10'', ''XF86Switch_VT_11'',
     ''XF86Switch_VT_12'', ''XF86AudioRaiseVolume'', ''XF86AudioLowerVolume'', ''XF86AudioMute'', ''XF86AudioPlay'',
     ''XF86AudioStop'', ''XF86AudioNext'', ''XF86AudioPrev'', ''XF86MonBrightnessUp'', ''XF86MonBrightnessDown'',
     ''KP_1'', ''KP_End'', ''KP_2'', ''KP_Down'', ''KP_3'', ''KP_Next'', ''KP_4'', ''KP_Left'', ''KP_5'',
     ''KP_Begin'', ''KP_6'', ''KP_Right'']"

definition printable :: "char \<Rightarrow> bool" where
  "printable c \<longleftrightarrow> (let n = of_char c :: nat in 32 \<le> n \<and> n \<le> 126)"

definition keysym_for_name :: "(string \<Rightarrow> u32) \<Rightarrow> string \<Rightarrow> u32 option" where
  "keysym_for_name KS name =
     (if name = [] then Some MOD_TAP_KEYSYM
      else case name of
        [b] \<Rightarrow> if printable b then Some (of_nat (of_char b))
               else if name \<in> set NAMED_KEYSYMS then Some (KS name) else None
      | _ \<Rightarrow> if name \<in> set NAMED_KEYSYMS then Some (KS name) else None)"

definition parse_button_code :: "string \<Rightarrow> u32 option" where
  "parse_button_code s =
     (if s = ''left'' then Some 0x110 else if s = ''right'' then Some 0x111
      else if s = ''middle'' then Some 0x112 else map_option of_nat (parse_unsigned 4294967295 s))"

text \<open>\<open>chars().next()\<close>: the code point of the first character of a UTF-8 text.\<close>

definition cont_bits :: "string \<Rightarrow> nat \<Rightarrow> nat" where
  "cont_bits s i = (if i < length s then of_char (s ! i) mod 64 else 0)"

definition first_char :: "string \<Rightarrow> nat option" where
  "first_char s = (case s of
     [] \<Rightarrow> None
   | c # _ \<Rightarrow> let b = of_char c :: nat in Some
       (if b < 128 then b
        else if b < 224 then b mod 32 * 64 + cont_bits s 1
        else if b < 240 then (b mod 16 * 64 + cont_bits s 1) * 64 + cont_bits s 2
        else ((b mod 8 * 64 + cont_bits s 1) * 64 + cont_bits s 2) * 64 + cont_bits s 3))"

section \<open>Actions\<close>

definition parse_scratch_cmd :: "'t lua \<Rightarrow> 't \<Rightarrow> scratch_cmd option" where
  "parse_scratch_cmd L t = (case lua_str L t ''scratch_key'' of
     None \<Rightarrow> None
   | Some key \<Rightarrow> map_option (\<lambda>c. \<lparr>sc_key = c, sc_cmd = lua_str_array L t ''cmd''\<rparr>) (first_char key))"

definition parse_keyaction :: "(string \<Rightarrow> u32) \<Rightarrow> 't lua \<Rightarrow> 't \<Rightarrow> action option" where
  "parse_keyaction KS L t = (case lua_str L t ''keyaction'' of
     None \<Rightarrow> None
   | Some spec \<Rightarrow> (let syms = List.map_filter (keysym_for_name KS) (split_ws spec)
                  in if syms = [] then None else Some (SendKeys syms)))"

definition parse_action :: "'t lua \<Rightarrow> 't \<Rightarrow> string \<Rightarrow> action option" where
  "parse_action L t a =
     (let mask = lua_u32 L t ''mask'' 0 in
      if a = ''spawn'' then Some (Spawn (lua_str_array L t ''cmd''))
      else if a = ''focus_stack'' then Some (FocusStack (lua_i32 L t ''dir'' 1))
      else if a = ''inc_nmaster'' then Some (IncNmaster (lua_i32 L t ''delta'' 1))
      else if a = ''set_mfact'' then Some (SetMfact (lua_f64 L t ''delta'' (f_lit (5 / 100))))
      else if a = ''zoom'' then Some Zoom
      else if a = ''view_prev'' then Some ViewPrev
      else if a = ''view_next_occ_tag'' then Some (ViewNextOccTag (lua_i32 L t ''dir'' 1))
      else if a = ''kill_client'' then Some KillClient
      else if a = ''set_layout'' then Some (SetLayout (unat (lua_u32 L t ''index'' 0)))
      else if a = ''cycle_layout'' then Some CycleLayout
      else if a = ''reset_layout'' then Some ResetLayout
      else if a = ''toggle_floating'' then Some ToggleFloating
      else if a = ''toggle_fullscreen'' then Some ToggleFullscreen
      else if a = ''toggle_passthrough'' then Some TogglePassthrough
      else if a = ''toggle_gaps'' then Some ToggleGaps
      else if a = ''view'' then Some (View mask)
      else if a = ''view_tag_spawn'' then Some (ViewTagSpawn mask)
      else if a = ''toggle_view'' then Some (ToggleView mask)
      else if a = ''tag'' then Some (Tag mask)
      else if a = ''toggle_tag'' then Some (ToggleTag mask)
      else if a = ''focus_mon'' then Some (FocusMon (lua_i32 L t ''dir'' (-1)))
      else if a = ''tag_mon'' then Some (TagMon (lua_i32 L t ''dir'' (-1)))
      else if a = ''move'' then Some Move
      else if a = ''resize'' then Some Resize
      else if a = ''toggle_scratch'' then map_option ToggleScratch (parse_scratch_cmd L t)
      else if a = ''focus_or_toggle_scratch'' then map_option FocusOrToggleScratch (parse_scratch_cmd L t)
      else if a = ''focus_or_toggle_matching_scratch''
        then map_option FocusOrToggleMatchingScratch (parse_scratch_cmd L t)
      else if a = ''chvt'' then Some (Chvt (lua_u32 L t ''vt'' 1))
      else if a = ''call'' then map_option CallLua (lua_str L t ''fn'')
      else if a = ''reload_config'' then Some ReloadConfig
      else if a = ''quit'' then Some Quit
      else if a = ''toggle_bar'' then Some ToggleBar
      else if a = ''bar_prompt'' then Some BarPrompt
      else if a = ''toggle_overview'' then Some ToggleOverview
      else if a = ''toggle_overview_all'' then Some ToggleOverviewAll
      else if a = ''toggle_pip'' then Some TogglePip
      else if a = ''move_pip'' then Some MovePip
      else if a = ''lock'' then Some Lock
      else None)"

section \<open>Binding tables\<close>

text \<open>\<open>keyaction\<close> comes first, then \<open>action\<close>.\<close>

definition bound_action :: "(string \<Rightarrow> u32) \<Rightarrow> 't lua \<Rightarrow> 't \<Rightarrow> action option" where
  "bound_action KS L t = opt_or (parse_keyaction KS L t)
     (case lua_str L t ''action'' of None \<Rightarrow> None | Some a \<Rightarrow> parse_action L t a)"

definition table_mods :: "'t lua \<Rightarrow> 't \<Rightarrow> u32" where
  "table_mods L t = parse_mods (unwrap_or (lua_str L t ''mods'') [])"

definition lua_key :: "(string \<Rightarrow> u32) \<Rightarrow> 't lua \<Rightarrow> 't \<Rightarrow> key_bind option" where
  "lua_key KS L t =
     (case lua_str L t ''key'' of None \<Rightarrow> None | Some key \<Rightarrow>
      case keysym_for_name KS key of None \<Rightarrow> None | Some code \<Rightarrow>
      case bound_action KS L t of None \<Rightarrow> None | Some act \<Rightarrow>
        Some \<lparr>kb_mods = table_mods L t, kb_keysym = code, kb_action = act, kb_app_id = lua_str L t ''app_id''\<rparr>)"

definition lua_button :: "(string \<Rightarrow> u32) \<Rightarrow> 't lua \<Rightarrow> 't \<Rightarrow> button_bind option" where
  "lua_button KS L t =
     (case lua_str L t ''button'' of None \<Rightarrow> None | Some b \<Rightarrow>
      case parse_button_code b of None \<Rightarrow> None | Some code \<Rightarrow>
      case bound_action KS L t of None \<Rightarrow> None | Some act \<Rightarrow>
        Some \<lparr>bb_mods = table_mods L t, bb_button = code, bb_action = act, bb_app_id = lua_str L t ''app_id''\<rparr>)"

text \<open>The readable elements of an array of tables.\<close>

definition lua_array :: "'t lua \<Rightarrow> ('t \<Rightarrow> 'a option) \<Rightarrow> 't \<Rightarrow> 'a list" where
  "lua_array L f arr = List.map_filter (\<lambda>v. case v of None \<Rightarrow> None | Some t \<Rightarrow> f t) (seq_tables L arr)"

definition lua_array_or :: "'t lua \<Rightarrow> 't \<Rightarrow> string \<Rightarrow> ('t \<Rightarrow> 'a option) \<Rightarrow> 'a list \<Rightarrow> 'a list" where
  "lua_array_or L g name f d = (case get_table L g name of
     None \<Rightarrow> d | Some arr \<Rightarrow> some_or_default (lua_array L f arr) d)"

definition lua_keys :: "(string \<Rightarrow> u32) \<Rightarrow> 't lua \<Rightarrow> 't \<Rightarrow> key_bind list \<Rightarrow> key_bind list" where
  "lua_keys KS L g d = lua_array_or L g ''keys'' (lua_key KS L) d"

definition lua_buttons :: "(string \<Rightarrow> u32) \<Rightarrow> 't lua \<Rightarrow> 't \<Rightarrow> button_bind list \<Rightarrow> button_bind list" where
  "lua_buttons KS L g d = lua_array_or L g ''buttons'' (lua_button KS L) d"

end
