(* ===== verification/Settings.thy ===== *)
theory Settings
  imports Keybinds
begin

text \<open>
  Reading the whole configuration (\<^verbatim>\<open>src/config/lua.rs\<close>, \<^verbatim>\<open>settings.rs\<close>, \<^verbatim>\<open>mod.rs\<close>):
  every block with its fall-back to the compiled-in defaults, and what becomes of a file that
  is missing or broken.
\<close>

section \<open>Rules, layouts, monitors\<close>

definition lua_rule :: "'t lua \<Rightarrow> 't \<Rightarrow> rule" where
  "lua_rule L t = \<lparr>r_id = lua_str L t ''id'', r_title = lua_str L t ''title'', r_tags = lua_u32 L t ''tags'' 0,
     r_switch_to_tag = lua_bool L t ''switch_to_tag'' False, r_is_floating = lua_bool L t ''floating'' False,
     r_monitor = lua_i32 L t ''monitor'' (-1),
     r_scratch_key = unwrap_or (case lua_str L t ''scratch_key'' of None \<Rightarrow> None | Some s \<Rightarrow> first_char s) 0,
     r_no_swallow = lua_bool L t ''no_swallow'' False\<rparr>"

definition lua_rules :: "'t lua \<Rightarrow> 't \<Rightarrow> rule list \<Rightarrow> rule list" where
  "lua_rules L g d = lua_array_or L g ''rules'' (\<lambda>t. Some (lua_rule L t)) d"

definition parse_layout_kind :: "string \<Rightarrow> layout_kind option" where
  "parse_layout_kind s =
     (if s = ''tile'' then Some Tile else if s = ''monocle'' then Some Monocle
      else if s = ''col'' then Some Col else if s = ''scroll'' then Some Scroll
      else if s = ''dwindle'' then Some Dwindle else if s = ''bstack'' then Some Bstack
      else if s = ''centeredmaster'' then Some CenteredMaster
      else if s = ''lua'' then Some LuaLayout else None)"

definition lua_layout :: "'t lua \<Rightarrow> 't \<Rightarrow> layout_def option" where
  "lua_layout L t = map_option (\<lambda>symbol. \<lparr>ld_symbol = symbol,
     ld_kind = unwrap_or (case lua_str L t ''kind'' of None \<Rightarrow> None | Some s \<Rightarrow> parse_layout_kind s)
                 default_layout_kind\<rparr>) (lua_str L t ''symbol'')"

definition lua_layouts :: "'t lua \<Rightarrow> 't \<Rightarrow> layout_def list \<Rightarrow> layout_def list" where
  "lua_layouts L g d = lua_array_or L g ''layouts'' (lua_layout L) d"

text \<open>The codes of the protocol's transforms.\<close>

definition TRANSFORMS :: "(string \<times> nat) list" where
  "TRANSFORMS = [(''normal'', 0), (''90'', 1), (''180'', 2), (''270'', 3), (''flipped'', 4), (''flipped90'', 5),
     (''flipped180'', 6), (''flipped270'', 7)]"

definition parse_transform :: "string \<Rightarrow> nat option" where
  "parse_transform s = map_of TRANSFORMS s"

definition parse_vrr :: "string option \<Rightarrow> vrr_mode" where
  "parse_vrr s = (if s = Some ''on'' then VrrOn else if s = Some ''ondemand'' then VrrOnDemand else VrrOff)"

definition parse_monitor_rule :: "'t lua \<Rightarrow> 't \<Rightarrow> monitor_rule" where
  "parse_monitor_rule L t = \<lparr>mr_name = lua_str L t ''name'', mr_mfact = lua_f64 L t ''mfact'' (f_lit (55 / 100)),
     mr_nmaster = lua_i32 L t ''nmaster'' 1, mr_scale = lua_f64 L t ''scale'' (f_lit 1),
     mr_layout_idx = unat (lua_u32 L t ''layout'' 0),
     mr_transform = unwrap_or (case lua_str L t ''transform'' of None \<Rightarrow> None | Some s \<Rightarrow> parse_transform s) 0,
     mr_x = lua_i32 L t ''x'' (-1), mr_y = lua_i32 L t ''y'' (-1), mr_vrr = parse_vrr (lua_str L t ''vrr'')\<rparr>"

text \<open>An array of rules, or one flat rule, or the defaults when the table is empty.\<close>

definition lua_monitor_rules :: "'t lua \<Rightarrow> 't \<Rightarrow> monitor_rule list \<Rightarrow> monitor_rule list" where
  "lua_monitor_rules L g d = (case get_table L g ''monitor_rules'' of
     None \<Rightarrow> d
   | Some arr \<Rightarrow>
       let out = lua_array L (\<lambda>t. Some (parse_monitor_rule L t)) arr in
       if out \<noteq> [] then out else if no_pairs L arr then d else [parse_monitor_rule L arr])"

section \<open>Devices\<close>

datatype scroll_method = NoScroll | TwoFinger | Edge | OnButtonDown
datatype click_method = ButtonAreas | Clickfinger
datatype accel_profile = Flat | Adaptive
datatype tap_button_map = LeftMiddleRight | LeftRightMiddle
datatype zoom_direction = ZoomIn | ZoomOut

record pointer_cfg =
  tap_to_click :: bool
  tap_and_drag :: bool
  drag_lock :: bool
  natural_scrolling :: bool
  disable_while_typing :: bool
  left_handed :: bool
  middle_button_emulation :: bool
  scroll_method :: scroll_method
  click_method :: click_method
  accel_profile :: accel_profile
  accel_speed :: f64
  tap_button_map :: tap_button_map
  scroll_factor :: f64

definition touchpad_defaults :: pointer_cfg where
  "touchpad_defaults = \<lparr>tap_to_click = True, tap_and_drag = True, drag_lock = True, natural_scrolling = True,
     disable_while_typing = True, left_handed = False, middle_button_emulation = False,
     scroll_method = TwoFinger, click_method = ButtonAreas, accel_profile = Adaptive, accel_speed = f_lit 0,
     tap_button_map = LeftRightMiddle, scroll_factor = f_lit 1\<rparr>"

definition mouse_defaults :: pointer_cfg where
  "mouse_defaults = touchpad_defaults\<lparr>natural_scrolling := False, accel_profile := Flat\<rparr>"

definition lua_scroll_method :: "'t lua \<Rightarrow> 't \<Rightarrow> scroll_method \<Rightarrow> scroll_method" where
  "lua_scroll_method L t d = lua_enum L t ''scroll_method'' [(''no_scroll'', NoScroll), (''two_finger'', TwoFinger),
     (''edge'', Edge), (''on_button_down'', OnButtonDown)] d"

definition lua_click_method :: "'t lua \<Rightarrow> 't \<Rightarrow> click_method \<Rightarrow> click_method" where
  "lua_click_method L t d =
     lua_enum L t ''click_method'' [(''button_areas'', ButtonAreas), (''clickfinger'', Clickfinger)] d"

definition lua_accel_profile :: "'t lua \<Rightarrow> 't \<Rightarrow> accel_profile \<Rightarrow> accel_profile" where
  "lua_accel_profile L t d = lua_enum L t ''accel_profile'' [(''flat'', Flat), (''adaptive'', Adaptive)] d"

definition lua_tap_button_map :: "'t lua \<Rightarrow> 't \<Rightarrow> tap_button_map \<Rightarrow> tap_button_map" where
  "lua_tap_button_map L t d = lua_enum L t ''tap_button_map''
     [(''left_middle_right'', LeftMiddleRight), (''left_right_middle'', LeftRightMiddle)] d"

definition lua_pointer_cfg :: "'t lua \<Rightarrow> 't option \<Rightarrow> pointer_cfg \<Rightarrow> pointer_cfg" where
  "lua_pointer_cfg L topt d = (case topt of None \<Rightarrow> d | Some t \<Rightarrow>
     \<lparr>tap_to_click = lua_bool L t ''tap_to_click'' (tap_to_click d),
      tap_and_drag = lua_bool L t ''tap_and_drag'' (tap_and_drag d),
      drag_lock = lua_bool L t ''drag_lock'' (drag_lock d),
      natural_scrolling = lua_bool L t ''natural_scrolling'' (natural_scrolling d),
      disable_while_typing = lua_bool L t ''disable_while_typing'' (disable_while_typing d),
      left_handed = lua_bool L t ''left_handed'' (left_handed d),
      middle_button_emulation = lua_bool L t ''middle_button_emulation'' (middle_button_emulation d),
      scroll_method = lua_scroll_method L t (scroll_method d), click_method = lua_click_method L t (click_method d),
      accel_profile = lua_accel_profile L t (accel_profile d), accel_speed = lua_f64 L t ''accel_speed'' (accel_speed d),
      tap_button_map = lua_tap_button_map L t (tap_button_map d),
      scroll_factor = lua_f64 L t ''scroll_factor'' (scroll_factor d)\<rparr>)"

record xkb_rules =
  xkb_rule_set :: "string option"
  xkb_model :: "string option"
  xkb_layout :: "string option"
  xkb_variant :: "string option"
  xkb_options :: "string option"

definition lua_xkb_rules :: "'t lua \<Rightarrow> 't \<Rightarrow> xkb_rules \<Rightarrow> xkb_rules" where
  "lua_xkb_rules L t d = \<lparr>xkb_rule_set = opt_or (lua_str L t ''xkb_rules'') (xkb_rule_set d),
     xkb_model = opt_or (lua_str L t ''xkb_model'') (xkb_model d),
     xkb_layout = opt_or (lua_str L t ''xkb_layout'') (xkb_layout d),
     xkb_variant = opt_or (lua_str L t ''xkb_variant'') (xkb_variant d),
     xkb_options = opt_or (lua_str L t ''xkb_options'') (xkb_options d)\<rparr>"

section \<open>Effects and wallpapers\<close>

definition parse_zoom_direction :: "string \<Rightarrow> zoom_direction option" where
  "parse_zoom_direction s = (if s = ''in'' then Some ZoomIn else if s = ''out'' then Some ZoomOut else None)"

definition lua_zoom_direction :: "'t lua \<Rightarrow> 't \<Rightarrow> zoom_direction \<Rightarrow> zoom_direction" where
  "lua_zoom_direction L t d = unwrap_or (case lua_str L t ''startup_zoom_direction'' of
     None \<Rightarrow> None | Some s \<Rightarrow> parse_zoom_direction s) d"

definition lua_wallpaper_mode :: "'t lua \<Rightarrow> 't \<Rightarrow> wallpaper_mode \<Rightarrow> wallpaper_mode" where
  "lua_wallpaper_mode L t d = unwrap_or (case lua_str L t ''mode'' of None \<Rightarrow> None | Some s \<Rightarrow> parse_mode s) d"

definition paper_at :: "'t lua \<Rightarrow> 't \<Rightarrow> nat \<Rightarrow> string option" where
  "paper_at L tbl i = (case opt_string_at L tbl i of Some (Some s) \<Rightarrow> if s = [] then None else Some s | _ \<Rightarrow> None)"

definition lua_wallpapers :: "'t lua \<Rightarrow> 't \<Rightarrow> nat \<Rightarrow> string option list" where
  "lua_wallpapers L t tag_count = (case get_table L t ''tags'' of
     None \<Rightarrow> [] | Some tbl \<Rightarrow> map (paper_at L tbl) [1..<Suc tag_count])"

section \<open>Overview, picture in picture, swallowing\<close>

text \<open>The characters the hint font has, each at most once.\<close>

definition hint_char :: "char \<Rightarrow> bool" where
  "hint_char c \<longleftrightarrow> (let n = of_char c :: nat in (97 \<le> n \<and> n \<le> 122) \<or> (48 \<le> n \<and> n \<le> 57))"

definition keep_hint :: "char \<Rightarrow> string \<Rightarrow> string" where
  "keep_hint c ks = (let lc = ascii_lower c in if hint_char lc \<and> lc \<notin> set ks then ks @ [lc] else ks)"

definition sanitize_hint_keys :: "string option \<Rightarrow> string \<Rightarrow> string" where
  "sanitize_hint_keys raw d = (case raw of
     None \<Rightarrow> d | Some r \<Rightarrow> (let ks = fold keep_hint r [] in if ks = [] then d else ks))"

definition lua_swallow_enabled :: "'t lua \<Rightarrow> 't \<Rightarrow> bool" where
  "lua_swallow_enabled L g = (case get_table L g ''swallow'' of
     None \<Rightarrow> False | Some t \<Rightarrow> unwrap_or (get_bool L t ''enabled'') False)"

definition lua_swallow_terminals :: "'t lua \<Rightarrow> 't \<Rightarrow> string list" where
  "lua_swallow_terminals L g =
     (case get_table L g ''swallow'' of None \<Rightarrow> default_terminals | Some t \<Rightarrow>
      case get_table L t ''terminals'' of None \<Rightarrow> default_terminals | Some arr \<Rightarrow>
        some_or_default (List.map_filter (\<lambda>s. s) (seq_strings L arr)) default_terminals)"

section \<open>The bar\<close>

record block_settings =
  bl_icon :: string
  bl_command :: string
  bl_interval :: u32
  bl_signal :: nat
  bl_command_click :: string
  bl_hover_command :: string

record bar_settings =
  bar_font :: string
  bar_numbers :: "(string \<times> u32) list"
  bar_flags :: "(string \<times> bool) list"
  bar_blocks :: "block_settings list"
  bar_delim :: string
  bar_tag_names :: "string list"

definition lua_block :: "'t lua \<Rightarrow> 't \<Rightarrow> block_settings" where
  "lua_block L t = (let text = \<lambda>key. unwrap_or (lua_str L t key) []; sig = unat (lua_u32 L t ''signal'' 0) in
     \<lparr>bl_icon = text ''icon'', bl_command = text ''command'', bl_interval = lua_u32 L t ''interval'' 0,
      bl_signal = (if sig \<le> 255 then sig else 0), bl_command_click = text ''command_click'',
      bl_hover_command = text ''hover_command''\<rparr>)"

definition lua_bar_blocks :: "'t lua \<Rightarrow> 't \<Rightarrow> block_settings list \<Rightarrow> block_settings list" where
  "lua_bar_blocks L t d = lua_array_or L t ''blocks'' (\<lambda>b. Some (lua_block L b)) d"

text \<open>The tag labels are shared with the core: they come from the table of the tags.\<close>

definition lua_tag_names :: "'t lua \<Rightarrow> 't \<Rightarrow> string list \<Rightarrow> string list" where
  "lua_tag_names L g d =
     (case get_table L g ''tags'' of None \<Rightarrow> d | Some tg \<Rightarrow>
      case get_table L tg ''names'' of None \<Rightarrow> d | Some arr \<Rightarrow>
        if raw_length L arr = 0 then d else argv_of L arr)"

text \<open>The numbers and flags are kept under their names, in the order of the sources.\<close>

definition lua_bar_settings :: "'t lua \<Rightarrow> 't \<Rightarrow> bar_settings \<Rightarrow> bar_settings" where
  "lua_bar_settings L g d = (case get_table L g ''bar'' of None \<Rightarrow> d | Some t \<Rightarrow>
     \<lparr>bar_font = unwrap_or (lua_str L t ''font'') (bar_font d),
      bar_numbers = map (\<lambda>(key, n). (key, lua_u32 L t key n)) (bar_numbers d),
      bar_flags = map (\<lambda>(key, b). (key, lua_bool L t key b)) (bar_flags d),
      bar_blocks = lua_bar_blocks L t (bar_blocks d),
      bar_delim = unwrap_or (lua_str L t ''blocks_delim'') (bar_delim d),
      bar_tag_names = lua_tag_names L g (bar_tag_names d)\<rparr>)"

section \<open>The configuration\<close>

text \<open>The part of the configuration that the other theories do not read.\<close>

record extras =
  x_corner_radius :: u32
  x_fullscreen_bg :: u32
  x_wall :: wall_conf
  x_zoom_ms :: u32
  x_zoom_amount :: f64
  x_zoom_direction :: zoom_direction
  x_xkb :: xkb_rules
  x_numlock :: bool
  x_capslock :: bool
  x_touchpad :: pointer_cfg
  x_mouse :: pointer_cfg
  x_cursor_timeout :: nat
  x_cursor_theme :: "string option"
  x_cursor_size :: u32
  x_startup_cmds :: "string list list"
  x_bar_cmd :: "string list option"
  x_bar :: bar_settings
  x_dim :: u32
  x_anim_ms :: u32
  x_highlight_color :: u32
  x_highlight_px :: u32
  x_overview_border_color :: u32
  x_overview_border_px :: u32
  x_pip_border_color :: u32

text \<open>
  \<open>Config::default\<close> of those fields. The colours given as components are packed, and the
  dim colour (60% black) is \<open>0x99\<close> in its last byte.
\<close>

definition default_extras :: "bar_settings \<Rightarrow> extras" where
  "default_extras bar = \<lparr>x_corner_radius = 8, x_fullscreen_bg = 0x000000ff,
     x_wall = \<lparr>wc_default = None, wc_tags = [], wc_mode = Fill\<rparr>,
     x_zoom_ms = 2000, x_zoom_amount = f_lit (20 / 100), x_zoom_direction = ZoomIn,
     x_xkb = \<lparr>xkb_rule_set = None, xkb_model = None, xkb_layout = Some ''pt'', xkb_variant = None, xkb_options = None\<rparr>,
     x_numlock = True, x_capslock = False, x_touchpad = touchpad_defaults, x_mouse = mouse_defaults,
     x_cursor_timeout = 5, x_cursor_theme = None, x_cursor_size = 24, x_startup_cmds = [], x_bar_cmd = None,
     x_bar = bar, x_dim = 0x00000099, x_anim_ms = 180, x_highlight_color = 0xffffffff, x_highlight_px = 3,
     x_overview_border_color = 0x888888aa, x_overview_border_px = 1, x_pip_border_color = 0xffffffff\<rparr>"

text \<open>A field of a block that may be missing.\<close>

definition field_of :: "'t option \<Rightarrow> ('t \<Rightarrow> 'a) \<Rightarrow> 'a \<Rightarrow> 'a" where
  "field_of block f d = (case block of None \<Rightarrow> d | Some t \<Rightarrow> f t)"

definition number_of :: "'t lua \<Rightarrow> 't option \<Rightarrow> string \<Rightarrow> u32 \<Rightarrow> u32" where
  "number_of L block key d = field_of block (\<lambda>t. lua_u32 L t key d) d"

definition flag_of :: "'t lua \<Rightarrow> 't option \<Rightarrow> string \<Rightarrow> bool \<Rightarrow> bool" where
  "flag_of L block key d = field_of block (\<lambda>t. lua_bool L t key d) d"

definition color_of :: "'t lua \<Rightarrow> 't option \<Rightarrow> string \<Rightarrow> u32 \<Rightarrow> u32" where
  "color_of L block key d = field_of block (\<lambda>t. lua_color L t key d) d"

definition from_lua_globals :: "(string \<Rightarrow> u32) \<Rightarrow> 't lua \<Rightarrow> 't \<Rightarrow> config" where
  "from_lua_globals KS L g =
     (let d = default_config (default_keys KS) default_buttons;
          tag_count = unat (number_of L (get_table L g ''tags'') ''number'' (of_nat (c_tag_count d)));
          layouts = lua_layouts L g (c_layouts d);
          w = get_table L g ''windows''; ef = get_table L g ''effects''; kb = get_table L g ''keyboard'';
          c = get_table L g ''cursor''; ov = get_table L g ''overview''; pp = get_table L g ''pip''
      in \<lparr>c_mouse_focus = flag_of L c ''mouse_focus'' (c_mouse_focus d),
          c_warp_cursor = flag_of L c ''warp_cursor'' (c_warp_cursor d),
          c_follow = flag_of L w ''follow'' (c_follow d),
          c_border_px = number_of L w ''border_px'' (c_border_px d),
          c_gaps_px = number_of L w ''gaps_px'' (c_gaps_px d),
          c_smart_gaps = flag_of L w ''smart_gaps'' (c_smart_gaps d),
          c_border_color = color_of L w ''border_color'' (c_border_color d),
          c_focus_color = color_of L w ''focus_color'' (c_focus_color d),
          c_fade_in_ms = unat (number_of L ef ''fade_in_ms'' (of_nat (c_fade_in_ms d))),
          c_fade_out_ms = unat (number_of L ef ''fade_out_ms'' (of_nat (c_fade_out_ms d))),
          c_tag_transition = flag_of L ef ''tag_transition'' (c_tag_transition d),
          c_tag_transition_ms = unat (number_of L ef ''tag_transition_ms'' (of_nat (c_tag_transition_ms d))),
          c_auto_back_empty_tag = flag_of L w ''auto_back_empty_tag'' (c_auto_back_empty_tag d),
          c_tag_count = tag_count,
          c_pertag_layouts = lua_parse (map_option (value_at L) (get_table L g ''pertag_layouts'')) layouts tag_count,
          c_rules = lua_rules L g (c_rules d), c_layouts = layouts,
          c_monitor_rules = lua_monitor_rules L g (c_monitor_rules d),
          c_repeat_rate = field_of kb (\<lambda>t. lua_i32 L t ''repeat_rate'' (c_repeat_rate d)) (c_repeat_rate d),
          c_repeat_delay = field_of kb (\<lambda>t. lua_i32 L t ''repeat_delay'' (c_repeat_delay d)) (c_repeat_delay d),
          c_keys = lua_keys KS L g (c_keys d), c_buttons = lua_buttons KS L g (c_buttons d),
          c_auto_spawn = lua_auto_spawn L g (c_auto_spawn d),
          c_hint_keys = field_of ov (\<lambda>t. sanitize_hint_keys (lua_str L t ''hint_keys'') (c_hint_keys d)) (c_hint_keys d),
          c_overview_padding = number_of L ov ''padding'' (c_overview_padding d),
          c_pip_width = number_of L pp ''width'' (c_pip_width d),
          c_pip_margin = number_of L pp ''margin'' (c_pip_margin d),
          c_pip_border_px = number_of L pp ''border_px'' (c_pip_border_px d),
          c_pip_corner = field_of pp (\<lambda>t. unwrap_or (lua_str L t ''corner'') (c_pip_corner d)) (c_pip_corner d),
          c_swallow_enabled = lua_swallow_enabled L g,
          c_swallow_terminals = lua_swallow_terminals L g\<rparr>)"

definition extras_from_lua :: "bar_settings \<Rightarrow> 't lua \<Rightarrow> 't \<Rightarrow> nat \<Rightarrow> extras" where
  "extras_from_lua bar L g tag_count =
     (let d = default_extras bar;
          w = get_table L g ''windows''; ef = get_table L g ''effects''; kb = get_table L g ''keyboard'';
          c = get_table L g ''cursor''; ov = get_table L g ''overview''; pp = get_table L g ''pip'';
          wp = get_table L g ''wallpaper''
      in \<lparr>x_corner_radius = number_of L w ''corner_radius'' (x_corner_radius d),
          x_fullscreen_bg = color_of L w ''fullscreen_bg'' (x_fullscreen_bg d),
          x_wall = \<lparr>wc_default = opt_or (field_of wp (\<lambda>t. lua_str L t ''default'') None) (wc_default (x_wall d)),
                    wc_tags = field_of wp (\<lambda>t. lua_wallpapers L t tag_count) (wc_tags (x_wall d)),
                    wc_mode = field_of wp (\<lambda>t. lua_wallpaper_mode L t (wc_mode (x_wall d))) (wc_mode (x_wall d))\<rparr>,
          x_zoom_ms = number_of L ef ''startup_zoom_ms'' (x_zoom_ms d),
          x_zoom_amount = field_of ef (\<lambda>t. lua_f64 L t ''startup_zoom_amount'' (x_zoom_amount d)) (x_zoom_amount d),
          x_zoom_direction = field_of ef (\<lambda>t. lua_zoom_direction L t (x_zoom_direction d)) (x_zoom_direction d),
          x_xkb = field_of kb (\<lambda>t. lua_xkb_rules L t (x_xkb d)) (x_xkb d),
          x_numlock = flag_of L kb ''numlock'' (x_numlock d), x_capslock = flag_of L kb ''capslock'' (x_capslock d),
          x_touchpad = lua_pointer_cfg L (get_table L g ''touchpad'') (x_touchpad d),
          x_mouse = lua_pointer_cfg L (get_table L g ''mouse'') (x_mouse d),
          x_cursor_timeout = field_of c (\<lambda>t. lua_u64 L t ''cursor_timeout'' (x_cursor_timeout d)) (x_cursor_timeout d),
          x_cursor_theme = opt_or (field_of c (\<lambda>t. lua_str L t ''cursor_theme'') None) (x_cursor_theme d),
          x_cursor_size = number_of L c ''cursor_size'' (x_cursor_size d),
          x_startup_cmds = lua_startup_cmds L g, x_bar_cmd = lua_argv L g ''bar_cmd'',
          x_bar = lua_bar_settings L g (x_bar d),
          x_dim = color_of L ov ''dim'' (x_dim d), x_anim_ms = number_of L ov ''anim_ms'' (x_anim_ms d),
          x_highlight_color = color_of L ov ''highlight_color'' (x_highlight_color d),
          x_highlight_px = number_of L ov ''highlight_px'' (x_highlight_px d),
          x_overview_border_color = color_of L ov ''border_color'' (x_overview_border_color d),
          x_overview_border_px = number_of L ov ''border_px'' (x_overview_border_px d),
          x_pip_border_color = color_of L pp ''border_color'' (x_pip_border_color d)\<rparr>)"

section \<open>Loading\<close>

text \<open>
  The file: not there, unreadable or failing to run with a message, or run with its globals.
  The result is the configuration and the error that the status shows.
\<close>

datatype 't config_file = Missing | Broken string | Loaded 't

fun join_keys :: "string list \<Rightarrow> string" where
  "join_keys [] = []"
| "join_keys [w] = w"
| "join_keys (w # v # us) = w @ '', '' @ join_keys (v # us)"

definition load_config ::
  "(string \<Rightarrow> u32) \<Rightarrow> bar_settings \<Rightarrow> 't lua \<Rightarrow> 't config_file \<Rightarrow> config \<times> extras \<times> string option" where
  "load_config KS bar L file =
     (let d = default_config (default_keys KS) default_buttons; x = default_extras bar in
      case file of
        Missing \<Rightarrow> (d, x, None)
      | Broken e \<Rightarrow> (d, x, Some e)
      | Loaded g \<Rightarrow>
          let c = from_lua_globals KS L g; unknowns = collect_unknown_keys L g in
          (c, extras_from_lua bar L g (c_tag_count c),
           if unknowns = [] then None else Some (''unknown keys: '' @ join_keys unknowns)))"

end
