(* ===== verification/Settings_Laws.thy ===== *)
theory Settings_Laws
  imports Settings Overview_Laws
begin

text \<open>
  What holds of every configuration, whatever the file of the user holds, and how it meets
  what the other components ask for.
\<close>

section \<open>Readers\<close>

lemma some_or_default_ne: "d \<noteq> [] \<Longrightarrow> some_or_default out d \<noteq> []"
  by (simp add: some_or_default_def)

lemma lua_array_or_ne: "d \<noteq> [] \<Longrightarrow> lua_array_or L g name f d \<noteq> []"
  by (simp add: lua_array_or_def some_or_default_ne split: option.split)

lemma monitor_rules_ne: "d \<noteq> [] \<Longrightarrow> lua_monitor_rules L g d \<noteq> []"
  by (simp add: lua_monitor_rules_def Let_def split: option.split)

lemma auto_spawn_ne: "d \<noteq> [] \<Longrightarrow> lua_auto_spawn L g d \<noteq> []"
  by (simp add: lua_auto_spawn_def split: option.split)

lemma in_range_Some: "in_range lo hi n = Some m \<longleftrightarrow> m = n \<and> lo \<le> n \<and> n \<le> hi"
  by (auto simp: in_range_def)

lemma f_as_i32_range: "- 2147483648 \<le> f_as_i32 x \<and> f_as_i32 x \<le> 2147483647"
  by (cases x) (auto simp: sat_i32_def)

definition i32_range :: "int \<Rightarrow> bool" where
  "i32_range i \<longleftrightarrow> - 2147483648 \<le> i \<and> i \<le> 2147483647"

lemma lua_i32_range: "i32_range d \<Longrightarrow> i32_range (lua_i32 L t key d)"
  using f_as_i32_range
  by (auto simp: i32_range_def lua_i32_def lua_scalar_as_def unwrap_or_def in_range_Some
      split: option.split lua_scalar.split)

section \<open>Hints\<close>

definition hints_usable :: "string \<Rightarrow> bool" where
  "hints_usable ks \<longleftrightarrow> ks \<noteq> [] \<and> distinct ks \<and> (\<forall>c \<in> set ks. hint_char c)"

lemma keep_hint_keeps:
  "distinct ks \<and> (\<forall>c \<in> set ks. hint_char c) \<Longrightarrow>
   distinct (keep_hint c ks) \<and> (\<forall>d \<in> set (keep_hint c ks). hint_char d)"
  by (auto simp: keep_hint_def Let_def)

lemma sanitize_usable: "hints_usable d \<Longrightarrow> hints_usable (sanitize_hint_keys raw d)"
proof -
  assume d: "hints_usable d"
  have "distinct (fold keep_hint r ks) \<and> (\<forall>c \<in> set (fold keep_hint r ks). hint_char c)"
    if "distinct ks \<and> (\<forall>c \<in> set ks. hint_char c)" for r ks
    using that
  proof (induction r arbitrary: ks)
    case (Cons c r)
    show ?case using Cons.IH [OF keep_hint_keeps [OF Cons.prems]] by simp
  qed simp
  from this [of "[]"] d show ?thesis
    by (auto simp: sanitize_hint_keys_def hints_usable_def Let_def split: option.split)
qed

text \<open>The key whose letter a hint character is.\<close>

definition key_of :: "char \<Rightarrow> u32" where
  "key_of c = of_nat (of_char c)"

lemma hint_typable: "hint_char c \<Longrightarrow> letter (key_of c) = c \<and> 33 \<le> unat (key_of c) \<and> unat (key_of c) \<le> 126"
proof -
  assume h: "hint_char c"
  then have r: "(48 :: nat) \<le> of_char c" "of_char c \<le> (122 :: nat)"
    by (auto simp: hint_char_def Let_def)
  have "of_char c mod 4294967296 = (of_char c :: nat)" using r(2) by (intro mod_less) linarith
  then have u: "unat (key_of c) = of_char c"
    by (simp add: key_of_def unat_of_nat)
  moreover have "ascii_lower c = c" using h by (auto simp: hint_char_def ascii_lower_def Let_def)
  ultimately show ?thesis using r by (simp add: letter_def)
qed

section \<open>Every configuration\<close>

definition pertag_in_range :: "config \<Rightarrow> bool" where
  "pertag_in_range c \<longleftrightarrow> list_all (\<lambda>r. case r of None \<Rightarrow> True
     | Some (Fixed i) \<Rightarrow> i < length (c_layouts c)
     | Some (ByCount is) \<Rightarrow> is \<noteq> [] \<and> list_all (\<lambda>i. i < length (c_layouts c)) is) (c_pertag_layouts c)"

definition loaded_ok :: "config \<Rightarrow> bool" where
  "loaded_ok c \<longleftrightarrow> c_layouts c \<noteq> [] \<and> c_monitor_rules c \<noteq> [] \<and> c_keys c \<noteq> [] \<and> c_buttons c \<noteq> [] \<and>
     c_rules c \<noteq> [] \<and> c_auto_spawn c \<noteq> [] \<and> c_swallow_terminals c \<noteq> [] \<and> pertag_in_range c \<and>
     hints_usable (c_hint_keys c) \<and> i32_range (c_repeat_rate c) \<and> i32_range (c_repeat_delay c)"

lemma parse_rule_range:
  "ls \<noteq> [] \<Longrightarrow> (case lua_parse_rule ls (tile_index ls) v of Fixed i \<Rightarrow> i < length ls
     | ByCount is \<Rightarrow> is \<noteq> [] \<and> list_all (\<lambda>i. i < length ls) is)"
  using indices_of_range [of ls] resolve_layout_range [of _ ls "tile_index ls"] tile_index_range [of ls]
  by (auto simp: lua_parse_rule_def Let_def list_all_iff indices_of_def split: lua_value.split option.split)

lemma parsed_in_range:
  "c_layouts c \<noteq> [] \<Longrightarrow> c_pertag_layouts c = lua_parse tbl (c_layouts c) n \<Longrightarrow> pertag_in_range c"
  using parse_rule_range [of "c_layouts c"] tile_index_range [of "c_layouts c"]
  by (auto simp: pertag_in_range_def lua_parse_def Let_def list_all_iff split: option.split)

lemma default_keys_ne: "default_keys KS \<noteq> []"
  by (simp add: default_keys_def)

lemma default_loaded_ok: "loaded_ok (default_config (default_keys KS) default_buttons)"
proof -
  have "hints_usable ''123456789''" by (simp add: hints_usable_def hint_char_def)
  then show ?thesis
    by (simp add: loaded_ok_def default_config_def default_keys_ne default_buttons_def default_layouts_def
        default_rules_def default_terminals_def pertag_in_range_def i32_range_def list_all_iff)
qed

lemma globals_loaded_ok: "loaded_ok (from_lua_globals KS L g)"
proof -
  let ?d = "default_config (default_keys KS) default_buttons" and ?c = "from_lua_globals KS L g"
  have d: "c_layouts ?d \<noteq> []" "c_monitor_rules ?d \<noteq> []" "c_keys ?d \<noteq> []" "c_buttons ?d \<noteq> []" "c_rules ?d \<noteq> []"
    "c_auto_spawn ?d \<noteq> []" "hints_usable (c_hint_keys ?d)" "i32_range (c_repeat_rate ?d)" "i32_range (c_repeat_delay ?d)"
    using default_loaded_ok [of KS] by (simp_all add: loaded_ok_def)
  have l: "c_layouts ?c \<noteq> []"
    using lua_array_or_ne [OF d(1)] by (simp add: from_lua_globals_def Let_def lua_layouts_def)
  moreover have "pertag_in_range ?c"
    by (rule parsed_in_range [OF l]) (simp add: from_lua_globals_def Let_def)
  moreover have "c_monitor_rules ?c \<noteq> []" using monitor_rules_ne [OF d(2)] by (simp add: from_lua_globals_def Let_def)
  moreover have "c_keys ?c \<noteq> []" using lua_array_or_ne [OF d(3)] by (simp add: from_lua_globals_def Let_def lua_keys_def)
  moreover have "c_buttons ?c \<noteq> []"
    using lua_array_or_ne [OF d(4)] by (simp add: from_lua_globals_def Let_def lua_buttons_def)
  moreover have "c_rules ?c \<noteq> []" using lua_array_or_ne [OF d(5)] by (simp add: from_lua_globals_def Let_def lua_rules_def)
  moreover have "c_auto_spawn ?c \<noteq> []" using auto_spawn_ne [OF d(6)] by (simp add: from_lua_globals_def Let_def)
  moreover have "c_swallow_terminals ?c \<noteq> []"
    by (simp add: from_lua_globals_def Let_def lua_swallow_terminals_def some_or_default_def default_terminals_def
        split: option.split)
  moreover have "hints_usable (c_hint_keys ?c)"
    using d(7) sanitize_usable [OF d(7)] by (simp add: from_lua_globals_def Let_def field_of_def split: option.split)
  moreover have "i32_range (c_repeat_rate ?c)" "i32_range (c_repeat_delay ?c)"
    by (simp_all add: from_lua_globals_def Let_def field_of_def lua_i32_range d(8,9) split: option.split)
  ultimately show ?thesis by (simp add: loaded_ok_def)
qed

text \<open>C5: whatever the file holds, a wrong type in any field included, the configuration has
  layouts, monitor rules, bindings, rules and terminals; every layout index of its per-tag
  rules is one of its layouts; and its hint keys are distinct letters and digits.\<close>

theorem loaded_config_ok:
  "loaded_ok (fst (load_config KS bar L file))"
  by (simp add: load_config_def Let_def default_loaded_ok globals_loaded_ok split: config_file.split)

section \<open>The number of tags\<close>

text \<open>C34: the number of tags is taken from the file unchecked. From 1 to 31 it gives a
  configuration on which monitors are well-formed; 0, 32 and every other multiple of 32 gives
  an empty tag mask, and then no view can ever be changed.\<close>

theorem tag_number_decides:
  assumes c_def: "c = fst (load_config KS bar L file)"
  shows "(1 \<le> c_tag_count c \<and> c_tag_count c < 32 \<longrightarrow> config_ok c) \<and>
    (c_tag_count c mod 32 = 0 \<longrightarrow> tag_mask c = 0 \<and> (\<forall>m t. view c m t = m \<and> toggle_view c m t = m)) \<and>
    ((\<forall>g. file = Loaded g \<longrightarrow> get_table L g ''tags'' = None) \<longrightarrow> c_tag_count c = 9)"
proof (intro conjI impI allI)
  assume "1 \<le> c_tag_count c \<and> c_tag_count c < 32"
  moreover have "loaded_ok c"
    by (simp add: c_def load_config_def Let_def default_loaded_ok globals_loaded_ok split: config_file.split)
  ultimately show "config_ok c" by (simp add: config_ok_def tags_ok_def loaded_ok_def)
next
  assume "c_tag_count c mod 32 = 0"
  then show m: "tag_mask c = 0" by (simp add: tag_mask_def shl1_def)
  show "view c m t = m" "toggle_view c m t = m" for m t
    by (simp_all add: view_def toggle_view_def Let_def m)
next
  assume "\<forall>g. file = Loaded g \<longrightarrow> get_table L g ''tags'' = None"
  then show "c_tag_count c = 9"
    by (cases "file") (simp_all add: c_def load_config_def from_lua_globals_def Let_def number_of_def field_of_def
        default_config_def)
qed

section \<open>Hints of the overview\<close>

lemma hint_letters:
  assumes "hints_usable ks" "set h \<subseteq> set ks"
  shows "map letter (map key_of h) = h" "\<forall>k \<in> set (map key_of h). 33 \<le> unat k \<and> unat k \<le> 126"
proof -
  have "letter (key_of c) = c \<and> 33 \<le> unat (key_of c) \<and> unat (key_of c) \<le> 126" if "c \<in> set h" for c
    using that assms hint_typable by (auto simp: hints_usable_def)
  then show "map letter (map key_of h) = h" "\<forall>k \<in> set (map key_of h). 33 \<le> unat k \<and> unat k \<le> 126"
    by (auto intro: map_idI)
qed

lemma assign_hints_chars:
  assumes "h \<in> set (assign_hints c n)"
  shows "set h \<subseteq> set (c_hint_keys c)"
  using assms by (auto simp: assign_hints_def Let_def split: if_splits dest!: in_set_takeD)

text \<open>C20: with any configuration that can be loaded, for up to as many windows as the square
  of the number of its hint keys, every window of the overview has keys that, typed after
  opening it, select exactly that window.\<close>

theorem configured_hints_select:
  assumes "cfg s = fst (load_config KS bar L file)"
    "sel_monitor s = Some m" "overview s = None"
    "length (overview_windows s b (tags m)) \<le> length (c_hint_keys (cfg s)) * length (c_hint_keys (cfg s))"
    "i < length (overview_windows s b (tags m))"
  shows "\<exists>ks. map letter ks = assign_hints (cfg s) (length (overview_windows s b (tags m))) ! i \<and>
    map_option ov_closing (overview (fold overview_handle_key ks (overview_toggle b s))) =
      Some (Some (SelWindow (overview_windows s b (tags m) ! i)
                    (window_tags (ws s) (overview_windows s b (tags m) ! i))))"
proof -
  let ?n = "length (overview_windows s b (tags m))"
  have u: "hints_usable (c_hint_keys (cfg s))"
    by (simp add: assms(1) load_config_def Let_def default_loaded_ok [unfolded loaded_ok_def]
        globals_loaded_ok [unfolded loaded_ok_def] split: config_file.split)
  then have d: "distinct (c_hint_keys (cfg s))" "c_hint_keys (cfg s) \<noteq> []" by (simp_all add: hints_usable_def)
  let ?h = "assign_hints (cfg s) ?n ! i"
  have "?h \<in> set (assign_hints (cfg s) ?n)" using hints_ok [OF d assms(4)] assms(5) by simp
  then have "set ?h \<subseteq> set (c_hint_keys (cfg s))" by (rule assign_hints_chars)
  note k = hint_letters [OF u this]
  show ?thesis
    using typing_selects_cell [OF assms(2,3) d assms(4,5) k(1) [symmetric] k(2)] k(1) by blast
qed

section \<open>Errors\<close>

lemma scan_unknown:
  "Some (key, False) \<in> set (string_pairs L t) \<Longrightarrow> key \<notin> set names \<Longrightarrow> \<not> (sk \<and> key \<in> set LUA_BUILTINS) \<Longrightarrow>
   scan_keys L t pre names sk \<noteq> []"
  by (force simp: scan_keys_def List.map_filter_def filter_empty_conv split: option.split)


section \<open>Names\<close>

lemma parse_layout_kind_name [simp]: "parse_layout_kind (layout_kind_name kind) = Some kind"
  by (cases kind) (simp_all add: parse_layout_kind_def layout_kind_name_def)

section \<open>Instances\<close>

text \<open>A machine whose tables are the settings written in the file, without arrays.\<close>

datatype tbl = Tbl "(string \<times> fld) list"
  and fld = FInt int | FText string | FSub tbl

definition field_at :: "tbl \<Rightarrow> string \<Rightarrow> fld option" where
  "field_at t key = (case t of Tbl fs \<Rightarrow> map_of fs key)"

definition text_at :: "tbl \<Rightarrow> string \<Rightarrow> string option" where
  "text_at t key = (case field_at t key of Some (FText s) \<Rightarrow> Some s | _ \<Rightarrow> None)"

definition plain_lua :: "tbl lua" where
  "plain_lua = \<lparr>get_table = (\<lambda>t key. case field_at t key of Some (FSub u) \<Rightarrow> Some u | _ \<Rightarrow> None),
     get_string = text_at, get_bool = (\<lambda>_ _. None),
     get_scalar = (\<lambda>t key. Some (case field_at t key of Some (FInt n) \<Rightarrow> SInteger n | _ \<Rightarrow> SOther)),
     get_opt_string = (\<lambda>t key. Some (text_at t key)), get_rgba = (\<lambda>_ _ _. None), table_at = (\<lambda>_ _. None),
     string_at = (\<lambda>_ _. None), opt_string_at = (\<lambda>_ _. Some None), value_at = (\<lambda>_ _. LNil),
     seq_tables = (\<lambda>_. []), seq_strings = (\<lambda>_. []), raw_length = (\<lambda>_. 0),
     string_pairs = (\<lambda>t. case t of Tbl fs \<Rightarrow> map (\<lambda>(key, _). Some (key, False)) fs),
     no_pairs = (\<lambda>t. t = Tbl [])\<rparr>"

definition no_codes :: "string \<Rightarrow> u32" where
  "no_codes name = 0"

definition no_bar :: bar_settings where
  "no_bar = \<lparr>bar_font = [], bar_numbers = [], bar_flags = [], bar_blocks = [], bar_delim = [], bar_tag_names = []\<rparr>"

lemma tag_number_decides_witness:
  "(\<forall>m t. view (fst (load_config no_codes no_bar plain_lua
      (Loaded (Tbl [(''tags'', FSub (Tbl [(''number'', FInt 32)]))])))) m t = m) \<and>
   c_tag_count (fst (load_config no_codes no_bar plain_lua (Loaded (Tbl [(''tag_count'', FInt 6)])))) = 9"
proof -
  let ?f = "Loaded (Tbl [(''tags'', FSub (Tbl [(''number'', FInt 32)]))])"
  have "c_tag_count (fst (load_config no_codes no_bar plain_lua ?f)) = 32"
    by (simp add: load_config_def from_lua_globals_def Let_def number_of_def field_of_def lua_u32_def lua_scalar_as_def
        plain_lua_def field_at_def in_range_def U32_MAX_def unwrap_or_def)
  then have "\<forall>m t. view (fst (load_config no_codes no_bar plain_lua ?f)) m t = m"
    using tag_number_decides [OF refl, of no_codes no_bar plain_lua ?f] by simp
  moreover have "get_table plain_lua (Tbl [(''tag_count'', FInt 6)]) ''tags'' = None"
    by (simp add: plain_lua_def field_at_def)
  ultimately show ?thesis
    using tag_number_decides [OF refl, of no_codes no_bar plain_lua "Loaded (Tbl [(''tag_count'', FInt 6)])"] by simp
qed

lemma configured_hints_select_witness:
  "let c = fst (load_config no_codes no_bar plain_lua (Loaded (Tbl [(''overview'', FSub (Tbl [(''hint_keys'', FText ''AAb-C'')]))])))
   in \<exists>ks. map letter ks = ''b'' \<and>
    map_option ov_closing (overview (fold overview_handle_key ks (overview_toggle False (stage\<lparr>cfg := c\<rparr>)))) =
      Some (Some (SelWindow 12 1))"
proof -
  let ?f = "Loaded (Tbl [(''overview'', FSub (Tbl [(''hint_keys'', FText ''AAb-C'')]))])"
  define c where "c = fst (load_config no_codes no_bar plain_lua ?f)"
  have "sanitize_hint_keys (Some ''AAb-C'') d = ''abc''" for d by code_simp
  then have h: "c_hint_keys c = ''abc''"
    by (simp add: c_def load_config_def from_lua_globals_def Let_def field_of_def lua_str_def
        plain_lua_def field_at_def text_at_def)
  have "sel_monitor (stage\<lparr>cfg := c\<rparr>) = Some (wide_mon 0)" by (simp add: sel_monitor_def get_at_def)
  moreover have "overview_windows (stage\<lparr>cfg := c\<rparr>) False 1 = [11, 12, 13]"
    using stage_overview by (simp add: overview_windows_def)
  moreover have "assign_hints c (Suc (Suc (Suc 0))) ! 1 = ''b''" by (simp add: assign_hints_def h)
  ultimately show ?thesis
    using configured_hints_select [of "stage\<lparr>cfg := c\<rparr>" no_codes no_bar plain_lua ?f "wide_mon 0" False 1]
    by (simp add: h c_def [symmetric] window_tags_def with_state_def unwrap_or_def)
qed


end
