(* ===== verification/Space_Refine.thy ===== *)
theory Space_Refine
  imports Space
begin

text \<open>
  What the plane of windows promises: a stacking order without duplicates and a location for
  each window of it. Every operation of the space is the operation of that abstract plane.
\<close>

section \<open>The abstract plane\<close>

type_synonym stack = "wid list \<times> (wid \<rightharpoonup> point)"

definition abs_plane :: "space \<Rightarrow> stack" where
  "abs_plane sp = (map fst sp, map_of sp)"

definition without :: "wid \<Rightarrow> wid list \<Rightarrow> wid list" where
  "without w st = filter (\<lambda>v. v \<noteq> w) st"

text \<open>\<open>w\<close> right above \<open>r\<close>, which is in the order.\<close>

fun above :: "wid \<Rightarrow> wid \<Rightarrow> wid list \<Rightarrow> wid list" where
  "above w r [] = []"
| "above w r (v # st) = (if v = r then v # w # st else v # above w r st)"

definition a_put :: "wid \<Rightarrow> point \<Rightarrow> stack \<Rightarrow> stack" where
  "a_put w p = (\<lambda>(st, m). (without w st @ [w], m(w \<mapsto> p)))"

definition a_drop :: "wid \<Rightarrow> stack \<Rightarrow> stack" where
  "a_drop w = (\<lambda>(st, m). (without w st, m(w := None)))"

definition a_move :: "wid \<Rightarrow> point \<Rightarrow> stack \<Rightarrow> stack" where
  "a_move w p = (\<lambda>(st, m). (st, if w \<in> dom m then m(w \<mapsto> p) else m))"

definition a_raise :: "wid \<Rightarrow> stack \<Rightarrow> stack" where
  "a_raise w = (\<lambda>(st, m). (if w \<in> dom m then without w st @ [w] else st, m))"

definition a_lower :: "wid \<Rightarrow> stack \<Rightarrow> stack" where
  "a_lower w = (\<lambda>(st, m). (if w \<in> dom m then w # without w st else st, m))"

definition a_raise_above :: "wid \<Rightarrow> wid \<Rightarrow> stack \<Rightarrow> stack" where
  "a_raise_above w r = (\<lambda>(st, m).
     (if w \<in> dom m \<and> r \<in> dom m \<and> w \<noteq> r then above w r (without w st) else st, m))"

definition a_put_above :: "wid \<Rightarrow> point \<Rightarrow> wid \<Rightarrow> stack \<Rightarrow> stack" where
  "a_put_above w p r = (\<lambda>(st, m).
     if r \<notin> dom m then (st, m)
     else if w \<in> dom m then a_raise_above w r (st, m)
     else (above w r st, m(w \<mapsto> p)))"

section \<open>The operations of the space\<close>

lemma map_of_filter_upd: "map_of (filter (\<lambda>e. fst e \<noteq> w) sp) = (map_of sp)(w := None)"
  by (rule ext) (simp add: map_of_filter_neq)

lemma map_fst_filter: "map fst (filter (\<lambda>e. fst e \<noteq> w) sp) = without w (map fst sp)"
  by (simp add: without_def filter_map o_def)

lemma dom_map_of_fst: "w \<in> dom (map_of sp) \<longleftrightarrow> w \<in> set (map fst sp)"
  by (simp add: dom_map_of_conv_image_fst)

lemma elem_pos_SomeD:
  "elem_pos sp w = Some i \<Longrightarrow> i < length sp \<and> fst (sp ! i) = w"
  using position_Some [of "\<lambda>e. fst e = w" sp i] by (auto simp: elem_pos_def)

lemma map_of_insert:
  "map_of xs w = None \<Longrightarrow> map_of (xs @ (w, p) # ys) = (map_of (xs @ ys))(w \<mapsto> p)"
  by (rule ext) (auto simp: map_add_def split: option.split)

text \<open>Putting an element back at any place keeps every location.\<close>

lemma map_of_reinsert:
  assumes "wf_space sp" "elem_pos sp w = Some i"
  shows "map_of (insert_elem (remove_at i sp) k (sp ! i)) = map_of sp"
proof -
  let ?r = "filter (\<lambda>e. fst e \<noteq> w) sp"
  note i = elem_pos_SomeD [OF assms(2)]
  obtain p where p: "sp ! i = (w, p)" using i by (cases "sp ! i") auto
  have m: "map_of sp w = Some p"
    using assms(1) i p by (metis map_of_eq_Some_iff nth_mem wf_space_def)
  have r: "remove_at i sp = ?r"
    using assms by (intro remove_pos_filter) (auto simp: wf_space_def elem_pos_def)
  have t: "map_of (take k ?r) w = None"
    by (auto simp: map_of_eq_None_iff dest!: in_set_takeD)
  have "map_of (take k ?r @ (w, p) # drop k ?r) = (map_of (take k ?r @ drop k ?r))(w \<mapsto> p)"
    using t by (rule map_of_insert)
  then show ?thesis using m by (simp add: insert_elem_eq p r map_of_filter_upd fun_upd_idem)
qed

lemma fst_reinsert:
  assumes "wf_space sp" "elem_pos sp w = Some i"
  shows "map fst (insert_elem (remove_at i sp) k (sp ! i)) =
    take k (without w (map fst sp)) @ w # drop k (without w (map fst sp))"
proof -
  have r: "remove_at i sp = filter (\<lambda>e. fst e \<noteq> w) sp"
    using assms by (intro remove_pos_filter) (auto simp: wf_space_def elem_pos_def)
  show ?thesis
    using elem_pos_SomeD [OF assms(2)] by (simp add: insert_elem_eq r take_map drop_map flip: map_fst_filter)
qed

lemma above_split: "r \<notin> set xs \<Longrightarrow> above w r (xs @ r # ys) = xs @ r # w # ys"
  by (induction xs) auto

lemma elem_pos_split:
  assumes "elem_pos sp r = Some k"
  shows "map fst sp = take k (map fst sp) @ r # drop (Suc k) (map fst sp)" "r \<notin> set (take k (map fst sp))"
proof -
  note k = elem_pos_SomeD [OF assms]
  then show "map fst sp = take k (map fst sp) @ r # drop (Suc k) (map fst sp)"
    by (metis id_take_nth_drop length_map nth_map)
  show "r \<notin> set (take k (map fst sp))"
    using assms
  proof (induction sp arbitrary: k)
    case (Cons e sp)
    then show ?case by (cases k) (auto simp: elem_pos_def split: if_splits)
  qed simp
qed

lemma without_absent: "w \<notin> set st \<Longrightarrow> without w st = st"
  by (induction st) (auto simp: without_def)

lemma without_split: "w \<notin> set xs \<Longrightarrow> w \<notin> set ys \<Longrightarrow> without w (xs @ w # ys) = xs @ ys"
  using without_absent [of w xs] without_absent [of w ys] by (simp add: without_def)

text \<open>Where the element lands when it is put back above another.\<close>

lemma above_index:
  assumes "wf_space sp" "elem_pos sp w = Some i" "elem_pos sp r = Some k" "w \<noteq> r"
  defines "st \<equiv> without w (map fst sp)" and "n \<equiv> (if i > k then k + 1 else k)"
  shows "take n st @ w # drop n st = above w r st"
proof -
  let ?f = "map fst sp"
  have d: "distinct ?f" using assms(1) by (simp add: wf_space_def)
  note i = elem_pos_SomeD [OF assms(2)] and k = elem_pos_SomeD [OF assms(3)]
  have ne: "i \<noteq> k" using i k assms(4) by auto
  note sw = elem_pos_split [OF assms(2)] and sr = elem_pos_split [OF assms(3)]
  have st: "st = take i ?f @ drop (Suc i) ?f"
  proof -
    have "w \<notin> set (drop (Suc i) ?f)" using d sw(1) by (metis distinct.simps(2) distinct_append)
    from without_split [OF sw(2) this] show ?thesis unfolding st_def sw(1) [symmetric] .
  qed
  show ?thesis
  proof (cases "i > k")
    case True
    have "k < length (take i ?f)" "take k (take i ?f) = take k ?f" "take i ?f ! k = r"
      using True i k by (simp_all add: min_def)
    then have "take i ?f = take k ?f @ r # drop (Suc k) (take i ?f)"
      using id_take_nth_drop [of k "take i ?f"] by metis
    then have "st = take k ?f @ r # drop (Suc k) (take i ?f) @ drop (Suc i) ?f" using st by simp
    moreover have "length (take k ?f) = k" using k by simp
    ultimately show ?thesis using True sr(2) by (simp add: n_def above_split)
  next
    case False
    with ne have ik: "i < k" by simp
    have "drop (Suc i) ?f = drop (Suc i) (take k ?f) @ r # drop (Suc k) ?f"
    proof -
      have "drop (Suc i) ?f = drop (Suc i) (take k ?f @ r # drop (Suc k) ?f)" using sr(1) by metis
      also have "\<dots> = drop (Suc i) (take k ?f) @ drop (Suc i - length (take k ?f)) (r # drop (Suc k) ?f)"
        by (rule drop_append)
      also have "Suc i - length (take k ?f) = 0" using ik k by simp
      finally show ?thesis by simp
    qed
    then have s: "st = (take i ?f @ drop (Suc i) (take k ?f)) @ r # drop (Suc k) ?f" using st by simp
    moreover have l: "length (take i ?f @ drop (Suc i) (take k ?f)) = k - 1" using ik k i by simp
    moreover have "r \<notin> set (take i ?f @ drop (Suc i) (take k ?f))"
      using sr(2) ik by (auto dest: in_set_dropD) (metis in_set_takeD min.absorb1 nat_less_le take_take)
    ultimately have "above w r st = (take i ?f @ drop (Suc i) (take k ?f)) @ r # w # drop (Suc k) ?f"
      using above_split [of r "take i ?f @ drop (Suc i) (take k ?f)" w "drop (Suc k) ?f"] by simp
    moreover have "take k st = (take i ?f @ drop (Suc i) (take k ?f)) @ [r]" "drop k st = drop (Suc k) ?f"
      unfolding s using l ik by (auto simp: take_Cons' drop_Cons')
    ultimately show ?thesis using False by (simp add: n_def)
  qed
qed

lemma position_in: "elem_pos sp w = None \<longleftrightarrow> w \<notin> dom (map_of sp)"
  by (simp add: elem_pos_None dom_map_of_fst)

lemma abs_reinsert:
  assumes "wf_space sp" "elem_pos sp w = Some i"
  shows "abs_plane (insert_elem (remove_at i sp) k (sp ! i)) =
    (take k (without w (map fst sp)) @ w # drop k (without w (map fst sp)), map_of sp)"
  by (simp add: abs_plane_def map_of_reinsert [OF assms] fst_reinsert [OF assms])

lemma in_dom: "elem_pos sp w = Some i \<Longrightarrow> w \<in> dom (map_of sp)"
  using position_in [of sp w] by simp

lemma not_in_dom: "elem_pos sp w = None \<Longrightarrow> w \<notin> dom (map_of sp)"
  using position_in [of sp w] by simp

lemma length_removed:
  assumes "wf_space sp" "elem_pos sp w = Some i"
  shows "length (remove_at i sp) = length (without w (map fst sp))"
proof -
  have "remove_at i sp = filter (\<lambda>e. fst e \<noteq> w) sp"
    using assms by (intro remove_pos_filter) (auto simp: wf_space_def elem_pos_def)
  then show ?thesis by (simp flip: map_fst_filter)
qed

lemma refines_put: "wf_space sp \<Longrightarrow> abs_plane (map_element sp w p) = a_put w p (abs_plane sp)"
  by (simp add: abs_plane_def a_put_def map_element_filter map_fst_filter map_of_filter_upd map_add_def
      fun_eq_iff split: option.split)

lemma refines_drop: "wf_space sp \<Longrightarrow> abs_plane (unmap_elem sp w) = a_drop w (abs_plane sp)"
  by (simp add: abs_plane_def a_drop_def unmap_elem_filter map_fst_filter map_of_filter_upd)

lemma refines_move: "wf_space sp \<Longrightarrow> abs_plane (relocate_element sp w p) = a_move w p (abs_plane sp)"
  using elements_relocate [of sp w p] sp.lat_move [of sp w p]
  by (auto simp: abs_plane_def a_move_def elements_def fun_eq_iff location_map_of)

lemma refines_raise: "wf_space sp \<Longrightarrow> abs_plane (raise_element sp w) = a_raise w (abs_plane sp)"
proof (cases "elem_pos sp w")
  case None
  then show ?thesis using not_in_dom [OF None] by (simp add: raise_element_def abs_plane_def a_raise_def)
next
  case (Some i)
  moreover assume "wf_space sp"
  ultimately show ?thesis using in_dom [OF Some]
    by (simp add: raise_element_def Let_def abs_reinsert length_removed a_raise_def) (simp add: abs_plane_def)
qed

lemma refines_lower: "wf_space sp \<Longrightarrow> abs_plane (lower_element sp w) = a_lower w (abs_plane sp)"
proof (cases "elem_pos sp w")
  case None
  then show ?thesis using not_in_dom [OF None] by (simp add: lower_element_def abs_plane_def a_lower_def)
next
  case (Some i)
  moreover assume "wf_space sp"
  ultimately show ?thesis using in_dom [OF Some]
    by (simp add: lower_element_def abs_reinsert a_lower_def) (simp add: abs_plane_def)
qed

text \<open>An element put back at its own place leaves the order.\<close>

lemma reinsert_self:
  assumes "wf_space sp" "elem_pos sp w = Some i"
  shows "take i (without w (map fst sp)) @ w # drop i (without w (map fst sp)) = map fst sp"
proof -
  have "insert_elem (remove_at i sp) i (sp ! i) = sp"
    using elem_pos_SomeD [OF assms(2)]
    by (simp add: insert_elem_eq remove_at_def id_take_nth_drop [symmetric])
  then show ?thesis using fst_reinsert [OF assms, of i] by simp
qed

lemma abs_above:
  assumes "wf_space sp" "elem_pos sp w = Some i" "elem_pos sp r = Some k"
  shows "abs_plane (insert_elem (remove_at i sp) (if i > k then k + 1 else k) (sp ! i)) =
    a_raise_above w r (abs_plane sp)"
proof (cases "w = r")
  case True
  then have "k = i" using assms(2,3) by simp
  with True show ?thesis
    using reinsert_self [OF assms(1,2)] by (simp add: abs_reinsert [OF assms(1,2)] a_raise_above_def) (simp add: abs_plane_def)
next
  case False
  with in_dom [OF assms(2)] in_dom [OF assms(3)] show ?thesis
    using above_index [OF assms False]
    by (simp only: abs_reinsert [OF assms(1,2)]) (simp add: abs_plane_def a_raise_above_def)
qed

lemma refines_raise_above:
  "wf_space sp \<Longrightarrow> abs_plane (raise_element_above sp w r) = a_raise_above w r (abs_plane sp)"
proof (cases "elem_pos sp w"; cases "elem_pos sp r")
  fix i k assume "wf_space sp" "elem_pos sp w = Some i" "elem_pos sp r = Some k"
  then show ?thesis using abs_above [of sp w i r k] by (simp add: raise_element_above_def)
qed (auto simp: raise_element_above_def a_raise_above_def abs_plane_def dest: not_in_dom split: option.split)

lemma refines_put_above:
  "wf_space sp \<Longrightarrow> abs_plane (map_element_above sp w p r) = a_put_above w p r (abs_plane sp)"
proof (cases "elem_pos sp r")
  case None
  then show ?thesis using not_in_dom [OF None] by (simp add: map_element_above_def a_put_above_def abs_plane_def)
next
  case (Some k)
  assume wf: "wf_space sp"
  show ?thesis
  proof (cases "elem_pos sp w")
    case None
    note sr = elem_pos_split [OF Some] and k = elem_pos_SomeD [OF Some]
    have w: "w \<notin> set (map fst sp)" using None elem_pos_None [of sp w] by simp
    have "take (Suc k) (map fst sp) @ w # drop (Suc k) (map fst sp) = above w r (map fst sp)"
      using k above_split [OF sr(2)] sr(1) by (metis append.assoc append_Cons append_Nil length_map nth_map take_Suc_conv_app_nth)
    moreover have "map_of (take (Suc k) sp @ (w, p) # drop (Suc k) sp) = (map_of sp)(w \<mapsto> p)"
    proof -
      have "map_of (take (Suc k) sp) w = None" using w by (auto simp: map_of_eq_None_iff dest!: in_set_takeD)
      then have "map_of (take (Suc k) sp @ (w, p) # drop (Suc k) sp) = (map_of (take (Suc k) sp @ drop (Suc k) sp))(w \<mapsto> p)"
        by (rule map_of_insert)
      then show ?thesis by simp
    qed
    ultimately show ?thesis
      using None Some in_dom [OF Some] not_in_dom [OF None]
      by (simp add: map_element_above_def create_inner_element_def insert_elem_eq a_put_above_def abs_plane_def
          take_map drop_map)
  next
    case (Some i)
    then show ?thesis
      using \<open>elem_pos sp r = Some k\<close> in_dom [OF Some] in_dom [OF \<open>elem_pos sp r = Some k\<close>] abs_above [OF wf Some, of r k]
      by (simp add: map_element_above_def a_put_above_def abs_plane_def)
  qed
qed

section \<open>Runs\<close>

datatype plane_op =
    Put wid point | PutAbove wid point wid | Raise wid | RaiseAbove wid wid | Lower wid
  | Move wid point | Drop wid

definition exec :: "plane_op \<Rightarrow> space \<Rightarrow> space" where
  "exec op sp = (case op of
     Put w p \<Rightarrow> map_element sp w p | PutAbove w p r \<Rightarrow> map_element_above sp w p r
   | Raise w \<Rightarrow> raise_element sp w | RaiseAbove w r \<Rightarrow> raise_element_above sp w r
   | Lower w \<Rightarrow> lower_element sp w | Move w p \<Rightarrow> relocate_element sp w p | Drop w \<Rightarrow> unmap_elem sp w)"

definition a_exec :: "plane_op \<Rightarrow> stack \<Rightarrow> stack" where
  "a_exec op = (case op of
     Put w p \<Rightarrow> a_put w p | PutAbove w p r \<Rightarrow> a_put_above w p r
   | Raise w \<Rightarrow> a_raise w | RaiseAbove w r \<Rightarrow> a_raise_above w r
   | Lower w \<Rightarrow> a_lower w | Move w p \<Rightarrow> a_move w p | Drop w \<Rightarrow> a_drop w)"

lemma exec_refines: "wf_space sp \<Longrightarrow> abs_plane (exec op sp) = a_exec op (abs_plane sp)"
  by (cases op) (simp_all add: exec_def a_exec_def refines_put refines_drop refines_move refines_raise
      refines_lower refines_raise_above refines_put_above)

lemma set_above: "set (above w r st) \<subseteq> insert w (set st)"
  by (induction st) auto

lemma distinct_above: "distinct st \<Longrightarrow> w \<notin> set st \<Longrightarrow> distinct (above w r st)"
  using set_above by (induction st) (fastforce split: if_splits)+

lemma distinct_without [simp]: "distinct st \<Longrightarrow> distinct (without w st)" "w \<notin> set (without w st)"
  by (simp_all add: without_def)

text \<open>The order holds the windows that have a place, each once.\<close>

definition wf_stack :: "stack \<Rightarrow> bool" where
  "wf_stack a \<longleftrightarrow> distinct (fst a) \<and> dom (snd a) = set (fst a)"

lemma wf_abs: "wf_space sp \<longleftrightarrow> wf_stack (abs_plane sp)"
  by (auto simp: wf_stack_def abs_plane_def wf_space_def dom_map_of_conv_image_fst)

lemma set_above_eq: "r \<in> set st \<Longrightarrow> set (above w r st) = insert w (set st)"
  by (induction st) auto

lemma wf_a_exec: "wf_stack a \<Longrightarrow> wf_stack (a_exec op a)"
  by (cases a; cases op)
    (auto simp: wf_stack_def a_exec_def a_put_def a_drop_def a_move_def a_raise_def a_lower_def
      a_raise_above_def a_put_above_def distinct_above set_above_eq without_def)

text \<open>C6: whatever operations run on a plane in whatever order, it stays free of duplicates and
  does exactly what the abstract plane does: mapping puts on top at the new place, moving keeps
  the order, raising and lowering keep the places, and unmapping forgets the window. Mapping a
  window above another one when it is mapped already moves it in the order only.\<close>

theorem space_refines_stack:
  assumes "wf_space sp"
  shows "wf_space (fold exec ops sp) \<and> abs_plane (fold exec ops sp) = fold a_exec ops (abs_plane sp)"
  using assms
proof (induction ops arbitrary: sp)
  case (Cons op ops)
  have "wf_space (exec op sp)" using wf_a_exec [of "abs_plane sp" op] Cons.prems by (simp add: wf_abs exec_refines)
  from Cons.IH [OF this] show ?case by (simp add: exec_refines [OF Cons.prems])
qed simp

lemma space_refines_stack_witness:
  "abs_plane (fold exec [PutAbove 11 (100, 100) 12, Lower 13, Drop 12] [(11, (0, 0)), (12, (5, 5)), (13, (7, 7))]) =
     ([13, 11], [11 \<mapsto> (0, 0), 13 \<mapsto> (7, 7)])"
  using space_refines_stack [of "[(11, (0, 0)), (12, (5, 5)), (13, (7, 7))]" "[PutAbove 11 (100, 100) 12, Lower 13, Drop 12]"]
  by (auto simp: wf_space_def a_exec_def a_put_above_def a_raise_above_def a_lower_def a_drop_def abs_plane_def
      without_def fun_eq_iff)

end
