(* ===== verification/Drain.thy ===== *)
theory Drain
  imports Actions Stage
begin

text \<open>
  The queue of commands that Lua callbacks leave behind
  (\<^verbatim>\<open>src/features/integration/hooks.rs\<close>): the bounded rounds of \<open>drain\<close> against the loop
  that runs until the queue is empty.
\<close>

section \<open>The loop without a bound\<close>

definition drain_round :: "rwl \<Rightarrow> rwl" where
  "drain_round s = fold apply_hook_cmd (hook_queue s) (s\<lparr>hook_queue := []\<rparr>)"

partial_function (option) drain_loop :: "rwl \<Rightarrow> rwl option" where
  "drain_loop s = (if hook_queue s = [] then Some s else drain_loop (drain_round s))"

lemma drain_loop_simps:
  "hook_queue s = [] \<Longrightarrow> drain_loop s = Some s"
  "hook_queue s \<noteq> [] \<Longrightarrow> drain_loop s = drain_loop (drain_round s)"
  by (subst drain_loop.simps; simp)+

lemma drain_rounds_Suc:
  "drain_rounds (Suc n) s = (if hook_queue s = [] then s else drain_rounds n (drain_round s))"
  by (simp add: drain_round_def)

lemma drain_rounds_loop: "hook_queue (drain_rounds n s) = [] \<Longrightarrow> drain_loop s = Some (drain_rounds n s)"
proof (induction n arbitrary: s)
  case (Suc n)
  then show ?case by (cases "hook_queue s = []") (simp_all add: drain_loop_simps drain_rounds_Suc del: drain_rounds.simps)
qed (simp add: drain_loop_simps)

text \<open>A state in which one callback calls itself again and nothing else is queued.\<close>

definition calls_itself :: "string \<Rightarrow> rwl \<Rightarrow> bool" where
  "calls_itself f s \<longleftrightarrow> lua_on s = (\<lambda>n h. if h = HkCall f then [HcDispatch (CallLua f)] else []) \<and>
     hook_queue s = [HcDispatch (CallLua f)] \<and> overview s = None"

lemma round_calls_itself:
  assumes "calls_itself f s"
  shows "calls_itself f (drain_round s) \<and> hook_count (drain_round s) = Suc (hook_count s)"
proof -
  have "drain_round s = fire (HkCall f) (s\<lparr>hook_queue := []\<rparr>)"
    using assms by (simp add: drain_round_def calls_itself_def apply_hook_cmd_def dispatch_in_def
        overview_guard_def run_action_def Let_def)
  then show ?thesis using assms by (simp add: calls_itself_def fire_def)
qed

lemma loop_calls_itself: "drain_loop s = Some r \<Longrightarrow> \<not> calls_itself f s"
proof (erule drain_loop.raw_induct [where P = "\<lambda>s r. \<not> calls_itself f s", rotated])
  fix loop x y
  assume ih: "\<And>x y. loop x = Some y \<Longrightarrow> \<not> calls_itself f x"
    and y: "(if hook_queue x = [] then Some x else loop (drain_round x)) = Some y"
  show "\<not> calls_itself f x"
  proof
    assume c: "calls_itself f x"
    then have "loop (drain_round x) = Some y" using y by (auto simp: calls_itself_def)
    from ih [OF this] round_calls_itself [OF c] show False by simp
  qed
qed

lemma rounds_calls_itself:
  "calls_itself f s \<Longrightarrow>
   calls_itself f (drain_rounds n s) \<and> hook_count (drain_rounds n s) = hook_count s + n"
proof (induction n arbitrary: s)
  case (Suc n)
  then have "hook_queue s \<noteq> []" by (simp add: calls_itself_def)
  with Suc round_calls_itself [OF Suc.prems] show ?case by (simp add: drain_rounds_Suc del: drain_rounds.simps)
qed simp

text \<open>C1: \<open>drain\<close> always returns, and when it leaves the queue empty it has done what the loop
  without a bound does. A callback that queues itself again would keep that loop from ever
  returning; \<open>drain\<close> calls it eight times and leaves its command for the next drain.\<close>

theorem drain_ends:
  "(hook_queue (drain s) = [] \<longrightarrow> drain_loop s = Some (drain s)) \<and>
   (calls_itself f s \<longrightarrow> drain_loop s = None \<and> hook_count (drain s) = hook_count s + 8 \<and>
      hook_queue (drain s) = [HcDispatch (CallLua f)])"
proof (intro conjI impI)
  assume "hook_queue (drain s) = []"
  then show "drain_loop s = Some (drain s)" using drain_rounds_loop [of 8 s] by (simp add: drain_def)
next
  assume c: "calls_itself f s"
  show "drain_loop s = None" using loop_calls_itself [of s _ f] c by (cases "drain_loop s") auto
  show "hook_count (drain s) = hook_count s + 8" "hook_queue (drain s) = [HcDispatch (CallLua f)]"
    using rounds_calls_itself [OF c, of 8] by (simp_all add: drain_def calls_itself_def)
qed

lemma drain_ends_witness:
  "let s = stage\<lparr>lua_on := (\<lambda>n h. if h = HkCall ''f'' then [HcDispatch (CallLua ''f'')] else []),
                hook_queue := [HcDispatch (CallLua ''f'')]\<rparr>
   in drain_loop s = None \<and> hook_queue (drain s) = [HcDispatch (CallLua ''f'')] \<and> drain_loop stage = Some (drain stage)"
proof -
  let ?s = "stage\<lparr>lua_on := (\<lambda>n h. if h = HkCall ''f'' then [HcDispatch (CallLua ''f'')] else []),
                hook_queue := [HcDispatch (CallLua ''f'')]\<rparr>"
  have q: "hook_queue stage = []" by (simp add: stage_def idle_def)
  then have "drain stage = stage" by (simp add: drain_def numeral_eq_Suc)
  moreover have "calls_itself ''f'' ?s" by (simp add: calls_itself_def)
  ultimately show ?thesis
    using drain_ends [of ?s "''f''"] drain_ends [of stage "''f''"] q by (simp add: Let_def)
qed

end
