(* ===== verification/Bar_Text.thy ===== *)
theory Bar_Text
  imports Socket
begin

text \<open>
  The texts of the embedded bar (\<^verbatim>\<open>src/features/shell/bar\<close>): UTF-8, colours
  (\<^verbatim>\<open>color.rs\<close>), the inline commands of the status (\<^verbatim>\<open>parse.rs\<close>) and the status blocks
  (\<^verbatim>\<open>blocks.rs\<close>). What a block's command prints and how wide a text is drawn are parameters.
\<close>

section \<open>UTF-8\<close>

definition byte :: "char \<Rightarrow> nat" where
  "byte c = of_char c"

definition is_cont :: "char \<Rightarrow> bool" where
  "is_cont c \<longleftrightarrow> 128 \<le> byte c \<and> byte c < 192"

text \<open>The length of the character a text starts with, if it is a valid one.\<close>

definition lead_len :: "nat \<Rightarrow> nat" where
  "lead_len b = (if b < 128 then 1 else if 194 \<le> b \<and> b \<le> 223 then 2 else if 224 \<le> b \<and> b \<le> 239 then 3
     else if 240 \<le> b \<and> b \<le> 244 then 4 else 0)"

definition second_ok :: "nat \<Rightarrow> nat \<Rightarrow> bool" where
  "second_ok b d \<longleftrightarrow> \<not> (b = 224 \<and> d < 160 \<or> b = 237 \<and> d > 159 \<or> b = 240 \<and> d < 144 \<or> b = 244 \<and> d > 143)"

definition char_len :: "string \<Rightarrow> nat option" where
  "char_len s = (case s of
     [] \<Rightarrow> None
   | c # cs \<Rightarrow>
       let n = lead_len (byte c) in
       if n = 0 \<or> length (takeWhile is_cont (take (n - 1) cs)) \<noteq> n - 1 then None
       else if n > 1 \<and> \<not> second_ok (byte c) (byte (hd cs)) then None
       else Some n)"

lemma char_len_Some:
  "char_len (c # cs) = Some n \<Longrightarrow> n = lead_len (byte c) \<and> 0 < n \<and> n - 1 \<le> length cs"
  using length_takeWhile_le [of is_cont "take (n - 1) cs"]
  by (auto simp: char_len_def Let_def split: if_splits)

lemma char_len_pos: "char_len s = Some n \<Longrightarrow> 0 < n \<and> n \<le> length s"
  by (cases s) (auto simp: char_len_def [of "[]"] dest: char_len_Some)

function utf8_ok :: "string \<Rightarrow> bool" where
  "utf8_ok s = (s = [] \<or> (case char_len s of None \<Rightarrow> False | Some n \<Rightarrow> utf8_ok (drop n s)))"
  by pat_completeness auto
termination
  by (relation "measure length") (auto dest: char_len_pos)

declare utf8_ok.simps [simp del]

text \<open>\<open>String::pop\<close>: the last character with all its bytes.\<close>

definition pop_char :: "string \<Rightarrow> string" where
  "pop_char s = rev (tl (dropWhile is_cont (rev s)))"

section \<open>Colours\<close>

record colour =
  red :: nat
  green :: nat
  blue :: nat
  alpha :: nat

definition hex_of_char :: "char \<Rightarrow> nat option" where
  "hex_of_char c = (let b = byte c in
     if 48 \<le> b \<and> b \<le> 57 then Some (b - 48) else if 97 \<le> b \<and> b \<le> 102 then Some (b - 87)
     else if 65 \<le> b \<and> b \<le> 70 then Some (b - 55) else None)"

fun hex_digits :: "nat \<Rightarrow> string \<Rightarrow> nat option" where
  "hex_digits acc [] = Some acc"
| "hex_digits acc (c # cs) = (case hex_of_char c of None \<Rightarrow> None | Some d \<Rightarrow> hex_digits (16 * acc + d) cs)"

text \<open>\<open>u32::from_str_radix(s, 16)\<close>.\<close>

definition from_hex :: "string \<Rightarrow> nat option" where
  "from_hex s = (let body = (if prefix ''+'' s then tl s else s) in
     if body = [] then None
     else case hex_digits 0 body of None \<Rightarrow> None | Some n \<Rightarrow> if n < 2 ^ 32 then Some n else None)"

definition channel :: "nat \<Rightarrow> nat" where
  "channel n = n mod 256 * 257"

definition parse_color :: "string \<Rightarrow> colour option" where
  "parse_color t =
     (let s = (if prefix ''#'' t then tl t else t) in
      if (length s \<noteq> 6 \<and> length s \<noteq> 8) \<or> hex_of_char (hd s) = None then None
      else map_option (\<lambda>p. let rgb = (if length s = 8 then p div 256 else p) in
             \<lparr>red = channel (rgb div 65536), green = channel (rgb div 256), blue = channel rgb,
              alpha = (if length s = 8 then channel p else 65535)\<rparr>) (from_hex s))"

definition hex_to_rust_color :: "u32 \<Rightarrow> colour" where
  "hex_to_rust_color hex = (let n = unat hex in
     \<lparr>red = channel (n div 16777216), green = channel (n div 65536), blue = channel (n div 256), alpha = channel n\<rparr>)"

definition parse_hex_color :: "string \<Rightarrow> colour option" where
  "parse_hex_color s =
     (if \<not> prefix ''#'' s then None
      else let hex = tl s in case from_hex hex of
        None \<Rightarrow> None
      | Some n \<Rightarrow>
          if length hex = 6
          then Some \<lparr>red = channel (n div 65536), green = channel (n div 256), blue = channel n, alpha = 65535\<rparr>
          else if length hex = 8
          then Some \<lparr>red = channel (n div 16777216), green = channel (n div 65536), blue = channel (n div 256),
                     alpha = channel n\<rparr>
          else None)"

section \<open>Inline commands\<close>

definition TEXT_MAX :: nat where "TEXT_MAX = 2048"

record text_color =
  tc_color :: colour
  tc_is_bg :: bool
  tc_start :: nat

type_synonym custom_text = "string \<times> text_color list"

definition parse_command :: "string \<Rightarrow> (string \<times> string \<times> nat) option" where
  "parse_command src = (case position (\<lambda>b. b = CHR ''('') src of
     None \<Rightarrow> None
   | Some o' \<Rightarrow> (case position (\<lambda>b. b = CHR '')'') (drop (o' + 1) src) of
       None \<Rightarrow> None
     | Some p \<Rightarrow>
         let cmd = take o' src; arg = take p (drop (o' + 1) src) in
         if utf8_ok cmd \<and> utf8_ok arg then Some (cmd, arg, p + o' + 2) else None))"

text \<open>The colours of \<^verbatim>\<open>^bg(c)\<close> and \<^verbatim>\<open>^fg(c)\<close>; an empty or unreadable one is the inactive colour.\<close>

definition color_command :: "colour \<Rightarrow> colour \<Rightarrow> string \<Rightarrow> string \<Rightarrow> nat \<Rightarrow> text_color list" where
  "color_command bg fg cmd arg start =
     (if cmd = ''bg'' then [\<lparr>tc_color = unwrap_or (parse_color arg) bg, tc_is_bg = True, tc_start = start\<rparr>]
      else if cmd = ''fg'' then [\<lparr>tc_color = unwrap_or (parse_color arg) fg, tc_is_bg = False, tc_start = start\<rparr>]
      else [])"

function custom_loop :: "colour \<Rightarrow> colour \<Rightarrow> string \<Rightarrow> string \<Rightarrow> text_color list \<Rightarrow> custom_text" where
  "custom_loop bg fg inp out cols =
     (if inp = [] \<or> length out \<ge> TEXT_MAX - 1 then (out, cols)
      else
        let caret = (hd inp = CHR ''^''); r = (if caret then tl inp else inp) in
        if r = [] then (out, cols)
        else if caret \<and> hd r \<noteq> CHR ''^''
        then (case parse_command r of
                Some (cmd, arg, n) \<Rightarrow> custom_loop bg fg (drop n r) out (cols @ color_command bg fg cmd arg (length out))
              | None \<Rightarrow> custom_loop bg fg r out cols)
        else if \<not> utf8_ok r then (out, cols)
        else case char_len r of
               None \<Rightarrow> (out, cols) | Some k \<Rightarrow> custom_loop bg fg (drop k r) (out @ take k r) cols)"
  by pat_completeness auto
termination
  by (relation "measure (\<lambda>(bg, fg, inp, out, cols). length inp)")
    (auto simp: Let_def dest!: char_len_pos split: if_splits)

declare custom_loop.simps [simp del]

text \<open>\<open>chars().take(n)\<close>.\<close>

fun take_chars :: "nat \<Rightarrow> string \<Rightarrow> string" where
  "take_chars 0 s = []"
| "take_chars (Suc n) s = (case char_len s of None \<Rightarrow> [] | Some k \<Rightarrow> take k s @ take_chars n (drop k s))"

definition parse_into_customtext :: "bool \<Rightarrow> colour \<Rightarrow> colour \<Rightarrow> string \<Rightarrow> custom_text" where
  "parse_into_customtext status_commands bg fg txt =
     (if \<not> status_commands then (take_chars (TEXT_MAX - 1) txt, []) else custom_loop bg fg txt [] [])"

section \<open>Terminal escapes\<close>

abbreviation ESC :: char where "ESC \<equiv> CHR 0x1B"

text \<open>The length of the parameters of a control sequence, up to its final byte.\<close>

definition csi_params :: "string \<Rightarrow> nat" where
  "csi_params s = length (takeWhile (\<lambda>c. \<not> (64 \<le> byte c \<and> byte c \<le> 126)) s)"

text \<open>\<open>strip_ansi\<close>: the visible text of a line.\<close>

function strip_ansi :: "string \<Rightarrow> string" where
  "strip_ansi [] = []"
| "strip_ansi (c # cs) =
     (if c = ESC
      then (case cs of
          [] \<Rightarrow> []
        | d # ds \<Rightarrow> if d = CHR ''['' then strip_ansi (drop (csi_params ds + 1) ds) else strip_ansi cs)
      else case char_len (c # cs) of
          None \<Rightarrow> [] | Some n \<Rightarrow> take n (c # cs) @ strip_ansi (drop n (c # cs)))"
  by pat_completeness auto
termination
  by (relation "measure length") (auto dest: char_len_pos)

declare strip_ansi.simps(2) [simp del]

fun split_char :: "char \<Rightarrow> string \<Rightarrow> string list" where
  "split_char c [] = [[]]"
| "split_char c (d # s) =
     (if d = c then [] # split_char c s
      else case split_char c s of [] \<Rightarrow> [[d]] | w # us \<Rightarrow> (d # w) # us)"

text \<open>The reverse video a sequence of parameters leaves, and whether it said anything about it.\<close>

definition sgr_param :: "string \<Rightarrow> bool \<times> bool \<Rightarrow> bool \<times> bool" where
  "sgr_param p st =
     (if p = [] \<or> p = ''0'' \<or> p = ''27'' then (False, True) else if p = ''7'' then (True, True) else st)"

definition sgr :: "string \<Rightarrow> bool \<Rightarrow> bool \<times> bool" where
  "sgr params reverse = fold sgr_param (split_char (CHR '';'') params) (if params = [] then (False, True) else (reverse, False))"

text \<open>\<open>parse_ansi\<close>: the visible text and the colours of its reverse runs.\<close>

function ansi_loop :: "colour \<Rightarrow> colour \<Rightarrow> colour \<Rightarrow> bool \<Rightarrow> string \<Rightarrow> string \<Rightarrow> text_color list \<Rightarrow> custom_text" where
  "ansi_loop fg bg accent rv [] out cols = (out, cols)"
| "ansi_loop fg bg accent rv (c # cs) out cols =
     (if c = ESC
      then (case cs of
          [] \<Rightarrow> (out, cols)
        | d # ds \<Rightarrow>
            if d \<noteq> CHR ''['' then ansi_loop fg bg accent rv cs out cols
            else
              let j = csi_params ds;
                  (rv', changed) = (if j < length ds \<and> ds ! j = CHR ''m'' then sgr (take j ds) rv else (rv, False));
                  cell = (if rv' then (bg, accent) else (fg, bg));
                  cols' = (if changed
                    then cols @ [\<lparr>tc_color = fst cell, tc_is_bg = False, tc_start = length out\<rparr>,
                      \<lparr>tc_color = snd cell, tc_is_bg = True, tc_start = length out\<rparr>] else cols)
              in ansi_loop fg bg accent rv' (drop (j + 1) ds) out cols')
      else case char_len (c # cs) of
          None \<Rightarrow> (out, cols)
        | Some n \<Rightarrow> ansi_loop fg bg accent rv (drop n (c # cs)) (out @ take n (c # cs)) cols)"
  by pat_completeness auto
termination
  by (relation "measure (\<lambda>(_, _, _, _, s, _, _). length s)") (auto dest: char_len_pos)

declare ansi_loop.simps(2) [simp del]

definition parse_ansi :: "colour \<Rightarrow> colour \<Rightarrow> colour \<Rightarrow> string \<Rightarrow> custom_text" where
  "parse_ansi fg bg accent line =
     (let (out, cols) = ansi_loop fg bg accent False line [] []
      in (if CHR 0x00 \<in> set out then [] else out, cols))"

section \<open>Blocks\<close>

definition CMDLENGTH :: nat where "CMDLENGTH = 50"
definition STARTUP_SETTLE_TICKS :: nat where "STARTUP_SETTLE_TICKS = 5"

record block =
  bk_icon :: string
  bk_command :: string
  bk_interval :: nat
  bk_signal :: nat

definition trim_end_lf :: "string \<Rightarrow> string" where
  "trim_end_lf s = rev (dropWhile (\<lambda>c. c = LF) (rev s))"

text \<open>\<open>stdout\<close>: what the command prints if it succeeds.\<close>

definition getcmd :: "(string \<Rightarrow> string option) \<Rightarrow> block \<Rightarrow> string" where
  "getcmd stdout b = bk_icon b @ (case stdout (bk_command b) of
     None \<Rightarrow> [] | Some raw \<Rightarrow> take_chars (CMDLENGTH - length (bk_icon b) - 2) (trim_end_lf raw))"

definition initial_cache :: "(string \<Rightarrow> string option) \<Rightarrow> block list \<Rightarrow> string list" where
  "initial_cache stdout bs = map (getcmd stdout) bs"

definition due :: "nat \<Rightarrow> u32 \<Rightarrow> block \<Rightarrow> bool" where
  "due time signals b \<longleftrightarrow>
     time = 0 \<or> time = 4294967295 \<or> (bk_interval b \<noteq> 0 \<and> time mod bk_interval b = 0) \<or>
     (bk_interval b = 0 \<and> time \<le> STARTUP_SETTLE_TICKS) \<or>
     (bk_signal b \<noteq> 0 \<and> drop_bit (bk_signal b mod 32) signals AND 1 = 1)"

definition update_cache ::
  "(string \<Rightarrow> string option) \<Rightarrow> nat \<Rightarrow> u32 \<Rightarrow> string list \<Rightarrow> block list \<Rightarrow> string list" where
  "update_cache stdout time signals prev bs =
     map (\<lambda>(b, old). if due time signals b then getcmd stdout b else old) (zip bs prev)"

fun join_blocks :: "string \<Rightarrow> string \<Rightarrow> nat \<Rightarrow> string list \<Rightarrow> string \<times> nat list" where
  "join_blocks delim acc i [] = (acc, [])"
| "join_blocks delim acc i (p # ps) =
     (let acc' = (if i > 0 then acc @ delim else acc) @ p; (txt, bounds) = join_blocks delim acc' (Suc i) ps
      in (txt, length acc' # bounds))"

definition build_status_bounds :: "string list \<Rightarrow> string \<Rightarrow> string \<times> nat list" where
  "build_status_bounds cache delim = join_blocks delim [] 0 cache"

text \<open>\<open>measure\<close>: the width of a text in the bar's font.\<close>

fun char_floor :: "string \<Rightarrow> nat \<Rightarrow> nat" where
  "char_floor raw 0 = 0"
| "char_floor raw (Suc n) = (if Suc n < length raw \<and> is_cont (raw ! Suc n) then char_floor raw n else Suc n)"

definition compute_pix_ends :: "(string \<Rightarrow> nat) \<Rightarrow> string \<Rightarrow> nat list \<Rightarrow> nat list" where
  "compute_pix_ends width raw bounds = map (\<lambda>b. width (take (char_floor raw (min b (length raw))) raw)) bounds"

text \<open>
  A turn of the blocks thread: a reloaded list of blocks is run at once; the status is published
  when its hash is not the one published last. \<open>hash\<close> is the hasher of the standard library.
\<close>

record blocks_state =
  bt_blocks :: "block list"
  bt_delim :: string
  bt_cache :: "string list"
  bt_hash :: nat
  bt_time :: nat

definition blocks_start :: "(string \<Rightarrow> string option) \<Rightarrow> block list \<Rightarrow> string \<Rightarrow> blocks_state" where
  "blocks_start stdout bs delim =
     \<lparr>bt_blocks = bs, bt_delim = delim, bt_cache = initial_cache stdout bs, bt_hash = 0, bt_time = 0\<rparr>"

definition blocks_reload ::
  "(string \<Rightarrow> string option) \<Rightarrow> (block list \<times> string) option \<Rightarrow> blocks_state \<Rightarrow> blocks_state" where
  "blocks_reload stdout pending st = (case pending of
     None \<Rightarrow> st
   | Some (bs, delim) \<Rightarrow> st\<lparr>bt_blocks := bs, bt_delim := delim, bt_cache := initial_cache stdout bs, bt_hash := 0\<rparr>)"

definition blocks_turn ::
  "(string \<Rightarrow> nat) \<Rightarrow> (string \<Rightarrow> string option) \<Rightarrow> u32 \<Rightarrow> (block list \<times> string) option \<Rightarrow> blocks_state \<Rightarrow>
   blocks_state \<times> (string \<times> nat list) option" where
  "blocks_turn hash stdout signals pending st0 =
     (let st = blocks_reload stdout pending st0;
          cache = update_cache stdout (bt_time st) signals (bt_cache st) (bt_blocks st);
          (txt, bounds) = build_status_bounds cache (bt_delim st);
          h = hash txt
      in (st\<lparr>bt_cache := cache, bt_hash := h, bt_time := (bt_time st + 1) mod 2 ^ 32\<rparr>,
          if h = bt_hash st then None else Some (txt, bounds)))"

end
