(* ===== verification/Bar.thy ===== *)
theory Bar
  imports Bar_Text
begin

text \<open>
  The embedded bar (\<^verbatim>\<open>src/features/shell/bar/mod.rs\<close>): a thread with a connection of its own
  that shows the status lines of the compositor. Its state is one record per output and the
  pointer, hover and block state; surfaces are whether they exist, and what is drawn, the font
  and the executables on the path are parameters.
\<close>

section \<open>State\<close>

record bar =
  b_global :: nat
  b_name :: "string option"
  b_shown :: bool
  b_mtags :: u32
  b_ctags :: u32
  b_urg :: u32
  b_sel :: u32
  b_layout :: "string option"
  b_title :: "string option"
  b_layout_idx :: nat
  b_title_error :: bool
  b_title_override :: "(string \<times> nat \<times> colour option) option"
  b_status :: custom_text
  b_pix_ends :: "nat list"
  b_pending_ctags :: u32
  b_pending_mtags :: u32
  b_pending_urg :: u32
  b_hidden :: bool
  b_bottom :: bool
  b_redraw :: bool
  b_dead :: bool
  b_configured :: bool
  b_width :: nat
  b_height :: nat
  b_textpadding :: nat
  b_prompt :: bool
  b_keyboard :: bool
  b_buffer :: string
  b_hidden_before_prompt :: bool
  b_hidden_before_title :: bool
  b_query :: "string option"
  b_index :: nat
  b_commands :: "string list"
  b_history :: "string list"
  b_history_index :: "nat option"
  b_temp :: string

definition bar_new :: "nat \<Rightarrow> bool \<Rightarrow> bool \<Rightarrow> nat \<Rightarrow> nat \<Rightarrow> bar" where
  "bar_new global hidden bottom height padding = \<lparr>b_global = global, b_name = None, b_shown = False,
     b_mtags = 0, b_ctags = 0, b_urg = 0, b_sel = 0, b_layout = None, b_title = None, b_layout_idx = 0,
     b_title_error = False, b_title_override = None, b_status = ([], []), b_pix_ends = [],
     b_pending_ctags = 0, b_pending_mtags = 0, b_pending_urg = 0, b_hidden = hidden, b_bottom = bottom,
     b_redraw = False, b_dead = False, b_configured = False, b_width = 0, b_height = height, b_textpadding = padding,
     b_prompt = False, b_keyboard = False, b_buffer = [], b_hidden_before_prompt = False,
     b_hidden_before_title = False, b_query = None, b_index = 0, b_commands = [], b_history = [],
     b_history_index = None, b_temp = []\<rparr>"

text \<open>
  The settings of the bar that its operations read (\<^verbatim>\<open>Config\<close>), with the height and the
  padding the font gives; \<open>None\<close> if no font can be loaded. A hover widget is the block it belongs
  to and its lines; \<open>ran\<close> are the commands started.
\<close>

record bar_conf =
  bc_hidden :: bool
  bc_bottom :: bool
  bc_status_commands :: bool
  bc_scale :: nat
  bc_inactive_bg :: colour
  bc_inactive_fg :: colour
  bc_geometry :: "(nat \<times> nat) option"
  bc_tag_names :: "string list"
  bc_actions :: "(string \<times> string) list"

record bar_state =
  bconf :: bar_conf
  bar_height :: nat
  textpadding :: nat
  tag_names :: "string list"
  layout_names :: "string list"
  bars :: "bar list"
  ready :: bool
  pointer_focus :: "nat option"
  pointer_x :: f64
  block_actions :: "(string \<times> string) list"
  hover_target :: "(nat \<times> nat) option"
  widget :: "(nat \<times> nat \<times> string list) option"
  hover_generation :: nat
  hover_requests :: "(nat \<times> nat \<times> nat \<times> string) list"
  ran :: "string list"
  notification :: bool
  stdin_buf :: string

definition upd_bar :: "nat \<Rightarrow> (bar \<Rightarrow> bar) \<Rightarrow> bar_state \<Rightarrow> bar_state" where
  "upd_bar i f st = st\<lparr>bars := update_at i f (bars st)\<rparr>"

definition custom_text_of :: "bar_conf \<Rightarrow> string \<Rightarrow> custom_text" where
  "custom_text_of c txt = parse_into_customtext (bc_status_commands c) (bc_inactive_bg c) (bc_inactive_fg c) txt"

section \<open>Showing and hiding\<close>

definition show_bar :: "bar \<Rightarrow> bar" where
  "show_bar b = b\<lparr>b_shown := True\<rparr>"

definition hide_bar :: "bar \<Rightarrow> bar" where
  "hide_bar b = (if b_shown b then b\<lparr>b_shown := False, b_configured := False, b_keyboard := False\<rparr> else b)"

definition set_side :: "bool \<Rightarrow> bar \<Rightarrow> bar" where
  "set_side bottom b = (let b1 = b\<lparr>b_bottom := bottom\<rparr> in if b_shown b1 then b1\<lparr>b_redraw := True\<rparr> else b1)"

definition toggle_bar :: "bar \<Rightarrow> bar" where
  "toggle_bar b = (if b_shown b then hide_bar b else show_bar b)"

text \<open>The layer surface of the bar was given a size; \<open>scale\<close> is the one of the buffers.\<close>

definition configure_bar :: "nat \<Rightarrow> nat \<Rightarrow> nat \<Rightarrow> bar \<Rightarrow> bar" where
  "configure_bar scale w0 h0 b =
     (let w = (if w0 > 0 then w0 * scale mod 2 ^ 32 else b_width b);
          h = (if h0 > 0 then h0 * scale mod 2 ^ 32 else b_height b)
      in if \<not> b_shown b then b
         else if b_configured b \<and> w = b_width b \<and> h = b_height b then b
         else b\<lparr>b_width := w, b_height := h, b_configured := True, b_redraw := True\<rparr>)"

text \<open>What the title place shows: the prompt, a title of the socket, or the window's.\<close>

definition prompt_ghost :: "bar \<Rightarrow> string" where
  "prompt_ghost b =
     (if b_buffer b = [] then []
      else case List.find (prefix (b_buffer b)) (b_commands b) of
        Some c \<Rightarrow> drop (length (b_buffer b)) c | None \<Rightarrow> [])"

definition shown_title :: "nat \<Rightarrow> bar \<Rightarrow> string option \<times> colour option" where
  "shown_title time b =
     (if b_prompt b then (Some (''Run: '' @ b_buffer b @ ''|'' @ prompt_ghost b), None)
      else let own = (b_title b, if b_title_error b
                then Some \<lparr>red = channel 0xff, green = channel 0x33, blue = channel 0x33, alpha = 65535\<rparr> else None)
        in case b_title_override b of
          Some (txt, until, col) \<Rightarrow> if time < until then (Some txt, col) else own
        | None \<Rightarrow> own)"

section \<open>Outputs\<close>

definition setup_bar :: "nat \<Rightarrow> bar_state \<Rightarrow> bar_state" where
  "setup_bar i st = upd_bar i (\<lambda>b. if b_hidden b then b else show_bar b) st"

definition bar_added :: "nat \<Rightarrow> bar_state \<Rightarrow> bar_state" where
  "bar_added global st =
     (let b = bar_new global (bc_hidden (bconf st)) (bc_bottom (bconf st)) (bar_height st) (textpadding st);
          i = length (bars st); st1 = st\<lparr>bars := bars st @ [b]\<rparr>
      in if ready st1 then setup_bar i st1 else st1)"

definition bar_removed :: "nat \<Rightarrow> bar_state \<Rightarrow> bar_state" where
  "bar_removed global st = (case position (\<lambda>b. \<not> b_dead b \<and> b_global b = global) (bars st) of
     None \<Rightarrow> st
   | Some i \<Rightarrow> upd_bar i (\<lambda>b. (hide_bar b)\<lparr>b_dead := True\<rparr>) st)"

definition bar_named :: "nat \<Rightarrow> string \<Rightarrow> bar_state \<Rightarrow> bar_state" where
  "bar_named i name st = upd_bar i (\<lambda>b. b\<lparr>b_name := Some name\<rparr>) st"

text \<open>The start of the loop: every output's bar is set up.\<close>

definition bars_ready :: "bar_state \<Rightarrow> bar_state" where
  "bars_ready st = fold (\<lambda>i st. if b_dead (bars st ! i) then st else setup_bar i st) [0..<length (bars st)]
     (st\<lparr>ready := True\<rparr>)"

section \<open>The protocol of a bar (dwl-ipc)\<close>

datatype tag_state = TagNone | TagActive | TagUrgent

datatype dwl_event =
  ToggleVisibility
  | Active u32
  | TagEvent nat tag_state nat
  | LayoutIndex nat
  | TitleEvent string
  | LayoutSymbol string
  | FrameEvent

definition dwl_tags :: "nat \<Rightarrow> bar_state \<Rightarrow> bar_state" where
  "dwl_tags amount st =
     st\<lparr>tag_names := take amount (tag_names st @ map (show_nat \<circ> Suc) [length (tag_names st)..<amount])\<rparr>"

definition dwl_layout :: "string \<Rightarrow> bar_state \<Rightarrow> bar_state" where
  "dwl_layout name st = st\<lparr>layout_names := layout_names st @ [name]\<rparr>"

definition pend_tag :: "nat \<Rightarrow> tag_state \<Rightarrow> nat \<Rightarrow> bar \<Rightarrow> bar" where
  "pend_tag tag ts holders b =
     (let b1 = (case ts of
            TagActive \<Rightarrow> b\<lparr>b_pending_ctags := b_pending_ctags b OR shl1 tag\<rparr>
          | TagUrgent \<Rightarrow> b\<lparr>b_pending_urg := b_pending_urg b OR shl1 tag\<rparr>
          | TagNone \<Rightarrow> b)
      in if holders > 0 then b1\<lparr>b_pending_mtags := b_pending_mtags b1 OR shl1 tag\<rparr> else b1)"

definition frame_bar :: "bar \<Rightarrow> bar" where
  "frame_bar b = b\<lparr>b_ctags := b_pending_ctags b, b_mtags := b_pending_mtags b, b_urg := b_pending_urg b,
     b_pending_ctags := 0, b_pending_mtags := 0, b_pending_urg := 0, b_redraw := True\<rparr>"

definition dwl_output :: "nat \<Rightarrow> dwl_event \<Rightarrow> bar_state \<Rightarrow> bar_state" where
  "dwl_output i ev st = (case ev of
     ToggleVisibility \<Rightarrow> upd_bar i toggle_bar st
   | Active v \<Rightarrow> upd_bar i (\<lambda>b. b\<lparr>b_sel := v\<rparr>) st
   | TagEvent tag ts holders \<Rightarrow> upd_bar i (pend_tag tag ts holders) st
   | LayoutIndex l \<Rightarrow> upd_bar i (\<lambda>b. b\<lparr>b_layout_idx := l, b_layout := get_at (layout_names st) l\<rparr>) st
   | TitleEvent t \<Rightarrow> upd_bar i (\<lambda>b. b\<lparr>b_title := Some t\<rparr>) st
   | LayoutSymbol l \<Rightarrow> upd_bar i (\<lambda>b. b\<lparr>b_layout := Some l\<rparr>) st
   | FrameEvent \<Rightarrow> upd_bar i frame_bar st)"

section \<open>The status of the compositor\<close>

text \<open>One line of a bar: the facts it shows.\<close>

definition show_tags :: "u32 list \<Rightarrow> bar \<Rightarrow> bar" where
  "show_tags ns b = (case ns of
     occupied # selected # focused # urgent # _ \<Rightarrow>
       b\<lparr>b_ctags := occupied, b_mtags := selected, b_urg := urgent,
         b_redraw := (b_redraw b \<or> occupied \<noteq> b_ctags b \<or> selected \<noteq> b_mtags b \<or> urgent \<noteq> b_urg b)\<rparr>
   | _ \<Rightarrow> b)"

definition bar_line :: "string \<Rightarrow> string \<Rightarrow> bar \<Rightarrow> bar" where
  "bar_line cmd arg b =
     (if cmd = ''tags'' then show_tags (List.map_filter parse_u32 (split_ws arg)) b
      else if cmd = ''layout'' then b\<lparr>b_layout := Some arg, b_redraw := True\<rparr>
      else if cmd = ''title'' then b\<lparr>b_title := Some arg, b_title_error := False, b_redraw := True\<rparr>
      else if cmd = ''title_error'' then b\<lparr>b_title := Some arg, b_title_error := True, b_redraw := True\<rparr>
      else if cmd = ''selmon'' then
        let v = unwrap_or (parse_u32 (trim arg)) 0
        in if v \<noteq> b_sel b then b\<lparr>b_sel := v, b_redraw := True\<rparr> else b
      else b)"

definition bar_of :: "string \<Rightarrow> bar list \<Rightarrow> nat option" where
  "bar_of output bs = position (\<lambda>b. \<not> b_dead b \<and> b_name b = Some output) bs"

definition process_line :: "string \<Rightarrow> bar list \<Rightarrow> bar list" where
  "process_line line bs = (case split_once (CHR '' '') line of
     None \<Rightarrow> bs
   | Some (output, r) \<Rightarrow> (case bar_of output bs of
       None \<Rightarrow> bs
     | Some i \<Rightarrow>
         let (cmd, arg) = unwrap_or (split_once (CHR '' '') r) (r, []) in update_at i (bar_line cmd arg) bs))"

definition process_stdin_buf :: "string \<Rightarrow> bar list \<Rightarrow> bar list" where
  "process_stdin_buf buf bs = fold process_line (str_lines buf) bs"

text \<open>The part up to the last line feed, and what follows it.\<close>

definition complete_lines :: "string \<Rightarrow> string \<times> string" where
  "complete_lines s =
     (let tail = rev (takeWhile (\<lambda>c. c \<noteq> LF) (rev s)) in (take (length s - length tail) s, tail))"

text \<open>
  The pipe is readable: \<open>chunks\<close> are the reads of up to 4,096 bytes until it is empty. A read
  that is not valid text by itself is dropped.
\<close>

definition take_status :: "string \<Rightarrow> bar_state \<Rightarrow> bar_state" where
  "take_status t st =
     (let buf = stdin_buf st @ t; (full, tail) = complete_lines buf
      in if LF \<in> set buf
         then st\<lparr>bars := process_stdin_buf full (bars st), stdin_buf := tail\<rparr>
         else st\<lparr>stdin_buf := buf\<rparr>)"

definition ipc_ready :: "string list \<Rightarrow> bar_state \<Rightarrow> bar_state" where
  "ipc_ready chunks st = take_status (concat (filter utf8_ok chunks)) st"

section \<open>Blocks under the pointer\<close>

definition f_as_u32 :: "f64 \<Rightarrow> nat" where
  "f_as_u32 x = (case x of
     Fin q \<Rightarrow> nat (min (max (trunc_rat q) 0) 4294967295) | FInf neg \<Rightarrow> (if neg then 0 else 4294967295) | FNaN \<Rightarrow> 0)"

definition block_at :: "bar_state \<Rightarrow> nat \<Rightarrow> f64 \<Rightarrow> nat option" where
  "block_at st i x = (case get_at (bars st) i of
     None \<Rightarrow> None
   | Some b \<Rightarrow>
       if b_pix_ends b = [] \<or> last (b_pix_ends b) = 0 then None
       else
         let px = min (f_as_u32 (f_max x (f_lit 0)) * max (bc_scale (bconf st)) 1) 4294967295;
             start = b_width b - b_textpadding b - last (b_pix_ends b)
         in if px < start then None else position (\<lambda>e. px - start < e) (b_pix_ends b))"

definition clear_hover :: "bar_state \<Rightarrow> bar_state" where
  "clear_hover st = st\<lparr>hover_target := None, widget := None\<rparr>"

definition update_hover :: "nat \<Rightarrow> bar_state \<Rightarrow> bar_state" where
  "update_hover i st =
     (let target = map_option (\<lambda>k. (i, k)) (block_at st i (pointer_x st)) in
      if target = hover_target st then st
      else
        let g = (hover_generation st + 1) mod 2 ^ 64;
            st1 = st\<lparr>hover_target := target, widget := None, hover_generation := g\<rparr>
        in case target of
             None \<Rightarrow> st1
           | Some (bi, k) \<Rightarrow>
               let cmd = (case get_at (block_actions st) k of Some a \<Rightarrow> snd a | None \<Rightarrow> []) in
               if cmd = [] then st1
               else st1\<lparr>hover_requests := hover_requests st1 @ [(g, bi, k, cmd)]\<rparr>)"

text \<open>
  A finished hover command: shown if the pointer is still on its block, the bar still has blocks
  and something of the output is visible.
\<close>

definition WIDGET_MAX_LINES :: nat where "WIDGET_MAX_LINES = 256"
definition WIDGET_MAX_DIM :: nat where "WIDGET_MAX_DIM = 4096"

definition widget_text_width :: "(string \<Rightarrow> nat) \<Rightarrow> string list \<Rightarrow> nat" where
  "widget_text_width text_width ls = fold max (map (text_width \<circ> strip_ansi) ls) 0"

definition hover_ready :: "(string \<Rightarrow> nat) \<Rightarrow> nat \<Rightarrow> nat \<Rightarrow> nat \<Rightarrow> string list \<Rightarrow> bar_state \<Rightarrow> bar_state" where
  "hover_ready text_width g bi k out st =
     (let ls = take WIDGET_MAX_LINES out in
      if g \<noteq> hover_generation st \<or> hover_target st \<noteq> Some (bi, k) \<or> widget st \<noteq> None then st
      else if widget_text_width text_width ls = 0 then st
      else case get_at (bars st) bi of
        None \<Rightarrow> st
      | Some b \<Rightarrow> if b_pix_ends b = [] \<or> last (b_pix_ends b) = 0 then st else st\<lparr>widget := Some (bi, k, ls)\<rparr>)"

text \<open>The size of the widget's buffer, and its size and margins in logical pixels.\<close>

record widget_place =
  wp_width :: nat
  wp_height :: nat
  wp_w_logical :: nat
  wp_h_logical :: nat
  wp_margin_right :: nat
  wp_margin_v :: nat

definition sat_u32 :: "nat \<Rightarrow> nat" where
  "sat_u32 n = min n 4294967295"

definition div_ceil :: "nat \<Rightarrow> nat \<Rightarrow> nat" where
  "div_ceil a b = (a + b - 1) div b"

definition place_widget :: "nat \<Rightarrow> nat \<Rightarrow> nat \<Rightarrow> nat \<Rightarrow> nat \<Rightarrow> nat \<Rightarrow> bar \<Rightarrow> widget_place" where
  "place_widget scale0 pad font_height text_w n_lines k b =
     (let line_h = max font_height 1; scale = max scale0 1; full_w = last (b_pix_ends b);
          w = min (sat_u32 (text_w + sat_u32 (pad * 2))) WIDGET_MAX_DIM;
          h = min (sat_u32 (sat_u32 (line_h * n_lines) + sat_u32 (pad * 2))) WIDGET_MAX_DIM;
          text_start = b_width b - b_textpadding b - full_w;
          block_right = (text_start + unwrap_or (get_at (b_pix_ends b) k) full_w) mod 2 ^ 32
      in \<lparr>wp_width = w, wp_height = h, wp_w_logical = div_ceil w scale, wp_h_logical = div_ceil h scale,
          wp_margin_right = (b_width b - block_right) div scale, wp_margin_v = b_height b div scale\<rparr>)"

text \<open>The pointer enters and leaves surfaces; one that belongs to no bar any more is unknown.\<close>

definition has_surface :: "nat \<Rightarrow> bar_state \<Rightarrow> bool" where
  "has_surface i st = (case get_at (bars st) i of Some b \<Rightarrow> b_shown b | None \<Rightarrow> False)"

definition pointer_enter :: "nat \<Rightarrow> f64 \<Rightarrow> bar_state \<Rightarrow> bar_state" where
  "pointer_enter i x st =
     (if has_surface i st then update_hover i (st\<lparr>pointer_focus := Some i, pointer_x := x\<rparr>) else st)"

definition pointer_leave :: "nat \<Rightarrow> bar_state \<Rightarrow> bar_state" where
  "pointer_leave i st =
     (if has_surface i st
      then clear_hover (if pointer_focus st = Some i then st\<lparr>pointer_focus := None\<rparr> else st) else st)"

definition pointer_motion :: "f64 \<Rightarrow> bar_state \<Rightarrow> bar_state" where
  "pointer_motion x st = (case pointer_focus st of
     None \<Rightarrow> st | Some i \<Rightarrow> update_hover i (st\<lparr>pointer_x := x\<rparr>))"

definition button_number :: "u32 \<Rightarrow> nat option" where
  "button_number b = (if b = 0x110 then Some 1 else if b = 0x112 then Some 2 else if b = 0x111 then Some 3 else None)"

definition spawn_click :: "nat \<Rightarrow> bar_state \<Rightarrow> bar_state" where
  "spawn_click k st = (case get_at (block_actions st) k of
     None \<Rightarrow> st | Some a \<Rightarrow> if fst a = [] then st else st\<lparr>ran := ran st @ [fst a]\<rparr>)"

definition pointer_button :: "u32 \<Rightarrow> bar_state \<Rightarrow> bar_state" where
  "pointer_button b st = (case (pointer_focus st, button_number b) of
     (Some i, Some n) \<Rightarrow> (case block_at st i (pointer_x st) of None \<Rightarrow> st | Some k \<Rightarrow> spawn_click k st)
   | _ \<Rightarrow> st)"

text \<open>A new status of the blocks thread.\<close>

definition blocks_ready :: "(string \<Rightarrow> nat) \<Rightarrow> string \<Rightarrow> nat list \<Rightarrow> bar_state \<Rightarrow> bar_state" where
  "blocks_ready text_width txt bounds st =
     (if txt = [] then st
      else
        let parsed = custom_text_of (bconf st) txt;
            st1 = st\<lparr>bars := map (\<lambda>b. b\<lparr>b_status := parsed, b_pix_ends := compute_pix_ends text_width txt bounds,
                      b_redraw := True\<rparr>) (bars st)\<rparr>
        in case pointer_focus st1 of Some i \<Rightarrow> update_hover i st1 | None \<Rightarrow> st1)"

section \<open>The run prompt\<close>

definition PROMPT_HISTORY_CAP :: nat where "PROMPT_HISTORY_CAP = 100"

definition nth_completion :: "string list \<Rightarrow> string \<Rightarrow> nat \<Rightarrow> string option" where
  "nth_completion cmds q i =
     (let ms = filter (prefix q) cmds in if ms = [] then None else Some (ms ! (i mod length ms)))"

definition open_prompt :: "string list \<Rightarrow> bar \<Rightarrow> bar" where
  "open_prompt cmds b =
     (let b1 = b\<lparr>b_hidden_before_prompt := \<not> b_shown b\<rparr>; b2 = (if b_shown b1 then b1 else show_bar b1)
      in b2\<lparr>b_prompt := True, b_buffer := [], b_query := None, b_index := 0, b_commands := cmds,
            b_history_index := None, b_keyboard := True, b_redraw := True\<rparr>)"

text \<open>The prompt closes; a bar it had shown is hidden again.\<close>

definition close_prompt :: "bar \<Rightarrow> bar" where
  "close_prompt b =
     (let b1 = b\<lparr>b_prompt := False, b_buffer := [], b_commands := [], b_history_index := None, b_keyboard := False,
                b_redraw := True\<rparr>
      in if b_hidden_before_prompt b then hide_bar b1 else b1)"

definition push_command :: "string \<Rightarrow> string list \<Rightarrow> string list" where
  "push_command cmd hist =
     (if hist \<noteq> [] \<and> last hist = cmd then hist
      else let h = hist @ [cmd] in drop (length h - PROMPT_HISTORY_CAP) h)"

definition entered_command :: "bar \<Rightarrow> string" where
  "entered_command b = trim (b_buffer b @ prompt_ghost b)"

definition enter_prompt :: "bar \<Rightarrow> bar" where
  "enter_prompt b =
     (let cmd = entered_command b
      in close_prompt (b\<lparr>b_query := None, b_history := (if cmd = [] then b_history b else push_command cmd (b_history b))\<rparr>))"

definition tab_prompt :: "bar \<Rightarrow> bar" where
  "tab_prompt b =
     (if b_buffer b = [] then b
      else
        let b1 = (case b_query b of
              None \<Rightarrow> b\<lparr>b_query := Some (b_buffer b), b_index := 0\<rparr>
            | Some _ \<Rightarrow> b\<lparr>b_index := b_index b + 1\<rparr>)
        in case nth_completion (b_commands b1) (unwrap_or (b_query b1) []) (b_index b1) of
             Some c \<Rightarrow> b1\<lparr>b_buffer := c, b_redraw := True\<rparr> | None \<Rightarrow> b1)"

definition history_up :: "bar \<Rightarrow> bar" where
  "history_up b =
     (if b_history b = [] then b
      else (case b_history_index b of
              None \<Rightarrow> (let l = length (b_history b) - 1 in
                b\<lparr>b_temp := b_buffer b, b_history_index := Some l, b_buffer := b_history b ! l\<rparr>)
            | Some h \<Rightarrow> if h > 0 then b\<lparr>b_history_index := Some (h - 1), b_buffer := b_history b ! (h - 1)\<rparr> else b)
           \<lparr>b_redraw := True\<rparr>)"

definition history_down :: "bar \<Rightarrow> bar" where
  "history_down b = (case b_history_index b of
     None \<Rightarrow> b
   | Some h \<Rightarrow>
       (if h + 1 < length (b_history b)
        then b\<lparr>b_history_index := Some (h + 1), b_buffer := b_history b ! (h + 1)\<rparr>
        else b\<lparr>b_history_index := None, b_buffer := b_temp b\<rparr>)\<lparr>b_redraw := True\<rparr>)"

text \<open>The characters of the key codes, an English layout without shift.\<close>

definition KEY_LETTERS :: "(nat \<times> char) list" where
  "KEY_LETTERS = [(16, CHR ''q''), (17, CHR ''w''), (18, CHR ''e''), (19, CHR ''r''), (20, CHR ''t''), (21, CHR ''y''),
     (22, CHR ''u''), (23, CHR ''i''), (24, CHR ''o''), (25, CHR ''p''), (30, CHR ''a''), (31, CHR ''s''),
     (32, CHR ''d''), (33, CHR ''f''), (34, CHR ''g''), (35, CHR ''h''), (36, CHR ''j''), (37, CHR ''k''),
     (38, CHR ''l''), (44, CHR ''z''), (45, CHR ''x''), (46, CHR ''c''), (47, CHR ''v''), (48, CHR ''b''),
     (49, CHR ''n''), (50, CHR ''m''), (57, CHR '' '')]"

definition key_char :: "nat \<Rightarrow> char option" where
  "key_char key = (if 2 \<le> key \<and> key \<le> 11 then Some (digit_char (if key = 11 then 0 else key - 1))
     else map_of KEY_LETTERS key)"

definition type_key :: "nat \<Rightarrow> bar \<Rightarrow> bar" where
  "type_key key b =
     (let b1 = b\<lparr>b_query := None\<rparr> in case key_char key of
        Some c \<Rightarrow> b1\<lparr>b_history_index := None, b_buffer := b_buffer b1 @ [c], b_redraw := True\<rparr> | None \<Rightarrow> b1)"

definition prompt_key :: "nat \<Rightarrow> bar \<Rightarrow> bar" where
  "prompt_key key b =
     (if key = 1 then close_prompt b
      else if key = 28 then enter_prompt b
      else if key = 14 then b\<lparr>b_buffer := pop_char (b_buffer b), b_history_index := None, b_query := None, b_redraw := True\<rparr>
      else if key = 15 then tab_prompt b
      else if key = 103 then history_up b
      else if key = 108 then history_down b
      else type_key key b)"

text \<open>A key press goes to the first bar with an open prompt; Enter starts its command.\<close>

definition handle_key_input :: "nat \<Rightarrow> nat \<Rightarrow> bar_state \<Rightarrow> bar_state" where
  "handle_key_input i key st = (case get_at (bars st) i of
     None \<Rightarrow> st
   | Some b \<Rightarrow>
       let st1 = upd_bar i (prompt_key key) st in
       if key = 28 \<and> entered_command b \<noteq> [] then st1\<lparr>ran := ran st1 @ [entered_command b]\<rparr> else st1)"

definition key_pressed :: "nat \<Rightarrow> bar_state \<Rightarrow> bar_state" where
  "key_pressed key st = (case position b_prompt (bars st) of None \<Rightarrow> st | Some i \<Rightarrow> handle_key_input i key st)"

section \<open>The socket of the bar\<close>

definition targets :: "string \<Rightarrow> bar_state \<Rightarrow> nat list" where
  "targets target st = filter (\<lambda>i. let b = bars st ! i in \<not> b_dead b \<and>
     (target = ''all'' \<or> (if target = ''selected'' then b_sel b \<noteq> 0 else b_name b = Some target)))
     [0..<length (bars st)]"

text \<open>What follows the second white space: \<open>splitn(3, whitespace).take(2)\<close>.\<close>

definition split_len :: "string \<Rightarrow> nat" where
  "split_len s = length (takeWhile (\<lambda>c. \<not> is_ws c) s)"

definition rest_of :: "string \<Rightarrow> string" where
  "rest_of buf =
     (let a = split_len buf; skip = (if a < length buf then a + 1 + (split_len (drop (a + 1) buf) + 1) else a + 1)
      in trim_end_lf (drop skip buf))"

text \<open>An optional duration, an optional colour, and the text of a title.\<close>

definition title_words :: "string \<Rightarrow> (string \<times> nat \<times> colour option) option" where
  "title_words r =
     (let (secs, r1) = (case split_once (CHR '' '') r of
            Some (tok, after) \<Rightarrow> (case parse_unsigned 18446744073709551615 tok of
                Some n \<Rightarrow> (min (max n 1) 3600, after) | None \<Rightarrow> (3, r))
          | None \<Rightarrow> (3, r));
          (col, r2) = (if prefix ''#'' r1
            then (case split_once (CHR '' '') r1 of
                Some (tok, after) \<Rightarrow> (case parse_hex_color tok of Some c \<Rightarrow> (Some c, after) | None \<Rightarrow> (None, r1))
              | None \<Rightarrow> (None, r1))
            else (None, r1))
      in if r2 = [] then None else Some (r2, secs, col))"

definition set_title :: "nat \<Rightarrow> string \<times> nat \<times> colour option \<Rightarrow> bar \<Rightarrow> bar" where
  "set_title time tt b = (let (txt, secs, col) = tt;
       b1 = (if b_shown b then b else show_bar (b\<lparr>b_hidden_before_title := True\<rparr>))
     in b1\<lparr>b_title_override := Some (txt, time + secs, col), b_redraw := True\<rparr>)"

definition on_bars :: "nat list \<Rightarrow> (bar \<Rightarrow> bar) \<Rightarrow> bar_state \<Rightarrow> bar_state" where
  "on_bars is f st = fold (\<lambda>i. upd_bar i f) is st"

text \<open>The settings as they are now; without a usable font the geometry stays.\<close>

definition reload_bar :: "bar_conf \<Rightarrow> bar \<Rightarrow> bar" where
  "reload_bar c b =
     (let b1 = (case bc_geometry c of Some (h, p) \<Rightarrow> b\<lparr>b_textpadding := p, b_height := h\<rparr> | None \<Rightarrow> b);
          b2 = (if bc_bottom c \<noteq> b_bottom b1 then set_side (bc_bottom c) b1 else b1)
      in b2\<lparr>b_redraw := True\<rparr>)"

definition reload :: "bar_conf \<Rightarrow> bar_state \<Rightarrow> bar_state" where
  "reload c st =
     (let st1 = st\<lparr>bconf := c, tag_names := (if bc_tag_names c = [] then tag_names st else bc_tag_names c),
                block_actions := bc_actions c\<rparr>;
          st2 = (case bc_geometry c of Some (h, p) \<Rightarrow> st1\<lparr>bar_height := h, textpadding := p\<rparr> | None \<Rightarrow> st1)
      in clear_hover (st2\<lparr>bars := map (reload_bar c) (bars st2)\<rparr>))"

definition bar_command :: "bar_conf \<Rightarrow> string list \<Rightarrow> nat \<Rightarrow> string \<Rightarrow> bar_state \<Rightarrow> bar_state" where
  "bar_command c cmds time buf st = (case split_ws buf of
     target # cmd # _ \<Rightarrow>
       let is = targets target st; r = rest_of buf in
       if is = [] then st
       else if cmd = ''prompt'' then on_bars is (open_prompt cmds) st
       else if cmd = ''status'' then
         (if r = [] then st
          else clear_hover (on_bars is (\<lambda>b. b\<lparr>b_status := custom_text_of (bconf st) r,
                 b_pix_ends := [], b_redraw := True\<rparr>) st))
       else if cmd = ''title'' then
         (case title_words r of None \<Rightarrow> st | Some tt \<Rightarrow> (on_bars is (set_title time tt) st)\<lparr>notification := True\<rparr>)
       else if cmd = ''show'' then on_bars is show_bar st
       else if cmd = ''hide'' then on_bars is hide_bar st
       else if cmd = ''toggle-visibility'' then on_bars is toggle_bar st
       else if cmd = ''set-top'' then on_bars is (set_side False) st
       else if cmd = ''set-bottom'' then on_bars is (set_side True) st
       else if cmd = ''toggle-location'' then on_bars is (\<lambda>b. set_side (\<not> b_bottom b) b) st
       else if cmd = ''reload'' then reload c st
       else st
   | _ \<Rightarrow> st)"

text \<open>The surface of the widget was closed.\<close>

definition widget_closed :: "bar_state \<Rightarrow> bar_state" where
  "widget_closed st = (if widget st = None then st else clear_hover st)"

text \<open>The end of a turn of the loop: titles whose time is over.\<close>

definition expire_title :: "nat \<Rightarrow> bar \<Rightarrow> bar" where
  "expire_title time b = (case b_title_override b of
     Some (_, until, _) \<Rightarrow>
       if until \<le> time
       then let b1 = b\<lparr>b_title_override := None, b_redraw := True\<rparr>
            in if b_hidden_before_title b1 then hide_bar (b1\<lparr>b_hidden_before_title := False\<rparr>) else b1
       else b
   | None \<Rightarrow> b)"

definition expire_titles :: "nat \<Rightarrow> bar_state \<Rightarrow> bar_state" where
  "expire_titles time st =
     (let st1 = st\<lparr>bars := map (expire_title time) (bars st)\<rparr>
      in if list_ex (\<lambda>b. b_title_override b \<noteq> None) (bars st1) then st1 else st1\<lparr>notification := False\<rparr>)"

section \<open>The loop\<close>

text \<open>
  What wakes the loop of the bar, and what a wake does. The fonts, the settings a reload reads and
  the commands on the path are those of the moment.
\<close>

datatype bar_event =
  OutputAdded nat
  | OutputRemoved nat
  | OutputNamed nat string
  | BarsReady
  | Configured nat nat nat
  | LayerClosed nat
  | WidgetClosed
  | DwlTags nat
  | DwlLayout string
  | DwlOutput nat dwl_event
  | IpcReady "string list"
  | BlocksReady string "nat list"
  | HoverReady nat nat nat "string list"
  | PointerEnter nat f64
  | PointerLeave nat
  | PointerMotion f64
  | PointerButton u32
  | KeyPressed nat
  | SocketCommand string
  | TurnEnds

definition bar_step ::
  "(string \<Rightarrow> nat) \<Rightarrow> bar_conf \<Rightarrow> string list \<Rightarrow> nat \<Rightarrow> bar_event \<Rightarrow> bar_state \<Rightarrow> bar_state" where
  "bar_step text_width c cmds time e st = (case e of
     OutputAdded global \<Rightarrow> bar_added global st
   | OutputRemoved global \<Rightarrow> bar_removed global st
   | OutputNamed i name \<Rightarrow> bar_named i name st
   | BarsReady \<Rightarrow> bars_ready st
   | Configured i w h \<Rightarrow> upd_bar i (configure_bar (bc_scale (bconf st)) w h) st
   | LayerClosed i \<Rightarrow> upd_bar i hide_bar st
   | WidgetClosed \<Rightarrow> widget_closed st
   | DwlTags amount \<Rightarrow> dwl_tags amount st
   | DwlLayout name \<Rightarrow> dwl_layout name st
   | DwlOutput i ev \<Rightarrow> dwl_output i ev st
   | IpcReady chunks \<Rightarrow> ipc_ready chunks st
   | BlocksReady txt bounds \<Rightarrow> blocks_ready text_width txt bounds st
   | HoverReady g bi k out \<Rightarrow> hover_ready text_width g bi k out st
   | PointerEnter i x \<Rightarrow> pointer_enter i x st
   | PointerLeave i \<Rightarrow> pointer_leave i st
   | PointerMotion x \<Rightarrow> pointer_motion x st
   | PointerButton b \<Rightarrow> pointer_button b st
   | KeyPressed key \<Rightarrow> key_pressed key st
   | SocketCommand buf \<Rightarrow> bar_command c cmds time buf st
   | TurnEnds \<Rightarrow> expire_titles time st)"

text \<open>\<open>run_bar\<close>: the state the loop starts with.\<close>

definition bar_start :: "bar_conf \<Rightarrow> nat \<Rightarrow> nat \<Rightarrow> bar_state" where
  "bar_start c height padding =
     \<lparr>bconf = c, bar_height = height, textpadding = padding,
      tag_names = (if bc_tag_names c = [] then map show_nat [1..<7] else bc_tag_names c), layout_names = [], bars = [],
      ready = False, pointer_focus = None, pointer_x = f_lit 0, block_actions = bc_actions c, hover_target = None,
      widget = None, hover_generation = 0, hover_requests = [], ran = [], notification = False, stdin_buf = []\<rparr>"

inductive bar_reachable :: "bar_state \<Rightarrow> bool" where
  bar_starts: "bar_reachable (bar_start c height padding)"
| bar_steps: "bar_reachable st \<Longrightarrow> bar_reachable (bar_step text_width c cmds time e st)"

end
