(* ===== verification/Bar_Laws.thy ===== *)
theory Bar_Laws
  imports Bar Status_Laws Socket_Laws
begin

text \<open>
  The bar shows what the compositor reports: the status arrives through a pipe in pieces of any
  size, is put together into lines, and every bar ends with the facts of its output.
\<close>

section \<open>Pieces of UTF-8\<close>

lemma char_len_append: "char_len s = Some n \<Longrightarrow> char_len (s @ t) = Some n"
proof (cases s)
  case (Cons c cs)
  assume n: "char_len s = Some n"
  with Cons have "n = lead_len (byte c)" "0 < n" "n - 1 \<le> length cs" using char_len_Some by blast+
  moreover from this have "take (n - 1) (cs @ t) = take (n - 1) cs" "n > 1 \<longrightarrow> hd (cs @ t) = hd cs"
    by (auto simp: hd_append)
  ultimately show ?thesis using n Cons by (auto simp: char_len_def Let_def split: if_splits)
qed (simp add: char_len_def)

lemma utf8_ok_Nil [simp]: "utf8_ok []"
  by (simp add: utf8_ok.simps)

lemma utf8_ok_append: "utf8_ok a \<Longrightarrow> utf8_ok b \<Longrightarrow> utf8_ok (a @ b)"
proof (induction a rule: utf8_ok.induct)
  case (1 a)
  show ?case
  proof (cases "a = []")
    case False
    with "1.prems"(1) obtain n where n: "char_len a = Some n" "utf8_ok (drop n a)"
      by (subst (asm) utf8_ok.simps) (auto split: option.splits)
    then have "utf8_ok (drop n (a @ b))"
      using "1.IH" [OF n(1,2) "1.prems"(2)] char_len_pos [OF n(1)] by simp
    with char_len_append [OF n(1)] show ?thesis by (subst utf8_ok.simps) simp
  qed (use "1.prems"(2) in simp)
qed

lemma utf8_ok_ascii: "\<forall>c \<in> set s. byte c < 128 \<Longrightarrow> utf8_ok s"
  by (induction s) (auto simp: char_len_def lead_len_def utf8_ok.simps [of "_ # _"])

section \<open>Pieces of the status\<close>

lemma complete_lines_cut: "LF \<notin> set v \<Longrightarrow> complete_lines (u @ LF # v) = (u @ [LF], v)"
proof -
  assume "LF \<notin> set v"
  then have "takeWhile (\<lambda>c. c \<noteq> LF) (rev v @ LF # rev u) = rev v"
    by (subst takeWhile_append2) auto
  then show ?thesis by (simp add: complete_lines_def)
qed

lemma take_status_cut:
  "LF \<notin> set v \<Longrightarrow> stdin_buf st @ t = u @ LF # v \<Longrightarrow>
   take_status t st = st\<lparr>bars := process_stdin_buf (u @ [LF]) (bars st), stdin_buf := v\<rparr>"
  by (simp add: take_status_def complete_lines_cut)

lemma take_status_part: "LF \<notin> set (stdin_buf st @ t) \<Longrightarrow> take_status t st = st\<lparr>stdin_buf := stdin_buf st @ t\<rparr>"
  by (simp add: take_status_def split: prod.splits)

lemma process_more: "process_stdin_buf (u @ LF # v) bs = process_stdin_buf v (process_stdin_buf (u @ [LF]) bs)"
  by (simp add: process_stdin_buf_def lines_append [of u v])

lemma last_LF: "LF \<in> set t \<Longrightarrow> \<exists>u v. t = u @ LF # v \<and> LF \<notin> set v"
  by (rule split_list_last)

lemma take_status_append:
  assumes "LF \<notin> set (stdin_buf st)"
  shows "take_status b (take_status a st) = take_status (a @ b) st"
proof (cases "LF \<in> set a")
  case False
  with assms show ?thesis by (simp add: take_status_part) (simp add: take_status_def Let_def split: prod.split)
next
  case True
  then obtain u v where uv: "a = u @ LF # v" "LF \<notin> set v" using last_LF by blast
  let ?u = "stdin_buf st @ u"
  have a: "take_status a st = st\<lparr>bars := process_stdin_buf (?u @ [LF]) (bars st), stdin_buf := v\<rparr>"
    using uv by (intro take_status_cut) simp_all
  show ?thesis
  proof (cases "LF \<in> set b")
    case False
    with uv have "take_status (a @ b) st = st\<lparr>bars := process_stdin_buf (?u @ [LF]) (bars st), stdin_buf := v @ b\<rparr>"
      by (intro take_status_cut) simp_all
    with a False uv(2) show ?thesis by (simp add: take_status_part)
  next
    case True
    then obtain u' v' where b: "b = u' @ LF # v'" "LF \<notin> set v'" using last_LF by blast
    then have "take_status (a @ b) st =
        st\<lparr>bars := process_stdin_buf ((?u @ LF # v @ u') @ [LF]) (bars st), stdin_buf := v'\<rparr>"
      using uv(1) by (intro take_status_cut) simp_all
    moreover have "take_status b (take_status a st) =
        st\<lparr>bars := process_stdin_buf ((v @ u') @ [LF]) (process_stdin_buf (?u @ [LF]) (bars st)), stdin_buf := v'\<rparr>"
      using b unfolding a by (subst take_status_cut [of v' _ _ "v @ u'"]) simp_all
    ultimately show ?thesis using process_more [of ?u "(v @ u') @ [LF]" "bars st"] by simp
  qed
qed

lemma take_status_rest: "LF \<notin> set (stdin_buf st) \<Longrightarrow> LF \<notin> set (stdin_buf (take_status t st))"
proof (cases "LF \<in> set t")
  case True
  then obtain u v where "t = u @ LF # v" "LF \<notin> set v" using last_LF by blast
  then show ?thesis using take_status_cut [of v st t "stdin_buf st @ u"] by simp
qed (simp add: take_status_part)

lemma turns_take:
  assumes "\<forall>chunks \<in> set turns. \<forall>c \<in> set chunks. utf8_ok c" "LF \<notin> set (stdin_buf st)"
  shows "fold ipc_ready turns st = take_status (concat (concat turns)) st"
  using assms
proof (induction turns arbitrary: st)
  case Nil
  then show ?case by (simp add: take_status_part)
next
  case (Cons chunks turns)
  then have "ipc_ready chunks st = take_status (concat chunks) st"
    by (simp add: ipc_ready_def filter_True)
  then show ?case
    using Cons take_status_rest [OF Cons.prems(2)] take_status_append [OF Cons.prems(2)] by simp
qed

text \<open>C39: however the status is cut into reads and turns of the loop, the bar ends where one read
  of the whole text takes it, as long as no read cuts a character in two.\<close>

theorem pieces_make_no_difference:
  assumes "\<forall>chunks \<in> set turns. \<forall>c \<in> set chunks. utf8_ok c" "LF \<notin> set (stdin_buf st)"
  shows "fold ipc_ready turns st = ipc_ready [concat (concat turns)] st"
proof -
  have "utf8_ok (concat cs)" if "\<forall>c \<in> set cs. utf8_ok c" for cs
    using that by (induction cs) (simp_all add: utf8_ok_append)
  then have "utf8_ok (concat (concat turns))" using assms(1) by simp
  then show ?thesis using turns_take [OF assms] by (simp add: ipc_ready_def)
qed

section \<open>What a bar shows\<close>

lemma bar_line_keeps [simp]: "b_name (bar_line cmd arg b) = b_name b" "b_dead (bar_line cmd arg b) = b_dead b"
  by (simp_all add: bar_line_def show_tags_def Let_def split: list.split)

lemma position_map_eq: "map p xs = map p ys \<Longrightarrow> position p xs = position p ys"
proof (induction xs arbitrary: ys)
  case (Cons x xs)
  then show ?case by (cases ys) auto
qed simp

lemma bar_of_update [simp]: "bar_of out (update_at i (bar_line cmd arg) bs) = bar_of out bs"
  unfolding bar_of_def by (rule position_map_eq, rule nth_equalityI) (simp_all add: nth_update_at)

lemma bar_of_line [simp]: "bar_of out (process_line l bs) = bar_of out bs"
  by (auto simp: process_line_def split: option.splits prod.splits)

text \<open>A line changes the bar of the output it names.\<close>

definition line_to :: "(string \<Rightarrow> nat option) \<Rightarrow> nat \<Rightarrow> string \<Rightarrow> bar \<Rightarrow> bar" where
  "line_to own j l b = (case split_once (CHR '' '') l of
     Some (out, r) \<Rightarrow> if own out = Some j
       then (let (cmd, arg) = unwrap_or (split_once (CHR '' '') r) (r, []) in bar_line cmd arg b) else b
   | None \<Rightarrow> b)"

lemma process_lines_nth:
  "j < length bs \<Longrightarrow> fold process_line ls bs ! j = fold (line_to (\<lambda>out. bar_of out bs) j) ls (bs ! j)"
proof (induction ls arbitrary: bs)
  case (Cons l ls)
  have "length (process_line l bs) = length bs"
    by (auto simp: process_line_def split: option.splits prod.splits)
  moreover have "process_line l bs ! j = line_to (\<lambda>out. bar_of out bs) j l (bs ! j)"
    using Cons.prems by (auto simp: process_line_def line_to_def nth_update_at split: option.splits prod.splits)
  ultimately show ?case using Cons by simp
qed simp

lemma line_to_own:
  "CHR '' '' \<notin> set name \<Longrightarrow> CHR '' '' \<notin> set cmd \<Longrightarrow> own name = Some j \<Longrightarrow>
   line_to own j (name @ CHR '' '' # cmd @ CHR '' '' # arg) b = bar_line cmd arg b"
  by (simp add: line_to_def split_once_first unwrap_or_def)

lemma line_to_other:
  "CHR '' '' \<notin> set name \<Longrightarrow> own name \<noteq> Some j \<Longrightarrow> line_to own j (name @ CHR '' '' # r) b = b"
  by (simp add: line_to_def split_once_first)

lemma block_named: "l \<in> set (status_block s i) \<Longrightarrow> \<exists>r. l = out_name (mon_output (monitors s ! i)) @ CHR '' '' # r"
  by (auto simp: status_block_def status_lines_def title_line_def Let_def split: option.splits prod.splits)

lemma fold_same: "\<forall>l \<in> set ls. \<forall>b. f l b = b \<Longrightarrow> fold f ls b = b"
  by (induction ls) simp_all

lemma map_filter_Some: "List.map_filter f (map g xs) = map h xs" if "\<And>x. f (g x) = Some (h x)"
  by (induction xs) (simp_all add: that)

lemma tags_arg:
  "List.map_filter parse_u32 (split_ws (show_u32 a @ CHR '' '' # show_u32 b @ CHR '' '' # show_u32 c @ CHR '' '' # show_u32 d)) =
   [a, b, c, d]"
proof -
  have "split_ws (show_u32 t) = [show_u32 t]" for t by (rule split_ws_of_word [OF word_numbers(1)])
  moreover have "is_ws (CHR '' '')" by code_simp
  ultimately show ?thesis by (simp add: split_ws_append parse_u32_show)
qed

lemma selmon_arg: "parse_u32 (trim (show_nat (of_bool p))) = Some (of_bool p)"
proof -
  have "parse_u32 (trim (show_nat 1)) = Some 1" "parse_u32 (trim (show_nat 0)) = Some 0" by code_simp+
  then show ?thesis by (cases p) simp_all
qed

lemma bar_line_other: "bar_line ''appid'' arg b = b" "bar_line ''fullscreen'' arg b = b" "bar_line ''floating'' arg b = b"
  by (simp_all add: bar_line_def)

lemma tags_line: "bar_line ''tags'' arg b = show_tags (List.map_filter parse_u32 (split_ws arg)) b"
  by (simp add: bar_line_def)

lemma block_shown:
  assumes "CHR '' '' \<notin> set (out_name (mon_output m))" "m = monitors s ! i"
    "own (out_name (mon_output m)) = Some j"
  defines "b \<equiv> \<lambda>c. fold (line_to own j) (status_block s i) c"
  shows "b_title (b c) = Some (case config_error s of Some err \<Rightarrow> err | None \<Rightarrow> fst (focused_facts s (focused_per_mon s ! i)))"
    "b_title_error (b c) \<longleftrightarrow> config_error s \<noteq> None" "b_sel (b c) = of_bool (i = sel_mon s)"
    "b_ctags (b c) = fst (per_mon_tags s ! i) AND tag_mask (cfg s)" "b_mtags (b c) = tags m"
    "b_urg (b c) = snd (per_mon_tags s ! i) AND tag_mask (cfg s)" "b_layout (b c) = Some (layout_symbol (cfg s) m)"
proof -
  note l = line_to_own [where name = "out_name (mon_output m)" and own = own and j = j, OF assms(1) _ assms(3)]
  note [simp] = l [of "''title''", simplified] l [of "''title_error''", simplified] l [of "''appid''", simplified]
    l [of "''fullscreen''", simplified] l [of "''floating''", simplified] l [of "''selmon''", simplified]
    l [of "''tags''", simplified] l [of "''layout''", simplified]
  have "b c = bar_line ''layout'' (layout_symbol (cfg s) m) (show_tags [fst (per_mon_tags s ! i) AND tag_mask (cfg s),
      tags m, fst (snd (snd (focused_facts s (focused_per_mon s ! i)))), snd (per_mon_tags s ! i) AND tag_mask (cfg s)]
      (bar_line ''selmon'' (show_nat (of_bool (i = sel_mon s)))
        (bar_line (if config_error s = None then ''title'' else ''title_error'')
          (case config_error s of Some err \<Rightarrow> err | None \<Rightarrow> fst (focused_facts s (focused_per_mon s ! i))) c)))"
    by (cases "focused_facts s (focused_per_mon s ! i)"; cases "config_error s")
      (simp_all add: b_def status_block_def status_lines_def title_line_def assms(2) [symmetric] bar_line_other
        tags_line tags_arg Let_def)
  then show "b_title (b c) = Some (case config_error s of Some err \<Rightarrow> err | None \<Rightarrow> fst (focused_facts s (focused_per_mon s ! i)))"
    "b_title_error (b c) \<longleftrightarrow> config_error s \<noteq> None" "b_sel (b c) = of_bool (i = sel_mon s)"
    "b_ctags (b c) = fst (per_mon_tags s ! i) AND tag_mask (cfg s)" "b_mtags (b c) = tags m"
    "b_urg (b c) = snd (per_mon_tags s ! i) AND tag_mask (cfg s)" "b_layout (b c) = Some (layout_symbol (cfg s) m)"
    by (simp_all add: bar_line_def show_tags_def selmon_arg unwrap_or_def Let_def)
qed

lemma whole_status:
  "ls \<noteq> [] \<Longrightarrow> stdin_buf st = [] \<Longrightarrow>
   bars (take_status (write_lines ls) st) = process_stdin_buf (write_lines ls) (bars st)"
proof -
  assume "ls \<noteq> []" "stdin_buf st = []"
  moreover from this obtain us u where "ls = us @ [u]" by (metis rev_exhaust)
  ultimately show ?thesis
    using take_status_cut [of "[]" st "write_lines ls" "write_lines us @ u"] by (simp add: write_lines_def)
qed

text \<open>C7: the bar of an output shows what the compositor reports of it: the title of the window it
  activates there or the error of the configuration, the occupied, selected and urgent tags, the
  layout and whether the output is the selected one. The status may come in any number of reads
  and turns, of which none cuts a character in two.\<close>

theorem bar_shows_status:
  assumes "\<forall>chunks \<in> set turns. \<forall>c \<in> set chunks. utf8_ok c" "concat (concat turns) = format_status s"
    "stdin_buf st = []"
    and names: "distinct (map (out_name \<circ> mon_output) (monitors s))"
      "\<forall>m \<in> set (monitors s). CHR '' '' \<notin> set (out_name (mon_output m))"
    and clean: "\<forall>i < length (monitors s). list_all clean (status_block s i)"
    and i: "i < length (monitors s)" "m = monitors s ! i" "bar_of (out_name (mon_output m)) (bars st) = Some j"
    and b_def: "b = bars (fold ipc_ready turns st) ! j"
  shows "b_title b = Some (case config_error s of Some err \<Rightarrow> err
      | None \<Rightarrow> fst (focused_facts s (focused_on s (tags m) i))) \<and>
    b_title_error b = (config_error s \<noteq> None) \<and> b_sel b = of_bool (i = sel_mon s) \<and>
    b_ctags b = (or_all (map (window_tags (ws s)) (filter (on_monitor s i) (windows s))) AND tag_mask (cfg s)) \<and>
    b_mtags b = tags m \<and>
    b_urg b = (or_all (map (window_tags (ws s)) (filter (urgent_on s i) (windows s))) AND tag_mask (cfg s)) \<and>
    b_layout b = Some (layout_symbol (cfg s) m)"
proof -
  let ?own = "\<lambda>out. bar_of out (bars st)" and ?name = "\<lambda>k. out_name (mon_output (monitors s ! k))"
  let ?bs = "status_block s" and ?n = "length (monitors s)"
  have j: "j < length (bars st)" "b_name (bars st ! j) = Some (?name i)"
    using i position_Some by (fastforce simp: bar_of_def)+
  have space: "CHR '' '' \<notin> set (?name k)" if "k < ?n" for k using names(2) that by simp
  have other: "fold (line_to ?own j) (concat (map ?bs ks)) c = c" if "\<forall>k \<in> set ks. k < ?n \<and> k \<noteq> i" for ks c
  proof (rule fold_same, intro ballI allI)
    fix l c' assume "l \<in> set (concat (map ?bs ks))"
    then obtain k r where k: "k \<in> set ks" "l = ?name k @ CHR '' '' # r" using block_named by fastforce
    have "?name k \<noteq> ?name i" using nth_eq_iff_index_eq [OF names(1), of k i] that k(1) i(1) by auto
    then have "?own (?name k) \<noteq> Some j" using j position_Some by (fastforce simp: bar_of_def)
    with k space that show "line_to ?own j l c' = c'" by (simp add: line_to_other)
  qed
  have lines: "str_lines (format_status s) = concat (map ?bs [0..<?n])"
    unfolding format_status_blocks using clean by (intro lines_written) (auto simp: list_all_iff)
  have "?bs i \<noteq> []" by (simp add: status_block_def status_lines_def Let_def split: prod.split)
  with i(1) have "concat (map ?bs [0..<?n]) \<noteq> []" by auto
  then have "bars (fold ipc_ready turns st) = fold process_line (concat (map ?bs [0..<?n])) (bars st)"
    using turns_take [OF assms(1), of st] assms(2,3) whole_status [of "concat (map ?bs [0..<?n])" st]
    by (simp add: process_stdin_buf_def format_status_blocks [symmetric]) (simp add: lines)
  moreover have "concat (map ?bs [0..<?n]) = concat (map ?bs [0..<i]) @ ?bs i @ concat (map ?bs [Suc i..<?n])"
    using i(1) upt_add_eq_append [of 0 i "?n - i"] by (simp add: upt_conv_Cons)
  ultimately have b: "b = fold (line_to ?own j) (?bs i) (bars st ! j)"
    unfolding b_def using process_lines_nth [OF j(1), of "concat (map ?bs [0..<?n])"] i(1) by (simp add: other)
  have o: "?own (out_name (mon_output m)) = Some j" "CHR '' '' \<notin> set (out_name (mon_output m))"
    using i space by auto
  have bits: "per_mon_tags s ! i = (or_all (map (window_tags (ws s)) (filter (on_monitor s i) (windows s))),
      or_all (map (window_tags (ws s)) (filter (urgent_on s i) (windows s))))" by (rule per_mon_tags_nth [OF i(1)])
  have f: "focused_per_mon s ! i = focused_on s (tags m) i" using i(1,2) by (simp add: focused_per_mon_nth)
  note shown = block_shown [where own = ?own and c = "bars st ! j", OF o(2) i(2) o(1), folded b, unfolded bits f fst_conv snd_conv]
  show ?thesis by (intro conjI) (fact shown)+
qed

section \<open>Instances\<close>

definition plain_bar_conf :: bar_conf where
  "plain_bar_conf = \<lparr>bc_hidden = False, bc_bottom = False, bc_status_commands = True, bc_scale = 1,
     bc_inactive_bg = \<lparr>red = 0, green = 0, blue = 0, alpha = 65535\<rparr>,
     bc_inactive_fg = \<lparr>red = 39321, green = 39321, blue = 39321, alpha = 65535\<rparr>,
     bc_geometry = Some (24, 8), bc_tag_names = [], bc_actions = []\<rparr>"

definition no_bars :: bar_state where
  "no_bars = \<lparr>bconf = plain_bar_conf, bar_height = 24, textpadding = 8, tag_names = [], layout_names = [], bars = [],
     ready = True, pointer_focus = None, pointer_x = f_lit 0, block_actions = [], hover_target = None, widget = None,
     hover_generation = 0, hover_requests = [], ran = [], notification = False, stdin_buf = []\<rparr>"

definition two_bars :: bar_state where
  "two_bars = bar_named 1 ''DP-1'' (bar_named 0 ''DP-2'' (bar_added 7 (bar_added 3 no_bars)))"

definition stage_text :: string where
  "stage_text = write_lines [''DP-1 title '', ''DP-1 appid '', ''DP-1 fullscreen 0'', ''DP-1 floating 1'',
     ''DP-1 selmon 1'', ''DP-1 tags 3 1 1 0'', ''DP-1 layout []='']"

lemma stage_ascii: "\<forall>c \<in> set stage_text. byte c < 128"
  by code_simp

lemma stage_pieces: "utf8_ok (take n stage_text)" "utf8_ok (drop n stage_text)" "utf8_ok (drop k (take n stage_text))"
  using stage_ascii by (auto intro!: utf8_ok_ascii dest: in_set_takeD in_set_dropD)

lemma two_bars: "stdin_buf two_bars = []" "bar_of ''DP-1'' (bars two_bars) = Some 1"
  by code_simp+

lemma stage_text: "format_status stage = stage_text"
  by (simp add: format_status_blocks stage_status stage_text_def)

definition stage_turns :: "string list list" where
  "stage_turns = [[take 5 stage_text], [drop 5 stage_text]]"

lemma stage_turns:
  "\<forall>chunks \<in> set stage_turns. \<forall>c \<in> set chunks. utf8_ok c" "concat (concat stage_turns) = format_status stage"
  by (simp_all add: stage_turns_def stage_pieces stage_text)

lemma pieces_make_no_difference_witness:
  "fold ipc_ready stage_turns two_bars = ipc_ready [format_status stage] two_bars"
  using pieces_make_no_difference [OF stage_turns(1), of two_bars] by (simp add: two_bars stage_turns(2))

lemma bar_shows_status_witness:
  "b_mtags (bars (fold ipc_ready stage_turns two_bars) ! 1) = 1 \<and>
   b_layout (bars (fold ipc_ready stage_turns two_bars) ! 1) = Some ''[]=''"
proof -
  have n: "out_name (mon_output (wide_mon 0)) = ''DP-1''" "layout_symbol gap_conf (wide_mon 0) = ''[]=''"
    by code_simp+
  have "list_all clean (status_block stage 0)" unfolding stage_status by code_simp
  then have c: "\<forall>i < length (monitors stage). list_all clean (status_block stage i)" by simp
  have d: "distinct (map (out_name \<circ> mon_output) (monitors stage))"
    "\<forall>m \<in> set (monitors stage). CHR '' '' \<notin> set (out_name (mon_output m))" by (simp_all add: n)
  have i: "0 < length (monitors stage)" "wide_mon 0 = monitors stage ! 0" by simp_all
  have o: "bar_of (out_name (mon_output (wide_mon 0))) (bars two_bars) = Some 1" by (simp only: n two_bars)
  from bar_shows_status [OF stage_turns two_bars(1) d c i o refl]
  have "b_mtags (bars (fold ipc_ready stage_turns two_bars) ! 1) = tags (wide_mon 0)"
    "b_layout (bars (fold ipc_ready stage_turns two_bars) ! 1) = Some (layout_symbol (cfg stage) (wide_mon 0))"
    by blast+
  then show ?thesis by (simp only: wide_simps stage_simps n simp_thms)
qed

text \<open>A read that ends within a character is dropped with the lines it holds: here the title.\<close>

lemma cut_character_loses_title:
  "b_title (bars (fold ipc_ready [[''DP-1 title '' @ [CHR 0xC3], CHR 0xA9 # [LF]]] two_bars) ! 1) = None"
  "b_title (bars (fold ipc_ready [[''DP-1 title '' @ [CHR 0xC3, CHR 0xA9, LF]]] two_bars) ! 1) = Some [CHR 0xC3, CHR 0xA9]"
  by code_simp+

end
