(* ===== verification/Bar_Prompt.thy ===== *)
theory Bar_Prompt
  imports Bar_Laws "HOL-Library.Char_ord" "HOL-Library.List_Lexorder"
begin

text \<open>
  The run prompt and the status blocks of the bar: what the completions offer, what Enter starts,
  the bounds of the history, the place of a block under the pointer and the inline commands.
\<close>

section \<open>Completions\<close>

lemma find_filter: "List.find p xs = (case filter p xs of [] \<Rightarrow> None | x # _ \<Rightarrow> Some x)"
  by (induction xs) auto

abbreviation matching :: "bar \<Rightarrow> string list" where
  "matching b \<equiv> filter (prefix (b_buffer b)) (b_commands b)"

lemma ghost_completes:
  "b_buffer b \<noteq> [] \<Longrightarrow> b_buffer b @ prompt_ghost b = (case matching b of [] \<Rightarrow> b_buffer b | c # _ \<Rightarrow> c)"
proof (cases "matching b")
  case (Cons c cs)
  moreover from this have "prefix (b_buffer b) c" by (auto dest: filter_eq_ConsD)
  moreover assume "b_buffer b \<noteq> []"
  ultimately show ?thesis by (auto simp: prompt_ghost_def find_filter elim!: prefixE)
qed (simp add: prompt_ghost_def find_filter)

lemma tab_prompt_first:
  assumes "b_query b = None" "matching b \<noteq> []" "b_buffer b \<noteq> []"
  shows "tab_prompt b = b\<lparr>b_query := Some (b_buffer b), b_index := 0, b_buffer := matching b ! 0, b_redraw := True\<rparr>"
  using assms by (simp add: tab_prompt_def nth_completion_def unwrap_or_def Let_def)

lemma tab_prompt_again:
  assumes "b_query b = Some q" "filter (prefix q) (b_commands b) \<noteq> []" "b_buffer b \<noteq> []"
  shows "tab_prompt b = b\<lparr>b_index := b_index b + 1, b_redraw := True,
     b_buffer := filter (prefix q) (b_commands b) ! ((b_index b + 1) mod length (filter (prefix q) (b_commands b)))\<rparr>"
  using assms by (simp add: tab_prompt_def nth_completion_def unwrap_or_def Let_def)

lemma matching_nonempty:
  "q \<noteq> [] \<Longrightarrow> filter (prefix q) cs \<noteq> [] \<Longrightarrow> filter (prefix q) cs ! (i mod length (filter (prefix q) cs)) \<noteq> []"
proof -
  assume "q \<noteq> []" "filter (prefix q) cs \<noteq> []"
  moreover from this have "filter (prefix q) cs ! (i mod length (filter (prefix q) cs)) \<in> set (filter (prefix q) cs)"
    by (intro nth_mem) simp
  ultimately show ?thesis by auto
qed

text \<open>C37: Tab puts in what the prompt already shows behind the cursor, and every further press the
  next of the commands that start with what was typed, in their order and around.\<close>

theorem tab_cycles_completions:
  assumes "b_buffer b \<noteq> []" "b_query b = None" "matching b \<noteq> []"
  shows "b_buffer ((tab_prompt ^^ Suc n) b) = matching b ! (n mod length (matching b)) \<and>
    b_buffer (tab_prompt b) = b_buffer b @ prompt_ghost b"
proof -
  let ?ms = "matching b"
  have "b_buffer ((tab_prompt ^^ Suc n) b) = ?ms ! (n mod length ?ms) \<and> b_index ((tab_prompt ^^ Suc n) b) = n \<and>
      b_query ((tab_prompt ^^ Suc n) b) = Some (b_buffer b) \<and> b_commands ((tab_prompt ^^ Suc n) b) = b_commands b"
  proof (induction n)
    case 0
    show ?case using assms by (simp add: tab_prompt_first)
  next
    case (Suc n)
    then show ?case
      using matching_nonempty [OF assms(1,3), of n] assms(3) tab_prompt_again [of "(tab_prompt ^^ Suc n) b" "b_buffer b"]
      by simp
  qed
  moreover have "b_buffer (tab_prompt b) = b_buffer b @ prompt_ghost b"
    using assms by (cases ?ms) (simp_all add: tab_prompt_first ghost_completes)
  ultimately show ?thesis by blast
qed

text \<open>The commands are sorted, so a command that is typed in full comes before its extensions.\<close>

lemma prefix_le: "prefix a b \<Longrightarrow> a \<le> (b :: string)"
proof (induction a arbitrary: b)
  case (Cons x a)
  then show ?case by (cases b) auto
qed simp

lemma find_sorted_least:
  "sorted xs \<Longrightarrow> x \<in> set xs \<Longrightarrow> p x \<Longrightarrow> List.find p xs = Some y \<Longrightarrow> y \<le> x"
  by (induction xs) (auto split: if_splits)

text \<open>C38: Enter starts what the prompt shows; a command typed in full starts as it is, even when it
  is the beginning of another one.\<close>

theorem enter_starts_typed_command:
  assumes "sorted (b_commands b)" "b_buffer b \<in> set (b_commands b)" "i < length (bars st)" "bars st ! i = b"
    "trim (b_buffer b) = b_buffer b" "b_buffer b \<noteq> []"
  shows "ran (handle_key_input i 28 st) = ran st @ [b_buffer b]"
proof -
  obtain c where c: "List.find (prefix (b_buffer b)) (b_commands b) = Some c" "prefix (b_buffer b) c"
    using assms(2) find_None_iff [of "prefix (b_buffer b)" "b_commands b"]
    by (cases "List.find (prefix (b_buffer b)) (b_commands b)") (auto dest: find_SomeD)
  with find_sorted_least [OF assms(1,2) _ c(1)] prefix_le [OF c(2)] have "c = b_buffer b" by simp
  with c(1) have "entered_command b = b_buffer b" using assms(5,6) by (simp add: entered_command_def prompt_ghost_def)
  then show ?thesis using assms(3,4,6) by (simp add: handle_key_input_def upd_bar_def get_at_def)
qed

section \<open>The history\<close>

definition prompt_ok :: "bar \<Rightarrow> bool" where
  "prompt_ok b \<longleftrightarrow> length (b_history b) \<le> PROMPT_HISTORY_CAP \<and>
     pred_option (\<lambda>h. h < length (b_history b)) (b_history_index b) \<and>
     distinct_adj (b_history b) \<and> [] \<notin> set (b_history b) \<and> (b_configured b \<longrightarrow> b_shown b)"

lemma push_command_bounded:
  "length h \<le> PROMPT_HISTORY_CAP \<Longrightarrow> length (push_command c h) \<le> PROMPT_HISTORY_CAP"
  unfolding push_command_def Let_def PROMPT_HISTORY_CAP_def by (cases "h \<noteq> [] \<and> last h = c") (simp_all, arith?)

lemma distinct_adj_drop: "distinct_adj xs \<Longrightarrow> distinct_adj (drop n xs)"
  by (metis append_take_drop_id distinct_adj_appendD2)

lemma push_command_distinct: "distinct_adj h \<Longrightarrow> distinct_adj (push_command c h)"
  unfolding push_command_def Let_def
  by (cases "h = []") (auto intro!: distinct_adj_drop simp: distinct_adj_append_iff)

lemma push_command_set: "set (push_command c h) \<subseteq> insert c (set h)"
  by (auto simp: push_command_def Let_def dest: in_set_dropD split: if_splits)

lemma prompt_ok_cong:
  "b_history b' = b_history b \<Longrightarrow> b_history_index b' = b_history_index b \<or> b_history_index b' = None \<Longrightarrow>
   (b_configured b' \<longrightarrow> b_shown b') \<Longrightarrow> prompt_ok b \<Longrightarrow> prompt_ok b'"
  by (auto simp: prompt_ok_def)

lemma prompt_ok_shown: "prompt_ok b \<Longrightarrow> b_configured b \<Longrightarrow> b_shown b"
  by (simp add: prompt_ok_def)

lemma prompt_ok_show [intro]: "prompt_ok b \<Longrightarrow> prompt_ok (show_bar b)" "prompt_ok b \<Longrightarrow> prompt_ok (hide_bar b)"
  by (auto simp: prompt_ok_def show_bar_def hide_bar_def)

lemma prompt_ok_toggle: "prompt_ok b \<Longrightarrow> prompt_ok (toggle_bar b)"
  by (auto simp: toggle_bar_def)

lemma prompt_ok_close: "prompt_ok b \<Longrightarrow> prompt_ok (close_prompt b)"
proof -
  assume "prompt_ok b"
  then have "prompt_ok (b\<lparr>b_prompt := False, b_buffer := [], b_commands := [], b_history_index := None,
      b_keyboard := False, b_redraw := True\<rparr>)" by - (rule prompt_ok_cong [of _ b], auto simp: prompt_ok_shown)
  then show ?thesis by (auto simp: close_prompt_def Let_def)
qed

lemma prompt_ok_enter: "prompt_ok b \<Longrightarrow> prompt_ok (enter_prompt b)"
proof -
  assume b: "prompt_ok b"
  let ?h = "if entered_command b = [] then b_history b else push_command (entered_command b) (b_history b)"
  have "prompt_ok (b\<lparr>b_query := None, b_history := ?h, b_history_index := None\<rparr>)"
    using b push_command_bounded push_command_distinct push_command_set
    by (fastforce simp: prompt_ok_def)
  moreover have "enter_prompt b = close_prompt (b\<lparr>b_query := None, b_history := ?h, b_history_index := None\<rparr>)"
    by (simp add: enter_prompt_def close_prompt_def Let_def hide_bar_def)
  ultimately show ?thesis by (simp add: prompt_ok_close)
qed

lemma prompt_ok_tab: "prompt_ok b \<Longrightarrow> prompt_ok (tab_prompt b)"
  by (rule prompt_ok_cong [of _ b])
    (auto simp: tab_prompt_def Let_def prompt_ok_shown split: option.splits)

lemma prompt_ok_history: "prompt_ok b \<Longrightarrow> prompt_ok (history_up b)" "prompt_ok b \<Longrightarrow> prompt_ok (history_down b)"
  by (auto simp: prompt_ok_def history_up_def history_down_def Let_def split: option.splits)

lemma prompt_ok_type: "prompt_ok b \<Longrightarrow> prompt_ok (type_key k b)"
  by (rule prompt_ok_cong [of _ b]) (auto simp: type_key_def Let_def prompt_ok_shown split: option.splits)

lemma prompt_ok_key: "prompt_ok b \<Longrightarrow> prompt_ok (prompt_key k b)"
  using prompt_ok_cong [of "b\<lparr>b_buffer := pop_char (b_buffer b), b_history_index := None, b_query := None, b_redraw := True\<rparr>" b]
  by (auto simp: prompt_key_def prompt_ok_close prompt_ok_enter prompt_ok_tab prompt_ok_history prompt_ok_type prompt_ok_shown)

lemma prompt_ok_open: "prompt_ok b \<Longrightarrow> prompt_ok (open_prompt cmds b)"
  by (rule prompt_ok_cong [of _ b]) (auto simp: open_prompt_def show_bar_def Let_def prompt_ok_shown)

lemma prompt_ok_title: "prompt_ok b \<Longrightarrow> prompt_ok (set_title time tt b)"
  by (rule prompt_ok_cong [of _ b]) (auto simp: set_title_def show_bar_def Let_def prompt_ok_shown split: prod.splits)

lemma prompt_ok_expire: "prompt_ok b \<Longrightarrow> prompt_ok (expire_title time b)"
  by (rule prompt_ok_cong [of _ b])
    (auto simp: expire_title_def hide_bar_def Let_def prompt_ok_shown split: option.splits prod.splits)

lemma prompt_ok_side: "prompt_ok b \<Longrightarrow> prompt_ok (set_side bottom b)" "prompt_ok b \<Longrightarrow> prompt_ok (reload_bar c b)"
  by (rule prompt_ok_cong [of _ b]; auto simp: set_side_def reload_bar_def Let_def prompt_ok_shown split: option.splits)+

lemma prompt_ok_line: "prompt_ok b \<Longrightarrow> prompt_ok (bar_line cmd arg b)"
  by (rule prompt_ok_cong [of _ b])
    (auto simp: bar_line_def show_tags_def Let_def prompt_ok_shown split: list.splits)

lemma prompt_ok_configure: "prompt_ok b \<Longrightarrow> prompt_ok (configure_bar scale w h b)"
  by (rule prompt_ok_cong [of _ b]) (auto simp: configure_bar_def Let_def prompt_ok_shown)

lemma prompt_ok_pend: "prompt_ok b \<Longrightarrow> prompt_ok (pend_tag tag ts n b)" "prompt_ok b \<Longrightarrow> prompt_ok (frame_bar b)"
  by (rule prompt_ok_cong [of _ b]; auto simp: pend_tag_def frame_bar_def Let_def prompt_ok_shown split: tag_state.splits)+

lemma prompt_ok_new: "prompt_ok (bar_new global hidden bottom height padding)"
  by (simp add: prompt_ok_def bar_new_def)

section \<open>Every run of the bar\<close>

definition bar_inv :: "bar_state \<Rightarrow> bool" where
  "bar_inv st \<longleftrightarrow> list_all prompt_ok (bars st) \<and> LF \<notin> set (stdin_buf st) \<and>
     pred_option (\<lambda>(i, k, _). hover_target st = Some (i, k)) (widget st)"

text \<open>Operations on single bars keep what holds of each.\<close>

lemma bar_inv_bars: "bar_inv st \<Longrightarrow> list_all prompt_ok bs \<Longrightarrow> bar_inv (st\<lparr>bars := bs\<rparr>)"
  by (simp add: bar_inv_def)

lemma bar_inv_D: "bar_inv st \<Longrightarrow> list_all prompt_ok (bars st)"
  by (simp add: bar_inv_def)

lemma update_all: "list_all P xs \<Longrightarrow> (\<And>x. P x \<Longrightarrow> P (f x)) \<Longrightarrow> list_all P (update_at i f xs)"
  by (auto simp: list_all_length nth_update_at)

lemma bar_inv_upd: "bar_inv st \<Longrightarrow> (\<And>b. prompt_ok b \<Longrightarrow> prompt_ok (f b)) \<Longrightarrow> bar_inv (upd_bar i f st)"
  by (auto simp: upd_bar_def intro: bar_inv_bars update_all bar_inv_D)

lemma bar_inv_map: "bar_inv st \<Longrightarrow> (\<And>b. prompt_ok b \<Longrightarrow> prompt_ok (f b)) \<Longrightarrow> bar_inv (st\<lparr>bars := map f (bars st)\<rparr>)"
  by (rule bar_inv_bars) (auto simp: list_all_iff dest: bar_inv_D)

lemma bar_inv_on: "bar_inv st \<Longrightarrow> (\<And>b. prompt_ok b \<Longrightarrow> prompt_ok (f b)) \<Longrightarrow> bar_inv (on_bars is f st)"
  unfolding on_bars_def by (induction "is" arbitrary: st) (simp_all add: bar_inv_upd)

lemma prompt_ok_fields [simp]:
  "prompt_ok (b\<lparr>b_dead := v1\<rparr>) = prompt_ok b" "prompt_ok (b\<lparr>b_name := v2\<rparr>) = prompt_ok b"
  "prompt_ok (b\<lparr>b_sel := v3\<rparr>) = prompt_ok b" "prompt_ok (b\<lparr>b_title := v4\<rparr>) = prompt_ok b"
  "prompt_ok (b\<lparr>b_layout := v5\<rparr>) = prompt_ok b"
  "prompt_ok (b\<lparr>b_layout_idx := n\<rparr>) = prompt_ok b" "prompt_ok (b\<lparr>b_layout_idx := n, b_layout := v5\<rparr>) = prompt_ok b"
  "prompt_ok (b\<lparr>b_status := t, b_pix_ends := e, b_redraw := r\<rparr>) = prompt_ok b"
  by (simp_all add: prompt_ok_def)

lemma bar_inv_clear: "bar_inv st \<Longrightarrow> bar_inv (clear_hover st)"
  by (simp add: bar_inv_def clear_hover_def)

lemma bar_inv_hover: "bar_inv st \<Longrightarrow> bar_inv (update_hover i st)"
  by (auto simp: update_hover_def bar_inv_def Let_def split: option.splits prod.splits)

lemma bar_inv_setup: "bar_inv st \<Longrightarrow> bar_inv (setup_bar i st)"
  unfolding setup_bar_def by (rule bar_inv_upd) auto

lemma bar_inv_outputs: "bar_inv st \<Longrightarrow> bar_inv (bar_added g st)" "bar_inv st \<Longrightarrow> bar_inv (bar_removed g st)"
  "bar_inv st \<Longrightarrow> bar_inv (bar_named i name st)" "bar_inv st \<Longrightarrow> bar_inv (bars_ready st)"
proof -
  assume st: "bar_inv st"
  show "bar_inv (bar_added g st)"
    using bar_inv_bars [OF st, of "bars st @ [bar_new g (bc_hidden (bconf st)) (bc_bottom (bconf st)) (bar_height st) (textpadding st)]"]
      bar_inv_D [OF st] by (simp add: bar_added_def Let_def bar_inv_setup prompt_ok_new)
  show "bar_inv (bar_removed g st)"
    using st by (auto simp: bar_removed_def intro!: bar_inv_upd split: option.splits)
  show "bar_inv (bar_named i name st)"
    unfolding bar_named_def using st by (rule bar_inv_upd) simp
  have "bar_inv (fold (\<lambda>i st. if b_dead (bars st ! i) then st else setup_bar i st) ks st')" if "bar_inv st'" for ks st'
    using that by (induction ks arbitrary: st') (simp_all add: bar_inv_setup)
  moreover have "bar_inv (st\<lparr>ready := True\<rparr>)" using st by (simp add: bar_inv_def)
  ultimately show "bar_inv (bars_ready st)" by (simp add: bars_ready_def)
qed

lemma bar_inv_dwl: "bar_inv st \<Longrightarrow> bar_inv (dwl_output i ev st)"
  by (cases ev)
    (auto simp: dwl_output_def intro!: bar_inv_upd prompt_ok_pend prompt_ok_toggle)

lemma bar_inv_ipc: "bar_inv st \<Longrightarrow> bar_inv (ipc_ready chunks st)"
proof -
  assume st: "bar_inv st"
  have line: "list_all prompt_ok (process_line l bs)" if "list_all prompt_ok bs" for l bs
    using that by (auto simp: process_line_def intro!: update_all prompt_ok_line split: option.splits prod.splits)
  have "list_all prompt_ok (fold process_line ls bs)" if "list_all prompt_ok bs" for ls bs
    using that line by (induction ls arbitrary: bs) simp_all
  with st have "list_all prompt_ok (bars (take_status t st))" for t
    by (simp add: take_status_def bar_inv_def process_stdin_buf_def Let_def split: prod.split)
  moreover have "LF \<notin> set (stdin_buf (take_status t st))" for t
    using st by (intro take_status_rest) (simp add: bar_inv_def)
  moreover have "widget (take_status t st) = widget st" "hover_target (take_status t st) = hover_target st" for t
    by (simp_all add: take_status_def Let_def split: prod.split)
  ultimately show ?thesis using st by (simp add: ipc_ready_def bar_inv_def)
qed

lemma bar_inv_blocks: "bar_inv st \<Longrightarrow> bar_inv (blocks_ready tw txt bounds st)"
proof -
  assume st: "bar_inv st"
  then have "bar_inv (st\<lparr>bars := map (\<lambda>b. b\<lparr>b_status := custom_text_of (bconf st) txt,
      b_pix_ends := compute_pix_ends tw txt bounds, b_redraw := True\<rparr>) (bars st)\<rparr>)"
    by (rule bar_inv_map) simp
  with st show ?thesis by (auto simp: blocks_ready_def Let_def intro: bar_inv_hover split: option.splits)
qed

lemma bar_inv_pointer: "bar_inv st \<Longrightarrow> bar_inv (pointer_enter i x st)" "bar_inv st \<Longrightarrow> bar_inv (pointer_leave i st)"
  "bar_inv st \<Longrightarrow> bar_inv (pointer_motion x st)" "bar_inv st \<Longrightarrow> bar_inv (pointer_button n st)"
  "bar_inv st \<Longrightarrow> bar_inv (widget_closed st)" "bar_inv st \<Longrightarrow> bar_inv (hover_ready tw g bi k out st)"
proof -
  assume st: "bar_inv st"
  show "bar_inv (pointer_enter i x st)" "bar_inv (pointer_motion x st)"
    using st by (auto simp: pointer_enter_def pointer_motion_def bar_inv_def intro!: bar_inv_hover [unfolded bar_inv_def]
      split: option.splits)
  show "bar_inv (pointer_leave i st)" "bar_inv (widget_closed st)" "bar_inv (hover_ready tw g bi k out st)"
    "bar_inv (pointer_button n st)"
    using st by (auto simp: pointer_leave_def widget_closed_def hover_ready_def pointer_button_def spawn_click_def
      clear_hover_def bar_inv_def Let_def split: option.splits)
qed

lemma bar_inv_key: "bar_inv st \<Longrightarrow> bar_inv (key_pressed k st)"
proof -
  assume st: "bar_inv st"
  have "bar_inv (upd_bar i (prompt_key k) st)" for i using st prompt_ok_key by (rule bar_inv_upd)
  then show ?thesis
    by (auto simp: key_pressed_def handle_key_input_def Let_def bar_inv_def st [unfolded bar_inv_def] split: option.splits)
qed

lemma bar_inv_reload: "bar_inv st \<Longrightarrow> bar_inv (reload c st)"
  unfolding reload_def Let_def
  by (rule bar_inv_clear) (auto simp: bar_inv_def list_all_iff prompt_ok_side split: option.splits)

lemma bar_inv_command: "bar_inv st \<Longrightarrow> bar_inv (bar_command c cmds time buf st)"
proof -
  assume st: "bar_inv st"
  have "bar_inv (st\<lparr>notification := v\<rparr>) = bar_inv st" for st v by (simp add: bar_inv_def)
  moreover have "bar_inv (on_bars is (open_prompt cmds) st)" "bar_inv (on_bars is (set_title time tt) st)"
    "bar_inv (on_bars is show_bar st)" "bar_inv (on_bars is hide_bar st)" "bar_inv (on_bars is toggle_bar st)"
    "bar_inv (on_bars is (set_side s) st)" "bar_inv (on_bars is (\<lambda>b. set_side (\<not> b_bottom b) b) st)"
    "bar_inv (on_bars is (\<lambda>b. b\<lparr>b_status := t, b_pix_ends := [], b_redraw := True\<rparr>) st)" for "is" tt s t
    using st by (auto intro!: bar_inv_on prompt_ok_open prompt_ok_title prompt_ok_toggle prompt_ok_side)
  ultimately show ?thesis
    using st by (simp add: bar_command_def Let_def bar_inv_clear bar_inv_reload split: list.split option.split)
qed

lemma bar_inv_expire: "bar_inv st \<Longrightarrow> bar_inv (expire_titles time st)"
proof -
  assume "bar_inv st"
  then have "bar_inv (st\<lparr>bars := map (expire_title time) (bars st)\<rparr>)" by (rule bar_inv_map) (rule prompt_ok_expire)
  then show ?thesis by (simp add: expire_titles_def Let_def bar_inv_def)
qed

lemma bar_inv_step: "bar_inv st \<Longrightarrow> bar_inv (bar_step tw c cmds time e st)"
  by (cases e)
    (auto simp: bar_step_def bar_inv_outputs bar_inv_dwl bar_inv_ipc bar_inv_blocks bar_inv_pointer bar_inv_key
      bar_inv_command bar_inv_expire prompt_ok_configure intro!: bar_inv_upd,
     simp_all add: dwl_tags_def dwl_layout_def bar_inv_def)

lemma reachable_bar_inv: "bar_reachable st \<Longrightarrow> bar_inv st"
  by (induction rule: bar_reachable.induct) (simp add: bar_start_def bar_inv_def, rule bar_inv_step)

text \<open>C8: in every run of the bar its prompt histories hold at most a hundred commands, none empty and
  none twice in a row, and the place in the history is in range; a hover widget belongs to the
  block the pointer is on; and no finished line of the status waits.\<close>

theorem reachable_bar_ok:
  assumes "bar_reachable st"
  shows "(\<forall>b \<in> set (bars st). length (b_history b) \<le> 100 \<and> distinct_adj (b_history b) \<and> [] \<notin> set (b_history b) \<and>
      (\<forall>h. b_history_index b = Some h \<longrightarrow> h < length (b_history b))) \<and>
    (\<forall>i k out. widget st = Some (i, k, out) \<longrightarrow> hover_target st = Some (i, k)) \<and> LF \<notin> set (stdin_buf st)"
  using reachable_bar_inv [OF assms]
  by (auto simp: bar_inv_def list_all_iff prompt_ok_def PROMPT_HISTORY_CAP_def)

section \<open>Instances\<close>

definition typing :: "string \<Rightarrow> bar" where
  "typing s = (open_prompt [''ls'', ''lsblk'', ''lsof'', ''man''] (bars two_bars ! 0))\<lparr>b_buffer := s\<rparr>"

lemma tab_cycles_completions_witness: "b_buffer ((tab_prompt ^^ Suc 4) (typing ''ls'')) = ''lsblk''"
proof -
  have "b_buffer (typing ''ls'') \<noteq> []" "b_query (typing ''ls'') = None" "matching (typing ''ls'') = [''ls'', ''lsblk'', ''lsof'']"
    by code_simp+
  then show ?thesis using tab_cycles_completions [of "typing ''ls''" 4] by simp
qed

lemma enter_starts_typed_command_witness:
  "ran (handle_key_input 0 28 (two_bars\<lparr>bars := [typing ''ls'']\<rparr>)) = [''ls'']"
proof -
  have t: "b_commands (typing ''ls'') = [''ls'', ''lsblk'', ''lsof'', ''man'']" "b_buffer (typing ''ls'') = ''ls''"
    "trim ''ls'' = ''ls''" by code_simp+
  have "sorted [''ls'', ''lsblk'', ''lsof'', ''man'']" by code_simp
  with t enter_starts_typed_command [of "typing ''ls''" 0 "two_bars\<lparr>bars := [typing ''ls'']\<rparr>"]
  show ?thesis by (simp add: two_bars_def bar_named_def bar_added_def upd_bar_def no_bars_def setup_bar_def)
qed

lemma reachable_bar_ok_witness: "LF \<notin> set (stdin_buf (bar_step (\<lambda>_. 0) plain_bar_conf [] 0 (IpcReady [''x'']) (bar_start plain_bar_conf 24 8)))"
  using reachable_bar_ok [OF bar_steps [OF bar_starts]] by blast

section \<open>What goes wrong\<close>

definition prompted :: bar_state where
  "prompted = bar_command plain_bar_conf [] 0 ''DP-2 prompt'' two_bars"

text \<open>The prompt of an output that is unplugged stays open: it takes the keys for a later bar.\<close>

lemma removed_bar_takes_keys:
  "map b_buffer (bars (key_pressed 30 (bar_command plain_bar_conf [] 0 ''DP-1 prompt'' (bar_removed 3 prompted)))) =
   [''a'', []]"
  by code_simp

text \<open>A bar hidden while its prompt is open shows the prompt again when it is shown, but takes no keys.\<close>

lemma hidden_prompt_is_deaf:
  "map (\<lambda>b. (b_prompt b, b_shown b, b_keyboard b)) (bars (bar_command plain_bar_conf [] 0 ''DP-2 show''
     (bar_command plain_bar_conf [] 0 ''DP-2 hide'' prompted))) = [(True, True, False), (False, True, False)]"
  by code_simp

text \<open>A second request for the prompt of a hidden bar makes it stay when the prompt closes.\<close>

lemma second_prompt_keeps_bar:
  "map b_shown (bars (key_pressed 1 (bar_command plain_bar_conf [] 0 ''DP-2 prompt''
     (bar_command plain_bar_conf [] 0 ''DP-2 prompt'' (bar_command plain_bar_conf [] 0 ''DP-2 hide'' two_bars))))) =
   [True, True]"
  "map b_shown (bars (key_pressed 1 (bar_command plain_bar_conf [] 0 ''DP-2 prompt''
     (bar_command plain_bar_conf [] 0 ''DP-2 hide'' two_bars)))) = [False, True]"
  by code_simp+

text \<open>A title that ran out hides the bar even when it was shown on request in the meantime.\<close>

lemma expired_title_hides_bar:
  "map b_shown (bars (expire_titles 9 (bar_command plain_bar_conf [] 1 ''DP-2 show''
     (bar_command plain_bar_conf [] 0 ''DP-2 title 5 hello'' (bar_command plain_bar_conf [] 0 ''DP-2 hide'' two_bars))))) =
   [False, True]"
  by code_simp

end
