(* ===== verification/Bar_Status.thy ===== *)
theory Bar_Status
  imports Bar_Laws
begin

text \<open>
  The text of the status blocks: the bounds that tell where each block ends, and the inline
  commands, which a doubled caret escapes.
\<close>

section \<open>Status text\<close>

lemma join_blocks_spec:
  "join_blocks delim acc k ps = (out, bs) \<Longrightarrow>
   length bs = length ps \<and> prefix acc out \<and> sorted bs \<and> (\<forall>b \<in> set bs. length acc \<le> b \<and> b \<le> length out) \<and>
   (\<forall>i < length ps. length (ps ! i) \<le> bs ! i \<and> take (length (ps ! i)) (drop (bs ! i - length (ps ! i)) out) = ps ! i)"
proof (induction ps arbitrary: acc k out bs)
  case (Cons p ps)
  let ?acc = "if k > 0 then acc @ delim else acc"
  obtain bs' where j: "join_blocks delim (?acc @ p) (Suc k) ps = (out, bs')" "bs = length (?acc @ p) # bs'"
    using Cons.prems by (auto simp: Let_def split: prod.splits)
  note IH = Cons.IH [OF j(1)]
  obtain u where u: "out = (?acc @ p) @ u" using IH by (auto elim: prefixE)
  have "take (length p) (drop (length ?acc) out) = p" by (simp add: u)
  with IH j(2) u show ?case by (auto simp: nth_Cons' less_Suc_eq_0_disj prefix_def)
qed simp

text \<open>The bounds of the status text are in order and tell for every block where its text ends, so
  that its text is the part before its bound.\<close>

theorem status_bounds_locate_blocks:
  assumes "build_status_bounds cache delim = (out, bounds)"
  shows "length bounds = length cache" "sorted bounds"
    "i < length cache \<Longrightarrow> length (cache ! i) \<le> bounds ! i \<and> bounds ! i \<le> length out \<and>
       take (length (cache ! i)) (drop (bounds ! i - length (cache ! i)) out) = cache ! i"
  using join_blocks_spec [OF assms [unfolded build_status_bounds_def]] by auto

text \<open>A text with every caret doubled.\<close>

definition escape :: "string \<Rightarrow> string" where
  "escape s = concat (map (\<lambda>c. if c = CHR ''^'' then ''^^'' else [c]) s)"

lemma escape_simps [simp]: "escape [] = []" "escape (a @ b) = escape a @ escape b"
  "escape (c # s) = (if c = CHR ''^'' then ''^^'' else [c]) @ escape s"
  by (simp_all add: escape_def)

lemma char_len_take:
  assumes "char_len (c # cs) = Some n"
  shows "char_len (take n (c # cs)) = Some n" "\<forall>d \<in> set (take (n - 1) cs). is_cont d"
proof -
  have n: "n = lead_len (byte c)" "0 < n" "n - 1 \<le> length cs" using char_len_Some [OF assms] by blast+
  have t: "takeWhile is_cont (take (n - 1) cs) = take (n - 1) cs"
  proof -
    have "length (takeWhile is_cont (take (n - 1) cs)) = n - 1"
      using assms n(1) by (auto simp: char_len_def Let_def split: if_splits)
    then show ?thesis using takeWhile_eq_take [of is_cont "take (n - 1) cs"] by simp
  qed
  then show "\<forall>d \<in> set (take (n - 1) cs). is_cont d" by (metis set_takeWhileD)
  have "take n (c # cs) = c # take (n - 1) cs" using n(2) by (cases n) simp_all
  moreover have "n > 1 \<longrightarrow> hd (take (n - 1) cs) = hd cs" by (cases cs; cases "n - 1") simp_all
  ultimately show "char_len (take n (c # cs)) = Some n"
    using assms n t by (auto simp: char_len_def Let_def split: if_splits)
qed

lemma no_caret_escape: "CHR ''^'' \<notin> set s \<Longrightarrow> escape s = s"
  by (induction s) auto

lemma char_no_caret: "char_len (c # cs) = Some n \<Longrightarrow> c \<noteq> CHR ''^'' \<Longrightarrow> escape (take n (c # cs)) = take n (c # cs)"
proof (rule no_caret_escape)
  assume c: "char_len (c # cs) = Some n" "c \<noteq> CHR ''^''"
  have "\<not> is_cont (CHR ''^'')" by code_simp
  with char_len_take(2) [OF c(1)] have "CHR ''^'' \<notin> set (take (n - 1) cs)" by blast
  with c(2) show "CHR ''^'' \<notin> set (take n (c # cs))" by (cases n) auto
qed

lemma caret_len: "char_len (CHR ''^'' # s) = Some 1"
  by (simp add: char_len_def lead_len_def byte_def)

lemma utf8_ok_char: "char_len s = Some n \<Longrightarrow> utf8_ok s = utf8_ok (drop n s)"
  using char_len_pos [of s n] by (subst utf8_ok.simps) auto

lemma escape_char:
  assumes "char_len s = Some n"
  shows "escape s = (if hd s = CHR ''^'' then ''^^'' else take n s) @ escape (drop n s)"
proof (cases s)
  case (Cons c cs)
  show ?thesis
  proof (cases "c = CHR ''^''")
    case True
    then have "n = 1" using assms caret_len [of cs] unfolding Cons by simp
    with True Cons show ?thesis by simp
  next
    case False
    have "escape s = escape (take n s) @ escape (drop n s)" by (metis append_take_drop_id escape_simps(2))
    with char_no_caret [of c cs n] assms Cons False show ?thesis by simp
  qed
qed (use assms in \<open>simp add: char_len_def\<close>)

lemma utf8_ok_escape: "utf8_ok s \<Longrightarrow> utf8_ok (escape s)"
proof (induction s rule: utf8_ok.induct)
  case (1 s)
  show ?case
  proof (cases "s = []")
    case False
    with "1.prems" obtain n where n: "char_len s = Some n" "utf8_ok (drop n s)"
      by (subst (asm) utf8_ok.simps) (auto split: option.splits)
    have "utf8_ok (take n s)"
      using n(1) char_len_take(1) [of "hd s" "tl s" n] False char_len_pos [OF n(1)]
      by (subst utf8_ok_char [of _ n]) simp_all
    moreover have "utf8_ok ''^^''" by code_simp
    ultimately show ?thesis
      using "1.IH" [OF n(1) n(2)] by (simp add: escape_char [OF n(1)] utf8_ok_append)
  qed simp
qed

lemma custom_plain:
  assumes "char_len r = Some n" "utf8_ok r" "hd r \<noteq> CHR ''^''" "length out < TEXT_MAX - 1"
  shows "custom_loop bg fg r out cols = custom_loop bg fg (drop n r) (out @ take n r) cols"
proof -
  have "r \<noteq> []" using assms(1) by (auto simp: char_len_def)
  with assms show ?thesis by (simp add: custom_loop.simps [of bg fg r])
qed

lemma custom_doubled:
  assumes "utf8_ok (CHR ''^'' # r)" "length out < TEXT_MAX - 1"
  shows "custom_loop bg fg (CHR ''^'' # CHR ''^'' # r) out cols = custom_loop bg fg r (out @ ''^'') cols"
  using assms by (simp add: custom_loop.simps [of bg fg "_ # _"] caret_len)

lemma custom_escaped:
  "utf8_ok s \<Longrightarrow> length out + length s < TEXT_MAX \<Longrightarrow> custom_loop bg fg (escape s) out cols = (out @ s, cols)"
proof (induction s arbitrary: out rule: utf8_ok.induct)
  case (1 s)
  show ?case
  proof (cases "s = []")
    case True
    then show ?thesis by (simp add: custom_loop.simps)
  next
    case False
    with "1.prems"(1) obtain n where n: "char_len s = Some n" "utf8_ok (drop n s)"
      by (subst (asm) utf8_ok.simps) (auto split: option.splits)
    have pos: "0 < n" "n \<le> length s" using char_len_pos [OF n(1)] by simp_all
    then have IH: "custom_loop bg fg (escape (drop n s)) (out @ take n s) cols = (out @ s, cols)"
      using "1.IH" [OF n(1) n(2), of "out @ take n s"] "1.prems"(2) by simp
    have short: "length out < TEXT_MAX - 1" using "1.prems"(2) False by (cases s) auto
    let ?r = "take n s @ escape (drop n s)"
    have t: "char_len (take n s) = Some n" using char_len_take(1) [of "hd s" "tl s" n] n(1) False by simp
    have l: "length (take n s) = n" using pos by simp
    have r: "char_len ?r = Some n" using t by (rule char_len_append)
    have d: "drop n ?r = escape (drop n s)" "take n ?r = take n s" using l by simp_all
    have u: "utf8_ok ?r" "?r \<noteq> []" using utf8_ok_char [OF r] d utf8_ok_escape [OF n(2)] pos False by auto
    show ?thesis
    proof (cases "hd s = CHR ''^''")
      case True
      then obtain cs where s: "s = CHR ''^'' # cs" using False by (cases s) auto
      have 1: "n = 1" using n(1) caret_len [of cs] unfolding s by simp
      then have 2: "take n s = ''^''" by (simp add: s)
      have e: "escape s = CHR ''^'' # CHR ''^'' # escape (drop n s)" by (simp add: escape_char [OF n(1)] True)
      have "utf8_ok (CHR ''^'' # escape (drop n s))" using u(1) unfolding 2 by simp
      from custom_doubled [OF this short] IH [unfolded 2] show ?thesis unfolding e by simp
    next
      case False
      have h: "hd ?r \<noteq> CHR ''^''" using False pos \<open>s \<noteq> []\<close> by (cases s; cases n) simp_all
      have e: "escape s = ?r" by (simp add: escape_char [OF n(1)] False)
      from custom_plain [OF r u(1) h short] IH show ?thesis unfolding e d by simp
    qed
  qed
qed

text \<open>Any text of less than two kilobytes can be shown as it is: with its carets doubled the inline
  commands are none, and the text shown is the text.\<close>

theorem escaped_text_shown:
  assumes "utf8_ok s" "length s < 2048"
  shows "parse_into_customtext True bg fg (escape s) = (s, [])"
  using custom_escaped [of s "[]"] assms by (simp add: parse_into_customtext_def TEXT_MAX_def)

section \<open>Instances\<close>

lemma status_bounds_locate_blocks_witness: "take 2 (drop (6 - 2) ''a | bb'') = ''bb''"
proof -
  have "build_status_bounds [''a'', ''bb''] '' | '' = (''a | bb'', [1, 6])" by code_simp
  from status_bounds_locate_blocks(3) [OF this, of 1] show ?thesis by simp
qed

lemma escaped_text_shown_witness:
  "parse_into_customtext True (bc_inactive_bg plain_bar_conf) (bc_inactive_fg plain_bar_conf) ''2^^4'' = (''2^4'', [])"
proof -
  have "utf8_ok ''2^4''" by (rule utf8_ok_ascii) (simp add: byte_def)
  from escaped_text_shown [OF this] show ?thesis by simp
qed

end
