(* ===== verification/Bar_Draw.thy ===== *)
theory Bar_Draw
  imports Bar
begin

text \<open>
  How the bar is drawn (\<^verbatim>\<open>azoth-render/src/render.rs\<close> and \<^verbatim>\<open>lib.rs\<close>): a text as a run of glyphs, the
  frame of a bar, and the hover widget. The font rasteriser and the pixel library are parameters:
  a font gives glyphs and kernings, and drawing is the list of the fills and glyphs it asks for.
\<close>

section \<open>Fonts and drawing operations\<close>

record glyph =
  g_advance :: int
  g_x :: int
  g_y :: int
  g_width :: int
  g_height :: int
  g_argb :: bool

record font =
  f_ascent :: int
  f_descent :: int
  f_height :: nat
  f_glyph :: "nat \<Rightarrow> glyph option"
  f_kern :: "nat \<Rightarrow> nat \<Rightarrow> int"

datatype layer = Foreground | Mask | Background

datatype draw_op =
  Fill layer colour int int int int
  | Put layer nat int int

definition wrap :: "int \<Rightarrow> nat" where
  "wrap n = nat (n mod 4294967296)"

text \<open>\<open>cast_signed\<close> of a \<open>u32\<close>.\<close>

definition cs :: "nat \<Rightarrow> int" where
  "cs n = i32 (int n)"

section \<open>Characters\<close>

text \<open>\<open>char_indices\<close>: the characters of a text with the byte each starts at.\<close>

definition codepoint :: "string \<Rightarrow> nat" where
  "codepoint ch = (case map byte ch of
     [a] \<Rightarrow> a
   | [a, b] \<Rightarrow> (a - 192) * 64 + (b - 128)
   | [a, b, c] \<Rightarrow> (a - 224) * 4096 + (b - 128) * 64 + (c - 128)
   | [a, b, c, d] \<Rightarrow> (a - 240) * 262144 + (b - 128) * 4096 + (c - 128) * 64 + (d - 128)
   | _ \<Rightarrow> 0)"

function char_indices :: "nat \<Rightarrow> string \<Rightarrow> (nat \<times> nat) list" where
  "char_indices i s = (case char_len s of
     None \<Rightarrow> [] | Some n \<Rightarrow> (i, codepoint (take n s)) # char_indices (i + n) (drop n s))"
  by pat_completeness auto
termination
  by (relation "measure (\<lambda>(i, s). length s)") (auto dest: char_len_pos)

declare char_indices.simps [simp del]

section \<open>A run of text\<close>

text \<open>Whether the layers are drawn at all, the baseline and the band of the background fills.\<close>

record target =
  t_fg :: bool
  t_bg :: bool
  t_y :: nat
  t_top :: nat
  t_bottom :: nat

record pen =
  pen_x :: nat
  pen_cols :: "text_color list"
  pen_fg :: colour
  pen_bg :: colour
  pen_last :: nat
  pen_ops :: "draw_op list"

fun take_colors :: "target \<Rightarrow> nat \<Rightarrow> text_color list \<Rightarrow> pen \<Rightarrow> pen" where
  "take_colors tg i [] p = p\<lparr>pen_cols := []\<rparr>"
| "take_colors tg i (tc # tcs) p =
     (if tc_start tc \<noteq> i then p\<lparr>pen_cols := tc # tcs\<rparr>
      else take_colors tg i tcs
        (if tc_is_bg tc then (if t_bg tg then p\<lparr>pen_bg := tc_color tc\<rparr> else p)
         else if t_fg tg then p\<lparr>pen_fg := tc_color tc\<rparr> else p))"

definition white :: colour where
  "white = \<lparr>red = 65535, green = 65535, blue = 65535, alpha = 65535\<rparr>"

definition glyph_ops :: "target \<Rightarrow> nat \<Rightarrow> glyph \<Rightarrow> nat \<Rightarrow> nat \<Rightarrow> pen \<Rightarrow> draw_op list" where
  "glyph_ops tg cp g xk nx p =
     (if t_fg tg
      then (if g_argb g then [Put Foreground cp (i32 (cs xk + g_x g)) (i32 (cs (t_y tg) - g_y g))]
            else [Fill Foreground (pen_fg p) (cs xk) (cs (t_top tg)) (cs nx) (cs (t_bottom tg))]) @
           [Put Mask cp (i32 (cs xk + g_x g)) (i32 (cs (t_y tg) - g_y g))]
      else []) @
     (if t_bg tg then [Fill Background (pen_bg p) (cs xk) (cs (t_top tg)) (cs nx) (cs (t_bottom tg))] else [])"

text \<open>The loop over the characters; it ends at the first one that does not fit.\<close>

fun draw_chars :: "font \<Rightarrow> target \<Rightarrow> nat \<Rightarrow> nat \<Rightarrow> (nat \<times> nat) list \<Rightarrow> pen \<Rightarrow> pen" where
  "draw_chars f tg max_x padding [] p = p"
| "draw_chars f tg max_x padding ((i, cp) # chs) p =
     (let p1 = take_colors tg i (pen_cols p) p in
      case f_glyph f cp of
        None \<Rightarrow> draw_chars f tg max_x padding chs p1
      | Some g \<Rightarrow>
          let kern = (if pen_last p1 \<noteq> 0 then f_kern f (pen_last p1) cp else 0);
              nx = wrap (int (pen_x p1) + kern + g_advance g)
          in if wrap (int nx + int padding) > max_x then p1
             else let xk = wrap (int (pen_x p1) + kern)
               in draw_chars f tg max_x padding chs
                    (p1\<lparr>pen_x := nx, pen_last := cp, pen_ops := pen_ops p1 @ glyph_ops tg cp g xk nx p1\<rparr>))"

definition draw_text ::
  "font \<Rightarrow> target \<Rightarrow> string \<Rightarrow> nat \<Rightarrow> nat \<Rightarrow> nat \<Rightarrow> colour \<Rightarrow> colour \<Rightarrow> text_color list \<Rightarrow> nat \<times> draw_op list" where
  "draw_text f tg txt x max_x padding fg bg cols =
     (if max_x = 0 \<or> txt = [] then (x, [])
      else
        let nx = wrap (int x + int padding) in
        if wrap (int nx + int padding) \<ge> max_x then (x, [])
        else
          let p = draw_chars f tg max_x padding (if utf8_ok txt then char_indices 0 txt else [])
                \<lparr>pen_x = nx, pen_cols = cols, pen_fg = fg, pen_bg = bg, pen_last = 0, pen_ops = []\<rparr>
          in if pen_last p = 0 then (x, pen_ops p)
             else (wrap (int (pen_x p) + int padding),
                pen_ops p @ (if t_bg tg then
                  [Fill Background bg (cs x) (cs (t_top tg)) (cs (wrap (int x + int padding))) (cs (t_bottom tg)),
                   Fill Background bg (cs (pen_x p)) (cs (t_top tg)) (cs (wrap (int (pen_x p) + int padding)))
                     (cs (t_bottom tg))] else [])))"

definition blind :: target where
  "blind = \<lparr>t_fg = False, t_bg = False, t_y = 0, t_top = 0, t_bottom = 0\<rparr>"

definition text_width :: "font \<Rightarrow> string \<Rightarrow> nat \<Rightarrow> nat \<Rightarrow> nat" where
  "text_width f txt max_w padding = fst (draw_text f blind txt 0 max_w padding white white [])"

text \<open>\<open>CString::new\<close> refuses a text with a zero byte.\<close>

definition c_string :: "string \<Rightarrow> string option" where
  "c_string s = (if CHR 0x00 \<in> set s then None else Some s)"

definition measure_text :: "font \<Rightarrow> string \<Rightarrow> nat \<Rightarrow> nat" where
  "measure_text f txt padding =
     (if txt = [] then 0 else text_width f (unwrap_or (c_string txt) []) 4294967295 padding)"

section \<open>The frame of a bar\<close>

record palette =
  active_fg :: colour
  active_bg :: colour
  occupied_fg :: colour
  occupied_bg :: colour
  inactive_fg :: colour
  inactive_bg :: colour
  urgent_fg :: colour
  urgent_bg :: colour
  middle_bg :: colour
  middle_bg_sel :: colour

record bar_view =
  v_width :: nat
  v_height :: nat
  v_padding :: nat
  v_tags :: "string list"
  v_mtags :: u32
  v_ctags :: u32
  v_urg :: u32
  v_sel :: u32
  v_layout :: "string option"
  v_title :: "string option"
  v_title_fg :: "colour option"
  v_status :: string
  v_status_colors :: "text_color list"
  v_hide_vacant :: bool
  v_center_title :: bool
  v_active_color_title :: bool
  v_palette :: palette

text \<open>What the drawing can end with: a read past the end of the tag names, or \<open>clamp\<close> with its bounds
  crossed, which panics.\<close>

datatype draw_error = OutOfBounds | ClampPanic

text \<open>Where the parts of a frame begin and end.\<close>

record cuts =
  tags_end :: nat
  layout_end :: nat
  status_w :: nat
  title_start :: nat
  title_end :: nat

definition bar_row :: "font \<Rightarrow> bar_view \<Rightarrow> target" where
  "bar_row f v = \<lparr>t_fg = True, t_bg = True, t_y = wrap (cs (v_height v) + f_ascent f - f_descent f) div 2,
     t_top = 0, t_bottom = v_height v\<rparr>"

definition tag_bit :: "u32 \<Rightarrow> nat \<Rightarrow> bool" where
  "tag_bit w i \<longleftrightarrow> drop_bit (i mod 32) w AND 1 \<noteq> 0"

definition tag_colours :: "bar_view \<Rightarrow> nat \<Rightarrow> colour \<times> colour" where
  "tag_colours v i =
     (let p = v_palette v in
      if tag_bit (v_urg v) i then (urgent_fg p, urgent_bg p)
      else if tag_bit (v_mtags v) i then (active_fg p, active_bg p)
      else if tag_bit (v_ctags v) i then (occupied_fg p, occupied_bg p)
      else (inactive_fg p, inactive_bg p))"

text \<open>The mark of an occupied tag: a box, hollow unless the tag is shown on the selected output.\<close>

definition tag_box :: "font \<Rightarrow> bar_view \<Rightarrow> nat \<Rightarrow> nat \<Rightarrow> draw_op list" where
  "tag_box f v i x =
     (let boxs = f_height f div 9; boxw = f_height f div 6 + 2;
          zero = \<lparr>red = 0, green = 0, blue = 0, alpha = 0\<rparr>;
          x1 = cs (wrap (int (x + boxs))); x2 = cs (wrap (int (x + boxs + boxw)))
      in if v_hide_vacant v \<or> \<not> tag_bit (v_ctags v) i then []
         else [Fill Foreground (fst (tag_colours v i)) x1 (cs boxs) x2 (cs (boxs + boxw)),
               Fill Mask white x1 (cs boxs) x2 (cs (boxs + boxw))] @
           (if (v_sel v = 0 \<or> \<not> tag_bit (v_mtags v) i) \<and> boxw \<ge> 3
            then [Fill Foreground zero (i32 (x1 + 1)) (cs (boxs + 1)) (i32 (x2 - 1)) (cs (boxs + boxw - 1)),
                  Fill Mask zero (i32 (x1 + 1)) (cs (boxs + 1)) (i32 (x2 - 1)) (cs (boxs + boxw - 1))]
            else []))"

text \<open>The names that hold no zero byte, as the drawing gets them; the count is that of all names.\<close>

definition tag_strings :: "bar_view \<Rightarrow> string list" where
  "tag_strings v = List.map_filter c_string (v_tags v)"

fun draw_tags :: "font \<Rightarrow> bar_view \<Rightarrow> nat list \<Rightarrow> nat \<Rightarrow> draw_op list \<Rightarrow> draw_error + (nat \<times> draw_op list)" where
  "draw_tags f v [] x ops = Inr (x, ops)"
| "draw_tags f v (i # is) x ops =
     (if v_hide_vacant v \<and> \<not> tag_bit (v_mtags v) i \<and> \<not> tag_bit (v_ctags v) i \<and> \<not> tag_bit (v_urg v) i
      then draw_tags f v is x ops
      else case get_at (tag_strings v) i of
        None \<Rightarrow> Inl OutOfBounds
      | Some name \<Rightarrow>
          let (fg, bg) = tag_colours v i;
              (x', drawn) = draw_text f (bar_row f v) name x (v_width v) (v_padding v) fg bg []
          in draw_tags f v is x' (ops @ tag_box f v i x @ drawn))"

definition clamp :: "nat \<Rightarrow> nat \<Rightarrow> nat \<Rightarrow> nat option" where
  "clamp n lo hi = (if lo > hi then None else Some (max lo (min n hi)))"

text \<open>Where the title starts: in the middle of the bar if there is room, or after the layout.\<close>

definition title_place :: "font \<Rightarrow> bar_view \<Rightarrow> nat \<Rightarrow> nat \<Rightarrow> nat option" where
  "title_place f v x sw =
     (if v_center_title v
      then let tw = text_width f (unwrap_or (v_title v) []) (v_width v - sw - x) 0
        in clamp ((v_width v - tw) div 2) x (v_width v - sw - tw)
      else Some (min (wrap (int (x + v_padding v))) (v_width v - sw)))"

definition draw_bar :: "font \<Rightarrow> bar_view \<Rightarrow> draw_error + (cuts \<times> draw_op list)" where
  "draw_bar f v =
     (let p = v_palette v; w = v_width v; h = cs (v_height v);
          ops0 = [Fill Background (inactive_bg p) 0 0 (cs w) h]
      in case draw_tags f v [0..<length (v_tags v)] 0 ops0 of
        Inl e \<Rightarrow> Inl e
      | Inr (x1, ops1) \<Rightarrow>
          let (x2, ops2) = (case v_layout v of
                 None \<Rightarrow> (x1, [])
               | Some l \<Rightarrow> draw_text f (bar_row f v) l x1 w (v_padding v) (inactive_fg p) (inactive_bg p) []);
              sw = text_width f (v_status v) (w - x2) (v_padding v);
              ops3 = snd (draw_text f (bar_row f v) (v_status v) (wrap (int w - int sw)) w (v_padding v)
                (inactive_fg p) (inactive_bg p) (v_status_colors v));
              lit = v_sel v \<noteq> 0 \<and> v_active_color_title v;
              mid = (if v_sel v \<noteq> 0 then middle_bg_sel p else middle_bg p)
          in case title_place f v x2 sw of
               None \<Rightarrow> Inl ClampPanic
             | Some nx \<Rightarrow>
                 let t_fg = (case v_title_fg v of Some c \<Rightarrow> c | None \<Rightarrow> if lit then active_fg p else inactive_fg p);
                     (x3, ops4) = draw_text f (bar_row f v) (unwrap_or (v_title v) []) nx (w - sw) 0 t_fg
                       (if lit then active_bg p else inactive_bg p) []
                 in Inr (\<lparr>tags_end = x1, layout_end = x2, status_w = sw, title_start = nx, title_end = x3\<rparr>,
                      ops1 @ ops2 @ ops3 @ [Fill Background mid (cs x2) 0 (cs nx) h] @ ops4 @
                      [Fill Background mid (cs x3) 0 (cs (w - sw)) h]))"

text \<open>\<open>render_bar\<close>: texts that hold a zero byte are left out.\<close>

definition render_bar :: "font \<Rightarrow> bar_view \<Rightarrow> draw_error + (cuts \<times> draw_op list)" where
  "render_bar f v = draw_bar f (v\<lparr>v_layout := Option.bind (v_layout v) c_string,
     v_title := Option.bind (v_title v) c_string, v_status := unwrap_or (c_string (v_status v)) []\<rparr>)"

text \<open>The frame of a bar: what it shows at a moment.\<close>

definition bar_frame :: "nat \<Rightarrow> bar_conf \<Rightarrow> bool \<times> bool \<times> bool \<times> palette \<Rightarrow> string list \<Rightarrow> bar \<Rightarrow> bar_view" where
  "bar_frame time c look names b = (let (hide_vacant, center, active_title, pal) = look in
     \<lparr>v_width = b_width b, v_height = b_height b, v_padding = b_textpadding b, v_tags = names,
      v_mtags = b_mtags b, v_ctags = b_ctags b, v_urg = b_urg b, v_sel = b_sel b, v_layout = b_layout b,
      v_title = fst (shown_title time b), v_title_fg = snd (shown_title time b),
      v_status = fst (b_status b), v_status_colors = snd (b_status b), v_hide_vacant = hide_vacant,
      v_center_title = center, v_active_color_title = active_title, v_palette = pal\<rparr>)"

section \<open>The hover widget\<close>

text \<open>\<open>draw_lines\<close>: every line in a row of its own, and a frame of one pixel.\<close>

definition line_target :: "font \<Rightarrow> nat \<Rightarrow> nat \<Rightarrow> nat \<Rightarrow> nat \<Rightarrow> target" where
  "line_target f padding line_height h i =
     (let top = wrap (int (padding + i * line_height))
      in \<lparr>t_fg = True, t_bg = True, t_y = wrap (f_ascent f + cs top), t_top = top,
          t_bottom = min (wrap (int (top + line_height))) h\<rparr>)"

definition draw_line :: "font \<Rightarrow> nat \<Rightarrow> nat \<Rightarrow> nat \<Rightarrow> nat \<Rightarrow> colour \<Rightarrow> colour \<Rightarrow> nat \<Rightarrow> custom_text \<Rightarrow> draw_op list" where
  "draw_line f padding line_height w h fg bg i run =
     (let tg = line_target f padding line_height h i
      in if i32 (f_ascent f + cs (t_top tg)) < 0 then []
         else snd (draw_text f tg (fst run) padding w 0 fg bg (snd run)))"

definition frame_ops :: "nat \<Rightarrow> nat \<Rightarrow> colour \<Rightarrow> draw_op list" where
  "frame_ops w h border =
     (if cs w \<ge> 1 \<and> cs h \<ge> 1
      then [Fill Background border 0 0 (cs w) 1, Fill Background border 0 (cs h - 1) (cs w) (cs h),
            Fill Background border 0 0 1 (cs h), Fill Background border (cs w - 1) 0 (cs w) (cs h)]
      else [])"

definition draw_lines :: "font \<Rightarrow> nat \<Rightarrow> nat \<Rightarrow> nat \<Rightarrow> nat \<Rightarrow> colour \<Rightarrow> colour \<Rightarrow> colour \<Rightarrow> string list \<Rightarrow> draw_op list" where
  "draw_lines f w h padding line_height fg bg border ls =
     Fill Background bg 0 0 (cs w) (cs h) #
     concat (map (\<lambda>(i, l). draw_line f padding line_height w h fg bg i (parse_ansi fg bg border l)) (enumerate 0 ls)) @
     frame_ops w h border"

end
