(* ===== verification/Bar_Draw_Laws.thy ===== *)
theory Bar_Draw_Laws
  imports Bar_Draw
begin

text \<open>
  The frame of a bar: its parts lie in order within the bar whatever is drawn, so that the one
  step that could panic never does, and the status ends at the edge.
\<close>

section \<open>Where a run of text ends\<close>

text \<open>The positions alone: \<open>advance\<close> is the loop without what it draws.\<close>

fun advance :: "font \<Rightarrow> nat \<Rightarrow> nat \<Rightarrow> nat list \<Rightarrow> nat \<times> nat \<Rightarrow> nat \<times> nat" where
  "advance f m padding [] st = st"
| "advance f m padding (cp # cps) (x, l) = (case f_glyph f cp of
     None \<Rightarrow> advance f m padding cps (x, l)
   | Some g \<Rightarrow>
       let nx = wrap (int x + (if l \<noteq> 0 then f_kern f l cp else 0) + g_advance g)
       in if wrap (int nx + int padding) > m then (x, l) else advance f m padding cps (nx, cp))"

lemma take_colors_keeps [simp]:
  "pen_x (take_colors tg i tcs p) = pen_x p" "pen_last (take_colors tg i tcs p) = pen_last p"
  "pen_ops (take_colors tg i tcs p) = pen_ops p"
  by (induction tcs arbitrary: p) auto

lemma draw_chars_advance:
  "(pen_x (draw_chars f tg m padding chs p), pen_last (draw_chars f tg m padding chs p)) =
   advance f m padding (map snd chs) (pen_x p, pen_last p)"
proof (induction chs arbitrary: p)
  case (Cons c chs)
  obtain i cp where "c = (i, cp)" by (cases c)
  with Cons show ?case by (simp add: Let_def split: option.split)
qed simp

definition cps_of :: "string \<Rightarrow> nat list" where
  "cps_of s = (if utf8_ok s then map snd (char_indices 0 s) else [])"

lemma draw_text_end:
  "fst (draw_text f tg s x m padding fg bg cols) =
    (if m = 0 \<or> s = [] then x
     else let nx = wrap (int x + int padding) in
       if wrap (int nx + int padding) \<ge> m then x
       else let (x', l) = advance f m padding (cps_of s) (nx, 0) in if l = 0 then x else wrap (int x' + int padding))"
proof -
  let ?p = "\<lambda>nx. \<lparr>pen_x = nx, pen_cols = cols, pen_fg = fg, pen_bg = bg, pen_last = 0, pen_ops = []\<rparr>"
  have "advance f m padding (cps_of s) (nx, 0) =
      (pen_x (draw_chars f tg m padding (if utf8_ok s then char_indices 0 s else []) (?p nx)),
       pen_last (draw_chars f tg m padding (if utf8_ok s then char_indices 0 s else []) (?p nx)))" for nx
    using draw_chars_advance [of f tg m padding _ "?p nx"] by (simp add: cps_of_def)
  then show ?thesis by (simp add: draw_text_def Let_def)
qed

text \<open>A font whose glyphs, kerned or not, never step back, and by at most \<open>A\<close> pixels forward.\<close>

definition steady :: "font \<Rightarrow> nat \<Rightarrow> bool" where
  "steady f A \<longleftrightarrow> (\<forall>cp g. f_glyph f cp = Some g \<longrightarrow>
     (0 \<le> g_advance g \<and> g_advance g \<le> int A) \<and> (\<forall>l. 0 \<le> f_kern f l cp + g_advance g \<and> f_kern f l cp + g_advance g \<le> int A))"

lemma wrap_id: "0 \<le> n \<Longrightarrow> n < 4294967296 \<Longrightarrow> wrap n = nat n"
  by (simp add: wrap_def)

definition step :: "font \<Rightarrow> nat \<Rightarrow> nat \<Rightarrow> glyph \<Rightarrow> nat" where
  "step f l cp g = nat ((if l \<noteq> 0 then f_kern f l cp else 0) + g_advance g)"

lemma step_le: "steady f A \<Longrightarrow> f_glyph f cp = Some g \<Longrightarrow> step f l cp g \<le> A"
  by (auto simp: steady_def step_def nat_le_iff)

lemma steady_wrap:
  assumes "steady f A" "f_glyph f cp = Some g" "x + padding \<le> m" "m + A < 4294967296"
  shows "wrap (int x + (if l \<noteq> 0 then f_kern f l cp else 0) + g_advance g) = x + step f l cp g"
    "wrap (int (x + step f l cp g) + int padding) = x + step f l cp g + padding"
proof -
  have s: "int (step f l cp g) = (if l \<noteq> 0 then f_kern f l cp else 0) + g_advance g"
    using assms(1,2) by (auto simp: steady_def step_def)
  have "x + step f l cp g + padding < 4294967296" using step_le [OF assms(1,2), of l] assms(3,4) by linarith
  then show "wrap (int (x + step f l cp g) + int padding) = x + step f l cp g + padding"
    "wrap (int x + (if l \<noteq> 0 then f_kern f l cp else 0) + g_advance g) = x + step f l cp g"
    using s [symmetric] by (simp_all add: wrap_id add.assoc)
qed

lemma advance_steady:
  assumes "steady f A" "x + padding \<le> m" "m + A < 4294967296"
  shows "advance f m padding (cp # cps) (x, l) = (case f_glyph f cp of
     None \<Rightarrow> advance f m padding cps (x, l)
   | Some g \<Rightarrow> if x + step f l cp g + padding > m then (x, l)
       else advance f m padding cps (x + step f l cp g, cp))"
proof (cases "f_glyph f cp")
  case (Some g)
  show ?thesis using steady_wrap [OF assms(1) Some assms(2,3), of l] by (simp add: Some Let_def)
qed simp

lemma advance_bounds:
  assumes "steady f A" "m + A < 4294967296"
  shows "x + padding \<le> m \<Longrightarrow> x \<le> fst (advance f m padding cps (x, l)) \<and> fst (advance f m padding cps (x, l)) + padding \<le> m"
proof (induction cps arbitrary: x l)
  case (Cons cp cps)
  note IH = Cons.IH [of "x + step f l cp g" cp for g]
  show ?case
    unfolding advance_steady [OF assms(1) Cons.prems assms(2)]
    using Cons.IH [OF Cons.prems, of l] IH Cons.prems
    by (auto split: option.split) (meson le_add1 le_trans not_le)
qed simp

text \<open>A run of text never ends before it begins nor past the place it was given.\<close>

lemma draw_text_bounds:
  assumes "steady f A" "m + A < 4294967296" "x + 2 * padding < 4294967296"
  shows "x \<le> fst (draw_text f tg s x m padding fg bg cols)"
    "fst (draw_text f tg s x m padding fg bg cols) \<le> max x m"
proof -
  have w: "wrap (int x + int padding) = x + padding" "wrap (int (x + padding) + int padding) = x + padding + padding"
    using assms(3) by (simp_all add: wrap_id)
  have "x \<le> fst (draw_text f tg s x m padding fg bg cols) \<and> fst (draw_text f tg s x m padding fg bg cols) \<le> max x m"
  proof (cases "m = 0 \<or> s = [] \<or> x + padding + padding \<ge> m")
    case True
    then show ?thesis unfolding draw_text_end w Let_def by auto
  next
    case False
    obtain x' l where a: "advance f m padding (cps_of s) (x + padding, 0) = (x', l)" by (metis surj_pair)
    then have b: "x + padding \<le> x'" "x' + padding \<le> m"
      using advance_bounds [OF assms(1,2), of "x + padding" padding "cps_of s" 0] False by auto
    then have "wrap (int x' + int padding) = x' + padding" using assms(2) by (simp add: wrap_id)
    with False a b show ?thesis unfolding draw_text_end w Let_def by auto
  qed
  then show "x \<le> fst (draw_text f tg s x m padding fg bg cols)"
    "fst (draw_text f tg s x m padding fg bg cols) \<le> max x m" by simp_all
qed

lemma text_width_le: "steady f A \<Longrightarrow> m + A < 4294967296 \<Longrightarrow> 2 * padding < 4294967296 \<Longrightarrow> text_width f s m padding \<le> m"
  using draw_text_bounds(2) [of f A m 0 padding blind s white white "[]"] by (simp add: text_width_def)

section \<open>The parts of the frame\<close>

lemma draw_tags_bounds:
  assumes "steady f A" "v_width v + A < 4294967296" "v_width v + 2 * v_padding v < 4294967296"
  shows "x \<le> v_width v \<Longrightarrow> draw_tags f v is x ops = Inr (x', ops') \<Longrightarrow> x \<le> x' \<and> x' \<le> v_width v"
proof (induction "is" arbitrary: x ops)
  case (Cons i "is")
  have step: "x \<le> fst (draw_text f tg s x (v_width v) (v_padding v) fg bg cols) \<and>
      fst (draw_text f tg s x (v_width v) (v_padding v) fg bg cols) \<le> v_width v" for tg s fg bg cols
    using draw_text_bounds [OF assms(1,2), of x "v_padding v" tg s fg bg cols] assms(3) Cons.prems(1) by simp
  show ?case
  proof (cases "v_hide_vacant v \<and> \<not> tag_bit (v_mtags v) i \<and> \<not> tag_bit (v_ctags v) i \<and> \<not> tag_bit (v_urg v) i")
    case True
    with Cons show ?thesis by simp
  next
    case False
    with Cons.prems(2) obtain name fg bg y drawn where d: "tag_colours v i = (fg, bg)"
      "draw_text f (bar_row f v) name x (v_width v) (v_padding v) fg bg [] = (y, drawn)"
      "draw_tags f v is y (ops @ tag_box f v i x @ drawn) = Inr (x', ops')"
      by (auto split: option.splits prod.splits)
    with step [of "bar_row f v" name fg bg "[]"] have "x \<le> y" "y \<le> v_width v" by simp_all
    with Cons.IH [OF this(2) d(3)] show ?thesis by simp
  qed
qed simp

lemma tag_strings_all: "\<forall>t \<in> set (v_tags v). CHR 0x00 \<notin> set t \<Longrightarrow> tag_strings v = v_tags v"
proof -
  have "List.map_filter c_string ts = ts" if "\<forall>t \<in> set ts. CHR 0x00 \<notin> set t" for ts
    using that by (induction ts) (simp_all add: c_string_def)
  then show "\<forall>t \<in> set (v_tags v). CHR 0x00 \<notin> set t \<Longrightarrow> tag_strings v = v_tags v" by (simp add: tag_strings_def)
qed

lemma draw_tags_safe:
  "\<forall>i \<in> set is. i < length (tag_strings v) \<Longrightarrow> \<exists>r. draw_tags f v is x ops = Inr r"
  by (induction "is" arbitrary: x ops) (auto simp: get_at_def split: prod.split)

lemma title_place_safe:
  assumes "steady f A" "v_width v + A < 4294967296" "v_width v + 2 * v_padding v < 4294967296"
    "x \<le> v_width v" "sw \<le> v_width v - x"
  shows "\<exists>nx. title_place f v x sw = Some nx \<and> x \<le> nx \<and> nx + sw \<le> v_width v"
proof (cases "v_center_title v")
  case True
  let ?tw = "text_width f (unwrap_or (v_title v) []) (v_width v - sw - x) 0"
  have "?tw \<le> v_width v - sw - x" using assms(2) by (intro text_width_le [OF assms(1)]) auto
  then have "x \<le> v_width v - sw - ?tw" "\<And>c. max x (min c (v_width v - sw - ?tw)) + sw \<le> v_width v"
    using assms(4,5) by arith+
  with True show ?thesis by (simp add: title_place_def clamp_def Let_def del: diff_diff_left)
next
  case False
  have "wrap (int (x + v_padding v)) = x + v_padding v" using assms(3,4) by (intro wrap_id [THEN trans]) auto
  with False show ?thesis using assms(4,5) by (auto simp: title_place_def)
qed


text \<open>A font of eight pixels a character, and a frame with two tags.\<close>

definition mono :: font where
  "mono = \<lparr>f_ascent = 10, f_descent = 4, f_height = 16,
     f_glyph = (\<lambda>cp. Some \<lparr>g_advance = 8, g_x = 0, g_y = 0, g_width = 8, g_height = 12, g_argb = False\<rparr>),
     f_kern = (\<lambda>l cp. 0)\<rparr>"

definition small_view :: bar_view where
  "small_view =
     \<lparr>v_width = 120, v_height = 20, v_padding = 4, v_tags = [''1'', ''2''], v_mtags = 1, v_ctags = 3, v_urg = 0, v_sel = 1,
      v_layout = Some ''[T]'', v_title = Some ''foot'', v_title_fg = None, v_status = ''on'', v_status_colors = [],
      v_hide_vacant = False, v_center_title = True, v_active_color_title = False,
      v_palette = \<lparr>active_fg = white, active_bg = white, occupied_fg = white, occupied_bg = white, inactive_fg = white,
        inactive_bg = white, urgent_fg = white, urgent_bg = white, middle_bg = white, middle_bg_sel = white\<rparr>\<rparr>"

lemma steady_mono: "steady mono 8"
  by (auto simp: steady_def mono_def)


section \<open>Names with a zero byte\<close>

text \<open>The names with a zero byte are left out of the names handed over, but not of their count: a bar
  that shows every tag reads past the end.\<close>

lemma draw_tags_past_end:
  "\<not> v_hide_vacant v \<Longrightarrow> \<exists>i \<in> set is. length (tag_strings v) \<le> i \<Longrightarrow> draw_tags f v is x ops = Inl OutOfBounds"
  by (induction "is" arbitrary: x ops) (auto split: prod.split option.split)

lemma tag_strings_fewer:
  "t \<in> set (v_tags v) \<Longrightarrow> CHR 0x00 \<in> set t \<Longrightarrow> length (tag_strings v) < length (v_tags v)"
proof -
  have le: "length (List.map_filter c_string ts) \<le> length ts" for ts
    by (induction ts) (simp_all add: c_string_def)
  have "t \<in> set ts \<Longrightarrow> CHR 0x00 \<in> set t \<Longrightarrow> length (List.map_filter c_string ts) < length ts" for ts
    by (induction ts) (use le in \<open>auto simp: c_string_def less_Suc_eq_le\<close>)
  then show "t \<in> set (v_tags v) \<Longrightarrow> CHR 0x00 \<in> set t \<Longrightarrow> length (tag_strings v) < length (v_tags v)"
    by (simp add: tag_strings_def)
qed

lemma zero_byte_reads_past_end:
  assumes "t \<in> set (v_tags v)" "CHR 0x00 \<in> set t" "\<not> v_hide_vacant v"
  shows "draw_bar f v = Inl OutOfBounds"
proof -
  have "\<exists>i \<in> set [0..<length (v_tags v)]. length (tag_strings v) \<le> i"
    using tag_strings_fewer [OF assms(1,2)] by auto
  from draw_tags_past_end [OF assms(3) this] show ?thesis by (simp add: draw_bar_def Let_def)
qed

section \<open>The hover widget\<close>

lemma ansi_loop_text:
  "fst (ansi_loop fg bg accent rv s out cols) = out @ strip_ansi s"
proof (induction s arbitrary: rv out cols rule: strip_ansi.induct)
  case (2 c cs)
  show ?case
  proof (cases "c = ESC")
    case False
    with 2 show ?thesis by (auto simp: ansi_loop.simps(2) strip_ansi.simps(2) split: option.split)
  next
    case esc: True
    show ?thesis
    proof (cases cs)
      case (Cons d ds)
      show ?thesis
      proof (cases "d = CHR ''[''")
        case True
        with 2(1) [OF esc Cons True] show ?thesis
          unfolding ansi_loop.simps(2) strip_ansi.simps(2) Let_def
          by (simp only: esc Cons list.case if_True not_True_eq_False if_False split: prod.split) simp
      next
        case False
        with 2(2) [OF esc Cons False] esc Cons False show ?thesis
          by (simp add: ansi_loop.simps(2) [of _ _ _ _ ESC] strip_ansi.simps(2) [of ESC])
      qed
    qed (simp add: esc ansi_loop.simps(2) strip_ansi.simps(2))
  qed
qed simp

lemma strip_ansi_set: "x \<in> set (strip_ansi s) \<Longrightarrow> x \<in> set s"
proof (induction s rule: strip_ansi.induct)
  case (2 c cs)
  show ?case
  proof (cases "c = ESC")
    case False
    with "2.prems" obtain n where n: "char_len (c # cs) = Some n"
      "x \<in> set (take n (c # cs)) \<or> x \<in> set (strip_ansi (drop n (c # cs)))"
      by (cases "char_len (c # cs)") (auto simp: strip_ansi.simps(2))
    from n(2) show ?thesis using "2.IH"(3) [OF False n(1)] by (blast dest: in_set_takeD in_set_dropD)
  next
    case esc: True
    with "2.prems" obtain d ds where ds: "cs = d # ds" by (cases cs) (simp_all add: strip_ansi.simps(2))
    show ?thesis
    proof (cases "d = CHR ''[''")
      case True
      with "2.prems" esc ds have "x \<in> set (strip_ansi (drop (csi_params ds + 1) ds))"
        by (simp add: strip_ansi.simps(2) [of ESC])
      from "2.IH"(1) [OF esc ds True this] show ?thesis using ds by (simp add: in_set_dropD)
    next
      case False
      with "2.prems" esc ds have "x \<in> set (strip_ansi cs)" by (simp add: strip_ansi.simps(2) [of ESC])
      from "2.IH"(2) [OF esc ds False this] show ?thesis by simp
    qed
  qed
qed (simp add: strip_ansi.simps(1))

text \<open>C40: the width of a widget is measured on the text that is drawn: taking the escape sequences out of
  a line gives what parsing them leaves visible.\<close>

theorem measured_text_is_drawn:
  "CHR 0x00 \<notin> set line \<Longrightarrow> fst (parse_ansi fg bg accent line) = strip_ansi line"
  using ansi_loop_text [of fg bg accent False line "[]" "[]"] strip_ansi_set [of _ line]
  by (auto simp: parse_ansi_def split: prod.split)

theorem measured_text_is_drawn_witness:
  "fst (parse_ansi white white white (''a'' @ [ESC] @ ''[7m18'' @ [ESC] @ ''[0m'')) =
     strip_ansi (''a'' @ [ESC] @ ''[7m18'' @ [ESC] @ ''[0m'')"
  by (rule measured_text_is_drawn) simp

end
