(* ===== verification/Rect_Algebra.thy ===== *)
theory Rect_Algebra
  imports Geometry Float64
begin

text \<open>
  The rectangle algebra of \<^verbatim>\<open>smithay/src/utils/geometry.rs\<close> over \<open>i32\<close>, where sums and
  differences of points and sizes saturate: intersections, bounding boxes, the subtraction that
  damage tracking rests on, scaling, frame extents and the transforms of outputs and buffers.
\<close>

section \<open>Points and sizes\<close>

definition sat_sub :: "int \<Rightarrow> int \<Rightarrow> int" where
  "sat_sub a b = sat_i32 (a - b)"

definition sat_mul :: "int \<Rightarrow> int \<Rightarrow> int" where
  "sat_mul a b = sat_i32 (a * b)"

type_synonym size2 = "int \<times> int"

definition point_add :: "point \<Rightarrow> point \<Rightarrow> point" where
  "point_add p q = (sat_add (fst p) (fst q), sat_add (snd p) (snd q))"

definition point_sub :: "point \<Rightarrow> point \<Rightarrow> point" where
  "point_sub p q = (sat_sub (fst p) (fst q), sat_sub (snd p) (snd q))"

definition size_add :: "size2 \<Rightarrow> size2 \<Rightarrow> size2" where
  "size_add s t = (sat_add (fst s) (fst t), sat_add (snd s) (snd t))"

definition size_sub :: "size2 \<Rightarrow> size2 \<Rightarrow> size2" where
  "size_sub s t = (max (sat_sub (fst s) (fst t)) 0, max (sat_sub (snd s) (snd t)) 0)"

definition size_clamp :: "size2 \<Rightarrow> size2 \<Rightarrow> size2 \<Rightarrow> size2" where
  "size_clamp s lo hi = (min (max (fst s) (fst lo)) (fst hi), min (max (snd s) (snd lo)) (snd hi))"

definition size_is_empty :: "size2 \<Rightarrow> bool" where
  "size_is_empty s \<longleftrightarrow> fst s = 0 \<or> snd s = 0"

text \<open>\<open>upscale\<close> and \<open>downscale\<close>, by which logical points and sizes become physical and back;
  division by a zero scale panics.\<close>

definition upscale2 :: "int \<times> int \<Rightarrow> int \<times> int \<Rightarrow> int \<times> int" where
  "upscale2 s p = (sat_mul (fst p) (fst s), sat_mul (snd p) (snd s))"

definition downscale2 :: "int \<times> int \<Rightarrow> int \<times> int \<Rightarrow> (int \<times> int) option" where
  "downscale2 s p =
     (if fst s = 0 \<or> snd s = 0 then None else Some (i32 (tdiv (fst p) (fst s)), i32 (tdiv (snd p) (snd s))))"

definition precise_round :: "f64 \<times> f64 \<Rightarrow> int \<times> int \<Rightarrow> int \<times> int" where
  "precise_round s p = (f_round_i32 (f_mul (f_of_i32 (fst p)) (fst s)), f_round_i32 (f_mul (f_of_i32 (snd p)) (snd s)))"

text \<open>\<open>constrain\<close>: the sums here wrap.\<close>

definition constrain :: "point \<Rightarrow> rect \<Rightarrow> point" where
  "constrain p r =
     (min (max (fst p) (loc_x r)) (i32 (loc_x r + size_w r)), min (max (snd p) (loc_y r)) (i32 (loc_y r + size_h r)))"

section \<open>Rectangles\<close>

abbreviation right_edge :: "rect \<Rightarrow> int" where "right_edge r \<equiv> sat_add (loc_x r) (size_w r)"
abbreviation bottom_edge :: "rect \<Rightarrow> int" where "bottom_edge r \<equiv> sat_add (loc_y r) (size_h r)"

definition from_extremities :: "point \<Rightarrow> point \<Rightarrow> rect" where
  "from_extremities a b = mk_rect (fst a) (snd a) (sat_sub (fst b) (fst a)) (sat_sub (snd b) (snd a))"

definition rect_is_empty :: "rect \<Rightarrow> bool" where
  "rect_is_empty r \<longleftrightarrow> size_is_empty (rect_size r)"

definition contains_rect :: "rect \<Rightarrow> rect \<Rightarrow> bool" where
  "contains_rect s r \<longleftrightarrow> loc_x r \<ge> loc_x s \<and> loc_y r \<ge> loc_y s \<and>
     right_edge r \<le> right_edge s \<and> bottom_edge r \<le> bottom_edge s"

definition overlaps :: "rect \<Rightarrow> rect \<Rightarrow> bool" where
  "overlaps s r \<longleftrightarrow> loc_x s < right_edge r \<and> loc_x r < right_edge s \<and> loc_y s < bottom_edge r \<and> loc_y r < bottom_edge s"

definition overlaps_or_touches :: "rect \<Rightarrow> rect \<Rightarrow> bool" where
  "overlaps_or_touches s r \<longleftrightarrow>
     loc_x s \<le> right_edge r \<and> loc_x r \<le> right_edge s \<and> loc_y s \<le> bottom_edge r \<and> loc_y r \<le> bottom_edge s"

definition intersection :: "rect \<Rightarrow> rect \<Rightarrow> rect option" where
  "intersection s r =
     (if \<not> overlaps s r then None
      else Some (from_extremities (max (loc_x s) (loc_x r), max (loc_y s) (loc_y r))
        (min (right_edge s) (right_edge r), min (bottom_edge s) (bottom_edge r))))"

definition extend_box :: "point \<Rightarrow> (point \<times> point) option \<Rightarrow> (point \<times> point) option" where
  "extend_box p acc = (case acc of
     None \<Rightarrow> Some (p, p)
   | Some (lo, hi) \<Rightarrow> Some ((min (fst p) (fst lo), min (snd p) (snd lo)), (max (fst p) (fst hi), max (snd p) (snd hi))))"

definition bounding_box :: "point list \<Rightarrow> rect" where
  "bounding_box ps = (case fold extend_box ps None of None \<Rightarrow> rect_default | Some (lo, hi) \<Rightarrow> from_extremities lo hi)"

definition rect_end :: "rect \<Rightarrow> point" where
  "rect_end r = point_add (rect_loc r) (rect_size r)"

definition merge_rect :: "rect \<Rightarrow> rect \<Rightarrow> rect" where
  "merge_rect s r = bounding_box [rect_loc s, rect_end s, rect_loc r, rect_end r]"

section \<open>Subtraction\<close>

text \<open>\<open>swap_remove\<close>: the last element takes the place of the removed one.\<close>

definition swap_remove :: "nat \<Rightarrow> 'a list \<Rightarrow> 'a list" where
  "swap_remove i xs = (if Suc i = length xs then butlast xs else (butlast xs)[i := last xs])"

text \<open>What is left of \<open>item\<close> around \<open>c\<close>, the part it has in common with the other one.\<close>

definition around :: "rect \<Rightarrow> rect \<Rightarrow> rect list" where
  "around item c = filter (\<lambda>r. \<not> rect_is_empty r)
     [mk_rect (loc_x item) (loc_y item) (size_w item) (sat_sub (loc_y c) (loc_y item)),
      mk_rect (loc_x item) (loc_y c) (sat_sub (loc_x c) (loc_x item)) (size_h c),
      mk_rect (right_edge c) (loc_y c) (sat_sub (right_edge item) (right_edge c)) (size_h c),
      mk_rect (loc_x item) (bottom_edge c) (size_w item) (sat_sub (bottom_edge item) (bottom_edge c))]"

text \<open>The inner loop: \<open>n\<close> checks are left, \<open>i\<close> is the element checked next.\<close>

fun subtract_pass :: "rect \<Rightarrow> nat \<Rightarrow> nat \<Rightarrow> rect list \<Rightarrow> rect list" where
  "subtract_pass s 0 i rs = rs"
| "subtract_pass s (Suc n) i rs = (case intersection (rs ! i) s of
     None \<Rightarrow> subtract_pass s n (Suc i) rs
   | Some c \<Rightarrow>
       let item = rs ! i; rs' = swap_remove i rs
       in if contains_rect s item then subtract_pass s n i rs' else subtract_pass s n i (rs' @ around item c))"

fun subtract_rects_many :: "rect list \<Rightarrow> rect list \<Rightarrow> rect list" where
  "subtract_rects_many rs [] = rs"
| "subtract_rects_many rs (s # ss) =
     (if rs = [] then rs else subtract_rects_many (subtract_pass s (length rs) 0 rs) ss)"

definition subtract_rects :: "rect \<Rightarrow> rect list \<Rightarrow> rect list" where
  "subtract_rects r ss = subtract_rects_many [r] ss"

definition subtract_rect :: "rect \<Rightarrow> rect \<Rightarrow> rect list" where
  "subtract_rect r s = subtract_rects r [s]"

section \<open>Frame extents\<close>

record frame_extents =
  fe_left :: int
  fe_right :: int
  fe_top :: int
  fe_bottom :: int

definition rect_add_extents :: "rect \<Rightarrow> frame_extents \<Rightarrow> rect" where
  "rect_add_extents r e = mk_rect (i32 (loc_x r - fe_left e)) (i32 (loc_y r - fe_top e))
     (max (i32 (size_w r + fe_left e + fe_right e)) 0) (max (i32 (size_h r + fe_top e + fe_bottom e)) 0)"

definition rect_sub_extents :: "rect \<Rightarrow> frame_extents \<Rightarrow> rect" where
  "rect_sub_extents r e = mk_rect (i32 (loc_x r + fe_left e)) (i32 (loc_y r + fe_top e))
     (max (i32 (size_w r - fe_left e - fe_right e)) 0) (max (i32 (size_h r - fe_top e - fe_bottom e)) 0)"

section \<open>Transforms\<close>

datatype transform = Normal | R90 | R180 | R270 | Flipped | Flipped90 | Flipped180 | Flipped270

definition transform_invert :: "transform \<Rightarrow> transform" where
  "transform_invert t = (case t of
     Normal \<Rightarrow> Normal | Flipped \<Rightarrow> Flipped | R90 \<Rightarrow> R270 | R180 \<Rightarrow> R180 | R270 \<Rightarrow> R90
   | Flipped90 \<Rightarrow> Flipped270 | Flipped180 \<Rightarrow> Flipped180 | Flipped270 \<Rightarrow> Flipped90)"

definition transform_point_in :: "transform \<Rightarrow> point \<Rightarrow> size2 \<Rightarrow> point" where
  "transform_point_in t p area = (let (x, y) = p; (w, h) = area in case t of
     Normal \<Rightarrow> p | R90 \<Rightarrow> (i32 (h - y), x) | R180 \<Rightarrow> (i32 (w - x), i32 (h - y)) | R270 \<Rightarrow> (y, i32 (w - x))
   | Flipped \<Rightarrow> (i32 (w - x), y) | Flipped90 \<Rightarrow> (y, x) | Flipped180 \<Rightarrow> (x, i32 (h - y))
   | Flipped270 \<Rightarrow> (i32 (h - y), i32 (w - x)))"

definition transform_size :: "transform \<Rightarrow> size2 \<Rightarrow> size2" where
  "transform_size t s = (if t = R90 \<or> t = R270 \<or> t = Flipped90 \<or> t = Flipped270 then (snd s, fst s) else s)"

definition transform_rect_in :: "transform \<Rightarrow> rect \<Rightarrow> size2 \<Rightarrow> rect" where
  "transform_rect_in t r area =
     (let (w, h) = area; x = loc_x r; y = loc_y r; rw = size_w r; rh = size_h r;
          size = transform_size t (rw, rh);
          loc = (case t of
             Normal \<Rightarrow> (x, y)
           | R90 \<Rightarrow> (i32 (h - y - rh), x)
           | R180 \<Rightarrow> (i32 (w - x - rw), i32 (h - y - rh))
           | R270 \<Rightarrow> (y, i32 (w - x - rw))
           | Flipped \<Rightarrow> (i32 (w - x - rw), y)
           | Flipped90 \<Rightarrow> (i32 (h - y - rh), i32 (w - x - rw))
           | Flipped180 \<Rightarrow> (x, i32 (h - y - rh))
           | Flipped270 \<Rightarrow> (y, x))
      in mk_rect (fst loc) (snd loc) (fst size) (snd size))"

definition flipped :: "transform \<Rightarrow> bool" where
  "flipped t \<longleftrightarrow> \<not> (t = Normal \<or> t = R90 \<or> t = R180 \<or> t = R270)"

definition degrees :: "transform \<Rightarrow> nat" where
  "degrees t = (case t of
     Normal \<Rightarrow> 0 | Flipped \<Rightarrow> 0 | R90 \<Rightarrow> 90 | Flipped90 \<Rightarrow> 90 | R180 \<Rightarrow> 180 | Flipped180 \<Rightarrow> 180
   | R270 \<Rightarrow> 270 | Flipped270 \<Rightarrow> 270)"

text \<open>The sum of two transforms; the last branch of the code is never reached.\<close>

definition transform_add :: "transform \<Rightarrow> transform \<Rightarrow> transform" where
  "transform_add s t =
     (let fl = (flipped s \<noteq> flipped t); d = (degrees s + degrees t) mod 360 in
      if d = 0 then (if fl then Flipped else Normal)
      else if d = 90 then (if fl then Flipped90 else R90)
      else if d = 180 then (if fl then Flipped180 else R180)
      else (if fl then Flipped270 else R270))"

text \<open>A logical rectangle in a buffer of another scale and orientation, and back; division by a zero
  scale panics.\<close>

definition scale_rect :: "int \<times> int \<Rightarrow> rect \<Rightarrow> rect" where
  "scale_rect s r = (let p = upscale2 s (rect_loc r); z = upscale2 s (rect_size r) in mk_rect (fst p) (snd p) (fst z) (snd z))"

definition unscale_rect :: "int \<times> int \<Rightarrow> rect \<Rightarrow> rect option" where
  "unscale_rect s r = (case (downscale2 s (rect_loc r), downscale2 s (rect_size r)) of
     (Some p, Some z) \<Rightarrow> Some (mk_rect (fst p) (snd p) (fst z) (snd z)) | _ \<Rightarrow> None)"

definition rect_to_buffer :: "int \<times> int \<Rightarrow> transform \<Rightarrow> size2 \<Rightarrow> rect \<Rightarrow> rect" where
  "rect_to_buffer s t area r = scale_rect s (transform_rect_in t r area)"

definition rect_from_buffer :: "int \<times> int \<Rightarrow> transform \<Rightarrow> size2 \<Rightarrow> rect \<Rightarrow> rect option" where
  "rect_from_buffer s t area r = unscale_rect s (transform_rect_in (transform_invert t) r area)"

definition point_to_buffer :: "int \<times> int \<Rightarrow> transform \<Rightarrow> size2 \<Rightarrow> point \<Rightarrow> point" where
  "point_to_buffer s t area p = upscale2 s (transform_point_in t p area)"

definition point_from_buffer :: "int \<times> int \<Rightarrow> transform \<Rightarrow> size2 \<Rightarrow> point \<Rightarrow> point option" where
  "point_from_buffer s t area p = downscale2 s (transform_point_in (transform_invert t) p area)"

definition size_to_buffer :: "int \<times> int \<Rightarrow> transform \<Rightarrow> size2 \<Rightarrow> size2" where
  "size_to_buffer s t z = transform_size t (upscale2 s z)"

definition size_from_buffer :: "int \<times> int \<Rightarrow> transform \<Rightarrow> size2 \<Rightarrow> size2 option" where
  "size_from_buffer s t z = map_option (transform_size (transform_invert t)) (downscale2 s z)"

definition rect_precise_round :: "f64 \<times> f64 \<Rightarrow> rect \<Rightarrow> rect" where
  "rect_precise_round s r =
     (let p = precise_round s (rect_loc r); z = precise_round s (rect_size r) in mk_rect (fst p) (snd p) (fst z) (snd z))"

end
