(* ===== verification/Rect_Laws.thy ===== *)
theory Rect_Laws
  imports Rect_Algebra
begin

text \<open>
  The rectangle algebra as sets of points: what an intersection, a bounding box and a subtraction
  cover, and when a transform and its inverse cancel.
\<close>

section \<open>Edges\<close>

lemma edges: "wf_rect r \<Longrightarrow> right_edge r = loc_x r + size_w r \<and> bottom_edge r = loc_y r + size_h r"
  by (auto simp: wf_rect_def sat_add_def in_i32_def)

lemma sat_sub_id: "in_i32 (a - b) \<Longrightarrow> sat_sub a b = a - b"
  by (simp add: sat_sub_def sat_i32_def in_i32_def)

text \<open>A rectangle all of whose numbers, the far edges included, are \<open>i32\<close> values.\<close>

definition i32_rect :: "rect \<Rightarrow> bool" where
  "i32_rect r \<longleftrightarrow> wf_rect r \<and> size_w r < 2147483648 \<and> size_h r < 2147483648"

lemma i32_rect_iff: "i32_rect r \<longleftrightarrow> - 2147483648 \<le> loc_x r \<and> - 2147483648 \<le> loc_y r \<and>
    0 \<le> size_w r \<and> 0 \<le> size_h r \<and> size_w r < 2147483648 \<and> size_h r < 2147483648 \<and>
    loc_x r + size_w r < 2147483648 \<and> loc_y r + size_h r < 2147483648"
  by (auto simp: i32_rect_def wf_rect_def in_i32_def)

lemma i32_edges: "i32_rect r \<Longrightarrow> right_edge r = loc_x r + size_w r" "i32_rect r \<Longrightarrow> bottom_edge r = loc_y r + size_h r"
  using edges by (simp_all add: i32_rect_def)

lemma contains_i32: "i32_rect r \<Longrightarrow> contains r (x, y) \<longleftrightarrow>
    loc_x r \<le> x \<and> x < loc_x r + size_w r \<and> loc_y r \<le> y \<and> y < loc_y r + size_h r"
  by (simp add: i32_rect_def contains_wf)

definition covers :: "rect list \<Rightarrow> point \<Rightarrow> bool" where
  "covers rs p \<longleftrightarrow> (\<exists>r \<in> set rs. contains r p)"

lemma covers_simps [simp]: "\<not> covers [] p" "covers (r # rs) p \<longleftrightarrow> contains r p \<or> covers rs p"
  "covers (rs @ ss) p \<longleftrightarrow> covers rs p \<or> covers ss p"
  by (auto simp: covers_def)

section \<open>Intersections and bounding boxes\<close>

lemma intersection_Some:
  assumes "i32_rect a" "i32_rect b"
  shows "intersection a b = Some c \<longleftrightarrow>
    loc_x a < loc_x b + size_w b \<and> loc_x b < loc_x a + size_w a \<and> loc_y a < loc_y b + size_h b \<and> loc_y b < loc_y a + size_h a \<and>
    c = mk_rect (max (loc_x a) (loc_x b)) (max (loc_y a) (loc_y b))
      (min (loc_x a + size_w a) (loc_x b + size_w b) - max (loc_x a) (loc_x b))
      (min (loc_y a + size_h a) (loc_y b + size_h b) - max (loc_y a) (loc_y b))"
proof -
  have "sat_sub (min (loc_x a + size_w a) (loc_x b + size_w b)) (max (loc_x a) (loc_x b)) =
      min (loc_x a + size_w a) (loc_x b + size_w b) - max (loc_x a) (loc_x b)"
    if "loc_x a < loc_x b + size_w b" "loc_x b < loc_x a + size_w a"
    using that assms by (intro sat_sub_id) (auto simp: in_i32_def i32_rect_iff)
  moreover have "sat_sub (min (loc_y a + size_h a) (loc_y b + size_h b)) (max (loc_y a) (loc_y b)) =
      min (loc_y a + size_h a) (loc_y b + size_h b) - max (loc_y a) (loc_y b)"
    if "loc_y a < loc_y b + size_h b" "loc_y b < loc_y a + size_h a"
    using that assms by (intro sat_sub_id) (auto simp: in_i32_def i32_rect_iff)
  ultimately show ?thesis
    using assms by (auto simp: intersection_def overlaps_def from_extremities_def i32_edges)
qed

lemma intersection_None:
  "i32_rect a \<Longrightarrow> i32_rect b \<Longrightarrow> intersection a b = None \<Longrightarrow> \<not> (contains a p \<and> contains b p)"
  by (cases p) (auto simp: intersection_def overlaps_def i32_edges contains_i32 split: if_splits)

lemma intersection_i32: "i32_rect a \<Longrightarrow> i32_rect b \<Longrightarrow> intersection a b = Some c \<Longrightarrow> i32_rect c"
  by (auto simp: intersection_Some i32_rect_iff)

lemma intersection_points:
  assumes "i32_rect a" "i32_rect b" "intersection a b = Some c"
  shows "contains c p \<longleftrightarrow> contains a p \<and> contains b p"
  using assms contains_i32 [OF intersection_i32 [OF assms]]
  by (cases p) (auto simp: contains_i32 intersection_Some [OF assms(1,2)])

section \<open>Subtraction\<close>

lemma intersection_inside:
  "i32_rect a \<Longrightarrow> i32_rect b \<Longrightarrow> intersection a b = Some c \<Longrightarrow> inside c a"
  by (auto simp: intersection_Some inside_def)

definition pieces :: "rect \<Rightarrow> rect \<Rightarrow> rect list" where
  "pieces a c =
    [mk_rect (loc_x a) (loc_y a) (size_w a) (loc_y c - loc_y a),
     mk_rect (loc_x a) (loc_y c) (loc_x c - loc_x a) (size_h c),
     mk_rect (loc_x c + size_w c) (loc_y c) (loc_x a + size_w a - (loc_x c + size_w c)) (size_h c),
     mk_rect (loc_x a) (loc_y c + size_h c) (size_w a) (loc_y a + size_h a - (loc_y c + size_h c))]"

lemma around_eq:
  assumes "i32_rect a" "i32_rect c" "inside c a"
  shows "around a c = filter (\<lambda>r. \<not> rect_is_empty r) (pieces a c)"
proof -
  have "sat_sub (loc_y c) (loc_y a) = loc_y c - loc_y a" "sat_sub (loc_x c) (loc_x a) = loc_x c - loc_x a"
    "sat_sub (loc_x a + size_w a) (loc_x c + size_w c) = loc_x a + size_w a - (loc_x c + size_w c)"
    "sat_sub (loc_y a + size_h a) (loc_y c + size_h c) = loc_y a + size_h a - (loc_y c + size_h c)"
    using assms by (auto intro!: sat_sub_id simp: in_i32_def i32_rect_iff inside_def)
  then show ?thesis by (simp only: around_def pieces_def i32_edges [OF assms(1)] i32_edges [OF assms(2)])
qed

lemma around_piece: "i32_rect a \<Longrightarrow> i32_rect c \<Longrightarrow> inside c a \<Longrightarrow> r \<in> set (around a c) \<Longrightarrow> r \<in> set (pieces a c)"
  by (simp add: around_eq)

lemma pieces_i32: "i32_rect a \<Longrightarrow> i32_rect c \<Longrightarrow> inside c a \<Longrightarrow> r \<in> set (pieces a c) \<Longrightarrow> i32_rect r \<and> inside r a \<and> apart r c"
  by (auto simp: pieces_def i32_rect_iff inside_def apart_def)

lemma around_i32: "i32_rect a \<Longrightarrow> i32_rect c \<Longrightarrow> inside c a \<Longrightarrow> r \<in> set (around a c) \<Longrightarrow> i32_rect r \<and> inside r a \<and> apart r c"
  using around_piece pieces_i32 by blast

lemma empty_no_point: "rect_is_empty r \<Longrightarrow> i32_rect r \<Longrightarrow> \<not> contains r p"
  by (cases p) (auto simp: contains_i32 rect_is_empty_def size_is_empty_def rect_size_def)

lemma pieces_covers:
  "i32_rect a \<Longrightarrow> i32_rect c \<Longrightarrow> inside c a \<Longrightarrow> covers (pieces a c) p \<longleftrightarrow> contains a p \<and> \<not> contains c p"
proof -
  assume r: "i32_rect a" "i32_rect c" "inside c a"
  obtain x y where p: "p = (x, y)" by (cases p)
  have "\<forall>r \<in> set (pieces a c). i32_rect r" using r pieces_i32 by blast
  then show ?thesis
    using r by (auto simp: p pieces_def contains_i32 i32_rect_iff inside_def)
qed

lemma around_covers:
  assumes "i32_rect a" "i32_rect c" "inside c a"
  shows "covers (around a c) p \<longleftrightarrow> contains a p \<and> \<not> contains c p"
proof -
  have "covers (around a c) p \<longleftrightarrow> covers (pieces a c) p"
    using around_eq [OF assms] pieces_i32 [OF assms] empty_no_point [of _ p]
    by (simp add: covers_def) blast
  with pieces_covers [OF assms] show ?thesis by simp
qed

lemma around_apart:
  assumes "i32_rect a" "i32_rect c" "inside c a"
  shows "sorted_wrt apart (around a c)"
proof -
  have "sorted_wrt apart (pieces a c)"
    using assms by (auto simp: pieces_def apart_def inside_def i32_rect_iff)
  then show ?thesis by (simp add: around_eq [OF assms] sorted_wrt_filter)
qed

text \<open>The list operations of the loop.\<close>

lemma swap_remove_split:
  assumes "i < length xs"
  shows "swap_remove i xs = take i xs @ (if Suc i = length xs then [] else last xs # butlast (drop (Suc i) xs))"
proof (cases "Suc i = length xs")
  case True
  then have "length xs - 1 = i" by simp
  with True show ?thesis by (simp add: swap_remove_def butlast_conv_take)
next
  case False
  with assms have "butlast xs = take i xs @ xs ! i # butlast (drop (Suc i) xs)"
    by (metis Cons_nth_drop_Suc Suc_lessI append_take_drop_id butlast.simps(2) butlast_append drop_eq_Nil2 linorder_not_le list.distinct(1))
  with False assms show ?thesis by (simp add: swap_remove_def list_update_append)
qed

lemma mset_swap_remove: "i < length xs \<Longrightarrow> add_mset (xs ! i) (mset (swap_remove i xs)) = mset xs"
proof -
  assume i: "i < length xs"
  have e: "mset (take i xs) + add_mset (xs ! i) (mset (drop (Suc i) xs)) = mset xs"
    using i by (metis id_take_nth_drop mset.simps(2) mset_append)
  show ?thesis
  proof (cases "Suc i = length xs")
    case True
    with e i show ?thesis by (simp add: swap_remove_split)
  next
    case False
    with i have ne: "drop (Suc i) xs \<noteq> []" by simp
    then have "mset (drop (Suc i) xs) = add_mset (last xs) (mset (butlast (drop (Suc i) xs)))"
      by (metis append_butlast_last_id last_drop mset_append mset.simps add_mset_add_single drop_eq_Nil2 linorder_not_le)
    with e i False show ?thesis by (simp add: swap_remove_split)
  qed
qed

lemma set_swap_remove: "i < length xs \<Longrightarrow> set xs = insert (xs ! i) (set (swap_remove i xs))"
  by (metis mset_swap_remove set_mset_add_mset_insert set_mset_mset)

lemma length_swap_remove: "i < length xs \<Longrightarrow> length (swap_remove i xs) = length xs - 1"
  by (metis mset_swap_remove size_mset size_add_mset diff_Suc_1)

text \<open>A symmetric relation on pairs does not depend on the order of the list.\<close>

lemma apart_perm: "mset xs = mset ys \<Longrightarrow> sorted_wrt apart xs \<Longrightarrow> sorted_wrt apart ys"
proof (induction xs arbitrary: ys)
  case (Cons x xs)
  then obtain us vs where ys: "ys = us @ x # vs" by (metis list.set_intros(1) set_mset_mset split_list)
  with Cons.prems(1) have m: "mset xs = mset (us @ vs)" by simp
  with Cons have "sorted_wrt apart (us @ vs)" by simp
  moreover have "\<forall>y \<in> set (us @ vs). apart x y" using Cons.prems(2) m by (metis set_mset_mset sorted_wrt.simps(2))
  ultimately show ?case by (auto simp: ys sorted_wrt_append intro: apart_sym)
qed simp

text \<open>One element is taken apart.\<close>

definition replaced :: "rect \<Rightarrow> nat \<Rightarrow> rect \<Rightarrow> rect list \<Rightarrow> rect list" where
  "replaced s i c rs = (if contains_rect s (rs ! i) then swap_remove i rs else swap_remove i rs @ around (rs ! i) c)"

lemma subtract_pass_Suc:
  "subtract_pass s (Suc n) i rs = (case intersection (rs ! i) s of
     None \<Rightarrow> subtract_pass s n (Suc i) rs | Some c \<Rightarrow> subtract_pass s n i (replaced s i c rs))"
  by (simp add: replaced_def Let_def split: option.split)

lemma contains_rect_points: "i32_rect s \<Longrightarrow> i32_rect r \<Longrightarrow> contains_rect s r \<Longrightarrow> contains r p \<Longrightarrow> contains s p"
  by (cases p) (auto simp: contains_rect_def i32_edges contains_i32)

lemma replaced_spec:
  assumes "list_all i32_rect rs" "i32_rect s" "i < length rs" "intersection (rs ! i) s = Some c"
  shows "list_all i32_rect (replaced s i c rs)"
    "covers (replaced s i c rs) p \<longleftrightarrow> covers (swap_remove i rs) p \<or> (contains (rs ! i) p \<and> \<not> contains s p)"
    "sorted_wrt apart rs \<Longrightarrow> sorted_wrt apart (replaced s i c rs)"
    "r \<in> set (replaced s i c rs) \<Longrightarrow> \<exists>a \<in> set rs. inside r a"
proof -
  have item: "i32_rect (rs ! i)" using assms by (simp add: list_all_length)
  then have c: "i32_rect c" "inside c (rs ! i)"
    using intersection_i32 [OF item assms(2,4)] intersection_inside [OF item assms(2,4)] by simp_all
  note a = around_i32 [OF item c]
  show "list_all i32_rect (replaced s i c rs)"
    using assms(1) set_swap_remove [OF assms(3)] a by (auto simp: replaced_def list_all_iff)
  show "covers (replaced s i c rs) p \<longleftrightarrow> covers (swap_remove i rs) p \<or> (contains (rs ! i) p \<and> \<not> contains s p)"
    using around_covers [OF item c, of p] intersection_points [OF item assms(2,4), of p]
      contains_rect_points [OF assms(2) item, of p] by (auto simp: replaced_def)
  show "\<exists>a \<in> set rs. inside r a" if "r \<in> set (replaced s i c rs)"
  proof (cases "r \<in> set (swap_remove i rs)")
    case True
    then show ?thesis using set_swap_remove [OF assms(3)] inside_refl by blast
  next
    case False
    with that have "inside r (rs ! i)" using a by (auto simp: replaced_def split: if_splits)
    then show ?thesis using nth_mem [OF assms(3)] by blast
  qed
  show "sorted_wrt apart (replaced s i c rs)" if "sorted_wrt apart rs"
  proof -
    have "sorted_wrt apart (rs ! i # swap_remove i rs)"
      by (rule apart_perm [OF _ that]) (simp add: mset_swap_remove [OF assms(3)])
    then have "sorted_wrt apart (swap_remove i rs)" "\<forall>b \<in> set (swap_remove i rs). apart (rs ! i) b" by simp_all
    moreover have "apart b r" if "apart (rs ! i) b" "inside r (rs ! i)" for b r
      using apart_inside [OF that(1) that(2) inside_refl] by (rule apart_sym)
    ultimately show ?thesis
      using around_apart [OF item c] a by (auto simp: replaced_def sorted_wrt_append)
  qed
qed

lemma length_replaced: "i < length rs \<Longrightarrow> length rs \<le> Suc (length (replaced s i c rs))"
  by (auto simp: replaced_def length_swap_remove)

text \<open>What a subtraction may do to a list of rectangles: it takes away no point outside \<open>gone\<close>.\<close>

definition reduces :: "(point \<Rightarrow> bool) \<Rightarrow> rect list \<Rightarrow> rect list \<Rightarrow> bool" where
  "reduces gone rs rs' \<longleftrightarrow>
     (\<forall>p. covers rs' p \<longrightarrow> covers rs p) \<and> (\<forall>p. covers rs p \<longrightarrow> gone p \<or> covers rs' p) \<and>
     (sorted_wrt apart rs \<longrightarrow> sorted_wrt apart rs') \<and> (\<forall>r \<in> set rs'. \<exists>a \<in> set rs. inside r a)"

lemma reduces_refl: "reduces gone rs rs"
  by (auto simp: reduces_def intro: inside_refl)

lemma reduces_trans:
  assumes "reduces g rs rs1" "reduces h rs1 rs2" "\<And>p. g p \<or> h p \<Longrightarrow> k p"
  shows "reduces k rs rs2"
proof -
  have "\<exists>a \<in> set rs. inside r a" if r: "r \<in> set rs2" for r
  proof -
    obtain b where b: "b \<in> set rs1" "inside r b" using assms(2) r unfolding reduces_def by blast
    then obtain a where "a \<in> set rs" "inside b a" using assms(1) unfolding reduces_def by blast
    with b show ?thesis using inside_trans by blast
  qed
  with assms show ?thesis unfolding reduces_def by blast
qed

lemma replaced_reduces:
  assumes "list_all i32_rect rs" "i32_rect s" "i < length rs" "intersection (rs ! i) s = Some c"
  shows "reduces (contains s) rs (replaced s i c rs)"
proof -
  have "covers rs p \<longleftrightarrow> contains (rs ! i) p \<or> covers (swap_remove i rs) p" for p
    using set_swap_remove [OF assms(3)] by (simp add: covers_def)
  with replaced_spec [OF assms] show ?thesis unfolding reduces_def by metis
qed

lemma subtract_pass_reduces:
  assumes "list_all i32_rect rs" "i32_rect s" "i + n \<le> length rs"
  shows "list_all i32_rect (subtract_pass s n i rs) \<and> reduces (contains s) rs (subtract_pass s n i rs)"
  using assms
proof (induction n arbitrary: i rs)
  case 0
  then show ?case by (simp add: reduces_refl)
next
  case (Suc n)
  show ?case
  proof (cases "intersection (rs ! i) s")
    case None
    with Suc show ?thesis by (simp add: subtract_pass_Suc del: subtract_pass.simps)
  next
    case (Some c)
    have i: "i < length rs" using Suc.prems(3) by simp
    have "i + n \<le> length (replaced s i c rs)" using Suc.prems(3) length_replaced [OF i, of s c] by simp
    note IH = Suc.IH [OF replaced_spec(1) [OF Suc.prems(1,2) i Some] Suc.prems(2) this]
    have "reduces (contains s) rs (subtract_pass s n i (replaced s i c rs))"
      by (rule reduces_trans [OF replaced_reduces [OF Suc.prems(1,2) i Some]]) (use IH in auto)
    with IH Some show ?thesis by (simp add: subtract_pass_Suc del: subtract_pass.simps)
  qed
qed

lemma subtract_many_reduces:
  "list_all i32_rect rs \<Longrightarrow> list_all i32_rect ss \<Longrightarrow> reduces (covers ss) rs (subtract_rects_many rs ss)"
proof (induction ss arbitrary: rs)
  case (Cons s ss)
  note pass = subtract_pass_reduces [of rs s 0 "length rs"]
  have "reduces (covers ss) (subtract_pass s (length rs) 0 rs) (subtract_rects_many (subtract_pass s (length rs) 0 rs) ss)"
    using Cons pass by simp
  then have "reduces (covers (s # ss)) rs (subtract_rects_many (subtract_pass s (length rs) 0 rs) ss)"
    by (rule reduces_trans [rotated]) (use pass Cons.prems in auto)
  then show ?case using reduces_refl unfolding subtract_rects_many.simps(2) by (cases "rs = []") (simp_all only: if_True if_False simp_thms)
qed (simp add: reduces_refl)

text \<open>C21: subtracting rectangles never loses a point that is in none of them and never adds one;
  disjoint rectangles stay disjoint and every one lies within one of those there were.\<close>

theorem subtract_keeps_rest:
  assumes "list_all i32_rect rs" "list_all i32_rect ss"
  shows "(covers rs p \<and> \<not> covers ss p \<longrightarrow> covers (subtract_rects_many rs ss) p) \<and>
    (covers (subtract_rects_many rs ss) p \<longrightarrow> covers rs p) \<and>
    (sorted_wrt apart rs \<longrightarrow> sorted_wrt apart (subtract_rects_many rs ss)) \<and>
    (\<forall>r \<in> set (subtract_rects_many rs ss). \<exists>a \<in> set rs. inside r a)"
  using subtract_many_reduces [OF assms] unfolding reduces_def by blast

text \<open>C22: taking one rectangle away from one other is exact: the pieces, at most four, are disjoint and
  cover the points of the one that are not in the other.\<close>

theorem subtract_rect_exact:
  assumes "i32_rect a" "i32_rect b"
  shows "covers (subtract_rect a b) p = (contains a p \<and> \<not> contains b p) \<and>
    sorted_wrt apart (subtract_rect a b) \<and> length (subtract_rect a b) \<le> 4"
proof (intro conjI)
  have e: "subtract_rect a b = (case intersection a b of None \<Rightarrow> [a] | Some c \<Rightarrow> replaced b 0 c [a])"
    by (simp add: subtract_rect_def subtract_rects_def subtract_pass_Suc del: subtract_pass.simps(2) split: option.split)
  have len: "length (around a c) \<le> 4" for c
    unfolding around_def by (rule order_trans [OF length_filter_le]) simp
  show "covers (subtract_rect a b) p = (contains a p \<and> \<not> contains b p)"
    using replaced_spec(2) [of "[a]" b 0] intersection_None [OF assms, of p] assms
    by (auto simp: e swap_remove_def split: option.split)
  show "sorted_wrt apart (subtract_rect a b)"
    using replaced_spec(3) [of "[a]" b 0] assms by (auto simp: e split: option.split)
  show "length (subtract_rect a b) \<le> 4"
    using len by (auto simp: e replaced_def swap_remove_def split: option.split)
qed

text \<open>With three rectangles the loop misses one: the pieces of the first are swapped to where the
  second was to be checked, so a rectangle that lies in the other one survives the subtraction.\<close>

theorem subtract_misses_rectangle:
  "let s = mk_rect 0 0 30 10; inner = mk_rect 10 0 10 10; rs = [mk_rect 0 0 10 20, inner, mk_rect 20 0 10 20]
   in contains_rect s inner \<and> inner \<in> set (subtract_rects_many rs [s]) \<and>
      subtract_rects_many [inner] [s] = []"
  by code_simp

section \<open>Transforms\<close>

text \<open>A rectangle in an area at the origin.\<close>

definition in_area :: "size2 \<Rightarrow> rect \<Rightarrow> bool" where
  "in_area z r \<longleftrightarrow> 0 \<le> loc_x r \<and> 0 \<le> loc_y r \<and> 0 \<le> size_w r \<and> 0 \<le> size_h r \<and>
     loc_x r + size_w r \<le> fst z \<and> loc_y r + size_h r \<le> snd z \<and> fst z < 2147483648 \<and> snd z < 2147483648"

lemma rect_cases: obtains x y a b where "r = mk_rect x y a b"
  by (cases r) (auto simp: mk_rect_def)

definition flip_turn :: "transform \<Rightarrow> bool" where
  "flip_turn t \<longleftrightarrow> t = Flipped90 \<or> t = Flipped270"

lemmas transform_eval = transform_rect_in_def transform_size_def transform_invert_def

text \<open>In an area, the far edges measured from the other side.\<close>

lemma area_numbers:
  "in_area (w, h) (mk_rect x y a b) \<Longrightarrow> i32 (w - x - a) = w - x - a \<and> i32 (h - y - b) = h - y - b \<and> i32 x = x \<and> i32 y = y"
  by (auto simp: in_area_def i32_id)

lemma transform_in_area: "in_area z r \<Longrightarrow> in_area (transform_size t z) (transform_rect_in t r z)"
proof -
  obtain w h x y a b where zr: "z = (w, h)" "r = mk_rect x y a b" by (cases z; cases r rule: rect_cases)
  assume "in_area z r"
  with area_numbers [of w h x y a b] show ?thesis
    by (cases t) (simp_all add: zr transform_eval, simp_all add: in_area_def)
qed

lemma transform_undone_core:
  assumes "in_area z r" "\<not> flip_turn t"
  shows "transform_rect_in (transform_invert t) (transform_rect_in t r z) (transform_size t z) = r"
proof -
  obtain w h x y a b where zr: "z = (w, h)" "r = mk_rect x y a b" by (cases z; cases r rule: rect_cases)
  note n [simp] = area_numbers [OF assms(1) [unfolded zr]]
  show ?thesis using assms(2) by (cases t) (simp_all add: flip_turn_def zr transform_eval)
qed

text \<open>C23: a transform is undone by its inverse, except the two turns with a flip: these undo themselves,
  and what is called their inverse leaves a rectangle turned around, in its place only when it
  lies in the middle of the area.\<close>

theorem transform_undone:
  assumes "in_area z r"
  shows "if flip_turn t
    then transform_rect_in t (transform_rect_in t r z) (transform_size t z) = r \<and>
      (transform_rect_in (transform_invert t) (transform_rect_in t r z) (transform_size t z) = r \<longleftrightarrow>
        2 * loc_x r + size_w r = fst z \<and> 2 * loc_y r + size_h r = snd z)
    else transform_rect_in (transform_invert t) (transform_rect_in t r z) (transform_size t z) = r"
proof (cases "flip_turn t")
  case False
  then show ?thesis using assms by (simp add: transform_undone_core)
next
  case True
  obtain w h x y a b where zr: "z = (w, h)" "r = mk_rect x y a b" by (cases z; cases r rule: rect_cases)
  note n [simp] = area_numbers [OF assms [unfolded zr]]
  with True show ?thesis by (cases t) (auto simp: flip_turn_def zr transform_eval)
qed

text \<open>Adding transforms is doing one after the other, unless a quarter turn comes before a flip.\<close>

theorem transform_add_composes:
  assumes "in_area z r" "\<not> flipped t \<or> degrees s mod 180 = 0"
  shows "transform_rect_in t (transform_rect_in s r z) (transform_size s z) = transform_rect_in (transform_add s t) r z"
proof -
  obtain w h x y a b where zr: "z = (w, h)" "r = mk_rect x y a b" by (cases z; cases r rule: rect_cases)
  note n [simp] = area_numbers [OF assms(1) [unfolded zr]]
  show ?thesis
    using assms(2)
    by (cases s; cases t) (simp_all add: zr transform_eval transform_add_def flipped_def degrees_def)
qed

lemma quarter_turn_before_flip:
  "transform_rect_in Flipped (transform_rect_in R90 (mk_rect 0 0 1 1) (4, 3)) (transform_size R90 (4, 3)) = mk_rect 0 0 1 1"
  "transform_rect_in (transform_add R90 Flipped) (mk_rect 0 0 1 1) (4, 3) = mk_rect 2 3 1 1"
  by code_simp+

text \<open>Scaling an area that stays in range.\<close>

lemma sat_i32_in: "- 2147483648 \<le> y \<Longrightarrow> y \<le> 2147483647 \<Longrightarrow> sat_i32 y = y"
  by (simp add: sat_i32_def)

lemma sat_mul_id: "0 \<le> x \<Longrightarrow> x \<le> m \<Longrightarrow> m * k < 2147483648 \<Longrightarrow> 0 \<le> k \<Longrightarrow> sat_mul x k = x * k"
proof -
  assume "0 \<le> x" "x \<le> m" "m * k < 2147483648" "0 \<le> k"
  then have "0 \<le> x * k" "x * k \<le> m * k" by (simp_all add: mult_right_mono)
  with \<open>m * k < 2147483648\<close> have "sat_i32 (x * k) = x * k" by (intro sat_i32_in) linarith+
  then show ?thesis by (simp add: sat_mul_def)
qed

definition scaled :: "int \<Rightarrow> rect \<Rightarrow> rect" where
  "scaled k r = mk_rect (loc_x r * k) (loc_y r * k) (size_w r * k) (size_h r * k)"

lemma scale_in_area:
  assumes "in_area z r" "0 \<le> k" "fst z * k < 2147483648" "snd z * k < 2147483648"
  shows "scale_rect (k, k) r = scaled k r"
  using assms sat_mul_id [OF _ _ assms(3,2)] sat_mul_id [OF _ _ assms(4,2)]
  by (simp add: scale_rect_def scaled_def upscale2_def rect_loc_def rect_size_def in_area_def Let_def)

lemma unscale_scaled:
  assumes "in_area z r" "0 < k"
  shows "unscale_rect (k, k) (scaled k r) = Some r"
proof -
  have d: "i32 (tdiv (n * k) k) = n" if "0 \<le> n" "n < 2147483648" for n
    using that assms(2) by (simp add: tdiv_pos i32_id)
  show ?thesis
    using assms d by (cases r rule: rect_cases) (auto simp: unscale_rect_def downscale2_def scaled_def rect_loc_def rect_size_def in_area_def)
qed

lemma transform_scaled:
  assumes "in_area z r" "0 < k" "fst z * k < 2147483648" "snd z * k < 2147483648"
  shows "transform_rect_in t (scaled k r) (fst z * k, snd z * k) = scaled k (transform_rect_in t r z)"
proof -
  obtain w h x y a b where zr: "z = (w, h)" "r = mk_rect x y a b" by (cases z; cases r rule: rect_cases)
  note n [simp] = area_numbers [OF assms(1) [unfolded zr]]
  have "0 \<le> (w - x - a) * k" "(w - x - a) * k \<le> w * k" "0 \<le> (h - y - b) * k" "(h - y - b) * k \<le> h * k"
    using assms(1,2) by (auto simp: zr in_area_def intro!: mult_right_mono)
  then have "i32 (w * k - x * k - a * k) = (w - x - a) * k" "i32 (h * k - y * k - b * k) = (h - y - b) * k"
    using assms(3,4) by (simp_all add: zr left_diff_distrib i32_id)
  then show ?thesis by (cases t) (simp_all add: zr transform_eval scaled_def)
qed

text \<open>C24: a rectangle of a surface, taken into the buffer of another scale and orientation and back, is
  the rectangle it was, unless the orientation is a turn with a flip.\<close>

theorem buffer_round_trip:
  assumes "in_area z r" "0 < k" "fst z * k < 2147483648" "snd z * k < 2147483648" "\<not> flip_turn t"
  shows "rect_from_buffer (k, k) t (size_to_buffer (k, k) t z) (rect_to_buffer (k, k) t z r) = Some r"
proof -
  let ?r = "transform_rect_in t r z" and ?z = "transform_size t z"
  have i: "in_area ?z ?r" and b: "fst ?z * k < 2147483648" "snd ?z * k < 2147483648"
    using assms transform_in_area by (auto simp: transform_size_def)
  have "in_area z (mk_rect 0 0 (fst z) (snd z))" using assms(1) by (auto simp: in_area_def)
  then have "upscale2 (k, k) z = (fst z * k, snd z * k)"
    using assms sat_mul_id [of "fst z" "fst z" k] sat_mul_id [of "snd z" "snd z" k] by (simp add: upscale2_def in_area_def)
  then have z: "size_to_buffer (k, k) t z = (fst ?z * k, snd ?z * k)" by (simp add: size_to_buffer_def transform_size_def)
  have "rect_from_buffer (k, k) t (size_to_buffer (k, k) t z) (rect_to_buffer (k, k) t z r) =
      unscale_rect (k, k) (scaled k (transform_rect_in (transform_invert t) ?r ?z))"
    using i b assms(2) by (simp add: rect_from_buffer_def rect_to_buffer_def scale_in_area z transform_scaled)
  also have "transform_rect_in (transform_invert t) ?r ?z = r" using assms(1,5) by (rule transform_undone_core)
  finally show ?thesis using unscale_scaled [OF assms(1,2)] by simp
qed

section \<open>Instances\<close>

lemma subtract_keeps_rest_witness:
  "\<exists>a \<in> set [mk_rect 0 0 10 10, mk_rect 10 0 10 10]. inside (mk_rect 0 0 10 5) a"
proof -
  have "list_all i32_rect [mk_rect 0 0 10 10, mk_rect 10 0 10 10]" "list_all i32_rect [mk_rect 0 5 30 5]"
    by (simp_all add: i32_rect_iff)
  moreover have "mk_rect 0 0 10 5 \<in> set (subtract_rects_many [mk_rect 0 0 10 10, mk_rect 10 0 10 10] [mk_rect 0 5 30 5])"
    by code_simp
  ultimately show ?thesis using subtract_keeps_rest by blast
qed

lemma subtract_rect_exact_witness: "sorted_wrt apart (subtract_rect (mk_rect 0 0 30 30) (mk_rect 10 10 10 10))"
  using subtract_rect_exact [of "mk_rect 0 0 30 30" "mk_rect 10 10 10 10" "(0, 0)"] by (simp add: i32_rect_iff)

lemma transform_undone_witness:
  "transform_rect_in R270 (transform_rect_in R90 (mk_rect 1 2 3 4) (20, 10)) (transform_size R90 (20, 10)) = mk_rect 1 2 3 4"
  using transform_undone [of "(20, 10)" "mk_rect 1 2 3 4" R90]
  by (simp add: in_area_def flip_turn_def transform_invert_def)

lemma transform_add_composes_witness:
  "transform_rect_in R90 (transform_rect_in Flipped (mk_rect 1 2 3 4) (20, 10)) (transform_size Flipped (20, 10)) =
   transform_rect_in Flipped90 (mk_rect 1 2 3 4) (20, 10)"
  using transform_add_composes [of "(20, 10)" "mk_rect 1 2 3 4" R90 Flipped]
  by (simp add: in_area_def flipped_def transform_add_def degrees_def)

lemma buffer_round_trip_witness:
  "rect_from_buffer (2, 2) R90 (size_to_buffer (2, 2) R90 (20, 10)) (rect_to_buffer (2, 2) R90 (20, 10) (mk_rect 1 2 3 4)) =
   Some (mk_rect 1 2 3 4)"
  using buffer_round_trip [of "(20, 10)" "mk_rect 1 2 3 4" 2 R90] by (simp add: in_area_def flip_turn_def)

end
