(* ===== verification/Serial.thy ===== *)
theory Serial
  imports Prelude
begin

text \<open>
  The serials of \<^verbatim>\<open>smithay/src/utils/serial.rs\<close>: a counter that wraps around and never gives
  zero, and the order that takes the wrap into account.
\<close>

type_synonym serial = u32

definition abs_diff :: "u32 \<Rightarrow> u32 \<Rightarrow> nat" where
  "abs_diff a b = (if unat a \<le> unat b then unat b - unat a else unat a - unat b)"

text \<open>\<open>partial_cmp(self, other) == Less\<close>.\<close>

definition serial_less :: "serial \<Rightarrow> serial \<Rightarrow> bool" where
  "serial_less a b \<longleftrightarrow> (if abs_diff a b < 4294967295 div 2 then a < b else b < a)"

definition is_no_older_than :: "serial \<Rightarrow> serial \<Rightarrow> bool" where
  "is_no_older_than a b \<longleftrightarrow> serial_less b a \<or> a = b"

text \<open>The counter: the serial it gives and the next one it holds.\<close>

definition next_serial :: "u32 \<Rightarrow> serial \<times> u32" where
  "next_serial c = (let c' = (if c = 0 then 1 else c) in (c', c' + 1))"

fun serials :: "nat \<Rightarrow> u32 \<Rightarrow> serial list" where
  "serials 0 c = []"
| "serials (Suc n) c = (let (s, c') = next_serial c in s # serials n c')"

section \<open>The order of the serials\<close>

text \<open>The counter runs through \<open>LAP\<close> serials; \<open>ser m\<close> is the one after \<open>m\<close> steps from the first.\<close>

definition LAP :: nat where "LAP = 4294967295"

definition ser :: "nat \<Rightarrow> serial" where
  "ser m = word_of_nat (m + 1)"

lemma unat_ser: "m < LAP \<Longrightarrow> unat (ser m) = m + 1"
  unfolding ser_def LAP_def by (subst unsigned_of_nat) (simp add: take_bit_nat_eq_self del: of_nat_Suc of_nat_add)

lemma ser_after: "m < LAP \<Longrightarrow> fst (next_serial (ser m + 1)) = ser (Suc m mod LAP)"
proof (cases "Suc m = LAP")
  case True
  assume "m < LAP"
  have "m = 4294967294" using True by (simp add: LAP_def)
  then have "ser m + 1 = 0" by (simp add: ser_def)
  then show ?thesis using True by (simp add: next_serial_def ser_def)
next
  case False
  assume "m < LAP"
  with False have m: "Suc m < LAP" by simp
  have "ser m + 1 = ser (Suc m)" by (simp add: ser_def)
  moreover have "ser (Suc m) \<noteq> 0" using unat_ser [OF m] by (metis Suc_eq_plus1 unat_0 nat.distinct(1))
  ultimately show ?thesis using m by (simp add: next_serial_def Let_def)
qed

lemma serials_eq:
  "fst (next_serial c) = ser m \<Longrightarrow> m < LAP \<Longrightarrow> serials n c = map (\<lambda>k. ser ((m + k) mod LAP)) [0..<n]"
proof (induction n arbitrary: c m)
  case (Suc n)
  then have "serials (Suc n) c = ser m # serials n (ser m + 1)"
    by (simp add: next_serial_def Let_def split: if_splits)
  also have "serials n (ser m + 1) = map (\<lambda>k. ser ((Suc m mod LAP + k) mod LAP)) [0..<n]"
    using ser_after [OF Suc.prems(2)] by (intro Suc.IH) (simp_all add: LAP_def)
  finally show ?case
    using Suc.prems(2) by (simp add: map_upt_Suc mod_add_left_eq del: upt_Suc)
qed simp

lemma first_serial: "\<exists>m < LAP. fst (next_serial c) = ser m"
proof -
  let ?s = "fst (next_serial c)"
  have "?s \<noteq> 0" by (simp add: next_serial_def)
  then have "0 < unat ?s" by (simp add: unat_gt_0)
  moreover have "unat ?s < 2 ^ LENGTH(32)" by (rule unsigned_less)
  ultimately have "unat ?s - 1 < LAP" "?s = ser (unat ?s - 1)" by (simp_all add: LAP_def ser_def)
  then show ?thesis by blast
qed

lemma serial_less_step:
  assumes "m < LAP" "0 < d" "d < 2147483647"
  shows "serial_less (ser m) (ser ((m + d) mod LAP))"
proof -
  have r: "(m + d) mod LAP < LAP" by (simp add: LAP_def)
  note u = unat_ser [OF assms(1)] unat_ser [OF r]
  show ?thesis
  proof (cases "m + d < LAP")
    case True
    with u assms show ?thesis by (simp add: serial_less_def abs_diff_def word_less_nat_alt)
  next
    case False
    then have "(m + d) mod LAP = m + d - LAP" using assms by (simp add: LAP_def mod_if)
    moreover have "m + d - LAP < m" "m - (m + d - LAP) = LAP - d" "LAP - d \<ge> 2147483647"
      using assms False by (simp_all add: LAP_def)
    ultimately show ?thesis using u by (simp add: serial_less_def abs_diff_def word_less_nat_alt)
  qed
qed

text \<open>C36: no serial is zero, and of two serials given less than two thousand million apart the later one
  is the newer, also across the wrap of the counter.\<close>

theorem later_serial_is_newer:
  assumes "i < j" "j < n" "j - i < 2147483647"
  shows "serial_less (serials n c ! i) (serials n c ! j) \<and> is_no_older_than (serials n c ! j) (serials n c ! i) \<and>
    0 \<notin> set (serials n c)"
proof (intro conjI)
  obtain m where m: "m < LAP" "fst (next_serial c) = ser m" using first_serial by blast
  note s = serials_eq [OF m(2,1), of n]
  have "(m + j) mod LAP = ((m + i) mod LAP + (j - i)) mod LAP" 
    using assms(1) mod_add_left_eq [of "m + i" LAP "j - i"] by simp
  with serial_less_step [of "(m + i) mod LAP" "j - i"] assms
  show "serial_less (serials n c ! i) (serials n c ! j)" by (simp add: s LAP_def)
  then show "is_no_older_than (serials n c ! j) (serials n c ! i)" by (simp add: is_no_older_than_def)
  have "ser k \<noteq> 0" if "k < LAP" for k using unat_ser [OF that] by (metis Suc_eq_plus1 unat_0 nat.distinct(1))
  then show "0 \<notin> set (serials n c)" by (auto simp: s LAP_def)
qed

lemma later_serial_is_newer_witness: "serial_less (serials 3 4294967294 ! 0) (serials 3 4294967294 ! 2)"
  using later_serial_is_newer [of 0 2 3] by simp

text \<open>The bound is exact.\<close>

lemma serial_order_turns: "serial_less 2147483648 1" "\<not> serial_less 1 2147483648"
  by (simp_all add: serial_less_def abs_diff_def)

end
