(* ===== verification/Spec2Isabelle.thy ===== *)
theory Spec2Isabelle
  imports Reachable Display Focus_Laws Output_Laws Overview_Laws Swallow_Laws Input_Laws Status_Laws Json
    Socket_Laws Settings_Laws Space_Refine Drain Bar_Prompt Bar_Status Bar_Draw_Laws Rect_Laws Serial
begin

text \<open>
  A model of the \<^verbatim>\<open>rwl\<close> Wayland compositor, written in Rust on the vendored toolkit smithay,
  and the properties that make it correct.

  \<^bold>\<open>The program.\<close> One thread runs an event loop. Its state is the struct \<open>Rwl\<close>
  (\<^verbatim>\<open>src/state.rs\<close>): the windows in stacking order of the tiling, the focus order, the plane
  they are mapped on (smithay's \<open>Space\<close>), the monitors with their tags and layouts, and the
  state of overview, picture in picture, locker and grabs. Callbacks of the toolkit (a key, a
  motion, a commit of a surface, an output plugged, a timer, a request on the socket) change
  it; a layout pass (\<open>arrange\<close>) then places the windows each monitor shows, and
  \<open>focus_window\<close> moves the keyboard focus.

  \<^bold>\<open>How the model is written.\<close> A state is the record \<open>rwl\<close> of \<open>State\<close>, an operation a function
  from states to states with the name it has in the sources, and a callback a constructor of
  \<open>event\<close> in \<open>Events\<close>, whose function \<open>handle\<close> runs it. Integers are 32-bit words where they
  are unsigned masks, and integers cut to \<open>i32\<close> by \<open>i32\<close> of \<open>Prelude\<close> where the sources compute
  with \<open>i32\<close>, wrap-around included (the release profile leaves overflow checks off). An \<open>f64\<close>
  is a value of \<open>Float64\<close>: rationals rounded to binary64, infinities and not-a-number. What the
  program asks of others is in fields of the state that every event may change: what each
  client says about its windows (\<open>clients\<close>), process parents, the answers of the Lua callbacks
  (\<open>lua_on\<close>, \<open>on_arrange_fn\<close>), the clock. What it does to others is appended to \<open>trace\<close>:
  configures sent to clients, spawned commands, activations, scheduled frames.

  \<^bold>\<open>The theories, in the order of the code.\<close>
  \<^item> \<open>Prelude\<close>, \<open>Float64\<close>, \<open>Text\<close>: 32-bit arithmetic, list operations of the standard library,
    \<open>f64\<close>, and the text functions of \<open>str\<close>.
  \<^item> \<open>Geometry\<close>, \<open>Config\<close>: rectangles (\<^verbatim>\<open>smithay/src/utils/geometry.rs\<close>) and the configuration
    with its defaults (\<^verbatim>\<open>src/config/types.rs\<close>, \<^verbatim>\<open>mod.rs\<close>).
  \<^item> \<open>Lua\<close>, \<open>Keybinds\<close>, \<open>Settings\<close>: reading \<^verbatim>\<open>config.lua\<close> (\<^verbatim>\<open>src/config/lua.rs\<close>,
    \<^verbatim>\<open>keybinds.rs\<close>, \<^verbatim>\<open>settings.rs\<close>); the accessors of the Lua crate are the record \<open>'t lua\<close>.
  \<^item> \<open>Monitor\<close>: \<^verbatim>\<open>src/monitor.rs\<close> and \<^verbatim>\<open>pertag_layouts.rs\<close>: views, layout slots, pins.
  \<^item> \<open>Layout\<close>, \<open>Layout_Tiling\<close>: \<^verbatim>\<open>src/features/layout\<close>: every layout as a function from the
    work area to rectangles.
  \<^item> \<open>Window\<close>, \<open>Space\<close>, \<open>State\<close>: the metadata of windows (\<^verbatim>\<open>src/window.rs\<close>), the plane
    (\<^verbatim>\<open>smithay/src/desktop/space/mod.rs\<close>) and the record of the compositor.
  \<^item> \<open>Swallow\<close>, \<open>Transition\<close>, \<open>Rules\<close>, \<open>Arrange\<close>: swallowing of terminals, the slide of a tag
    switch, the rules for a new window, and the layout pass with the focus.
  \<^item> \<open>Overview\<close>, \<open>Lock\<close>, \<open>Output\<close>, \<open>Actions\<close>: overview and picture in picture, the built-in
    locker and the session-lock protocol, outputs coming and going, and every action of
    \<open>Rwl::dispatch\<close> with scratchpads and the queue of Lua commands.
  \<^item> \<open>Lifecycle\<close>, \<open>Grab\<close>, \<open>Input\<close>: windows from their first commit to their end (xdg-shell and
    X11), interactive moves and resizes, keys and pointer.
  \<^item> \<open>Status\<close>, \<open>Event_Lines\<close>, \<open>Wallpaper\<close>, \<open>Socket\<close>: the status text and its subscribers
    (\<^verbatim>\<open>src/ipc.rs\<close>), the JSON events, wallpapers with their background decoder, and the
    command socket with the client that talks to it.
  \<^item> \<open>Bar_Text\<close>, \<open>Bar\<close>, \<open>Bar_Draw\<close>: the embedded bar (\<^verbatim>\<open>src/features/shell/bar\<close>), a thread with
    a connection of its own: the texts and status blocks, the record \<open>bar_state\<close> with what a
    wake of its loop does (\<open>bar_step\<close>), and its drawing as the list of fills and glyphs.
  \<^item> \<open>Rect_Algebra\<close>, \<open>Serial\<close>: the rest of the toolkit's geometry (subtraction, transforms,
    conversions to buffers) and its serials (\<^verbatim>\<open>smithay/src/utils\<close>).
  \<^item> \<open>Events\<close>: the whole program as a state machine, \<open>run (rwl_new world) es s\<close> being the runs
    from the empty state.

  \<^bold>\<open>The library of proofs.\<close> \<open>Frame\<close> holds the interfaces every invariant goes through.
  \<open>state_pred\<close> asks that a predicate ignores the fields no list depends on; \<open>core_invariant\<close>,
  \<open>layout_invariant\<close> and \<open>action_invariant\<close> add the few operations that change windows, focus
  or plane, and prove for every larger operation up to \<open>dispatch\<close> that the predicate is kept
  (the collection \<open>keep\<close>); \<open>event_invariant\<close> of \<open>Events\<close> does the same for runs. \<open>Invariants\<close>
  interprets them for the shape of the lists, the locker and the population of windows.
  \<open>Stability\<close> shows what a layout pass cannot change, and \<open>Placement\<close> treats its five loops by
  the locale \<open>pass\<close>, a loop that works on the windows it runs over one at a time. \<open>plane\<close> is the
  contract of the space, \<open>keyed_store\<close> that of the window metadata, \<open>layout_algo\<close> and
  \<open>tiled_layout\<close> those of a layout, interpreted for each of them. \<open>Stage\<close> is the small desktop on
  which properties are applied to concrete values.

  \<^bold>\<open>What is proved.\<close>
  \<^item> Runs (\<open>Reachable\<close>, \<open>Invariants\<close>): only a positive password check ends a session the
    built-in locker holds; no window is twice in a list; the phases, timers and the password
    bound of the locker; a destroyed window is nowhere; no action creates or loses a window.
  \<^item> Layout (\<open>Layout\<close>, \<open>Layout_Tiling\<close>, \<open>Placement\<close>, \<open>Display\<close>): one non-empty rectangle per
    window, tiling layouts stay in the work area without overlap when the area leaves room
    (\<open>fits\<close>), and after a pass every window is where its role says, tiled ones disjoint.
  \<^item> Focus and tags (\<open>Focus_Laws\<close>, \<open>Monitor\<close>, \<open>Output_Laws\<close>): stepping the focus is a rotation,
    the focused window is at the front, views and pinned layouts come back, an unplugged
    output loses no window, an emptied tag gives way to an occupied one.
  \<^item> Features (\<open>Overview_Laws\<close>, \<open>Swallow_Laws\<close>, \<open>Input_Laws\<close>, \<open>Wallpaper\<close>): hints select their
    windows, swallowed terminals return, which binding a key selects, what a locked keyboard
    can do, the bound of the image cache.
  \<^item> Texts (\<open>Status_Laws\<close>, \<open>Json\<close>, \<open>Socket_Laws\<close>): the status agrees with the layout pass, JSON
    read by a reference reader gives back windows and events, a request of the client runs
    its action, an unknown one nothing; and a title can forge a line of the status.
  \<^item> Configuration (\<open>Settings_Laws\<close>): whatever the file holds, the loaded configuration meets
    what the other components assume, except for the number of tags, which is not checked.
  \<^item> Bar (\<open>Bar_Laws\<close>, \<open>Bar_Prompt\<close>, \<open>Bar_Status\<close>, \<open>Bar_Draw_Laws\<close>): the bar of an output shows what
    the compositor reports of it, however the pipe cuts the text; Tab and Enter of the prompt;
    what holds in every run; the bounds of the blocks; a frame has its parts in order within
    the bar and nothing in it panics.
  \<^item> Geometry (\<open>Rect_Laws\<close>, \<open>Serial\<close>): subtraction of rectangles loses no point that must stay,
    but can leave one that must go; which transforms their inverse undoes; serials are ordered
    across the wrap of their counter.
  \<^item> Contracts (\<open>Space_Refine\<close>, \<open>Drain\<close>): the plane is a stacking order with locations through
    every run of its operations; the bounded drain is the unbounded loop whenever that ends.

  \<^bold>\<open>Bounds.\<close> All of these are the program's own. The walk over parent processes stops after
  32 steps, \<open>drain\<close> after 8 rounds, a tag history keeps 16 views, the image cache 6 images; a
  slide, a grab step or a timer is one event each. The only fuel of the development's own is
  that of the JSON reader, the length of the text, which every read shortens; the round trips
  show that it is enough.

  \<^bold>\<open>Not modelled.\<close> Drawing (\<^verbatim>\<open>src/render.rs\<close>, rounded corners, fonts) and single-precision
  animation values; the backends (\<^verbatim>\<open>udev.rs\<close>, \<^verbatim>\<open>winit.rs\<close>) and the protocol handlers that hand a
  request on to the toolkit; the Lua machine, of which only the accessors' answers and the
  commands queued by callbacks are seen; of the bar the shared-memory buffers, the font (a
  parameter that gives glyphs and kernings) and its start; smithay apart from the plane,
  the geometry, the serials and a few enumerations. Colours are packed
  codes. The suppression of repeated focus events on the socket is left out: every focus change
  is an event of the trace. Strings are bytes, and white space is the ASCII one.
\<close>

end
